(* ===== verification/Prelude.thy ===== *)
theory Prelude
  imports Complex_Main "HOL-Library.Word" "HOL-Library.AList" "HOL-Library.Monad_Syntax"
begin

text \<open>
  Shared material of the development: the machine types of the Rust sources, the casts
  between them, ASCII string helpers, and the facts on association lists, option chains and
  numeral printing that the components use. A Rust \<open>HashMap\<close> is an association list with
  distinct keys; \<open>AList.update\<close> is its \<open>insert\<close>, \<open>map_of\<close> its \<open>get\<close>.

  The collections: \<open>frame\<close> holds the facts saying which parts of a state an operation leaves
  alone, \<open>alist_facts\<close> the facts on association lists, \<open>ens_intros\<close> the rules that take a
  computation in the option monad apart: \<open>ens P m\<close> says that every result of \<open>m\<close>
  satisfies \<open>P\<close>, and \<open>intro ens_intros\<close> leaves one goal per exit of the program, with
  the values computed on the way to it as hypotheses.
\<close>

named_theorems frame "what an operation leaves unchanged"
named_theorems alist_facts "facts on association lists with distinct keys"
named_theorems ens_intros "rules that walk through an option computation"

type_synonym u64 = "64 word"
type_synonym i64 = "64 word"
type_synonym i32 = "32 word"
type_synonym uuid = nat
type_synonym user_id = u64

text \<open>The casts \<open>as i32\<close> (truncation) and \<open>as u64\<close> from \<open>i32\<close> (sign extension).\<close>

abbreviation as_i32 :: "u64 \<Rightarrow> i32" where
  "as_i32 x \<equiv> ucast x"

abbreviation as_u64 :: "i32 \<Rightarrow> u64" where
  "as_u64 x \<equiv> scast x"

lemma as_u64_as_i32:
  assumes "unat u < 2 ^ 31"
  shows "as_u64 (as_i32 u) = u"
proof (rule bit_word_eqI)
  fix n :: nat
  assume n: "n < LENGTH(64)"
  have high: "\<not> bit u k" if "31 \<le> k" for k
  proof -
    have "unat u < 2 ^ k"
      using assms that by (meson less_le_trans one_le_numeral power_increasing)
    then have "bit (unat u) k = False"
      by (simp add: bit_iff_odd)
    then show ?thesis by (simp add: bit_unsigned_iff)
  qed
  show "bit (as_u64 (as_i32 u)) n = bit u n"
    using n high by (auto simp: bit_signed_iff bit_ucast_iff min_def)
qed

subsection \<open>Option chains\<close>

lemma bind_Some_conv: "(Option.bind m f = Some y) = (\<exists>x. m = Some x \<and> f x = Some y)"
  by (cases m) auto

definition ens :: "('a \<Rightarrow> bool) \<Rightarrow> 'a option \<Rightarrow> bool" where
  "ens P m = (\<forall>x. m = Some x \<longrightarrow> P x)"

lemma ensD: "ens P m \<Longrightarrow> m = Some x \<Longrightarrow> P x"
  by (simp add: ens_def)

lemma ens_mono: "ens P m \<Longrightarrow> (\<And>x. P x \<Longrightarrow> Q x) \<Longrightarrow> ens Q m"
  by (simp add: ens_def)

lemma ens_Some [ens_intros]: "P x \<Longrightarrow> ens P (Some x)"
  by (simp add: ens_def)

lemma ens_None [ens_intros]: "ens P None"
  by (simp add: ens_def)

lemma ens_bind [ens_intros]: "(\<And>x. m = Some x \<Longrightarrow> ens P (f x)) \<Longrightarrow> ens P (Option.bind m f)"
  by (auto simp: ens_def bind_Some_conv)

lemma ens_if [ens_intros]:
  "(b \<Longrightarrow> ens P x) \<Longrightarrow> (\<not> b \<Longrightarrow> ens P y) \<Longrightarrow> ens P (if b then x else y)"
  by simp

lemma ens_case_option [ens_intros]:
  "(m = None \<Longrightarrow> ens P x) \<Longrightarrow> (\<And>y. m = Some y \<Longrightarrow> ens P (f y)) \<Longrightarrow>
     ens P (case m of None \<Rightarrow> x | Some y \<Rightarrow> f y)"
  by (cases m) auto

lemma ens_case_sum [ens_intros]:
  "(\<And>e. m = Inl e \<Longrightarrow> ens P (f e)) \<Longrightarrow> (\<And>y. m = Inr y \<Longrightarrow> ens P (g y)) \<Longrightarrow>
     ens P (case m of Inl e \<Rightarrow> f e | Inr y \<Rightarrow> g y)"
  by (cases m) auto

lemma ens_case_list [ens_intros]:
  "(xs = [] \<Longrightarrow> ens P a) \<Longrightarrow> (\<And>y ys. xs = y # ys \<Longrightarrow> ens P (f y ys)) \<Longrightarrow>
     ens P (case xs of [] \<Rightarrow> a | y # ys \<Rightarrow> f y ys)"
  by (cases xs) auto

lemma ens_case_prod [ens_intros]:
  "(\<And>a b. m = (a, b) \<Longrightarrow> ens P (f a b)) \<Longrightarrow> ens P (case m of (a, b) \<Rightarrow> f a b)"
  by (cases m) auto

lemma ens_Let [ens_intros]: "ens P (f e) \<Longrightarrow> ens P (let x = e in f x)"
  by simp

subsection \<open>Association lists\<close>

definition distinct_keys :: "('k \<times> 'v) list \<Rightarrow> bool" where
  "distinct_keys xs = distinct (map fst xs)"

lemma distinct_keys_Nil [simp]: "distinct_keys []"
  by (simp add: distinct_keys_def)

lemma distinct_keys_update [simp, intro]:
  "distinct_keys xs \<Longrightarrow> distinct_keys (AList.update k v xs)"
  by (simp add: distinct_keys_def distinct_update)

lemma map_of_update [simp]: "map_of (AList.update k v xs) = (map_of xs)(k \<mapsto> v)"
  by (rule update_conv')

lemma map_of_eq_set [alist_facts]:
  "distinct_keys xs \<Longrightarrow> (map_of xs k = Some v) = ((k, v) \<in> set xs)"
  by (simp add: distinct_keys_def)

lemma set_update_distinct [alist_facts]:
  "distinct_keys xs \<Longrightarrow>
     set (AList.update k v xs) = insert (k, v) {p \<in> set xs. fst p \<noteq> k}"
  by (induction xs) (force simp: distinct_keys_def)+

lemma keys_update: "fst ` set (AList.update k v xs) = insert k (fst ` set xs)"
  by (induction xs) auto

text \<open>The sum of a measure over the values of an association list.\<close>

definition alist_sum :: "('v \<Rightarrow> 'a::comm_monoid_add) \<Rightarrow> ('k \<times> 'v) list \<Rightarrow> 'a" where
  "alist_sum f xs = sum_list (map (\<lambda>p. f (snd p)) xs)"

lemma alist_sum_Nil [simp]: "alist_sum f [] = 0"
  by (simp add: alist_sum_def)

lemma alist_sum_Cons [simp]: "alist_sum f ((k, v) # xs) = f v + alist_sum f xs"
  by (simp add: alist_sum_def)

lemma alist_sum_update_new:
  "map_of xs k = None \<Longrightarrow> alist_sum f (AList.update k v xs) = alist_sum f xs + f v"
  by (induction xs) (auto simp: ac_simps split: if_splits)

lemma alist_sum_update_old:
  fixes f :: "'v \<Rightarrow> 'a::ab_group_add"
  shows "distinct_keys xs \<Longrightarrow> map_of xs k = Some w \<Longrightarrow>
     alist_sum f (AList.update k v xs) = alist_sum f xs + f v - f w"
  by (induction xs) (auto simp: distinct_keys_def algebra_simps split: if_splits)

subsection \<open>Printing unsigned numbers\<close>

definition digit_char :: "nat \<Rightarrow> char" where
  "digit_char d = char_of (48 + d)"

fun show_nat :: "nat \<Rightarrow> string" where
  "show_nat n = (if n < 10 then [digit_char n] else show_nat (n div 10) @ [digit_char (n mod 10)])"

declare show_nat.simps [simp del]

definition show_u64 :: "u64 \<Rightarrow> string" where
  "show_u64 w = show_nat (unat w)"

lemma digit_char_inj: "d < 10 \<Longrightarrow> e < 10 \<Longrightarrow> digit_char d = digit_char e \<Longrightarrow> d = e"
  by (simp add: digit_char_def char_of_eq_iff take_bit_nat_eq_self)

lemma show_nat_nonempty: "show_nat n \<noteq> []"
  by (subst show_nat.simps) simp

lemma show_nat_inj: "show_nat m = show_nat n \<Longrightarrow> m = n"
proof (induction m arbitrary: n rule: show_nat.induct)
  case (1 m)
  consider (small) "m < 10" "n < 10" | (mixed) "(m < 10) \<noteq> (n < 10)" | (big) "\<not> m < 10" "\<not> n < 10"
    by blast
  then show ?case
  proof cases
    case small
    with "1.prems" show ?thesis
      by (auto simp: show_nat.simps [of m] show_nat.simps [of n] intro: digit_char_inj)
  next
    case mixed
    with "1.prems" show ?thesis
      by (auto simp: show_nat.simps [of m] show_nat.simps [of n] show_nat_nonempty
          Cons_eq_append_conv append_eq_Cons_conv split: if_splits)
  next
    case big
    with "1.prems" have "show_nat (m div 10) = show_nat (n div 10)"
      and "digit_char (m mod 10) = digit_char (n mod 10)"
      by (auto simp: show_nat.simps [of m] show_nat.simps [of n])
    with big "1.IH" have "m div 10 = n div 10" "m mod 10 = n mod 10"
      by (auto intro: digit_char_inj)
    then show ?thesis by (metis div_mult_mod_eq)
  qed
qed

lemma show_nat_digits: "c \<in> set (show_nat n) \<Longrightarrow> c \<noteq> CHR ''-''"
proof (induction n rule: show_nat.induct)
  case (1 n)
  have "digit_char d \<noteq> CHR ''-''" if "d < 10" for d
  proof -
    have "d \<in> {0..<10}" using that by simp
    then have "d \<in> set [0,1,2,3,4,5,6,7,8,9]" by auto
    then show ?thesis by (auto simp: digit_char_def char_of_eq_iff)
  qed
  note digit = this
  from "1.prems" show ?case
    using digit [of n] digit [of "n mod 10"] "1.IH"
    by (cases "n < 10") (auto simp: show_nat.simps [of n])
qed

lemma show_u64_inj: "show_u64 a = show_u64 b \<Longrightarrow> a = b"
  unfolding show_u64_def by (drule show_nat_inj) (simp add: word_unat_eq_iff)

subsection \<open>ASCII case conversion\<close>

definition lower_char :: "char \<Rightarrow> char" where
  "lower_char c = (let n = of_char c in if 65 \<le> n \<and> n \<le> (90::nat) then char_of (n + 32) else c)"

definition to_lowercase :: "string \<Rightarrow> string" where
  "to_lowercase s = map lower_char s"

section \<open>Failing steps\<close>

lemma bind_SomeE: "Option.bind m f = Some y \<Longrightarrow> (\<And>x. m = Some x \<Longrightarrow> f x = Some y \<Longrightarrow> thesis) \<Longrightarrow> thesis"
  by (cases m) auto

end
