(* ===== verification/Decimal.thy ===== *)
theory Decimal
  imports Prelude
begin

text \<open>
  Fixed-point amounts. The sources compute with \<open>rust_decimal::Decimal\<close>, a crate outside
  the repository, so its operations are a parameter: a record \<open>dec_ops\<close> that every
  definition computing with amounts takes. A \<open>Decimal\<close> is represented by the rational
  number it denotes. An arithmetic operation returns \<open>None\<close> where the crate panics
  (overflow, division by zero).

  What the code relies on is the documented behaviour of the crate, stated as the assumptions
  of the locale \<open>decimal\<close>: a value is a 96-bit integer scaled by a power of ten between
  \<open>0\<close> and \<open>28\<close>; a sum, difference, product or quotient that is representable is
  computed exactly; rounding with a strategy yields the neighbouring multiple of
  \<open>10\<^sup>-\<^sup>d\<^sup>p\<close>; conversion to an integer truncates and fails out of range.
  Results that are not representable are left open, except that the crate keeps the sign of a
  product or quotient, that a factor of at most one does not enlarge, and that a sum has no more
  decimal places than its summands.
  \<open>dec96\<close> is one concrete implementation, for which the laws are proved.
\<close>

datatype rounding_strategy = ToZero | AwayFromZero

record dec_ops =
  dec_add :: "rat \<Rightarrow> rat \<Rightarrow> rat option"
  dec_sub :: "rat \<Rightarrow> rat \<Rightarrow> rat option"
  dec_mul :: "rat \<Rightarrow> rat \<Rightarrow> rat option"
  dec_div :: "rat \<Rightarrow> rat \<Rightarrow> rat option"
  dec_round :: "rounding_strategy \<Rightarrow> nat \<Rightarrow> rat \<Rightarrow> rat"
  dec_to_u64 :: "rat \<Rightarrow> u64 option"
  dec_to_i64 :: "rat \<Rightarrow> i64 option"
  dec_to_big :: "rat \<Rightarrow> rat option" \<comment> \<open>\<open>BigDecimal::from_str (d.to_string ())\<close>\<close>
  dec_of_big :: "rat \<Rightarrow> rat option" \<comment> \<open>\<open>Decimal::from_str (b.to_string ())\<close>\<close>
  dec_show :: "rat \<Rightarrow> string" \<comment> \<open>\<open>Display\<close>, used in message texts only\<close>
  dec_half_even :: "rat \<Rightarrow> rat" \<comment> \<open>\<open>round_dp(0)\<close>: to the nearest integer, ties to even\<close>

subsection \<open>Multiples of a power of ten\<close>

definition is_integer :: "rat \<Rightarrow> bool" where
  "is_integer x = (of_int \<lfloor>x\<rfloor> = x)"

definition grid :: "nat \<Rightarrow> rat \<Rightarrow> bool" where
  "grid dp x = is_integer (x * 10 ^ dp)"

definition dec_repr :: "nat \<Rightarrow> rat \<Rightarrow> bool" where
  "dec_repr s x = (s \<le> 28 \<and> grid s x \<and> \<bar>x * 10 ^ s\<bar> < 2 ^ 96)"

definition trunc_dp :: "nat \<Rightarrow> rat \<Rightarrow> rat" where
  "trunc_dp dp x = (if 0 \<le> x then of_int \<lfloor>x * 10 ^ dp\<rfloor> / 10 ^ dp else of_int \<lceil>x * 10 ^ dp\<rceil> / 10 ^ dp)"

definition away_dp :: "nat \<Rightarrow> rat \<Rightarrow> rat" where
  "away_dp dp x = (if 0 \<le> x then of_int \<lceil>x * 10 ^ dp\<rceil> / 10 ^ dp else of_int \<lfloor>x * 10 ^ dp\<rfloor> / 10 ^ dp)"

lemma is_integer_of_int [simp]: "is_integer (of_int n)"
  by (simp add: is_integer_def)

lemma is_integerE: "is_integer x \<Longrightarrow> (\<And>n. x = of_int n \<Longrightarrow> thesis) \<Longrightarrow> thesis"
  by (metis is_integer_def)

lemma is_integer_add: "is_integer x \<Longrightarrow> is_integer y \<Longrightarrow> is_integer (x + y)"
  by (elim is_integerE) (metis is_integer_of_int of_int_add)

lemma is_integer_diff: "is_integer x \<Longrightarrow> is_integer y \<Longrightarrow> is_integer (x - y)"
  by (elim is_integerE) (metis is_integer_of_int of_int_diff)

lemma is_integer_mult: "is_integer x \<Longrightarrow> is_integer y \<Longrightarrow> is_integer (x * y)"
  by (elim is_integerE) (metis is_integer_of_int of_int_mult)

lemma is_integer_power10 [simp]: "is_integer (10 ^ k)"
  by (metis is_integer_of_int of_int_numeral of_int_power)

lemma grid_0 [simp]: "grid dp 0"
  by (simp add: grid_def is_integer_def)

lemma grid_add [intro]: "grid dp x \<Longrightarrow> grid dp y \<Longrightarrow> grid dp (x + y)"
  by (simp add: grid_def distrib_right is_integer_add)

lemma grid_diff [intro]: "grid dp x \<Longrightarrow> grid dp y \<Longrightarrow> grid dp (x - y)"
  by (simp add: grid_def left_diff_distrib is_integer_diff)

lemma grid_uminus [intro]: "grid dp x \<Longrightarrow> grid dp (- x)"
  using grid_diff [of dp 0 x] by simp

lemma grid_mono:
  assumes "grid m x" and "m \<le> n"
  shows "grid n x"
proof -
  have "x * 10 ^ n = (x * 10 ^ m) * 10 ^ (n - m)"
    using assms(2) by (simp flip: power_add add: mult.assoc)
  then show ?thesis
    using assms(1) is_integer_mult [OF _ is_integer_power10] unfolding grid_def by metis
qed

lemma grid_trunc_dp [simp]: "grid dp (trunc_dp dp x)"
  by (auto simp: grid_def trunc_dp_def)

lemma grid_away_dp [simp]: "grid dp (away_dp dp x)"
  by (auto simp: grid_def away_dp_def)

lemma trunc_dp_grid: "grid dp x \<Longrightarrow> trunc_dp dp x = x"
  by (auto simp: grid_def trunc_dp_def elim!: is_integerE) (simp_all add: field_simps)

lemma trunc_dp_0 [simp]: "trunc_dp dp 0 = 0"
  by (simp add: trunc_dp_def)

lemma trunc_dp_le: "0 \<le> x \<Longrightarrow> trunc_dp dp x \<le> x"
  by (auto simp: trunc_dp_def divide_le_eq)

lemma trunc_dp_nonneg: "0 \<le> x \<Longrightarrow> 0 \<le> trunc_dp dp x"
  by (auto simp: trunc_dp_def)

lemma trunc_dp_nonpos: "x \<le> 0 \<Longrightarrow> trunc_dp dp x \<le> 0"
  by (auto simp: trunc_dp_def divide_le_0_iff mult_le_0_iff)

lemma trunc_dp_uminus: "trunc_dp dp (- x) = - trunc_dp dp x"
  by (auto simp: trunc_dp_def ceiling_minus floor_minus)

lemma trunc_dp_mono:
  assumes "x \<le> y"
  shows "trunc_dp dp x \<le> trunc_dp dp y"
proof (cases "0 \<le> x \<or> y < 0")
  case True
  have "x * 10 ^ dp \<le> y * 10 ^ dp" using assms by simp
  with True assms show ?thesis
    by (auto simp: trunc_dp_def intro!: divide_right_mono floor_mono ceiling_mono)
next
  case False
  then have "trunc_dp dp x \<le> 0" "0 \<le> trunc_dp dp y"
    by (auto intro: trunc_dp_nonpos trunc_dp_nonneg)
  then show ?thesis by linarith
qed

lemma trunc_dp_abs_le: "\<bar>trunc_dp dp x\<bar> \<le> \<bar>x\<bar>"
proof (cases "0 \<le> x")
  case True
  then show ?thesis using trunc_dp_le [of x dp] trunc_dp_nonneg [of x dp] by simp
next
  case False
  then have "0 \<le> - x" by simp
  from trunc_dp_le [OF this, of dp] trunc_dp_nonneg [OF this, of dp] False
  show ?thesis by (simp add: trunc_dp_uminus)
qed

lemma away_dp_ge: "0 \<le> x \<Longrightarrow> x \<le> away_dp dp x"
  by (auto simp: away_dp_def le_divide_eq)

subsection \<open>Balances\<close>

text \<open>
  The finest currency has 12 decimal places and no balance comes near \<open>10\<^sup>1\<^sup>5\<close> units, so
  sums and differences of balances are far below the 96-bit limit (\<open>2\<^sup>9\<^sup>6 > 7 * 10\<^sup>2\<^sup>8\<close>).
\<close>

definition small :: "rat \<Rightarrow> bool" where
  "small x = (\<bar>x\<bar> \<le> 10 ^ 15)"

lemma small_0 [simp]: "small 0"
  by (simp add: small_def)

lemma dec_repr_12: "grid 12 x \<Longrightarrow> \<bar>x\<bar> \<le> 4 * 10 ^ 16 \<Longrightarrow> dec_repr 12 x"
  by (simp add: dec_repr_def abs_mult)

subsection \<open>The documented laws\<close>

locale decimal =
  fixes D :: dec_ops
  assumes add_exact: "dec_repr s a \<Longrightarrow> dec_repr s b \<Longrightarrow> dec_repr s (a + b) \<Longrightarrow> dec_add D a b = Some (a + b)"
    and add_grid: "grid dp a \<Longrightarrow> grid dp b \<Longrightarrow> dec_add D a b = Some c \<Longrightarrow> grid dp c"
    and sub_exact: "dec_repr s a \<Longrightarrow> dec_repr s b \<Longrightarrow> dec_repr s (a - b) \<Longrightarrow> dec_sub D a b = Some (a - b)"
    and mul_exact: "dec_repr s a \<Longrightarrow> dec_repr t b \<Longrightarrow> dec_repr (s + t) (a * b) \<Longrightarrow>
      dec_mul D a b = Some (a * b)"
    and mul_sign: "0 \<le> a \<Longrightarrow> 0 \<le> b \<Longrightarrow> dec_mul D a b = Some c \<Longrightarrow> 0 \<le> c"
    and mul_le: "0 \<le> a \<Longrightarrow> 0 \<le> b \<Longrightarrow> b \<le> 1 \<Longrightarrow> dec_mul D a b = Some c \<Longrightarrow> c \<le> a"
    and div_exact: "dec_repr s a \<Longrightarrow> dec_repr t b \<Longrightarrow> b \<noteq> 0 \<Longrightarrow> dec_repr u (a / b) \<Longrightarrow>
      dec_div D a b = Some (a / b)"
    and div_zero: "dec_div D a 0 = None"
    and div_sign: "0 \<le> a \<Longrightarrow> 0 < b \<Longrightarrow> dec_div D a b = Some c \<Longrightarrow> 0 \<le> c"
    and round_to_zero: "dec_round D ToZero dp x = trunc_dp dp x"
    and round_away: "dec_round D AwayFromZero dp x = away_dp dp x"
    and to_u64: "dec_to_u64 D x =
      (if 0 \<le> x \<and> \<lfloor>x\<rfloor> < 2 ^ 64 then Some (word_of_int \<lfloor>x\<rfloor>) else None)"
    and to_i64: "dec_to_i64 D x =
      (let n = (if 0 \<le> x then \<lfloor>x\<rfloor> else \<lceil>x\<rceil>)
       in if - (2 ^ 63) \<le> n \<and> n < 2 ^ 63 then Some (word_of_int n) else None)"
    and half_even_int: "dec_half_even D (of_int n) = of_int n"
    and to_big: "dec_to_big D x = Some x"
begin

lemma add_small:
  assumes "grid 12 a" "grid 12 b" "small a" "small b"
  shows "dec_add D a b = Some (a + b)"
  using assms by (intro add_exact [of 12] dec_repr_12) (auto simp: small_def)

lemma sub_small:
  assumes "grid 12 a" "grid 12 b" "small a" "small b"
  shows "dec_sub D a b = Some (a - b)"
  using assms by (intro sub_exact [of 12] dec_repr_12) (auto simp: small_def)

lemma grid_round: "grid dp (dec_round D ToZero dp x)"
  by (simp add: round_to_zero)

end

subsection \<open>An implementation of the laws\<close>

text \<open>
  \<open>dec96\<close> computes in exact arithmetic, panics where the result has no representation, and
  cuts a quotient that has none to 12 decimal places.
\<close>

fun find_scale :: "nat \<Rightarrow> nat \<Rightarrow> rat \<Rightarrow> bool" where
  "find_scale 0 s x = False"
| "find_scale (Suc fuel) s x =
     (if grid s x then \<bar>x * 10 ^ s\<bar> < 2 ^ 96 else find_scale fuel (Suc s) x)"

definition fits96 :: "rat \<Rightarrow> bool" where
  "fits96 x = find_scale 29 0 x"

definition check96 :: "rat \<Rightarrow> rat option" where
  "check96 x = (if fits96 x then Some x else None)"

definition dec96 :: dec_ops where
  "dec96 = \<lparr>
     dec_add = (\<lambda>a b. check96 (a + b)),
     dec_sub = (\<lambda>a b. check96 (a - b)),
     dec_mul = (\<lambda>a b. check96 (a * b)),
     dec_div = (\<lambda>a b. if b = 0 then None
                 else if fits96 (a / b) then Some (a / b) else check96 (trunc_dp 12 (a / b))),
     dec_round = (\<lambda>strategy dp x. case strategy of ToZero \<Rightarrow> trunc_dp dp x | AwayFromZero \<Rightarrow> away_dp dp x),
     dec_to_u64 = (\<lambda>x. if 0 \<le> x \<and> \<lfloor>x\<rfloor> < 2 ^ 64 then Some (word_of_int \<lfloor>x\<rfloor>) else None),
     dec_to_i64 = (\<lambda>x. let n = (if 0 \<le> x then \<lfloor>x\<rfloor> else \<lceil>x\<rceil>)
                   in if - (2 ^ 63) \<le> n \<and> n < 2 ^ 63 then Some (word_of_int n) else None),
     dec_to_big = Some,
     dec_of_big = check96,
     dec_show = (\<lambda>x. show_nat (nat \<lfloor>x\<rfloor>)),
     dec_half_even = (\<lambda>x. of_int \<lfloor>x\<rfloor>) \<rparr>"

lemma find_scale_complete:
  assumes "dec_repr t x" and "s \<le> t" and "t < s + fuel" and "\<And>k. k < s \<Longrightarrow> \<not> grid k x"
  shows "find_scale fuel s x"
  using assms
proof (induction fuel s x rule: find_scale.induct)
  case (2 fuel s x)
  show ?case
  proof (cases "grid s x")
    case True
    have "\<bar>x\<bar> * 10 ^ s \<le> \<bar>x\<bar> * 10 ^ t"
      using "2.prems"(2) by (intro mult_left_mono power_increasing) auto
    with True "2.prems"(1) show ?thesis
      by (auto simp: dec_repr_def abs_mult)
  next
    case False
    with "2.prems"(1,2) have "Suc s \<le> t"
      by (metis dec_repr_def le_neq_implies_less Suc_leI)
    moreover have "\<not> grid k x" if "k < Suc s" for k
      using that False "2.prems"(4) by (auto simp: less_Suc_eq)
    ultimately show ?thesis
      using False "2.IH" "2.prems"(1,3) by simp
  qed
qed simp

lemma fits96_dec_repr: "dec_repr s x \<Longrightarrow> fits96 x"
  unfolding fits96_def by (rule find_scale_complete [of s]) (auto simp: dec_repr_def)

interpretation dec96: decimal dec96
proof unfold_locales
  fix a b c :: rat and s t u :: nat
  show "dec_repr s (a + b) \<Longrightarrow> dec_add dec96 a b = Some (a + b)"
    and "dec_repr s (a - b) \<Longrightarrow> dec_sub dec96 a b = Some (a - b)"
    and "dec_repr (s + t) (a * b) \<Longrightarrow> dec_mul dec96 a b = Some (a * b)"
    and "b \<noteq> 0 \<Longrightarrow> dec_repr u (a / b) \<Longrightarrow> dec_div dec96 a b = Some (a / b)"
    by (auto simp: dec96_def check96_def dest: fits96_dec_repr)
  show "0 \<le> a \<Longrightarrow> 0 \<le> b \<Longrightarrow> dec_mul dec96 a b = Some c \<Longrightarrow> 0 \<le> c"
    by (auto simp: dec96_def check96_def split: if_splits)
  show "0 \<le> a \<Longrightarrow> 0 \<le> b \<Longrightarrow> b \<le> 1 \<Longrightarrow> dec_mul dec96 a b = Some c \<Longrightarrow> c \<le> a"
    by (auto simp: dec96_def check96_def mult_left_le split: if_splits)
  show "grid t a \<Longrightarrow> grid t b \<Longrightarrow> dec_add dec96 a b = Some c \<Longrightarrow> grid t c"
    by (auto simp: dec96_def check96_def split: if_splits)
  show "0 \<le> a \<Longrightarrow> 0 < b \<Longrightarrow> dec_div dec96 a b = Some c \<Longrightarrow> 0 \<le> c"
    by (auto simp: dec96_def check96_def trunc_dp_nonneg split: if_splits)
qed (auto simp: dec96_def)

end
