(* ===== verification/CoreTypes.thy ===== *)
theory CoreTypes
  imports Decimal
begin

text \<open>
  The data model shared by every service (\<open>core_types/src/lib.rs\<close>, with \<open>Side\<close> of
  \<open>core_types/src/kollider_client.rs\<close>): currencies, account kinds, \<open>Money\<close> values
  that are always cut to the currency's decimal places, exchange \<open>Rate\<close>s, the direction of a
  conversion, and ledger \<open>Account\<close>s.

  A function that can panic returns an \<open>option\<close> (\<open>None\<close> is the panic); a Rust
  \<open>Result\<close> is a sum whose left side is the error. Text is ASCII.
\<close>

definition unwrap :: "'e + 'a \<Rightarrow> 'a option" where
  "unwrap r = (case r of Inl _ \<Rightarrow> None | Inr x \<Rightarrow> Some x)"

lemma unwrap_simps [simp]: "unwrap (Inl e) = None" "unwrap (Inr x) = Some x"
  by (simp_all add: unwrap_def)

lemma unwrap_eq_Some [simp]: "(unwrap r = Some x) = (r = Inr x)"
  by (cases r) auto

section \<open>Enumerations and their text forms\<close>

datatype AccountType = Internal | External

fun account_type_to_string :: "AccountType \<Rightarrow> string" where
  "account_type_to_string Internal = ''Internal''"
| "account_type_to_string External = ''External''"

definition account_type_from_str :: "string \<Rightarrow> string + AccountType" where
  "account_type_from_str s =
     (if s = ''Internal'' then Inr Internal
      else if s = ''External'' then Inr External
      else Inl ''unknown account type'')"

datatype AccountClass = Cash | Fees

fun account_class_to_string :: "AccountClass \<Rightarrow> string" where
  "account_class_to_string Cash = ''Cash''"
| "account_class_to_string Fees = ''Fee''"

definition account_class_from_str :: "string \<Rightarrow> string + AccountClass" where
  "account_class_from_str s =
     (if s = ''Cash'' then Inr Cash
      else if s = ''Fees'' then Inr Fees
      else Inl ''unknown account class'')"

datatype Currency = USD | GBP | EUR | BTC | KKP

fun currency_dp :: "Currency \<Rightarrow> nat" where
  "currency_dp BTC = 12"
| "currency_dp USD = 6"
| "currency_dp EUR = 6"
| "currency_dp GBP = 6"
| "currency_dp KKP = 8"

fun currency_to_string :: "Currency \<Rightarrow> string" where
  "currency_to_string BTC = ''BTC''"
| "currency_to_string USD = ''USD''"
| "currency_to_string GBP = ''GBP''"
| "currency_to_string EUR = ''EUR''"
| "currency_to_string KKP = ''KKP''"

definition currency_from_str :: "string \<Rightarrow> string + Currency" where
  "currency_from_str s =
     (let c = to_lowercase s in
      if c = ''btc'' then Inr BTC
      else if c = ''eur'' then Inr EUR
      else if c = ''gbp'' then Inr GBP
      else if c = ''usd'' then Inr USD
      else if c = ''kkp'' then Inr KKP
      else Inl ''unknown currency'')"

datatype Denom = Sats u64 | MilliCents u64 | MilliPence u64 | Karma u64

fun denom_from_currency :: "Currency \<Rightarrow> Denom" where
  "denom_from_currency BTC = Sats 100000000"
| "denom_from_currency USD = MilliCents 100000"
| "denom_from_currency GBP = MilliPence 100000"
| "denom_from_currency EUR = MilliCents 100000"
| "denom_from_currency KKP = Karma 1"

fun denom_into_inner :: "Denom \<Rightarrow> u64" where
  "denom_into_inner (Sats v) = v"
| "denom_into_inner (MilliCents v) = v"
| "denom_into_inner (MilliPence v) = v"
| "denom_into_inner (Karma v) = v"

text \<open>\<open>impl From<Currency> for Symbol\<close>, which panics for the currencies without a market.\<close>

fun symbol_from_currency :: "Currency \<Rightarrow> string option" where
  "symbol_from_currency USD = Some ''BTCUSD.PERP''"
| "symbol_from_currency EUR = Some ''BTCEUR.PERP''"
| "symbol_from_currency GBP = Some ''BTCGBP.PERP''"
| "symbol_from_currency BTC = None"
| "symbol_from_currency KKP = None"

datatype Side = Bid | Ask

fun side_to_sign :: "Side \<Rightarrow> int" where
  "side_to_sign Bid = 1"
| "side_to_sign Ask = -1"

definition side_from_sign :: "int \<Rightarrow> Side" where
  "side_from_sign sign = (if sign < 0 then Ask else Bid)"

datatype ServiceIdentity = Api | LndConnector | BankEngine | Dealer | Loopback | Nostr | Journal

lemma currency_dp_le_12: "currency_dp c \<le> 12"
  by (cases c) auto

section \<open>Money and rates\<close>

definition SATS_IN_BITCOIN :: rat where
  "SATS_IN_BITCOIN = 100000000"

definition RATE_DP :: nat where
  "RATE_DP = 12"

record Money =
  mon_value :: rat
  mon_currency :: Currency

record Rate =
  rate_value :: rat
  rate_quote :: Currency
  rate_base :: Currency

definition money_normalized_value :: "dec_ops \<Rightarrow> rat \<Rightarrow> Currency \<Rightarrow> rat" where
  "money_normalized_value D v c = dec_round D ToZero (currency_dp c) v"

text \<open>\<open>Decimal::normalize\<close> strips trailing zeros and keeps the value.\<close>

definition money_new :: "dec_ops \<Rightarrow> Currency \<Rightarrow> rat \<Rightarrow> Money" where
  "money_new D c v = \<lparr>mon_value = dec_round D ToZero (currency_dp c) v, mon_currency = c\<rparr>"

definition money_zero :: "dec_ops \<Rightarrow> Currency \<Rightarrow> Money" where
  "money_zero D c = money_new D c 0"

definition money_set :: "dec_ops \<Rightarrow> Money \<Rightarrow> rat \<Rightarrow> Money" where
  "money_set D m v = m\<lparr>mon_value := money_normalized_value D v (mon_currency m)\<rparr>"

definition money_mult :: "dec_ops \<Rightarrow> Money \<Rightarrow> rat \<Rightarrow> Money option" where
  "money_mult D m v = do { x \<leftarrow> dec_mul D (mon_value m) v; Some (money_set D m x) }"

definition money_div :: "dec_ops \<Rightarrow> Money \<Rightarrow> rat \<Rightarrow> Money option" where
  "money_div D m v = do { x \<leftarrow> dec_div D (mon_value m) v; Some (money_set D m x) }"

definition money_try_sats :: "dec_ops \<Rightarrow> Money \<Rightarrow> (string + rat) option" where
  "money_try_sats D m =
     (if mon_currency m = BTC
      then do { x \<leftarrow> dec_mul D (mon_value m) SATS_IN_BITCOIN; Some (Inr x) }
      else Some (Inl ''Is not Bitcoin.''))"

definition money_from_sats :: "dec_ops \<Rightarrow> rat \<Rightarrow> Money option" where
  "money_from_sats D v = do {
     x \<leftarrow> dec_div D v SATS_IN_BITCOIN;
     Some \<lparr>mon_value = money_normalized_value D x BTC, mon_currency = BTC\<rparr> }"

definition money_from_btc :: "dec_ops \<Rightarrow> rat \<Rightarrow> Money" where
  "money_from_btc D v = \<lparr>mon_value = money_normalized_value D v BTC, mon_currency = BTC\<rparr>"

definition money_from_str :: "dec_ops \<Rightarrow> string \<Rightarrow> string + Money" where
  "money_from_str D s =
     (let c = to_lowercase s in
      if c = ''btc'' then Inr (money_zero D BTC)
      else if c = ''eur'' then Inr (money_zero D EUR)
      else if c = ''gbp'' then Inr (money_zero D GBP)
      else if c = ''usd'' then Inr (money_zero D USD)
      else Inl ''unknown money'')"

definition rate_normalized_value :: "dec_ops \<Rightarrow> rat \<Rightarrow> rat" where
  "rate_normalized_value D v = dec_round D ToZero RATE_DP v"

definition rate_new :: "dec_ops \<Rightarrow> Currency \<Rightarrow> Currency \<Rightarrow> rat \<Rightarrow> Rate" where
  "rate_new D base quote v =
     \<lparr>rate_value = rate_normalized_value D v, rate_quote = quote, rate_base = base\<rparr>"

definition rate_set :: "dec_ops \<Rightarrow> Rate \<Rightarrow> rat \<Rightarrow> Rate" where
  "rate_set D r v = r\<lparr>rate_value := rate_normalized_value D v\<rparr>"

definition rate_inverse :: "dec_ops \<Rightarrow> Rate \<Rightarrow> Rate option" where
  "rate_inverse D r = do {
     x \<leftarrow> dec_div D 1 (rate_value r);
     Some \<lparr>rate_value = rate_normalized_value D x, rate_quote = rate_base r, rate_base = rate_quote r\<rparr> }"

datatype exchange_error = CannotExchange Money Rate

definition money_exchange :: "dec_ops \<Rightarrow> Money \<Rightarrow> Rate \<Rightarrow> (exchange_error + Money) option" where
  "money_exchange D m r =
     (if mon_currency m = rate_base r
      then do { x \<leftarrow> dec_mul D (mon_value m) (rate_value r);
                Some (Inr (money_new D (rate_quote r) x)) }
      else if mon_currency m = rate_quote r
      then do { r' \<leftarrow> rate_inverse D r;
                x \<leftarrow> dec_mul D (mon_value m) (rate_value r');
                Some (Inr (money_new D (rate_quote r') x)) }
      else Some (Inl (CannotExchange m r)))"

section \<open>Conversions\<close>

record ConversionInfo =
  ci_from :: Currency
  ci_to :: Currency
  ci_base :: Currency
  ci_quote :: Currency
  ci_symbol :: string
  ci_side :: Side

definition conversion_info_new :: "Currency \<Rightarrow> Currency \<Rightarrow> ConversionInfo option" where
  "conversion_info_new frm to' =
     (if frm = to' then None
      else if frm \<noteq> BTC \<and> to' \<noteq> BTC then None
      else let fiat = (if frm = BTC then to' else frm) in do {
        symbol \<leftarrow> symbol_from_currency fiat;
        Some \<lparr>ci_from = frm, ci_to = to', ci_base = BTC, ci_quote = fiat, ci_symbol = symbol,
              ci_side = (if to' = fiat then Ask else Bid)\<rparr> })"

definition is_linear :: "ConversionInfo \<Rightarrow> bool" where
  "is_linear ci = (ci_base ci = ci_from ci)"

section \<open>Accounts\<close>

record Account =
  account_id :: uuid
  balance :: rat
  acc_currency :: Currency
  account_type :: AccountType
  account_class :: AccountClass

text \<open>The identifier is the one \<open>Uuid::new_v4\<close> drew.\<close>

definition account_new :: "uuid \<Rightarrow> Currency \<Rightarrow> AccountType \<Rightarrow> AccountClass \<Rightarrow> Account" where
  "account_new i c t k =
     \<lparr>account_id = i, balance = 0, acc_currency = c, account_type = t, account_class = k\<rparr>"

definition account_normalize :: "dec_ops \<Rightarrow> Account \<Rightarrow> Account" where
  "account_normalize D a = a\<lparr>balance := money_normalized_value D (balance a) (acc_currency a)\<rparr>"

record LndNodeInfo =
  identity_pubkey :: string
  uris :: "string list"
  num_active_channels :: u64
  num_pending_channels :: u64
  num_peers :: u64
  testnet :: bool

definition lnd_node_info_default :: LndNodeInfo where
  "lnd_node_info_default = \<lparr>identity_pubkey = [], uris = [], num_active_channels = 0,
     num_pending_channels = 0, num_peers = 0, testnet = False\<rparr>"

section \<open>Every money value is a multiple of its currency's smallest unit\<close>

definition money_ok :: "Money \<Rightarrow> bool" where
  "money_ok m = grid (currency_dp (mon_currency m)) (mon_value m)"

lemma abs_sint: "\<bar>sint (v :: i64)\<bar> \<le> 2 ^ 63"
  using sint_ge [of v] sint_lt [of v] by auto

lemma abs_sint_rat: "\<bar>of_int (sint (v :: i64)) :: rat\<bar> \<le> 2 ^ 63"
  using abs_sint [of v] by (metis of_int_abs of_int_le_iff of_int_numeral of_int_power)

lemma money_ok_grid_12: "money_ok m \<Longrightarrow> grid 12 (mon_value m)"
  unfolding money_ok_def by (erule grid_mono) (rule currency_dp_le_12)

lemma money_currency_simps [simp]:
  "mon_currency (money_new D c v) = c"
  "mon_currency (money_zero D c) = c"
  "mon_currency (money_set D m v) = mon_currency m"
  "mon_currency (money_from_btc D v) = BTC"
  by (simp_all add: money_new_def money_zero_def money_set_def money_from_btc_def)

lemma rate_new_simps [simp]:
  "rate_base (rate_new D b q v) = b" "rate_quote (rate_new D b q v) = q"
  by (simp_all add: rate_new_def)

lemma conversion_info_new_Some:
  assumes "conversion_info_new f t = Some ci"
  shows "ci_from ci = f" "ci_to ci = t" "ci_base ci = BTC" "ci_quote ci \<in> {USD, EUR, GBP}"
    "f \<noteq> t" "is_linear ci \<longleftrightarrow> f = BTC" "ci_side ci = (if f = BTC then Ask else Bid)"
    "symbol_from_currency (ci_quote ci) = Some (ci_symbol ci)"
    "ci_quote ci = (if f = BTC then t else f)"
  using assms
  by (cases f; cases t; auto simp: conversion_info_new_def is_linear_def)+

context decimal
begin

lemma money_new_ok [simp]: "money_ok (money_new D c v)"
  by (simp add: money_ok_def money_new_def round_to_zero)

lemma money_zero_ok [simp]: "money_ok (money_zero D c)"
  by (simp add: money_zero_def)

lemma money_zero_value [simp]: "mon_value (money_zero D c) = 0"
  by (simp add: money_zero_def money_new_def round_to_zero)

lemma money_set_ok [simp]: "money_ok (money_set D m v)"
  by (simp add: money_ok_def money_set_def money_normalized_value_def round_to_zero)

lemma money_from_btc_ok [simp]: "money_ok (money_from_btc D v)"
  by (simp add: money_ok_def money_from_btc_def money_normalized_value_def round_to_zero)

lemma money_from_sats_ok: "money_from_sats D v = Some m \<Longrightarrow> money_ok m \<and> mon_currency m = BTC"
  by (auto simp: money_from_sats_def bind_Some_conv money_ok_def money_normalized_value_def round_to_zero)

lemma money_exchange_ok:
  "money_exchange D m r = Some (Inr m') \<Longrightarrow>
     money_ok m' \<and> mon_currency m' = (if mon_currency m = rate_base r then rate_quote r else rate_base r)"
  by (auto simp: money_exchange_def rate_inverse_def bind_Some_conv split: if_splits)

lemma money_exchange_grid: "money_exchange D m r = Some (Inr m') \<Longrightarrow> grid 12 (mon_value m')"
  by (drule money_exchange_ok) (simp add: money_ok_grid_12)

lemma money_exchange_nonneg:
  assumes "money_exchange D m r = Some (Inr m')" "0 \<le> mon_value m" "0 \<le> rate_value r"
  shows "0 \<le> mon_value m'"
proof -
  have inv: "0 \<le> dec_round D ToZero RATE_DP y" if "dec_div D 1 (rate_value r) = Some y" for y
  proof (cases "rate_value r = 0")
    case True
    with that div_zero show ?thesis by simp
  next
    case False
    with that assms(3) div_sign [of 1 "rate_value r" y] show ?thesis
      by (simp add: round_to_zero trunc_dp_nonneg)
  qed
  show ?thesis
    using assms inv
    by (auto simp: money_exchange_def rate_inverse_def rate_normalized_value_def bind_Some_conv money_new_def
        round_to_zero intro!: trunc_dp_nonneg dest: mul_sign split: if_splits)
qed

text \<open>A whole number of satoshis that fits an \<open>i64\<close> converts without loss.\<close>

lemma from_sats_exact:
  assumes "\<bar>n\<bar> \<le> 2 ^ 63"
  shows "money_from_sats D (of_int n) = Some \<lparr>mon_value = of_int n / 10 ^ 8, mon_currency = BTC\<rparr>"
proof -
  have n: "\<bar>of_int n :: rat\<bar> \<le> 2 ^ 63"
    using assms by (metis of_int_abs of_int_le_iff of_int_numeral of_int_power)
  have "dec_repr 0 (of_int n)" "dec_repr 0 SATS_IN_BITCOIN" "dec_repr 8 (of_int n / 10 ^ 8)"
    using n by (auto simp: dec_repr_def grid_def SATS_IN_BITCOIN_def is_integer_def)
  then have "dec_div D (of_int n) SATS_IN_BITCOIN = Some (of_int n / 10 ^ 8)"
    using div_exact [of 0 "of_int n" 0 SATS_IN_BITCOIN 8] by (simp add: SATS_IN_BITCOIN_def)
  moreover have "trunc_dp 12 (of_int n / 10 ^ 8) = of_int n / 10 ^ 8"
    by (rule trunc_dp_grid, rule grid_mono [of 8]) (auto simp: grid_def)
  ultimately show ?thesis
    by (simp add: money_from_sats_def money_normalized_value_def round_to_zero)
qed

lemma try_sats_exact:
  assumes "\<bar>n\<bar> \<le> 2 ^ 63"
  shows "money_try_sats D \<lparr>mon_value = of_int n / 10 ^ 8, mon_currency = BTC\<rparr> = Some (Inr (of_int n))"
proof -
  have n: "\<bar>of_int n :: rat\<bar> \<le> 2 ^ 63"
    using assms by (metis of_int_abs of_int_le_iff of_int_numeral of_int_power)
  have "dec_repr 8 (of_int n / 10 ^ 8)" "dec_repr 0 SATS_IN_BITCOIN"
    "dec_repr (8 + 0) (of_int n / 10 ^ 8 * SATS_IN_BITCOIN)"
    using n by (auto simp: dec_repr_def grid_def SATS_IN_BITCOIN_def is_integer_def abs_mult) 
  from mul_exact [OF this] show ?thesis
    by (simp add: money_try_sats_def SATS_IN_BITCOIN_def)
qed

text \<open>The amounts the bank books from an \<open>i64\<close> number of satoshis or of millisatoshis.\<close>

lemma sats_amount:
  assumes m: "money_from_sats D (signed (v :: i64)) = Some m"
  shows "money_ok m" "small (mon_value m)" "mon_currency m = BTC" "mon_value m = of_int (sint v) / 10 ^ 8"
proof -
  have assms: "money_from_sats D (of_int (sint v)) = Some m" using m by simp
  note v = abs_sint [of v]
  show "money_ok m" "mon_currency m = BTC"
    using money_from_sats_ok [OF assms] by auto
  have "m = \<lparr>mon_value = of_int (sint v) / 10 ^ 8, mon_currency = BTC\<rparr>"
    using from_sats_exact [OF v] assms by (metis option.inject)
  then show m: "mon_value m = of_int (sint v) / 10 ^ 8" by simp
  from abs_sint_rat [of v] show "small (mon_value m)"
    by (simp add: m small_def)
qed

lemmas sats_grid = money_ok_grid_12 [OF sats_amount(1)]
lemmas sats_small = sats_amount(2)

lemma msat_amount:
  assumes m: "money_from_sats D (signed (v :: i64) / 1000) = Some m"
  shows "grid 12 (mon_value m)" "small (mon_value m)" "mon_value m = of_int (sint v) / 10 ^ 11"
proof -
  note v = abs_sint_rat [of v]
  have "dec_repr 3 (of_int (sint v) / 1000)" "dec_repr 0 SATS_IN_BITCOIN" "dec_repr 11 (of_int (sint v) / 10 ^ 11)"
    using v by (auto simp: dec_repr_def grid_def SATS_IN_BITCOIN_def is_integer_def simp del: of_int_sint)
  then have "dec_div D (of_int (sint v) / 1000) SATS_IN_BITCOIN = Some (of_int (sint v) / 10 ^ 11)"
    using div_exact [of 3 "of_int (sint v) / 1000" 0 SATS_IN_BITCOIN 11]
    by (simp add: SATS_IN_BITCOIN_def del: of_int_sint)
  moreover have g: "grid 12 (of_int (sint v) / 10 ^ 11)"
    by (rule grid_mono [of 11]) (auto simp: grid_def simp del: of_int_sint)
  ultimately show val: "mon_value m = of_int (sint v) / 10 ^ 11"
    using m by (auto simp: money_from_sats_def money_normalized_value_def round_to_zero trunc_dp_grid)
  show "grid 12 (mon_value m)" unfolding val by (rule g)
  show "small (mon_value m)" unfolding val small_def using v by simp
qed

end

section \<open>Properties\<close>

lemma trunc_dp_close: "0 \<le> x \<Longrightarrow> x < trunc_dp dp x + 1 / 10 ^ dp"
proof -
  assume "0 \<le> x"
  moreover have "x * 10 ^ dp < of_int \<lfloor>x * 10 ^ dp\<rfloor> + 1" by linarith
  ultimately show ?thesis by (simp add: trunc_dp_def field_simps)
qed

text \<open>
  Amounts in satoshis survive the conversion to BTC and back: for every \<open>i64\<close> amount
  \<open>from_sats\<close> yields exactly that many hundred-millionths of a BTC, and \<open>try_sats\<close> of the
  result is the amount again. Neither panics.
\<close>

theorem sats_round_trip:
  assumes "decimal D" "\<bar>n\<bar> \<le> 2 ^ 63"
  shows "\<exists>m. money_from_sats D (of_int n) = Some m \<and> mon_currency m = BTC \<and>
    mon_value m = of_int n / 10 ^ 8 \<and> money_try_sats D m = Some (Inr (of_int n))"
  using decimal.from_sats_exact [OF assms] decimal.try_sats_exact [OF assms] by simp

theorem sats_round_trip_witness:
  "\<exists>m. money_from_sats dec96 (of_int 123456789) = Some m \<and> mon_currency m = BTC \<and>
    mon_value m = of_int 123456789 / 10 ^ 8 \<and> money_try_sats dec96 m = Some (Inr (of_int 123456789))"
  using sats_round_trip [OF dec96.decimal_axioms, of 123456789] by simp

text \<open>
  The exchange of \<open>m\<close> at the value \<open>v\<close> into the currency \<open>c\<close>: a multiple of the currency's unit, at most
  the exact product and less than one unit below it.
\<close>

definition exchanged :: "dec_ops \<Rightarrow> Money \<Rightarrow> Rate \<Rightarrow> Currency \<Rightarrow> rat \<Rightarrow> bool" where
  "exchanged D m r c v \<longleftrightarrow> (\<exists>m'. money_exchange D m r = Some (Inr m') \<and> mon_currency m' = c \<and> money_ok m' \<and>
     0 \<le> mon_value m' \<and> mon_value m' \<le> mon_value m * v \<and> mon_value m * v < mon_value m' + 1 / 10 ^ currency_dp c)"

lemma money_new_exchanged:
  assumes "decimal D" "money_exchange D m r = Some (Inr (money_new D c (mon_value m * v)))" "0 \<le> mon_value m" "0 \<le> v"
  shows "exchanged D m r c v"
proof -
  have x: "0 \<le> mon_value m * v" using assms(3,4) by simp
  then show ?thesis
    using assms(2) decimal.money_new_ok [OF assms(1)] decimal.round_to_zero [OF assms(1)]
      trunc_dp_nonneg [OF x] trunc_dp_le [OF x] trunc_dp_close [OF x]
    unfolding exchanged_def by (auto simp: money_new_def)
qed

text \<open>
  C11. An exchange never creates money and loses less than one unit of the target currency. Non-negative
  money in the base currency of a rate becomes money in the quote currency: a multiple of its unit, at
  most the exact product and less than one unit below it. Money in the quote currency becomes money in
  the base currency, in the same way at the inverse rate: the quotient of one by the rate, cut to twelve
  places. Money in any other currency is refused. The amount, the rate that is applied and their product
  are representable; that the quotient of the decimal library is exact is not assumed.
\<close>

theorem exchange_truncates:
  assumes "decimal D" "0 \<le> mon_value m" "0 \<le> rate_value r" "dec_repr i (mon_value m)"
  shows "(mon_currency m = rate_base r \<and> dec_repr j (rate_value r) \<and> dec_repr (i + j) (mon_value m * rate_value r) \<longrightarrow>
      exchanged D m r (rate_quote r) (rate_value r)) \<and>
    (mon_currency m = rate_quote r \<and> rate_quote r \<noteq> rate_base r \<and> dec_div D 1 (rate_value r) = Some q \<and>
      dec_repr j (trunc_dp 12 q) \<and> dec_repr (i + j) (mon_value m * trunc_dp 12 q) \<longrightarrow>
      exchanged D m r (rate_base r) (trunc_dp 12 q) \<and> trunc_dp 12 q \<le> q \<and> q < trunc_dp 12 q + 1 / 10 ^ 12) \<and>
    (mon_currency m \<noteq> rate_base r \<and> mon_currency m \<noteq> rate_quote r \<longrightarrow> money_exchange D m r = Some (Inl (CannotExchange m r)))"
proof (intro conjI impI; (elim conjE)?)
  assume c: "mon_currency m = rate_base r" and j: "dec_repr j (rate_value r)" "dec_repr (i + j) (mon_value m * rate_value r)"
  from c decimal.mul_exact [OF assms(1,4) j]
  have "money_exchange D m r = Some (Inr (money_new D (rate_quote r) (mon_value m * rate_value r)))"
    by (simp add: money_exchange_def)
  with assms(1) show "exchanged D m r (rate_quote r) (rate_value r)" using assms(2,3) by (rule money_new_exchanged)
next
  assume c: "mon_currency m = rate_quote r" "rate_quote r \<noteq> rate_base r" and q: "dec_div D 1 (rate_value r) = Some q"
    and j: "dec_repr j (trunc_dp 12 q)" "dec_repr (i + j) (mon_value m * trunc_dp 12 q)"
  have "rate_value r \<noteq> 0" using q decimal.div_zero [OF assms(1)] by auto
  then have "0 < rate_value r" using assms(3) by simp
  with q have nonneg: "0 \<le> q" using decimal.div_sign [OF assms(1), of 1] by simp
  show "trunc_dp 12 q \<le> q" "q < trunc_dp 12 q + 1 / 10 ^ 12" by (rule trunc_dp_le [OF nonneg], rule trunc_dp_close [OF nonneg])
  from c q decimal.mul_exact [OF assms(1,4) j]
  have "money_exchange D m r = Some (Inr (money_new D (rate_base r) (mon_value m * trunc_dp 12 q)))"
    by (simp add: money_exchange_def rate_inverse_def rate_normalized_value_def decimal.round_to_zero [OF assms(1)] RATE_DP_def)
  with assms(1) show "exchanged D m r (rate_base r) (trunc_dp 12 q)"
    using assms(2) trunc_dp_nonneg [OF nonneg] by (rule money_new_exchanged)
qed (simp add: money_exchange_def)

theorem exchange_truncates_witness:
  "exchanged dec96 \<lparr>mon_value = 1 / 8, mon_currency = BTC\<rparr> \<lparr>rate_value = 20000, rate_quote = USD, rate_base = BTC\<rparr> USD 20000 \<and>
   exchanged dec96 \<lparr>mon_value = 2500, mon_currency = USD\<rparr> \<lparr>rate_value = 20000, rate_quote = USD, rate_base = BTC\<rparr> BTC (1 / 20000)"
proof -
  have q: "dec_div dec96 1 20000 = Some (1 / 20000)" "trunc_dp 12 (1 / 20000) = 1 / 20000" by code_simp+
  show ?thesis
    using exchange_truncates [OF dec96.decimal_axioms, of "\<lparr>mon_value = 1 / 8, mon_currency = BTC\<rparr>"
        "\<lparr>rate_value = 20000, rate_quote = USD, rate_base = BTC\<rparr>" 3 0]
      exchange_truncates [OF dec96.decimal_axioms, of "\<lparr>mon_value = 2500, mon_currency = USD\<rparr>"
        "\<lparr>rate_value = 20000, rate_quote = USD, rate_base = BTC\<rparr>" 0 5 "1 / 20000"] q
    by (auto simp: dec_repr_def grid_def is_integer_def)
qed

lemma lowercase_names:
  "to_lowercase ''BTC'' = ''btc''" "to_lowercase ''USD'' = ''usd''" "to_lowercase ''EUR'' = ''eur''"
  "to_lowercase ''GBP'' = ''gbp''" "to_lowercase ''KKP'' = ''kkp''"
  by code_simp+

text \<open>
  Currencies and account types can be stored as text and read back: parsing accepts exactly the
  printed name, for currencies in any capitalisation.
\<close>

theorem text_round_trip:
  "(currency_from_str s = Inr c \<longleftrightarrow> to_lowercase s = to_lowercase (currency_to_string c)) \<and>
   (account_type_from_str s = Inr t \<longleftrightarrow> s = account_type_to_string t)"
proof
  show "currency_from_str s = Inr c \<longleftrightarrow> to_lowercase s = to_lowercase (currency_to_string c)"
    by (cases c) (auto simp: currency_from_str_def Let_def lowercase_names)
  show "account_type_from_str s = Inr t \<longleftrightarrow> s = account_type_to_string t"
    by (cases t) (auto simp: account_type_from_str_def)
qed

text \<open>
  Account classes do not survive: what \<open>Display\<close> prints for a class is accepted by
  \<open>from_str\<close> only for \<open>Cash\<close>; the fee class is printed as \<open>Fee\<close> and refused.
\<close>

theorem account_class_text: "account_class_from_str (account_class_to_string k) = Inr k \<longleftrightarrow> k = Cash"
  by (cases k) (auto simp: account_class_from_str_def)

text \<open>
  A conversion is offered exactly between BTC and one of the hedged currencies; converting back
  trades the same instrument on the opposite side.
\<close>

theorem conversion_info_spec:
  "(conversion_info_new f t \<noteq> None \<longleftrightarrow> f = BTC \<and> t \<in> {USD, EUR, GBP} \<or> t = BTC \<and> f \<in> {USD, EUR, GBP}) \<and>
   (\<forall>ci. conversion_info_new f t = Some ci \<longrightarrow> ci_base ci = BTC \<and> (is_linear ci \<longleftrightarrow> f = BTC) \<and>
      (\<exists>ci'. conversion_info_new t f = Some ci' \<and> ci_symbol ci' = ci_symbol ci \<and> ci_side ci' \<noteq> ci_side ci))"
  by (cases f; cases t) (auto simp: conversion_info_new_def is_linear_def Let_def)

end
