(* ===== verification/Msgs.thy ===== *)
theory Msgs
  imports CoreTypes
begin

text \<open>
  The messages between the services (\<open>msgs/src\<close>): one record per Rust struct, one datatype
  per enum. Field names carry a short prefix of their struct, since Isabelle's record fields
  share one name space. The error enums and the message enums keep the constructors of the
  sources, with a prefix where two enums use the same constructor. The \<open>error\<close> fields of the
  structs whose error enum has no constructor (\<open>Balances\<close>, \<open>GetNodeInfoResponse\<close>) are
  left out, since they can only be \<open>None\<close>, and a struct whose only field is the request
  identifier is that identifier. \<open>Message::KolliderApiResponse\<close> never reaches the bank and is
  left to the dealer's side.
\<close>

section \<open>Errors (\<open>msgs/src/api.rs\<close>)\<close>

datatype InvoiceResponseError =
    AccountDoesNotExist | InvoiceRateNotAvailable | WithdrawalOnly | DepositLimitExceeded
  | InvoiceRequestLimitExceeded | InvoiceDatabaseConnectionFailed | InvoicingSuspended

datatype CreateLnurlWithdrawalError =
    LnurlInsufficientFunds | FailedToCreateLnUrl | LnurlInvalidAmount | LnurlUserAccountNotFound

datatype GetLnurlWithdrawalError = GetRequestNotFound

datatype PayLnurlWithdrawalError = PayRequestNotFound

datatype SwapResponseError =
    SwapInvalid | SwapCurrencyNotAvailable | InvalidQuoteId | NotEnoughAvailableBalance
  | SwapBTCNotFromTo | SwapUserAccountNotFound | SwapDatabaseConnectionFailed | SwapTransactionFailed

datatype QuoteResponseError =
    QuoteInvalid | QuoteServiceNotAvailable | QuoteCurrencyNotAvailable | QuoteMarketNotAvailable
  | QuoteBTCNotFromTo

datatype NostrResponseError = ProfileNotFound | ErrorSendingPrivateMessage

datatype QueryRouteError = NoRouteFound

datatype AvailableCurrenciesResponseError = GeneralError

datatype PaymentResponseError =
    InsufficientFunds | InsufficientFundsForFees | ZeroAmountInvoice | InvoiceAlreadyPaid
  | SelfPayment | RateNotAvailable | UserDoesNotExist | RequestLimitExceeded | InvalidAmount
  | UserAccountNotFound | TransactionFailed | DatabaseConnectionFailed | InvalidInvoice
  | CreatingInvoiceFailed

section \<open>API messages (\<open>msgs/src/api.rs\<close>)\<close>

record InvoiceRequest =
  irq_req_id :: uuid
  irq_uid :: user_id
  irq_amount :: Money
  irq_meta :: string
  irq_metadata :: "string option"
  irq_currency :: Currency
  irq_account_id :: "uuid option"
  irq_target_account_currency :: "Currency option"

record InvoiceResponse =
  irs_req_id :: uuid
  irs_uid :: user_id
  irs_payment_hash :: "string option"
  irs_payment_request :: "string option"
  irs_meta :: string
  irs_metadata :: "string option"
  irs_amount :: Money
  irs_rate :: "Rate option"
  irs_currency :: Currency
  irs_target_account_currency :: "Currency option"
  irs_account_id :: "uuid option"
  irs_error :: "InvoiceResponseError option"
  irs_fees :: "Money option"

record PaymentRequest =
  prq_req_id :: uuid
  prq_uid :: user_id
  prq_payment_request :: "string option"
  prq_currency :: Currency
  prq_recipient :: "string option"
  prq_destination :: "string option"
  prq_amount :: "Money option"
  prq_invoice_amount :: "Money option"
  prq_rate :: "Rate option"
  prq_fees :: "Money option"

record PaymentResponse =
  prs_req_id :: uuid
  prs_payment_hash :: string
  prs_uid :: user_id
  prs_success :: bool
  prs_currency :: Currency
  prs_payment_request :: "string option"
  prs_amount :: "Money option"
  prs_fees :: "Money option"
  prs_rate :: "Rate option"
  prs_error :: "PaymentResponseError option"
  prs_payment_preimage :: "string option"
  prs_destination :: "string option"
  prs_description :: "string option"

text \<open>\<open>PaymentResponse::error\<close>; the payment hash is the text of a fresh UUID.\<close>

definition payment_response_error ::
  "string \<Rightarrow> PaymentResponseError \<Rightarrow> uuid \<Rightarrow> user_id \<Rightarrow> string option \<Rightarrow> Currency \<Rightarrow> string option \<Rightarrow> PaymentResponse"
where
  "payment_response_error hash err req_id uid payment_request currency preimage = \<lparr>
     prs_req_id = req_id, prs_payment_hash = hash, prs_uid = uid, prs_success = False,
     prs_currency = currency, prs_payment_request = payment_request, prs_amount = None,
     prs_fees = None, prs_rate = None, prs_error = Some err, prs_payment_preimage = preimage,
     prs_destination = None, prs_description = None \<rparr>"

record SwapRequest =
  srq_req_id :: uuid
  srq_uid :: user_id
  srq_amount :: Money
  srq_from :: Currency
  srq_to :: Currency
  srq_quote_id :: "nat option"

record SwapResponse =
  srs_req_id :: uuid
  srs_uid :: user_id
  srs_success :: bool
  srs_amount :: Money
  srs_from :: Currency
  srs_to :: Currency
  srs_rate :: "Rate option"
  srs_error :: "SwapResponseError option"
  srs_fees :: "Money option"

record GetBalances =
  gb_req_id :: uuid
  gb_uid :: user_id

record Balances =
  bal_req_id :: uuid
  bal_uid :: user_id
  bal_accounts :: "(uuid \<times> Account) list"

record QuoteRequest =
  qrq_req_id :: uuid
  qrq_uid :: user_id
  qrq_amount :: Money
  qrq_from :: Currency
  qrq_to :: Currency

record QuoteResponse =
  qrs_req_id :: uuid
  qrs_uid :: user_id
  qrs_amount :: Money
  qrs_from :: Currency
  qrs_to :: Currency
  qrs_valid_until :: u64
  qrs_rate :: "Rate option"
  qrs_quote_id :: "nat option"
  qrs_error :: "QuoteResponseError option"
  qrs_fees :: "Money option"

record AvailableCurrenciesResponse =
  acr_req_id :: uuid
  acr_currencies :: "Currency list"
  acr_error :: "AvailableCurrenciesResponseError option"

record GetNodeInfoResponse =
  gni_req_id :: uuid
  gni_lnd_node_info :: LndNodeInfo
  gni_ln_network_max_fee :: rat
  gni_ln_network_fee_margin :: rat
  gni_reserve_ratio :: rat
  gni_external_tx_fee :: rat
  gni_internal_tx_fee :: rat

record CreateLnurlWithdrawalRequest =
  clw_req_id :: uuid
  clw_uid :: user_id
  clw_amount :: Money
  clw_currency :: Currency
  clw_rate :: "Rate option"
  clw_fees :: "Money option"

record CreateLnurlWithdrawalResponse =
  clr_req_id :: uuid
  clr_lnurl :: "string option"
  clr_error :: "CreateLnurlWithdrawalError option"

record GetLnurlWithdrawalResponse =
  glr_req_id :: uuid
  glr_max_withdrawable :: u64
  glr_min_withdrawable :: u64
  glr_default_description :: string
  glr_tag :: string
  glr_callback :: string
  glr_error :: "GetLnurlWithdrawalError option"

record PayLnurlWithdrawalRequest =
  plw_req_id :: uuid
  plw_payment_request :: string

record PayLnurlWithdrawalResponse =
  plr_req_id :: uuid
  plr_error :: "PayLnurlWithdrawalError option"

record QueryRouteRequest =
  qrt_req_id :: uuid
  qrt_payment_request :: string
  qrt_max_fee :: "rat option"

record QueryRouteResponse =
  qrr_req_id :: uuid
  qrr_total_fee :: rat
  qrr_error :: "QueryRouteError option"

record NostrProfileRequest =
  npr_req_id :: uuid
  npr_pubkey :: "string option"
  npr_lightning_address :: "string option"

record NostrProfileSearchRequest =
  nps_req_id :: uuid
  nps_text :: "string option"
  nps_pubkey :: "string option"
  nps_limit :: "u64 option"

record NostrProfile =
  np_banner :: "string option"
  np_website :: "string option"
  np_lud06 :: "string option"
  np_nip05 :: "string option"
  np_picture :: "string option"
  np_display_name :: "string option"
  np_about :: "string option"
  np_name :: "string option"
  np_lud16 :: "string option"
  np_nip05_verified :: "bool option"

record ShareableNostrProfile =
  snp_pubkey :: string
  snp_created_at :: i64
  snp_profile :: NostrProfile
  snp_validated_lnurl_pay_req :: "string option"

record NostrProfileSearchResponse =
  npsr_req_id :: uuid
  npsr_data :: "ShareableNostrProfile list"
  npsr_error :: "NostrResponseError option"

section \<open>Bank, dealer, command line, journal and Nostr messages\<close>

record PaymentResult =
  pres_uid :: user_id
  pres_currency :: Currency
  pres_rate :: Rate
  pres_is_success :: bool
  pres_amount :: Money
  pres_payment_response :: PaymentResponse
  pres_error :: "string option"

record BankStateResponse =
  bsr_req_id :: uuid
  bsr_uid :: user_id
  bsr_amount :: "u64 option"
  bsr_meta :: string
  bsr_currency :: Currency
  bsr_account_id :: "uuid option"

record BankState =
  total_exposures :: "(Currency \<times> rat) list"
  fiat_exposures :: "(uuid \<times> Account) list"
  bs_insurance_fund_account :: Account

record PayInvoice =
  pi_req_id :: uuid
  pi_payment_request :: string

record CreateInvoiceRequest =
  cir_req_id :: uuid
  cir_amount :: u64
  cir_memo :: string

record CreateInvoiceResponse =
  cis_req_id :: uuid
  cis_amount :: u64
  cis_payment_request :: string

datatype HealthStatus = Running | Down

record DealerHealth =
  dh_status :: HealthStatus
  dh_available_currencies :: "Currency list"
  dh_rates :: "((Currency \<times> Currency) \<times> Rate) list"
  dh_timestamp :: u64

record FiatDepositRequest =
  fdr_req_id :: uuid
  fdr_amount :: Money
  fdr_currency :: Currency
  fdr_payment_request :: string
  fdr_uid :: user_id

datatype FiatDepositResponseError = FiatCurrencyNotAvailable

record FiatDepositResponse =
  fds_req_id :: uuid
  fds_amount :: Money
  fds_rate :: "Rate option"
  fds_payment_request :: string
  fds_currency :: Currency
  fds_uid :: user_id
  fds_error :: "FiatDepositResponseError option"
  fds_fees :: "Money option"

record MakeTx =
  mk_outbound_uid :: user_id
  mk_outbound_account_id :: uuid
  mk_inbound_uid :: user_id
  mk_inbound_account_id :: uuid
  mk_amount :: rat
  mk_currency :: Currency

record Deposit =
  dep_payment_request :: string
  dep_payment_hash :: string
  dep_description_hash :: string
  dep_preimage :: string
  dep_value :: u64
  dep_value_msat :: u64
  dep_settled :: bool
  dep_creation_date :: u64
  dep_settle_date :: u64

text \<open>\<open>msgs/src/journal.rs\<close>; the \<open>f64\<close> fields carry the decimal that is converted.\<close>

record JournalTransaction =
  jt_txid :: string
  jt_outbound_currency :: string
  jt_inbound_currency :: string
  jt_outbound_amount :: rat
  jt_inbound_amount :: rat
  jt_outbound_uid :: user_id
  jt_inbound_uid :: user_id
  jt_tx_type :: string
  jt_fees :: rat
  jt_exchange_rate :: rat

record NostrPrivateMessage =
  npm_pubkey :: string
  npm_text :: string

record NostrZapNote =
  nzn_amount :: u64
  nzn_description :: string
  nzn_description_hash :: string
  nzn_bolt11 :: string
  nzn_preimage :: "string option"
  nzn_settled_timestamp :: u64

record NostrProfilesRefetchRequest =
  nprr_pubkey :: "string option"
  nprr_since_epoch_ms :: "u64 option"
  nprr_until_epoch_ms :: "u64 option"
  nprr_limit :: "u64 option"

datatype ApiMsg =
    InvoiceRequestMsg InvoiceRequest
  | InvoiceResponseMsg InvoiceResponse
  | PaymentRequestMsg PaymentRequest
  | PaymentResponseMsg PaymentResponse
  | SwapRequestMsg SwapRequest
  | SwapResponseMsg SwapResponse
  | GetBalancesMsg GetBalances
  | BalancesMsg Balances
  | QuoteRequestMsg QuoteRequest
  | QuoteResponseMsg QuoteResponse
  | AvailableCurrenciesRequestMsg uuid
  | AvailableCurrenciesResponseMsg AvailableCurrenciesResponse
  | GetNodeInfoRequestMsg uuid
  | GetNodeInfoResponseMsg GetNodeInfoResponse
  | CreateLnurlWithdrawalRequestMsg CreateLnurlWithdrawalRequest
  | CreateLnurlWithdrawalResponseMsg CreateLnurlWithdrawalResponse
  | GetLnurlWithdrawalRequestMsg uuid
  | GetLnurlWithdrawalResponseMsg GetLnurlWithdrawalResponse
  | PayLnurlWithdrawalRequestMsg PayLnurlWithdrawalRequest
  | PayLnurlWithdrawalResponseMsg PayLnurlWithdrawalResponse
  | QueryRouteRequestMsg QueryRouteRequest
  | QueryRouteResponseMsg QueryRouteResponse
  | NostrProfileRequestMsg NostrProfileRequest
  | NostrProfileSearchRequestMsg NostrProfileSearchRequest
  | NostrProfileSearchResponseMsg NostrProfileSearchResponse

datatype DealerMsg =
    BankStateRequestMsg uuid
  | BankStateResponseMsg BankStateResponse
  | BankStateMsg BankState
  | HealthMsg DealerHealth
  | PayInvoiceMsg PayInvoice
  | PayInsuranceInvoiceMsg PayInvoice
  | CreateInvoiceRequestMsg CreateInvoiceRequest
  | CreateInsuranceInvoiceRequestMsg CreateInvoiceRequest
  | CreateInvoiceResponseMsg CreateInvoiceResponse
  | FiatDepositRequestMsg FiatDepositRequest
  | FiatDepositResponseMsg FiatDepositResponse
  | KarmaBalanceMsg rat

datatype BankMsg =
    PaymentResultMsg PaymentResult
  | DcaRebalanceMsg string

datatype NostrMsg =
    NostrPrivateMessageMsg NostrPrivateMessage
  | NostrZapNoteMsg NostrZapNote
  | NostrProfilesRefetchRequestMsg NostrProfilesRefetchRequest

datatype CliMsg =
    MakeTxMsg MakeTx
  | MakeTxResultMsg MakeTx string

datatype Message =
    MsgApi ApiMsg
  | MsgDealer DealerMsg
  | MsgDeposit Deposit
  | MsgBank BankMsg
  | MsgCli CliMsg
  | MsgNostr NostrMsg
  | MsgJournal JournalTransaction

end
