(* ===== verification/Models.thy ===== *)
theory Models
  imports Msgs
begin

text \<open>
  The persistence layer (\<open>models/src\<close>): one record per table row and the queries of the
  crate over a database that is a list of rows per table. A query is the selection its
  \<open>filter\<close> calls describe; \<open>first\<close> takes the first matching row; \<open>insert\<close> fails
  (\<open>None\<close>, the Rust \<open>Err\<close>) on a duplicate primary or unique key or a missing foreign
  key, as the tables' constraints (\<open>models/migrations\<close>) demand; \<open>update\<close> returns the
  number of rows it changed and leaves a column alone where the changeset holds \<open>None\<close>.
  Whether the server executes a statement at all is decided by the environment of the caller.
  Columns filled by the server's clock are not modelled.
\<close>

section \<open>Rows\<close>

record AccountRow =
  ar_account_id :: uuid
  ar_balance :: rat
  ar_currency :: string
  ar_account_type :: string
  ar_uid :: i32
  ar_account_class :: string

record Invoice =
  inv_payment_hash :: string
  inv_payment_request :: string
  inv_created_at :: i64
  inv_value :: i64
  inv_value_msat :: i64
  inv_expiry :: i64
  inv_settled :: bool
  inv_add_index :: i64
  inv_settled_date :: i64
  inv_account_id :: string
  inv_uid :: i32
  inv_incoming :: bool
  inv_owner :: "i32 option"
  inv_fees :: "i64 option"
  inv_currency :: "string option"
  inv_target_account_currency :: "string option"
  inv_reference :: "string option"
  inv_description :: "string option"

record User =
  usr_uid :: i32
  usr_username :: string
  usr_password :: string
  usr_is_internal :: bool
  usr_origin :: "string option"

record Transaction =
  tx_txid :: string
  tx_created_at :: i64
  tx_outbound_amount :: rat
  tx_inbound_amount :: rat
  tx_outbound_account_id :: uuid
  tx_inbound_account_id :: uuid
  tx_outbound_uid :: i32
  tx_inbound_uid :: i32
  tx_outbound_currency :: string
  tx_inbound_currency :: string
  tx_exchange_rate :: rat
  tx_tx_type :: string
  tx_fees :: rat

record SummaryTransaction =
  stx_txid :: string
  stx_fee_txid :: "string option"
  stx_outbound_txid :: "string option"
  stx_inbound_txid :: "string option"
  stx_created_at :: i64
  stx_outbound_amount :: rat
  stx_inbound_amount :: rat
  stx_outbound_account_id :: uuid
  stx_inbound_account_id :: uuid
  stx_outbound_uid :: i32
  stx_inbound_uid :: i32
  stx_outbound_currency :: string
  stx_inbound_currency :: string
  stx_exchange_rate :: rat
  stx_tx_type :: string
  stx_fees :: rat
  stx_reference :: "string option"
  stx_outbound_username :: "string option"
  stx_inbound_username :: "string option"

record DcaSetting =
  dca_id :: i32
  dca_uid :: i32
  dca_interval :: string
  dca_amount :: rat
  dca_from_currency :: string
  dca_to_currency :: string

record UserProfile =
  up_uid :: i32
  up_email :: "string option"
  up_nostr_notifications :: "bool option"
  up_email_notifications :: "bool option"
  up_img_url :: "string option"
  up_twitter_handle :: "string option"
  up_is_twitter_verified :: "bool option"
  up_is_email_verified :: "bool option"

record NostrPublicKey =
  npk_pubkey :: string
  npk_uid :: i32

record LnAddress =
  la_id :: i32
  la_username :: string
  la_domain :: string

text \<open>\<open>db_serial\<close> is the next value of the \<open>SERIAL\<close> sequences.\<close>

record Db =
  db_users :: "User list"
  db_accounts :: "AccountRow list"
  db_invoices :: "Invoice list"
  db_transactions :: "Transaction list"
  db_summaries :: "SummaryTransaction list"
  db_dca_settings :: "DcaSetting list"
  db_profiles :: "UserProfile list"
  db_nostr_keys :: "NostrPublicKey list"
  db_ln_addresses :: "LnAddress list"
  db_serial :: i32

definition has_user :: "Db \<Rightarrow> i32 \<Rightarrow> bool" where
  "has_user d u = list_ex (\<lambda>r. usr_uid r = u) (db_users d)"

section \<open>Users (\<open>models/src/users.rs\<close>)\<close>

definition user_get_by_id :: "i32 \<Rightarrow> Db \<Rightarrow> User option" where
  "user_get_by_id u d = List.find (\<lambda>r. usr_uid r = u) (db_users d)"

definition user_get_by_username :: "string \<Rightarrow> Db \<Rightarrow> User option" where
  "user_get_by_username name d = List.find (\<lambda>r. usr_username r = name) (db_users d)"

definition user_update_username :: "i32 \<Rightarrow> string \<Rightarrow> Db \<Rightarrow> (nat \<times> Db) option" where
  "user_update_username u name d =
     (if list_ex (\<lambda>r. usr_username r = name \<and> usr_uid r \<noteq> u) (db_users d) \<and> has_user d u then None
      else Some (length (filter (\<lambda>r. usr_uid r = u) (db_users d)),
        d\<lparr>db_users := map (\<lambda>r. if usr_uid r = u then r\<lparr>usr_username := name\<rparr> else r) (db_users d)\<rparr>))"

definition user_insert :: "string \<Rightarrow> string \<Rightarrow> bool \<Rightarrow> string option \<Rightarrow> Db \<Rightarrow> (i32 \<times> Db) option" where
  "user_insert name password internal origin d =
     (if list_ex (\<lambda>r. usr_username r = name) (db_users d) \<or> has_user d (db_serial d) then None
      else Some (db_serial d, d\<lparr>
        db_users := db_users d @ [\<lparr>usr_uid = db_serial d, usr_username = name,
          usr_password = password, usr_is_internal = internal, usr_origin = origin\<rparr>],
        db_serial := db_serial d + 1\<rparr>))"

section \<open>Accounts (\<open>models/src/accounts.rs\<close>)\<close>

definition account_get_by_account_id :: "uuid \<Rightarrow> Db \<Rightarrow> AccountRow option" where
  "account_get_by_account_id i d = List.find (\<lambda>r. ar_account_id r = i) (db_accounts d)"

definition account_get_all_not_in :: "uuid list \<Rightarrow> Db \<Rightarrow> AccountRow list" where
  "account_get_all_not_in ids d = filter (\<lambda>r. ar_account_id r \<notin> set ids) (db_accounts d)"

text \<open>The inner join on \<open>uid\<close> pairs every account with its users.\<close>

definition join_accounts :: "(User \<Rightarrow> AccountRow \<Rightarrow> bool) \<Rightarrow> Db \<Rightarrow> AccountRow list" where
  "join_accounts P d =
     concat (map (\<lambda>u. filter (\<lambda>a. ar_uid a = usr_uid u \<and> P u a) (db_accounts d)) (db_users d))"

definition account_get_non_internal_users_accounts :: "Db \<Rightarrow> AccountRow list" where
  "account_get_non_internal_users_accounts d = join_accounts (\<lambda>u a. \<not> usr_is_internal u) d"

definition account_get_accounts :: "i32 \<Rightarrow> string \<Rightarrow> string \<Rightarrow> string \<Rightarrow> Db \<Rightarrow> AccountRow list" where
  "account_get_accounts uid username account_type' account_class' d =
     join_accounts (\<lambda>u a. usr_uid u = uid \<and> usr_is_internal u \<and> usr_username u = username \<and>
       ar_account_type a = account_type' \<and> ar_account_class a = account_class') d"

definition account_get_dealer_btc_accounts :: "Db \<Rightarrow> AccountRow list" where
  "account_get_dealer_btc_accounts d = account_get_accounts 52172712 ''dealer'' ''Internal'' ''Cash'' d"

text \<open>The two selections may fail independently; a failed one counts as empty.\<close>

definition account_get_dealer_accounts :: "bool \<Rightarrow> bool \<Rightarrow> Db \<Rightarrow> AccountRow list" where
  "account_get_dealer_accounts ok1 ok2 d =
     (if ok1 then account_get_accounts 52172712 ''dealer'' ''Internal'' ''Cash'' d else []) @
     (if ok2 then account_get_accounts 52172712 ''dealer'' ''External'' ''Cash'' d else [])"

definition account_get_bank_liabilities :: "Db \<Rightarrow> AccountRow list" where
  "account_get_bank_liabilities d = account_get_accounts 23193913 ''bank'' ''External'' ''Cash'' d"

definition account_insert :: "AccountRow \<Rightarrow> Db \<Rightarrow> Db option" where
  "account_insert r d =
     (if list_ex (\<lambda>x. ar_account_id x = ar_account_id r) (db_accounts d) \<or> \<not> has_user d (ar_uid r) then None
      else Some (d\<lparr>db_accounts := db_accounts d @ [r]\<rparr>))"

text \<open>\<open>UpdateAccount\<close> as the bank builds it: only balance and currency are set.\<close>

definition account_update :: "uuid \<Rightarrow> rat \<Rightarrow> string \<Rightarrow> Db \<Rightarrow> nat \<times> Db" where
  "account_update i bal cur d =
     (length (filter (\<lambda>r. ar_account_id r = i) (db_accounts d)),
      d\<lparr>db_accounts := map (\<lambda>r. if ar_account_id r = i
         then r\<lparr>ar_balance := bal, ar_currency := cur\<rparr> else r) (db_accounts d)\<rparr>)"

section \<open>Invoices (\<open>models/src/invoices.rs\<close>)\<close>

text \<open>
  A payment request encodes its payment hash, the primary key of the table, so that at most one row has
  it; the other columns by which a single row is looked up are keys of their tables.
\<close>

definition invoice_get_by_payment_request :: "string \<Rightarrow> Db \<Rightarrow> Invoice option" where
  "invoice_get_by_payment_request pr d = List.find (\<lambda>r. inv_payment_request r = pr) (db_invoices d)"

definition invoice_get_by_payment_hash :: "string \<Rightarrow> Db \<Rightarrow> Invoice option" where
  "invoice_get_by_payment_hash h d = List.find (\<lambda>r. inv_payment_hash r = h) (db_invoices d)"

definition invoice_get_invoices_by_uid :: "i32 \<Rightarrow> Db \<Rightarrow> Invoice list" where
  "invoice_get_invoices_by_uid u d = filter (\<lambda>r. inv_uid r = u) (db_invoices d)"

definition invoice_insert :: "Invoice \<Rightarrow> Db \<Rightarrow> Db option" where
  "invoice_insert r d =
     (if list_ex (\<lambda>x. inv_payment_hash x = inv_payment_hash r) (db_invoices d)
         \<or> \<not> has_user d (inv_uid r)
         \<or> (case inv_owner r of None \<Rightarrow> False | Some u \<Rightarrow> \<not> has_user d u)
      then None
      else Some (d\<lparr>db_invoices := db_invoices d @ [r]\<rparr>))"

definition keep_none :: "'a option \<Rightarrow> 'a option \<Rightarrow> 'a option" where
  "keep_none new old = (case new of None \<Rightarrow> old | Some x \<Rightarrow> Some x)"

definition invoice_changeset :: "Invoice \<Rightarrow> Invoice \<Rightarrow> Invoice" where
  "invoice_changeset n old = n\<lparr>
     inv_payment_hash := inv_payment_hash old,
     inv_owner := keep_none (inv_owner n) (inv_owner old),
     inv_fees := keep_none (inv_fees n) (inv_fees old),
     inv_currency := keep_none (inv_currency n) (inv_currency old),
     inv_target_account_currency := keep_none (inv_target_account_currency n) (inv_target_account_currency old),
     inv_reference := keep_none (inv_reference n) (inv_reference old),
     inv_description := keep_none (inv_description n) (inv_description old)\<rparr>"

definition invoice_update :: "Invoice \<Rightarrow> Db \<Rightarrow> Db option" where
  "invoice_update n d =
     Some (d\<lparr>db_invoices := map (\<lambda>r. if inv_payment_hash r = inv_payment_hash n
        then invoice_changeset n r else r) (db_invoices d)\<rparr>)"

section \<open>Transactions (\<open>models/src/transactions.rs\<close>, \<open>models/src/summary_transactions.rs\<close>)\<close>

definition transaction_get_by_txid :: "string \<Rightarrow> Db \<Rightarrow> Transaction option" where
  "transaction_get_by_txid t d = List.find (\<lambda>r. tx_txid r = t) (db_transactions d)"

definition in_period :: "i64 option \<Rightarrow> i64 option \<Rightarrow> i64 \<Rightarrow> i64 \<Rightarrow> bool" where
  "in_period frm to' now t =
     (sint (case frm of None \<Rightarrow> 0 | Some x \<Rightarrow> x) \<le> sint t \<and>
      sint t \<le> sint (case to' of None \<Rightarrow> now | Some x \<Rightarrow> x))"

definition transaction_get_historical_by_uid ::
  "i32 \<Rightarrow> i64 option \<Rightarrow> i64 option \<Rightarrow> i64 \<Rightarrow> Db \<Rightarrow> Transaction list" where
  "transaction_get_historical_by_uid u frm to' now d =
     filter (\<lambda>r. (tx_outbound_uid r = u \<or> tx_inbound_uid r = u) \<and> in_period frm to' now (tx_created_at r))
       (db_transactions d)"

definition transaction_insert :: "Transaction \<Rightarrow> Db \<Rightarrow> Db option" where
  "transaction_insert r d =
     (if list_ex (\<lambda>x. tx_txid x = tx_txid r) (db_transactions d) then None
      else Some (d\<lparr>db_transactions := db_transactions d @ [r]\<rparr>))"

definition summary_get_by_txid :: "string \<Rightarrow> Db \<Rightarrow> SummaryTransaction option" where
  "summary_get_by_txid t d = List.find (\<lambda>r. stx_txid r = t) (db_summaries d)"

definition summary_get_historical_by_uid ::
  "i32 \<Rightarrow> i64 option \<Rightarrow> i64 option \<Rightarrow> i64 \<Rightarrow> Db \<Rightarrow> SummaryTransaction list" where
  "summary_get_historical_by_uid u frm to' now d =
     filter (\<lambda>r. (stx_outbound_uid r = u \<or> stx_inbound_uid r = u) \<and> in_period frm to' now (stx_created_at r))
       (db_summaries d)"

definition summary_get_swaps :: "Db \<Rightarrow> SummaryTransaction list" where
  "summary_get_swaps d =
     filter (\<lambda>r. stx_inbound_currency r \<noteq> stx_outbound_currency r)
       (filter (\<lambda>r. stx_inbound_currency r \<noteq> ''BTC'' \<or> stx_outbound_currency r \<noteq> ''BTC'') (db_summaries d))"

definition summary_insert :: "SummaryTransaction \<Rightarrow> Db \<Rightarrow> Db option" where
  "summary_insert r d =
     (if list_ex (\<lambda>x. stx_txid x = stx_txid r) (db_summaries d) then None
      else Some (d\<lparr>db_summaries := db_summaries d @ [r]\<rparr>))"

section \<open>Savings plans, profiles, keys, addresses\<close>

definition dca_get_by_uid :: "i32 \<Rightarrow> Db \<Rightarrow> DcaSetting option" where
  "dca_get_by_uid u d = List.find (\<lambda>r. dca_uid r = u) (db_dca_settings d)"

definition dca_get_by_interval :: "string \<Rightarrow> Db \<Rightarrow> DcaSetting list" where
  "dca_get_by_interval i d = filter (\<lambda>r. dca_interval r = i) (db_dca_settings d)"

definition dca_delete :: "i32 \<Rightarrow> Db \<Rightarrow> nat \<times> Db" where
  "dca_delete u d =
     (length (filter (\<lambda>r. dca_uid r = u) (db_dca_settings d)),
      d\<lparr>db_dca_settings := filter (\<lambda>r. dca_uid r \<noteq> u) (db_dca_settings d)\<rparr>)"

definition profile_get_by_uid :: "i32 \<Rightarrow> Db \<Rightarrow> UserProfile option" where
  "profile_get_by_uid u d = List.find (\<lambda>r. up_uid r = u) (db_profiles d)"

definition nostr_key_get_by_uid :: "i32 \<Rightarrow> Db \<Rightarrow> NostrPublicKey option" where
  "nostr_key_get_by_uid u d = List.find (\<lambda>r. npk_uid r = u) (db_nostr_keys d)"

definition nostr_key_get_by_pubkey :: "string \<Rightarrow> Db \<Rightarrow> NostrPublicKey option" where
  "nostr_key_get_by_pubkey k d = List.find (\<lambda>r. npk_pubkey r = k) (db_nostr_keys d)"

definition ln_address_get_by_username :: "string \<Rightarrow> Db \<Rightarrow> LnAddress option" where
  "ln_address_get_by_username name d = List.find (\<lambda>r. la_username r = name) (db_ln_addresses d)"

definition ln_address_insert :: "string \<Rightarrow> string \<Rightarrow> Db \<Rightarrow> Db option" where
  "ln_address_insert name domain' d =
     (if list_ex (\<lambda>r. la_username r = name) (db_ln_addresses d)
         \<or> list_ex (\<lambda>r. la_id r = db_serial d) (db_ln_addresses d) then None
      else Some (d\<lparr>db_ln_addresses := db_ln_addresses d @
          [\<lparr>la_id = db_serial d, la_username = name, la_domain = domain'\<rparr>],
        db_serial := db_serial d + 1\<rparr>))"

section \<open>Insert and lookup\<close>

text \<open>
  What the clients of a table rely on: a row that was inserted is found under its key, other rows
  are not affected, and a second row under a key is refused.
\<close>

locale keyed_table =
  fixes key :: "'r \<Rightarrow> 'k" and get :: "'k \<Rightarrow> 'd \<Rightarrow> 'r option" and ins :: "'r \<Rightarrow> 'd \<Rightarrow> 'd option"
  assumes get_ins: "ins r d = Some d' \<Longrightarrow> get k d' = (if k = key r then Some r else get k d)"
    and ins_present: "get (key r) d \<noteq> None \<Longrightarrow> ins r d = None"
begin

lemma ins_found: "ins r d = Some d' \<Longrightarrow> get (key r) d' = Some r"
  by (simp add: get_ins)

lemma ins_keeps: "ins r d = Some d' \<Longrightarrow> get k d = Some x \<Longrightarrow> get k d' = Some x"
  using ins_present by (fastforce simp: get_ins)

lemma ins_twice: "ins r d = Some d' \<Longrightarrow> key r' = key r \<Longrightarrow> ins r' d' = None"
  by (rule ins_present) (simp add: ins_found)

end

lemma find_key_snoc:
  "\<not> list_ex (\<lambda>r. f r = f x) xs \<Longrightarrow>
     List.find (\<lambda>r. f r = k) (xs @ [x]) = (if k = f x then Some x else List.find (\<lambda>r. f r = k) xs)"
  by (induction xs) auto

lemma find_present: "List.find P xs \<noteq> None \<longleftrightarrow> list_ex P xs"
  by (auto simp: find_None_iff list_ex_iff)

lemmas table_facts = find_key_snoc find_present

interpretation transactions: keyed_table tx_txid transaction_get_by_txid transaction_insert
  by unfold_locales
    (auto simp: transaction_insert_def transaction_get_by_txid_def table_facts simp del: not_None_eq split: if_splits)

interpretation summaries: keyed_table stx_txid summary_get_by_txid summary_insert
  by unfold_locales
    (auto simp: summary_insert_def summary_get_by_txid_def table_facts simp del: not_None_eq split: if_splits)

interpretation invoices: keyed_table inv_payment_hash invoice_get_by_payment_hash invoice_insert
  by unfold_locales
    (auto simp: invoice_insert_def invoice_get_by_payment_hash_def table_facts simp del: not_None_eq split: if_splits)

interpretation account_rows: keyed_table ar_account_id account_get_by_account_id account_insert
  by unfold_locales
    (auto simp: account_insert_def account_get_by_account_id_def table_facts simp del: not_None_eq split: if_splits)

lemma account_update_lookup:
  "account_get_by_account_id i d = Some r \<Longrightarrow>
     account_get_by_account_id i (snd (account_update i bal cur d)) =
       Some (r\<lparr>ar_balance := bal, ar_currency := cur\<rparr>)"
proof -
  have "List.find (\<lambda>r. ar_account_id r = i) xs = Some r \<Longrightarrow>
    List.find (\<lambda>r. ar_account_id r = i)
      (map (\<lambda>r. if ar_account_id r = i then r\<lparr>ar_balance := bal, ar_currency := cur\<rparr> else r) xs) =
    Some (r\<lparr>ar_balance := bal, ar_currency := cur\<rparr>)" for xs
    by (induction xs) (auto split: if_splits)
  then show "account_get_by_account_id i d = Some r \<Longrightarrow> ?thesis"
    by (simp add: account_get_by_account_id_def account_update_def)
qed

text \<open>An update that touches no row means that the account is not in the table.\<close>

lemma account_update_count_0:
  "(fst (account_update i bal cur d) = 0) = (account_get_by_account_id i d = None)"
  by (auto simp: account_update_def account_get_by_account_id_def find_None_iff filter_empty_conv)

end
