(* ===== verification/Env.thy ===== *)
theory Env
  imports Models
begin

text \<open>
  Everything the services take from outside the repository, as one record that the definitions
  are given: decimal arithmetic, random identifiers, clocks, the answers of the database server
  and of the Lightning node, the parsers and encoders of third-party crates, and the iteration
  order of hash maps. What varies from call to call is indexed by a natural number, the number
  of external interactions so far (the \<open>tick\<close> of a state), so two calls may answer
  differently. Nothing is assumed of these functions here; the locale \<open>env_ok\<close> states
  the documented behaviour that the theorems use.
\<close>

text \<open>What \<open>lightning_invoice::Invoice\<close> tells of a payment request.\<close>

record DecodedInvoice =
  di_amount_milli_satoshis :: "u64 option"
  di_payment_hash :: string
  di_expiry_secs :: u64

text \<open>The answers of the Lightning node (\<open>lnrpc\<close>); byte strings are in hexadecimal.\<close>

record AddInvoiceResponse =
  air_payment_request :: string
  air_r_hash :: string
  air_add_index :: u64

record SendResponse =
  sr_payment_error :: string
  sr_route_total_fees :: "i64 option"
  sr_payment_hash :: string
  sr_payment_preimage :: string

record PayReq =
  pq_num_satoshis :: i64
  pq_destination :: string

record LnrpcInvoice =
  li_payment_request :: string
  li_r_hash :: string
  li_description_hash :: string
  li_r_preimage :: string
  li_value :: i64
  li_value_msat :: i64
  li_creation_date :: i64
  li_settle_date :: i64
  li_is_settled :: bool

record env =
  dec :: dec_ops
  new_v4 :: "nat \<Rightarrow> uuid"
  uuid_show :: "uuid \<Rightarrow> string"
  clock :: "nat \<Rightarrow> u64"
  instant :: "nat \<Rightarrow> nat"
  pool_get :: "nat \<Rightarrow> bool"
  pg_ok :: "nat \<Rightarrow> bool"
  hash_pick :: "(uuid \<times> Account) list \<Rightarrow> (uuid \<times> Account) list \<Rightarrow> nat"
  parse_invoice :: "string \<Rightarrow> DecodedInvoice option"
  sha256_digest :: "string \<Rightarrow> string"
  unescape :: "string \<Rightarrow> string option"
  hex_decode :: "string \<Rightarrow> string option"
  url_parse :: "string \<Rightarrow> string option"
  bech32_encode :: "string \<Rightarrow> string \<Rightarrow> string option"
  lnd_add_invoice :: "nat \<Rightarrow> i64 \<Rightarrow> string \<Rightarrow> i64 \<Rightarrow> string \<Rightarrow> AddInvoiceResponse option"
  lnd_send_payment_sync :: "nat \<Rightarrow> string \<Rightarrow> i64 \<Rightarrow> SendResponse option"
  lnd_get_info :: "nat \<Rightarrow> LndNodeInfo option"
  lnd_decode_pay_req :: "nat \<Rightarrow> string \<Rightarrow> PayReq option"
  lnd_query_routes :: "nat \<Rightarrow> string \<Rightarrow> i64 \<Rightarrow> i64 \<Rightarrow> i64 list option"

text \<open>\<open>Uuid::new_v4\<close> never returns the same identifier twice.\<close>

locale env_ok =
  fixes E :: env
  assumes dec_ok: "decimal (dec E)"
    and uuid_fresh: "new_v4 E m = new_v4 E n \<Longrightarrow> m = n"

sublocale env_ok \<subseteq> decimal "dec E"
  by (rule dec_ok)

section \<open>Links (\<open>utils/src/lnurl.rs\<close>)\<close>

definition lnurl_encode :: "env \<Rightarrow> string \<Rightarrow> string option \<Rightarrow> string option" where
  "lnurl_encode E base_url q = do {
     let url = (case q of Some i \<Rightarrow> base_url @ ''?q='' @ i | None \<Rightarrow> base_url);
     validated_url \<leftarrow> url_parse E url;
     bech32_encode E ''lnurl'' validated_url }"

section \<open>The Lightning connector (\<open>lnd_connector/src/connector.rs\<close>)\<close>

record PayResponse =
  payr_payment_hash :: string
  payr_fee :: u64
  payr_preimage :: "string option"

datatype LndConnectorError =
    FailedToCreateInvoice | FailedToSendPayment | FailedToGetNodeInfo
  | FailedToDecodePaymentRequest | FailedToQueryRoutes

text \<open>
  \<open>create_invoice\<close>, at tick \<open>n\<close> (the creation date is read at the tick after). The
  outer \<open>option\<close> is the panic of \<open>hex::decode\<close>; \<open>i64\<close> arithmetic wraps.
\<close>

definition create_invoice ::
  "env \<Rightarrow> nat \<Rightarrow> u64 \<Rightarrow> string \<Rightarrow> user_id \<Rightarrow> uuid \<Rightarrow> string option \<Rightarrow> (LndConnectorError + Invoice) option" where
  "create_invoice E n amount memo uid account_id' metadata =
     (case (case metadata of
              Some m \<Rightarrow> (case unescape E m of Some une \<Rightarrow> Some (sha256_digest E une) | None \<Rightarrow> None)
            | None \<Rightarrow> Some [])
      of None \<Rightarrow> Some (Inl FailedToCreateInvoice)
      | Some hash \<Rightarrow> do {
          description_hash \<leftarrow> hex_decode E hash;
          Some (case lnd_add_invoice E n amount memo 86400 description_hash of
              None \<Rightarrow> Inl FailedToCreateInvoice
            | Some r \<Rightarrow> Inr \<lparr>
                inv_payment_hash = air_r_hash r,
                inv_payment_request = air_payment_request r,
                inv_created_at = clock E (Suc n),
                inv_value = amount,
                inv_value_msat = amount * 1000,
                inv_expiry = 86400,
                inv_settled = False,
                inv_add_index = air_add_index r,
                inv_settled_date = 0,
                inv_account_id = uuid_show E account_id',
                inv_uid = as_i32 uid,
                inv_incoming = True,
                inv_owner = Some (as_i32 uid),
                inv_fees = None,
                inv_currency = None,
                inv_target_account_currency = None,
                inv_reference = Some memo,
                inv_description = metadata \<rparr>) })"

definition fee_in_sats :: "env \<Rightarrow> rat \<Rightarrow> i64 \<Rightarrow> i64" where
  "fee_in_sats E x dflt = (case dec_to_i64 (dec E) (dec_half_even (dec E) x) of Some v \<Rightarrow> v | None \<Rightarrow> dflt)"

text \<open>\<open>pay_invoice\<close> (the key-send argument is ignored by the code); \<open>None\<close> is a panic.\<close>

definition pay_invoice ::
  "env \<Rightarrow> nat \<Rightarrow> string option \<Rightarrow> rat \<Rightarrow> rat option \<Rightarrow> rat option \<Rightarrow> (LndConnectorError + PayResponse) option" where
  "pay_invoice E n payment_request amount_in_sats max_fee_as_pp max_fee_in_sats =
     (if max_fee_as_pp = None \<and> max_fee_in_sats = None then Some (Inl FailedToSendPayment)
      else do {
        pp_fee \<leftarrow> (case max_fee_as_pp of
                     Some m \<Rightarrow> do { x \<leftarrow> dec_mul (dec E) amount_in_sats m; Some (fee_in_sats E x 0) }
                   | None \<Rightarrow> Some 0);
        let max_fee = (case max_fee_in_sats of Some m \<Rightarrow> fee_in_sats E m pp_fee | None \<Rightarrow> pp_fee);
        Some (case payment_request of
            None \<Rightarrow> Inl FailedToSendPayment
          | Some pr \<Rightarrow>
              (case lnd_send_payment_sync E n pr max_fee of
                 None \<Rightarrow> Inl FailedToSendPayment
               | Some r \<Rightarrow>
                   if sr_payment_error r \<noteq> [] then Inl FailedToSendPayment
                   else Inr \<lparr>
                     payr_payment_hash = sr_payment_hash r,
                     payr_fee = (case sr_route_total_fees r of
                        Some f \<Rightarrow> if sint f < 0 then 0 else f | None \<Rightarrow> 0),
                     payr_preimage = Some (sr_payment_preimage r) \<rparr>)) })"

definition get_node_info :: "env \<Rightarrow> nat \<Rightarrow> LndConnectorError + LndNodeInfo" where
  "get_node_info E n = (case lnd_get_info E n of Some i \<Rightarrow> Inr i | None \<Rightarrow> Inl FailedToGetNodeInfo)"

definition MINIMUM_FEE :: i64 where
  "MINIMUM_FEE = 10"

text \<open>\<open>probe\<close> returns the routes; the bank reads only their \<open>total_fees\<close>.\<close>

definition probe :: "env \<Rightarrow> nat \<Rightarrow> string \<Rightarrow> rat \<Rightarrow> (LndConnectorError + i64 list) option" where
  "probe E n payment_request max_fee =
     (case lnd_decode_pay_req E n payment_request of
        None \<Rightarrow> Some (Inl FailedToQueryRoutes)
      | Some r \<Rightarrow> do {
          x \<leftarrow> dec_mul (dec E) (of_int (sint (pq_num_satoshis r))) max_fee;
          let fee = fee_in_sats E x MINIMUM_FEE;
          let limit = (if sint MINIMUM_FEE < sint fee then fee else MINIMUM_FEE);
          Some (case lnd_query_routes E (Suc n) (pq_destination r) (pq_num_satoshis r) limit of
              Some routes \<Rightarrow> Inr routes
            | None \<Rightarrow> Inl FailedToQueryRoutes) })"

text \<open>The message \<open>sub_invoices\<close> sends for an invoice update, if any.\<close>

definition sub_invoices_msg :: "LnrpcInvoice \<Rightarrow> Message option" where
  "sub_invoices_msg i =
     (if li_is_settled i
      then Some (MsgDeposit \<lparr>
        dep_payment_request = li_payment_request i,
        dep_payment_hash = li_r_hash i,
        dep_description_hash = li_description_hash i,
        dep_preimage = li_r_preimage i,
        dep_value = li_value i,
        dep_value_msat = li_value_msat i,
        dep_settled = True,
        dep_creation_date = li_creation_date i,
        dep_settle_date = li_settle_date i \<rparr>)
      else None)"

end
