(* ===== verification/Ledger.thy ===== *)
theory Ledger
  imports Env
begin

text \<open>
  The in-memory ledger (\<open>bank/src/ledger.rs\<close>): the accounts of the users, the bank's
  liabilities, the dealer's accounts and the insurance fund.

  A \<open>place\<close> names one \<open>UserAccount\<close> inside the ledger (a field or a map entry of the
  Rust struct), so that reading and replacing it is one operation. The invariant
  \<open>ledger_ok\<close> says that the maps are keyed by the accounts' own identifiers, that no key is
  an identifier still to be drawn, and that every balance is a multiple of \<open>10\<^sup>-\<^sup>1\<^sup>2\<close>.
  \<open>net c L\<close> is the sum of all balances in currency \<open>c\<close>: the double entry book-keeping
  keeps it constant.
\<close>

section \<open>Data and operations\<close>

type_synonym accounts = "(uuid \<times> Account) list"

record UserAccount =
  owner :: user_id
  accounts :: accounts
  invoices :: "string list"
  last_withdrawal_request :: nat
  last_deposit_request :: nat

definition user_account_new :: "user_id \<Rightarrow> UserAccount" where
  "user_account_new u = \<lparr>owner = u, accounts = [], invoices = [],
     last_withdrawal_request = 0, last_deposit_request = 0\<rparr>"

definition account_matches :: "Currency \<Rightarrow> AccountType option \<Rightarrow> Account \<Rightarrow> bool" where
  "account_matches cur aty a =
     (case aty of Some t \<Rightarrow> acc_currency a = cur \<and> account_type a = t | None \<Rightarrow> acc_currency a = cur)"

text \<open>
  \<open>get_default_account\<close>, at tick \<open>n\<close>: the first matching account in the map's iteration
  order, which \<open>hash_pick\<close> leaves open, or a new empty account under a fresh identifier.
\<close>

definition get_default_account ::
  "env \<Rightarrow> nat \<Rightarrow> UserAccount \<Rightarrow> Currency \<Rightarrow> AccountType option \<Rightarrow> Account \<times> UserAccount \<times> nat" where
  "get_default_account E n ua cur aty =
     (let found = filter (\<lambda>p. account_matches cur aty (snd p)) (accounts ua) in
      if found \<noteq> []
      then (snd (found ! (hash_pick E (accounts ua) found mod length found)), ua, n)
      else let a = account_new (new_v4 E n) cur (case aty of Some t \<Rightarrow> t | None \<Rightarrow> Internal) Cash
           in (a, ua\<lparr>accounts := AList.update (account_id a) a (accounts ua)\<rparr>, Suc n))"

record Ledger =
  user_accounts :: "(user_id \<times> UserAccount) list"
  insurance_fund_account :: Account
  fee_account :: UserAccount
  bank_liabilities :: UserAccount
  dealer_accounts :: UserAccount
  external_fee_account :: Account

definition ledger_new :: "env \<Rightarrow> nat \<Rightarrow> user_id \<Rightarrow> user_id \<Rightarrow> Ledger \<times> nat" where
  "ledger_new E n own dealer = (\<lparr>
     user_accounts = [],
     insurance_fund_account = account_new (new_v4 E n) BTC Internal Cash,
     fee_account = user_account_new own,
     bank_liabilities = user_account_new own,
     dealer_accounts = user_account_new dealer,
     external_fee_account = account_new (new_v4 E (Suc n)) BTC External Cash \<rparr>, Suc (Suc n))"

datatype place = PUser user_id | PLiab | PDealer

fun ledger_ua :: "place \<Rightarrow> Ledger \<Rightarrow> UserAccount option" where
  "ledger_ua (PUser u) L = map_of (user_accounts L) u"
| "ledger_ua PLiab L = Some (bank_liabilities L)"
| "ledger_ua PDealer L = Some (dealer_accounts L)"

fun ledger_set_ua :: "place \<Rightarrow> UserAccount \<Rightarrow> Ledger \<Rightarrow> Ledger" where
  "ledger_set_ua (PUser u) ua L = L\<lparr>user_accounts := AList.update u ua (user_accounts L)\<rparr>"
| "ledger_set_ua PLiab ua L = L\<lparr>bank_liabilities := ua\<rparr>"
| "ledger_set_ua PDealer ua L = L\<lparr>dealer_accounts := ua\<rparr>"

text \<open>The account stored under an identifier at a place.\<close>

definition ledger_get :: "place \<Rightarrow> uuid \<Rightarrow> Ledger \<Rightarrow> Account option" where
  "ledger_get p i L = Option.bind (ledger_ua p L) (\<lambda>ua. map_of (accounts ua) i)"

text \<open>\<open>entry(uid).or_insert_with(|| UserAccount::new(uid))\<close>\<close>

definition ledger_ensure_user :: "user_id \<Rightarrow> Ledger \<Rightarrow> Ledger" where
  "ledger_ensure_user u L =
     (case map_of (user_accounts L) u of
        Some _ \<Rightarrow> L
      | None \<Rightarrow> L\<lparr>user_accounts := AList.update u (user_account_new u) (user_accounts L)\<rparr>)"

text \<open>\<open>get_default_account\<close> on the \<open>UserAccount\<close> at a place, if there is one.\<close>

definition ledger_default ::
  "env \<Rightarrow> nat \<Rightarrow> place \<Rightarrow> Currency \<Rightarrow> AccountType option \<Rightarrow> Ledger \<Rightarrow> (Account \<times> Ledger \<times> nat) option" where
  "ledger_default E n p cur aty L =
     (case ledger_ua p L of
        None \<Rightarrow> None
      | Some ua \<Rightarrow> let (a, ua', n') = get_default_account E n ua cur aty
                   in Some (a, ledger_set_ua p ua' L, n'))"

text \<open>\<open>accounts.insert(account.account_id, account)\<close> at a place, if there is one.\<close>

definition ledger_put :: "place \<Rightarrow> Account \<Rightarrow> Ledger \<Rightarrow> Ledger option" where
  "ledger_put p a L =
     (case ledger_ua p L of
        None \<Rightarrow> None
      | Some ua \<Rightarrow> Some (ledger_set_ua p (ua\<lparr>accounts := AList.update (account_id a) a (accounts ua)\<rparr>) L))"

section \<open>The invariant and the net position\<close>

definition acct_total :: "Currency \<Rightarrow> accounts \<Rightarrow> rat" where
  "acct_total c = alist_sum (\<lambda>a. if acc_currency a = c then balance a else 0)"

definition net :: "Currency \<Rightarrow> Ledger \<Rightarrow> rat" where
  "net c L = alist_sum (\<lambda>ua. acct_total c (accounts ua)) (user_accounts L)
     + acct_total c (accounts (bank_liabilities L))
     + acct_total c (accounts (dealer_accounts L))
     + (if acc_currency (insurance_fund_account L) = c then balance (insurance_fund_account L) else 0)"

definition accs_ok :: "env \<Rightarrow> nat \<Rightarrow> accounts \<Rightarrow> bool" where
  "accs_ok E n xs \<longleftrightarrow> distinct_keys xs \<and>
     (\<forall>(k, a) \<in> set xs. account_id a = k \<and> grid 12 (balance a) \<and> (\<forall>m \<ge> n. new_v4 E m \<noteq> k))"

definition accs_small :: "accounts \<Rightarrow> bool" where
  "accs_small xs = list_all (\<lambda>p. small (balance (snd p))) xs"

definition places :: "Ledger \<Rightarrow> place set" where
  "places L = {p. ledger_ua p L \<noteq> None}"

definition ledger_ok :: "env \<Rightarrow> nat \<Rightarrow> Ledger \<Rightarrow> bool" where
  "ledger_ok E n L \<longleftrightarrow> distinct_keys (user_accounts L) \<and>
     (\<forall>p ua. ledger_ua p L = Some ua \<longrightarrow> accs_ok E n (accounts ua)) \<and>
     (\<forall>u ua. ledger_ua (PUser u) L = Some ua \<longrightarrow> owner ua = u) \<and>
     grid 12 (balance (insurance_fund_account L))"

definition ledger_small :: "Ledger \<Rightarrow> bool" where
  "ledger_small L \<longleftrightarrow>
     list_all (\<lambda>p. accs_small (accounts (snd p))) (user_accounts L) \<and>
     accs_small (accounts (bank_liabilities L)) \<and> accs_small (accounts (dealer_accounts L)) \<and>
     small (balance (insurance_fund_account L))"

section \<open>Places\<close>

lemma ledger_ua_set [simp]:
  "ledger_ua q (ledger_set_ua p ua L) = (if p = q then Some ua else ledger_ua q L)"
  by (cases p; cases q) auto

lemma ledger_set_ua_insurance [simp]:
  "insurance_fund_account (ledger_set_ua p ua L) = insurance_fund_account L"
  by (cases p) auto

lemma distinct_users_set [simp]:
  "distinct_keys (user_accounts L) \<Longrightarrow> distinct_keys (user_accounts (ledger_set_ua p ua L))"
  by (cases p) auto

lemma net_set_ua:
  assumes "distinct_keys (user_accounts L)" and "ledger_ua p L = Some old"
  shows "net c (ledger_set_ua p ua L) = net c L + acct_total c (accounts ua) - acct_total c (accounts old)"
  using assms by (cases p) (auto simp: net_def alist_sum_update_old)

lemma ledger_small_get:
  "ledger_small L \<Longrightarrow> ledger_get p i L = Some a \<Longrightarrow> small (balance a)"
  by (cases p)
    (force simp: ledger_small_def ledger_get_def accs_small_def list_all_iff bind_Some_conv dest!: map_of_SomeD)+

lemma ledger_ok_get:
  assumes "ledger_ok E n L" and "ledger_get p i L = Some a"
  shows "account_id a = i" "grid 12 (balance a)"
proof -
  obtain ua where "ledger_ua p L = Some ua" and "(i, a) \<in> set (accounts ua)"
    using assms(2) by (auto simp: ledger_get_def bind_Some_conv dest: map_of_SomeD)
  moreover from this have "accs_ok E n (accounts ua)"
    using assms(1) by (auto simp: ledger_ok_def)
  ultimately show "account_id a = i" "grid 12 (balance a)"
    by (auto simp: accs_ok_def)
qed

lemma accs_ok_mono: "accs_ok E n xs \<Longrightarrow> n \<le> m \<Longrightarrow> accs_ok E m xs"
  unfolding accs_ok_def by (auto split: prod.splits)

lemma ledger_ok_mono: "ledger_ok E n L \<Longrightarrow> n \<le> m \<Longrightarrow> ledger_ok E m L"
  unfolding ledger_ok_def using accs_ok_mono by blast

section \<open>Creating users and default accounts\<close>

lemma ledger_ensure_user_ua [simp]:
  "ledger_ua p (ledger_ensure_user u L) =
     (if p = PUser u \<and> ledger_ua p L = None then Some (user_account_new u) else ledger_ua p L)"
  by (cases p) (auto simp: ledger_ensure_user_def split: option.split)

lemma ledger_ensure_user_net [simp]: "net c (ledger_ensure_user u L) = net c L"
  by (auto simp: ledger_ensure_user_def net_def alist_sum_update_new user_account_new_def acct_total_def
      split: option.split)

lemma ledger_ensure_user_insurance [simp]:
  "insurance_fund_account (ledger_ensure_user u L) = insurance_fund_account L"
  by (auto simp: ledger_ensure_user_def split: option.split)

lemma ledger_ensure_user_get [simp]: "ledger_get p i (ledger_ensure_user u L) = ledger_get p i L"
  by (auto simp: ledger_get_def user_account_new_def)

lemma ledger_ensure_user_ok: "ledger_ok E n L \<Longrightarrow> ledger_ok E n (ledger_ensure_user u L)"
proof -
  assume ok: "ledger_ok E n L"
  have "distinct_keys (user_accounts (ledger_ensure_user u L))"
    using ok by (auto simp: ledger_ok_def ledger_ensure_user_def split: option.split)
  then show ?thesis
    using ok unfolding ledger_ok_def
    by (auto simp: user_account_new_def accs_ok_def split: if_splits)
qed

lemma default_found_mem:
  assumes "filter P xs \<noteq> []"
  shows "filter P xs ! (k mod length (filter P xs)) \<in> set xs"
    "P (filter P xs ! (k mod length (filter P xs)))"
proof -
  have "k mod length (filter P xs) < length (filter P xs)"
    using assms by simp
  then have "filter P xs ! (k mod length (filter P xs)) \<in> set (filter P xs)"
    by (rule nth_mem)
  then show "filter P xs ! (k mod length (filter P xs)) \<in> set xs"
    "P (filter P xs ! (k mod length (filter P xs)))" by auto
qed

context env_ok
begin

lemma get_default_account_cases:
  assumes ok: "accs_ok E n (accounts ua)"
    and eq: "get_default_account E n ua cur aty = (a, ua', n')"
  obtains (found) "map_of (accounts ua) (account_id a) = Some a" "ua' = ua" "n' = n"
      "account_matches cur aty a"
  | (created) "a = account_new (new_v4 E n) cur (case aty of Some t \<Rightarrow> t | None \<Rightarrow> Internal) Cash"
      "map_of (accounts ua) (account_id a) = None"
      "ua' = ua\<lparr>accounts := AList.update (account_id a) a (accounts ua)\<rparr>" "n' = Suc n"
      "list_all (\<lambda>p. \<not> account_matches cur aty (snd p)) (accounts ua)"
proof (cases "filter (\<lambda>p. account_matches cur aty (snd p)) (accounts ua) = []")
  case True
  have "map_of (accounts ua) (new_v4 E n) = None"
    using ok by (auto simp: accs_ok_def map_of_eq_None_iff)
  moreover have "list_all (\<lambda>p. \<not> account_matches cur aty (snd p)) (accounts ua)"
    using True by (simp add: filter_empty_conv list_all_iff)
  ultimately show ?thesis
    using True eq that(2) by (auto simp: get_default_account_def Let_def account_new_def)
next
  case False
  define x where "x = filter (\<lambda>p. account_matches cur aty (snd p)) (accounts ua) !
    (hash_pick E (accounts ua) (filter (\<lambda>p. account_matches cur aty (snd p)) (accounts ua))
      mod length (filter (\<lambda>p. account_matches cur aty (snd p)) (accounts ua)))"
  have x: "x \<in> set (accounts ua)" "account_matches cur aty (snd x)"
    unfolding x_def using default_found_mem [OF False] by simp_all
  moreover have "a = snd x" "ua' = ua" "n' = n"
    using False eq by (auto simp: get_default_account_def Let_def x_def)
  moreover have "map_of (accounts ua) (account_id (snd x)) = Some (snd x)"
    using ok x(1) by (cases x) (auto simp: accs_ok_def distinct_keys_def)
  ultimately show ?thesis using that(1) by simp
qed

lemma accs_ok_put:
  assumes "accs_ok E n xs" "grid 12 (balance a)" "\<forall>m \<ge> n. new_v4 E m \<noteq> account_id a"
  shows "accs_ok E n (AList.update (account_id a) a xs)"
  using assms by (auto simp: accs_ok_def set_update_distinct)

lemma get_default_account_spec:
  assumes ok: "accs_ok E n (accounts ua)"
    and eq: "get_default_account E n ua cur aty = (a, ua', n')"
  shows "accs_ok E n' (accounts ua')" "n \<le> n'" "owner ua' = owner ua"
    "map_of (accounts ua') (account_id a) = Some a" "account_matches cur aty a"
    "acct_total c (accounts ua') = acct_total c (accounts ua)"
    "\<And>i x. map_of (accounts ua) i = Some x \<Longrightarrow> map_of (accounts ua') i = Some x"
    "\<And>i x. map_of (accounts ua') i = Some x \<Longrightarrow> map_of (accounts ua) i = Some x \<or> balance x = 0"
proof -
  consider (found) "map_of (accounts ua) (account_id a) = Some a" "ua' = ua" "n' = n"
      "account_matches cur aty a"
    | (created) "a = account_new (new_v4 E n) cur (case aty of Some t \<Rightarrow> t | None \<Rightarrow> Internal) Cash"
      "map_of (accounts ua) (account_id a) = None"
      "ua' = ua\<lparr>accounts := AList.update (account_id a) a (accounts ua)\<rparr>" "n' = Suc n"
    using get_default_account_cases [OF ok eq] by metis
  then have "accs_ok E n' (accounts ua') \<and> n \<le> n' \<and> owner ua' = owner ua \<and>
    map_of (accounts ua') (account_id a) = Some a \<and> account_matches cur aty a \<and>
    acct_total c (accounts ua') = acct_total c (accounts ua) \<and>
    (\<forall>i x. map_of (accounts ua) i = Some x \<longrightarrow> map_of (accounts ua') i = Some x) \<and>
    (\<forall>i x. map_of (accounts ua') i = Some x \<longrightarrow> map_of (accounts ua) i = Some x \<or> balance x = 0)"
  proof cases
    case found
    with ok show ?thesis by simp
  next
    case created
    have "\<forall>m \<ge> Suc n. new_v4 E m \<noteq> account_id a"
      using uuid_fresh [of _ n] by (fastforce simp: created(1) account_new_def)
    then have "accs_ok E (Suc n) (accounts ua')"
      using accs_ok_put [OF accs_ok_mono [OF ok, of "Suc n"], of a]
      by (simp add: created(1,3) account_new_def)
    with created show ?thesis
      by (auto simp: account_new_def account_matches_def acct_total_def alist_sum_update_new
          split: option.splits if_splits)
  qed
  then show "accs_ok E n' (accounts ua')" "n \<le> n'" "owner ua' = owner ua"
    "map_of (accounts ua') (account_id a) = Some a" "account_matches cur aty a"
    "acct_total c (accounts ua') = acct_total c (accounts ua)"
    "\<And>i x. map_of (accounts ua) i = Some x \<Longrightarrow> map_of (accounts ua') i = Some x"
    "\<And>i x. map_of (accounts ua') i = Some x \<Longrightarrow> map_of (accounts ua) i = Some x \<or> balance x = 0"
    by auto
qed

text \<open>The contract of \<open>get_default_account\<close> at a place of the ledger.\<close>

lemma ledger_default_spec:
  assumes ok: "ledger_ok E n L" and eq: "ledger_default E n p cur aty L = Some (a, L', n')"
  shows "ledger_ok E n' L'" "n \<le> n'" "ledger_get p (account_id a) L' = Some a"
    "acc_currency a = cur" "aty = Some t \<Longrightarrow> account_type a = t" "net c L' = net c L"
    "\<And>q i x. ledger_get q i L = Some x \<Longrightarrow> ledger_get q i L' = Some x"
    "\<And>q i x. ledger_get q i L' = Some x \<Longrightarrow> ledger_get q i L = Some x \<or> balance x = 0"
    "\<And>q. (ledger_ua q L' = None) = (ledger_ua q L = None)"
    "insurance_fund_account L' = insurance_fund_account L"
proof -
  obtain ua ua' where ua: "ledger_ua p L = Some ua"
    and d: "get_default_account E n ua cur aty = (a, ua', n')" and L': "L' = ledger_set_ua p ua' L"
    using eq by (auto simp: ledger_default_def split: option.splits prod.splits)
  from ok ua have ua_ok: "accs_ok E n (accounts ua)"
    by (auto simp: ledger_ok_def)
  note spec = get_default_account_spec [OF ua_ok d]
  show "n \<le> n'" by (rule spec(2))
  show "ledger_ok E n' L'"
    using ok ua spec ledger_ok_mono [OF ok spec(2)] unfolding L' ledger_ok_def
    by (auto split: if_splits)
  show "ledger_get p (account_id a) L' = Some a"
    using spec(4) by (simp add: L' ledger_get_def)
  show "acc_currency a = cur" "aty = Some t \<Longrightarrow> account_type a = t"
    using spec(5) by (auto simp: account_matches_def split: option.splits)
  show "net c L' = net c L"
    using ok ua spec(6) by (simp add: L' net_set_ua ledger_ok_def)
  show "\<And>q i x. ledger_get q i L = Some x \<Longrightarrow> ledger_get q i L' = Some x"
    using ua spec(7) by (auto simp: L' ledger_get_def)
  show "\<And>q i x. ledger_get q i L' = Some x \<Longrightarrow> ledger_get q i L = Some x \<or> balance x = 0"
    using ua spec(8) by (auto simp: L' ledger_get_def split: if_splits)
  show "\<And>q. (ledger_ua q L' = None) = (ledger_ua q L = None)"
    using ua by (auto simp: L')
  show "insurance_fund_account L' = insurance_fund_account L"
    by (simp add: L')
qed

lemma ledger_put_spec:
  assumes ok: "ledger_ok E n L" and old: "ledger_get p (account_id a) L = Some b"
    and g: "grid 12 (balance a)" and eq: "ledger_put p a L = Some L'"
  shows "ledger_ok E n L'"
    "acc_currency a = acc_currency b \<Longrightarrow>
       net c L' = net c L + (if acc_currency b = c then balance a - balance b else 0)"
    "ledger_get q i L' = (if q = p \<and> i = account_id a then Some a else ledger_get q i L)"
    "(ledger_ua q L' = None) = (ledger_ua q L = None)"
    "insurance_fund_account L' = insurance_fund_account L"
proof -
  obtain ua where ua: "ledger_ua p L = Some ua" and b: "map_of (accounts ua) (account_id a) = Some b"
    using old by (auto simp: ledger_get_def bind_Some_conv)
  define ua' where "ua' = ua\<lparr>accounts := AList.update (account_id a) a (accounts ua)\<rparr>"
  have L': "L' = ledger_set_ua p ua' L"
    using eq ua by (simp add: ledger_put_def ua'_def)
  have ua_ok: "accs_ok E n (accounts ua)"
    using ok ua by (auto simp: ledger_ok_def)
  have "\<forall>m \<ge> n. new_v4 E m \<noteq> account_id a"
    using ua_ok map_of_SomeD [OF b] by (auto simp: accs_ok_def)
  with ua_ok g have "accs_ok E n (accounts ua')"
    by (simp add: ua'_def accs_ok_put)
  then show "ledger_ok E n L'"
    using ok ua unfolding L' ledger_ok_def by (auto simp: ua'_def split: if_splits)
  show "acc_currency a = acc_currency b \<Longrightarrow>
       net c L' = net c L + (if acc_currency b = c then balance a - balance b else 0)"
    using ok ua b ua_ok
    by (simp add: L' net_set_ua ledger_ok_def accs_ok_def ua'_def acct_total_def alist_sum_update_old)
  show "ledger_get q i L' = (if q = p \<and> i = account_id a then Some a else ledger_get q i L)"
    using ua by (auto simp: L' ledger_get_def ua'_def)
  show "(ledger_ua q L' = None) = (ledger_ua q L = None)"
    using ua by (auto simp: L')
  show "insurance_fund_account L' = insurance_fund_account L"
    by (simp add: L')
qed

end

lemma ledger_put_Some: "ledger_get p i L = Some b \<Longrightarrow> \<exists>L'. ledger_put p a L = Some L'"
  by (auto simp: ledger_get_def ledger_put_def bind_Some_conv)

end
