(* ===== verification/Bank.thy ===== *)
theory Bank
  imports Ledger
begin

text \<open>
  The bank engine's state and its basic operations (\<open>bank/src/bank_engine.rs\<close>): sending
  messages, database access, persisting accounts, rate limiting, start-up loading of accounts and
  the exposure report for the dealer.

  The record \<open>bank\<close> holds the fields of \<open>BankEngine\<close> that the code reads or writes,
  plus what the engine acts on: the database \<open>db\<close>, the messages sent so far
  (\<open>outbox\<close>, with their destinations) and the number of external interactions
  (\<open>tick\<close>). \<open>conn_pool\<close> says whether a pool was given; every place of the code treats a
  missing pool and a pool that hands out no connection alike, so \<open>get_conn\<close> is both tests.
  An operation that may panic returns an \<open>option\<close>. Logging is left out.
\<close>

section \<open>State\<close>

definition BANK_UID :: user_id where
  "BANK_UID = 23193913"

definition DEALER_UID :: user_id where
  "DEALER_UID = 52172712"

datatype BankError =
    BankUserAccountNotFound | BankAccountNotFound | BankUserAccountAlreadyExists
  | FailedTransaction | BankSwapError

fun bank_error_to_string :: "BankError \<Rightarrow> string" where
  "bank_error_to_string BankUserAccountNotFound = ''UserAccountNotFound''"
| "bank_error_to_string BankAccountNotFound = ''AccountNotFound''"
| "bank_error_to_string BankUserAccountAlreadyExists = ''UserAccountAlreadyExists''"
| "bank_error_to_string FailedTransaction = ''FailedTransaction''"
| "bank_error_to_string BankSwapError = ''SwapError''"

record RateLimiterSettings =
  request_limit :: u64
  replenishment_interval :: u64

text \<open>What a spawned payment task needs to run (the variables its closure captures).\<close>

record PaymentTask =
  pt_uid :: user_id
  pt_req_id :: uuid
  pt_payment_req :: string
  pt_amount_in_sats :: rat
  pt_estimated_fee_in_sats :: rat
  pt_amount_in_btc :: Money
  pt_currency :: Currency
  pt_rate :: Rate
  pt_outbound_amount_in_btc_plus_max_fees :: Money

type_synonym limiter = "(user_id \<times> (u64 \<times> nat)) list"

record bank =
  bank_uid :: user_id
  ledger :: Ledger
  conn_pool :: bool
  available_currencies :: "Currency list"
  ln_network_fee_margin :: rat
  ln_network_max_fee :: rat
  internal_tx_fee :: rat
  external_tx_fee :: rat
  reserve_ratio :: rat
  withdrawal_only :: bool
  tx_seq :: u64
  lnurl_withdrawal_requests :: "(uuid \<times> (u64 \<times> PaymentRequest)) list"
  payment_threads :: "PaymentTask list"
  withdrawal_request_rate_limiter_settings :: RateLimiterSettings
  deposit_request_rate_limiter_settings :: RateLimiterSettings
  withdrawal_request_rate_limiter :: limiter
  deposit_request_rate_limiter :: limiter
  last_rates :: "((Currency \<times> Currency) \<times> Rate) list"
  domain :: string
  db :: Db
  outbox :: "(Message \<times> ServiceIdentity) list"
  tick :: nat

record BankSettings =
  set_ln_network_fee_margin :: rat
  set_ln_network_max_fee :: rat
  set_internal_tx_fee :: rat
  set_external_tx_fee :: rat
  set_reserve_ratio :: rat
  set_withdrawal_only :: bool
  set_withdrawal_limiter :: RateLimiterSettings
  set_deposit_limiter :: RateLimiterSettings
  set_domain :: string

definition bank_new :: "env \<Rightarrow> bool \<Rightarrow> BankSettings \<Rightarrow> Db \<Rightarrow> bank" where
  "bank_new E pool st d = (let (L, n) = ledger_new E 0 BANK_UID DEALER_UID in \<lparr>
     bank_uid = BANK_UID,
     ledger = L,
     conn_pool = pool,
     available_currencies = [BTC],
     ln_network_fee_margin = set_ln_network_fee_margin st,
     ln_network_max_fee = set_ln_network_max_fee st,
     internal_tx_fee = set_internal_tx_fee st,
     external_tx_fee = set_external_tx_fee st,
     reserve_ratio = set_reserve_ratio st,
     withdrawal_only = set_withdrawal_only st,
     tx_seq = 0,
     lnurl_withdrawal_requests = [],
     payment_threads = [],
     withdrawal_request_rate_limiter_settings = set_withdrawal_limiter st,
     deposit_request_rate_limiter_settings = set_deposit_limiter st,
     withdrawal_request_rate_limiter = [],
     deposit_request_rate_limiter = [],
     last_rates = [],
     domain = set_domain st,
     db = d,
     outbox = [],
     tick = n \<rparr>)"

section \<open>Messages, clock, identifiers, database access\<close>

definition listener :: "Message \<Rightarrow> ServiceIdentity \<Rightarrow> bank \<Rightarrow> bank" where
  "listener m dest s = s\<lparr>outbox := outbox s @ [(m, dest)]\<rparr>"

definition bump :: "bank \<Rightarrow> bank" where
  "bump s = s\<lparr>tick := Suc (tick s)\<rparr>"

definition new_uuid :: "env \<Rightarrow> bank \<Rightarrow> uuid \<times> bank" where
  "new_uuid E s = (new_v4 E (tick s), bump s)"

definition time_now :: "env \<Rightarrow> bank \<Rightarrow> u64 \<times> bank" where
  "time_now E s = (clock E (tick s), bump s)"

definition get_conn :: "env \<Rightarrow> bank \<Rightarrow> bool \<times> bank" where
  "get_conn E s = (conn_pool s \<and> pool_get E (tick s), bump s)"

definition query :: "env \<Rightarrow> (Db \<Rightarrow> 'a option) \<Rightarrow> bank \<Rightarrow> 'a option \<times> bank" where
  "query E f s = (if pg_ok E (tick s) then f (db s) else None, bump s)"

definition exec :: "env \<Rightarrow> (Db \<Rightarrow> Db option) \<Rightarrow> bank \<Rightarrow> bool \<times> bank" where
  "exec E f s = (case (if pg_ok E (tick s) then f (db s) else None) of
     Some d \<Rightarrow> (True, (bump s)\<lparr>db := d\<rparr>) | None \<Rightarrow> (False, bump s))"

section \<open>Ledger access\<close>

definition ensure_user :: "user_id \<Rightarrow> bank \<Rightarrow> bank" where
  "ensure_user u s = s\<lparr>ledger := ledger_ensure_user u (ledger s)\<rparr>"

definition user_account_owner :: "user_id \<Rightarrow> bank \<Rightarrow> user_id" where
  "user_account_owner u s = (case map_of (user_accounts (ledger s)) u of Some ua \<Rightarrow> owner ua | None \<Rightarrow> u)"

definition default_account ::
  "env \<Rightarrow> place \<Rightarrow> Currency \<Rightarrow> AccountType option \<Rightarrow> bank \<Rightarrow> (Account \<times> bank) option" where
  "default_account E p cur aty s =
     (case ledger_default E (tick s) p cur aty (ledger s) of
        None \<Rightarrow> None
      | Some (a, L, n) \<Rightarrow> Some (a, s\<lparr>ledger := L, tick := n\<rparr>))"

text \<open>
  \<open>insert_into_ledger\<close> (which panics for an unknown user). The handlers insert a copy under its
  own identifier, into the map of a user, of the dealer or of the liabilities: \<open>put_account\<close>.
\<close>

definition insert_into_ledger :: "user_id \<Rightarrow> uuid \<Rightarrow> Account \<Rightarrow> bank \<Rightarrow> bank option" where
  "insert_into_ledger u i a s =
     (case map_of (user_accounts (ledger s)) u of
        None \<Rightarrow> None
      | Some ua \<Rightarrow> Some (s\<lparr>ledger := (ledger s)\<lparr>user_accounts :=
          AList.update u (ua\<lparr>accounts := AList.update i a (accounts ua)\<rparr>) (user_accounts (ledger s))\<rparr>\<rparr>))"

definition put_account :: "place \<Rightarrow> Account \<Rightarrow> bank \<Rightarrow> bank option" where
  "put_account p a s = map_option (\<lambda>L. s\<lparr>ledger := L\<rparr>) (ledger_put p a (ledger s))"

lemma insert_into_ledger_put: "insert_into_ledger u (account_id a) a s = put_account (PUser u) a s"
  by (simp add: insert_into_ledger_def put_account_def ledger_put_def split: option.split)

definition update_account :: "env \<Rightarrow> Account \<Rightarrow> user_id \<Rightarrow> bank \<Rightarrow> bank" where
  "update_account E a uid s =
     (let (conn, s) = get_conn E s in
      if \<not> conn then s
      else case dec_to_big (dec E) (balance a) of
        None \<Rightarrow> s
      | Some bal \<Rightarrow>
          let ok = pg_ok E (tick s);
              (res, d) = account_update (account_id a) bal (currency_to_string (acc_currency a)) (db s);
              s = (bump s)\<lparr>db := (if ok then d else db s)\<rparr>
          in if ok \<and> res = 0
             then snd (exec E (account_insert \<lparr>
                ar_account_id = account_id a, ar_balance = bal,
                ar_currency = currency_to_string (acc_currency a),
                ar_account_type = account_type_to_string (account_type a),
                ar_uid = as_i32 uid,
                ar_account_class = account_class_to_string (account_class a) \<rparr>) s)
             else s)"

section \<open>Rate limiting\<close>

text \<open>
  The common body of the two checks: the limiter entry of the user is created on first use with
  the instant of that use, the elapsed time is read at the next tick.
\<close>

definition rate_limit_step ::
  "env \<Rightarrow> RateLimiterSettings \<Rightarrow> limiter \<Rightarrow> user_id \<Rightarrow> nat \<Rightarrow> bool \<times> limiter \<times> nat" where
  "rate_limit_step E cfg m u n =
     (let ((counter, last_request), n) =
        (case map_of m u of Some e \<Rightarrow> (e, n) | None \<Rightarrow> ((0, instant E n), Suc n)) in
      if (word_of_nat (instant E n - last_request) :: u64) < replenishment_interval cfg
      then (\<not> request_limit cfg < counter + 1, AList.update u (counter + 1, last_request) m, Suc n)
      else (True, AList.update u (0, instant E (Suc n)) m, Suc (Suc n)))"

definition check_deposit_request_rate_limit :: "env \<Rightarrow> user_id \<Rightarrow> bank \<Rightarrow> bool \<times> bank" where
  "check_deposit_request_rate_limit E u s =
     (let (ok, m, n) = rate_limit_step E (deposit_request_rate_limiter_settings s)
        (deposit_request_rate_limiter s) u (tick s)
      in (ok, s\<lparr>deposit_request_rate_limiter := m, tick := n\<rparr>))"

definition check_withdrawal_request_rate_limit :: "env \<Rightarrow> user_id \<Rightarrow> bank \<Rightarrow> bool \<times> bank" where
  "check_withdrawal_request_rate_limit E u s =
     (let (ok, m, n) = rate_limit_step E (withdrawal_request_rate_limiter_settings s)
        (withdrawal_request_rate_limiter s) u (tick s)
      in (ok, s\<lparr>withdrawal_request_rate_limiter := m, tick := n\<rparr>))"

section \<open>Exposures\<close>

text \<open>\<open>entry(currency).or_insert(0) += balance\<close>\<close>

definition tally :: "dec_ops \<Rightarrow> Account \<Rightarrow> (Currency \<times> rat) list \<Rightarrow> (Currency \<times> rat) list option" where
  "tally D a m = do {
     v \<leftarrow> dec_add D (case map_of m (acc_currency a) of Some x \<Rightarrow> x | None \<Rightarrow> 0) (balance a);
     Some (AList.update (acc_currency a) v m) }"

fun tally_all :: "dec_ops \<Rightarrow> accounts \<Rightarrow> (Currency \<times> rat) list \<Rightarrow> (Currency \<times> rat) list option" where
  "tally_all D [] m = Some m"
| "tally_all D ((i, a) # xs) m = do { m' \<leftarrow> tally D a m; tally_all D xs m' }"

fun tally_users ::
  "dec_ops \<Rightarrow> (user_id \<times> UserAccount) list \<Rightarrow> (Currency \<times> rat) list \<Rightarrow> (Currency \<times> rat) list option" where
  "tally_users D [] m = Some m"
| "tally_users D ((u, ua) # us) m = do { m' \<leftarrow> tally_all D (accounts ua) m; tally_users D us m' }"

definition get_bank_state :: "env \<Rightarrow> bank \<Rightarrow> BankState option" where
  "get_bank_state E s = do {
     exposures \<leftarrow> tally_users (dec E) (user_accounts (ledger s)) [];
     Some \<lparr>total_exposures = exposures,
       fiat_exposures = accounts (dealer_accounts (ledger s)),
       bs_insurance_fund_account = insurance_fund_account (ledger s)\<rparr> }"

definition send_bank_state :: "env \<Rightarrow> bank \<Rightarrow> bank option" where
  "send_bank_state E s = do {
     st \<leftarrow> get_bank_state E s;
     Some (listener (MsgDealer (BankStateMsg st)) Dealer s) }"

section \<open>Loading, normalising and storing accounts\<close>

text \<open>A database row as an account; \<open>None\<close> is the panic of a failed conversion.\<close>

definition parse_account :: "env \<Rightarrow> AccountRow \<Rightarrow> Account option" where
  "parse_account E r = do {
     currency \<leftarrow> unwrap (currency_from_str (ar_currency r));
     bal \<leftarrow> dec_of_big (dec E) (ar_balance r);
     ty \<leftarrow> unwrap (account_type_from_str (ar_account_type r));
     cl \<leftarrow> unwrap (account_class_from_str (ar_account_class r));
     Some \<lparr>account_id = ar_account_id r, balance = bal, acc_currency = currency,
       account_type = ty, account_class = cl\<rparr> }"

fun fetch_accounts :: "env \<Rightarrow> AccountRow list \<Rightarrow> Account list option" where
  "fetch_accounts E [] = Some []"
| "fetch_accounts E (r # rs) = do { a \<leftarrow> parse_account E r; as \<leftarrow> fetch_accounts E rs; Some (a # as) }"

definition account_map :: "Account list \<Rightarrow> accounts" where
  "account_map as = fold (\<lambda>a m. AList.update (account_id a) a m) as []"

text \<open>A failed \<open>get_bank_liabilities\<close> panics; the dealer's two selections never report an error.\<close>

definition fetch_bank_liabilities :: "env \<Rightarrow> bank \<Rightarrow> (accounts \<times> bank) option" where
  "fetch_bank_liabilities E s = (
     case query E (\<lambda>d. Some (account_get_bank_liabilities d)) s of
       (None, _) \<Rightarrow> None
     | (Some rows, s) \<Rightarrow> do { as \<leftarrow> fetch_accounts E rows; Some (account_map as, s) })"

definition fetch_dealer_accounts :: "env \<Rightarrow> bank \<Rightarrow> (accounts \<times> bank) option" where
  "fetch_dealer_accounts E s = do {
     let ok1 = pg_ok E (tick s);
     let ok2 = pg_ok E (Suc (tick s));
     as \<leftarrow> fetch_accounts E (account_get_dealer_accounts ok1 ok2 (db s));
     Some (account_map as, bump (bump s)) }"

fun load_user_accounts :: "env \<Rightarrow> AccountRow list \<Rightarrow> Ledger \<Rightarrow> Ledger option" where
  "load_user_accounts E [] L = Some L"
| "load_user_accounts E (r # rs) L = do {
     let L = ledger_ensure_user (as_u64 (ar_uid r)) L;
     a \<leftarrow> parse_account E r;
     L \<leftarrow> ledger_put (PUser (as_u64 (ar_uid r))) a L;
     load_user_accounts E rs L }"

definition init_accounts :: "env \<Rightarrow> bank \<Rightarrow> bank option" where
  "init_accounts E s =
     (let (conn, s) = get_conn E s in
      if \<not> conn then Some s
      else do {
        (liab, s) \<leftarrow> fetch_bank_liabilities E s;
        let s = s\<lparr>ledger := (ledger s)\<lparr>bank_liabilities := (bank_liabilities (ledger s))\<lparr>accounts := liab\<rparr>\<rparr>\<rparr>;
        (deal, s) \<leftarrow> fetch_dealer_accounts E s;
        let s = s\<lparr>ledger := (ledger s)\<lparr>dealer_accounts := (dealer_accounts (ledger s))\<lparr>accounts := deal\<rparr>\<rparr>\<rparr>;
        (case query E (\<lambda>d. Some (account_get_non_internal_users_accounts d)) s of
           (None, s) \<Rightarrow> Some s
         | (Some rows, s) \<Rightarrow> do {
             L \<leftarrow> load_user_accounts E rows (ledger s);
             Some (s\<lparr>ledger := L\<rparr>) }) })"

definition normalize_ua :: "env \<Rightarrow> UserAccount \<Rightarrow> UserAccount" where
  "normalize_ua E ua = ua\<lparr>accounts := map (\<lambda>(i, a). (i, account_normalize (dec E) a)) (accounts ua)\<rparr>"

definition normalize_accounts :: "env \<Rightarrow> bank \<Rightarrow> bank" where
  "normalize_accounts E s = s\<lparr>ledger := (ledger s)\<lparr>
     bank_liabilities := normalize_ua E (bank_liabilities (ledger s)),
     dealer_accounts := normalize_ua E (dealer_accounts (ledger s)),
     user_accounts := map (\<lambda>(u, ua). (u, normalize_ua E ua)) (user_accounts (ledger s))\<rparr>\<rparr>"

definition store_accounts :: "env \<Rightarrow> bank \<Rightarrow> bank" where
  "store_accounts E s =
     (let s1 = fold (\<lambda>(i, a) t. update_account E a BANK_UID t) (accounts (bank_liabilities (ledger s))) s;
          s2 = fold (\<lambda>(i, a) t. update_account E a DEALER_UID t) (accounts (dealer_accounts (ledger s1))) s1
      in fold (\<lambda>(u, ua) t. fold (\<lambda>(i, a) t. update_account E a u t) (accounts ua) t)
           (user_accounts (ledger s2)) s2)"

section \<open>Frame facts\<close>

lemma bump_frame [simp]:
  "ledger (bump s) = ledger s" "db (bump s) = db s" "outbox (bump s) = outbox s"
  "tx_seq (bump s) = tx_seq s" "tick (bump s) = Suc (tick s)" "conn_pool (bump s) = conn_pool s"
  "payment_threads (bump s) = payment_threads s"
  "lnurl_withdrawal_requests (bump s) = lnurl_withdrawal_requests s"
  "ln_network_fee_margin (bump s) = ln_network_fee_margin s"
  by (simp_all add: bump_def)

lemma listener_frame [simp]:
  "ledger (listener m d s) = ledger s" "db (listener m d s) = db s" "tick (listener m d s) = tick s"
  "tx_seq (listener m d s) = tx_seq s" "outbox (listener m d s) = outbox s @ [(m, d)]"
  "payment_threads (listener m d s) = payment_threads s"
  "lnurl_withdrawal_requests (listener m d s) = lnurl_withdrawal_requests s"
  "ln_network_fee_margin (listener m d s) = ln_network_fee_margin s"
  by (simp_all add: listener_def)

lemma query_frame: "query E f s = (r, s') \<Longrightarrow> s' = bump s"
  by (simp add: query_def)

lemma exec_frame:
  "exec E f s = (r, s') \<Longrightarrow> ledger s' = ledger s \<and> tick s' = Suc (tick s) \<and> outbox s' = outbox s \<and>
     tx_seq s' = tx_seq s \<and> payment_threads s' = payment_threads s \<and>
     ln_network_fee_margin s' = ln_network_fee_margin s"
  by (auto simp: exec_def split: option.splits if_splits)

lemma get_conn_frame: "get_conn E s = (r, s') \<Longrightarrow> s' = bump s"
  by (simp add: get_conn_def)

lemma time_now_frame: "time_now E s = (r, s') \<Longrightarrow> s' = bump s"
  by (simp add: time_now_def)

lemma new_uuid_frame: "new_uuid E s = (r, s') \<Longrightarrow> s' = bump s"
  by (simp add: new_uuid_def)

lemma update_account_frame [simp]:
  "ledger (update_account E a u s) = ledger s" "outbox (update_account E a u s) = outbox s"
  "tx_seq (update_account E a u s) = tx_seq s"
  "payment_threads (update_account E a u s) = payment_threads s"
  "ln_network_fee_margin (update_account E a u s) = ln_network_fee_margin s"
  by (auto simp: update_account_def get_conn_def exec_def Let_def split: prod.splits option.splits)

lemma update_account_tick: "tick s \<le> tick (update_account E a u s)"
  by (auto simp: update_account_def get_conn_def exec_def Let_def split: prod.splits option.splits)

lemma rate_limit_frame:
  "check_deposit_request_rate_limit E u s = (r, s') \<Longrightarrow>
     ledger s' = ledger s \<and> tick s \<le> tick s' \<and> db s' = db s \<and>
     ln_network_fee_margin s' = ln_network_fee_margin s"
  "check_withdrawal_request_rate_limit E u s = (r, s') \<Longrightarrow>
     ledger s' = ledger s \<and> tick s \<le> tick s' \<and> db s' = db s \<and>
     ln_network_fee_margin s' = ln_network_fee_margin s"
  by (auto simp: check_deposit_request_rate_limit_def check_withdrawal_request_rate_limit_def
      rate_limit_step_def Let_def split: prod.splits option.splits if_splits)

lemma send_bank_state_frame:
  "send_bank_state E s = Some s' \<Longrightarrow>
     ledger s' = ledger s \<and> tick s' = tick s \<and> db s' = db s \<and>
     ln_network_fee_margin s' = ln_network_fee_margin s \<and>
     (\<exists>st. outbox s' = outbox s @ [(MsgDealer (BankStateMsg st), Dealer)])"
  by (auto simp: send_bank_state_def bind_Some_conv)

end
