(* ===== verification/BankTx.thy ===== *)
theory BankTx
  imports Bank
begin

text \<open>
  Double entry transactions (\<open>make_tx\<close>, \<open>make_summary_tx\<close>, \<open>make_internal_tx\<close> of
  \<open>bank/src/bank_engine.rs\<close>). \<open>make_tx\<close> works on the caller's copies of two accounts:
  it moves the amount between them and records a transaction row; the caller writes the copies
  back into the ledger. The copies are returned in every case, because the Rust code has already
  changed them when the row cannot be inserted.

  The lemmas give the contract of \<open>make_tx\<close> (both copies move by the same amount, nothing
  else of the ledger changes) and the effect on \<open>net\<close> of writing back several copies
  (\<open>puts_spec\<close>), on which the handlers' proofs rest.
\<close>

section \<open>Definitions\<close>

text \<open>A sequence of consecutive \<open>insert\<close>s of account copies into the ledger.\<close>

fun put_accounts :: "(place \<times> Account) list \<Rightarrow> bank \<Rightarrow> bank option" where
  "put_accounts [] s = Some s"
| "put_accounts ((p, a) # xs) s = do { s \<leftarrow> put_account p a s; put_accounts xs s }"

text \<open>The four conversions to \<open>BigDecimal\<close>; the failure of any of them has the same effect.\<close>

definition parse_bigs :: "env \<Rightarrow> rat \<Rightarrow> rat \<Rightarrow> rat \<Rightarrow> rat \<Rightarrow> (rat \<times> rat \<times> rat \<times> rat) option" where
  "parse_bigs E a b c d = do {
     a \<leftarrow> dec_to_big (dec E) a;
     b \<leftarrow> dec_to_big (dec E) b;
     c \<leftarrow> dec_to_big (dec E) c;
     d \<leftarrow> dec_to_big (dec E) d;
     Some (a, b, c, d) }"

definition make_tx ::
  "env \<Rightarrow> Account \<Rightarrow> user_id \<Rightarrow> Account \<Rightarrow> user_id \<Rightarrow> Money \<Rightarrow> bank \<Rightarrow>
     ((BankError + string) \<times> Account \<times> Account \<times> bank) option" where
  "make_tx E out ouid inn iuid amount s =
     (if mon_value amount \<le> 0 then Some (Inl FailedTransaction, out, inn, s)
      else if acc_currency out \<noteq> acc_currency inn then Some (Inl FailedTransaction, out, inn, s)
      else let (conn, s) = get_conn E s in
      if \<not> conn then Some (Inl FailedTransaction, out, inn, s)
      else do {
        let rate = rate_new (dec E) (acc_currency out) (acc_currency inn) 1;
        let fees = money_zero (dec E) (acc_currency inn);
        ob \<leftarrow> dec_sub (dec E) (balance out) (mon_value amount);
        ib \<leftarrow> dec_add (dec E) (balance inn) (mon_value amount);
        let out = out\<lparr>balance := ob\<rparr>;
        let inn = inn\<lparr>balance := ib\<rparr>;
        (case parse_bigs E (mon_value amount) (mon_value amount) (rate_value rate) (mon_value fees) of
           Some (oa, ia, rt, fe) \<Rightarrow>
             let (t, s) = time_now E s;
                 s = s\<lparr>tx_seq := tx_seq s + 1\<rparr>;
                 txid = show_u64 t @ ''-'' @ show_u64 (tx_seq s);
                 (ok, s) = exec E (transaction_insert \<lparr>
                   tx_txid = txid,
                   tx_created_at = t,
                   tx_outbound_amount = oa,
                   tx_inbound_amount = ia,
                   tx_outbound_account_id = account_id out,
                   tx_inbound_account_id = account_id inn,
                   tx_outbound_uid = as_i32 ouid,
                   tx_inbound_uid = as_i32 iuid,
                   tx_outbound_currency = currency_to_string (acc_currency out),
                   tx_inbound_currency = currency_to_string (acc_currency inn),
                   tx_exchange_rate = rt,
                   tx_tx_type = (if account_type out \<noteq> account_type inn then ''External'' else ''Internal''),
                   tx_fees = fe \<rparr>) s
             in Some (if ok then Inr txid else Inl FailedTransaction, out, inn, s)
         | None \<Rightarrow> Some (Inl FailedTransaction, out, inn, s)) })"

text \<open>The second half of \<open>make_summary_tx\<close>: the row, its insertion and the journal message.\<close>

definition store_summary ::
  "env \<Rightarrow> Account \<Rightarrow> user_id \<Rightarrow> Account \<Rightarrow> user_id \<Rightarrow> rat \<times> rat \<times> rat \<times> rat \<Rightarrow>
     string option \<Rightarrow> string option \<Rightarrow> string option \<Rightarrow> string option \<Rightarrow> string \<Rightarrow> string \<Rightarrow>
     bank \<Rightarrow> (BankError + string) \<times> bank" where
  "store_summary E out ouid inn iuid amounts otxid itxid ftxid reference oname iname s =
     (let (oa, ia, rt, fe) = amounts;
          tx_type = (if account_type out \<noteq> account_type inn then ''External'' else ''Internal'');
          reference = (case reference of Some r \<Rightarrow> Some r | None \<Rightarrow> Some ''Payment'');
          (t, s) = time_now E s;
          txid = show_u64 t;
          (ok, s) = exec E (summary_insert \<lparr>
            stx_txid = txid,
            stx_fee_txid = ftxid,
            stx_outbound_txid = otxid,
            stx_inbound_txid = itxid,
            stx_created_at = t,
            stx_outbound_amount = oa,
            stx_inbound_amount = ia,
            stx_outbound_account_id = account_id out,
            stx_inbound_account_id = account_id inn,
            stx_outbound_uid = as_i32 ouid,
            stx_inbound_uid = as_i32 iuid,
            stx_outbound_currency = currency_to_string (acc_currency out),
            stx_inbound_currency = currency_to_string (acc_currency inn),
            stx_exchange_rate = rt,
            stx_tx_type = tx_type,
            stx_fees = fe,
            stx_reference = reference,
            stx_outbound_username = Some oname,
            stx_inbound_username = Some iname \<rparr>) s
      in if \<not> ok then (Inl FailedTransaction, s)
         else (Inr txid, listener (MsgJournal \<lparr>
            jt_txid = txid,
            jt_outbound_currency = currency_to_string (acc_currency out),
            jt_inbound_currency = currency_to_string (acc_currency inn),
            jt_outbound_amount = oa,
            jt_inbound_amount = ia,
            jt_outbound_uid = ouid,
            jt_inbound_uid = iuid,
            jt_tx_type = tx_type,
            jt_fees = fe,
            jt_exchange_rate = rt \<rparr>) Journal s))"

definition make_summary_tx ::
  "env \<Rightarrow> Account \<Rightarrow> user_id \<Rightarrow> Account \<Rightarrow> user_id \<Rightarrow> Money \<Rightarrow> Rate option \<Rightarrow> Money option \<Rightarrow>
     string option \<Rightarrow> string option \<Rightarrow> string option \<Rightarrow> string option \<Rightarrow> string option \<Rightarrow> string option \<Rightarrow>
     bank \<Rightarrow> ((BankError + string) \<times> bank) option" where
  "make_summary_tx E out ouid inn iuid amount rate fees otxid itxid ftxid reference oname iname s =
     (if mon_value amount \<le> 0 then Some (Inl FailedTransaction, s)
      else if mon_currency amount \<noteq> acc_currency out then None
      else let (conn, s) = get_conn E s in
      if \<not> conn then Some (Inl FailedTransaction, s)
      else do {
        let rate = (case rate of Some r \<Rightarrow> r
                    | None \<Rightarrow> rate_new (dec E) (acc_currency out) (acc_currency inn) 1);
        let oname = (case oname of Some u \<Rightarrow> u | None \<Rightarrow> ''Unknown'');
        let iname = (case iname of Some u \<Rightarrow> u | None \<Rightarrow> ''Unknown'');
        let fees = (case fees of Some f \<Rightarrow> f | None \<Rightarrow> money_zero (dec E) (acc_currency inn));
        exchanged \<leftarrow> money_exchange (dec E) amount rate;
        inbound \<leftarrow> unwrap exchanged;
        Some (case parse_bigs E (mon_value amount) (mon_value inbound) (rate_value rate) (mon_value fees) of
            None \<Rightarrow> (Inl FailedTransaction, s)
          | Some amounts \<Rightarrow>
              store_summary E out ouid inn iuid amounts otxid itxid ftxid reference oname iname s) })"

definition api_payment :: "PaymentResponse \<Rightarrow> bank \<Rightarrow> bank" where
  "api_payment r s = listener (MsgApi (PaymentResponseMsg r)) Api s"

text \<open>The booking half of \<open>make_internal_tx\<close>, from the choice of the two accounts on.\<close>

definition internal_transfer ::
  "env \<Rightarrow> PaymentRequest \<Rightarrow> Money \<Rightarrow> string \<Rightarrow> string \<Rightarrow> user_id \<Rightarrow> PaymentResponse \<Rightarrow> bank \<Rightarrow>
     ((PaymentResponseError + unit) \<times> bank) option" where
  "internal_transfer E pr amount oname iname iuid resp s =
     (let ouid = prq_uid pr in
      case default_account E (PUser ouid) (prq_currency pr) None s of
        None \<Rightarrow> Some (Inl UserAccountNotFound, s)
      | Some (out, s) \<Rightarrow> do {
          let s = ensure_user iuid s;
          (inn, s) \<leftarrow> default_account E (PUser iuid) (prq_currency pr) None s;
          if balance out < mon_value amount
          then Some (Inl InsufficientFunds, api_payment (resp\<lparr>prs_error := Some InsufficientFunds\<rparr>) s)
          else do {
            (r, out, inn, s) \<leftarrow> make_tx E out ouid inn iuid amount s;
            (case r of
               Inl _ \<Rightarrow> Some (Inl TransactionFailed, s)
             | Inr txid \<Rightarrow> do {
                 (r, s) \<leftarrow> make_summary_tx E out ouid inn iuid amount None None (Some txid) (Some txid) None
                    (Some ''InternalTransfer'') (Some (oname @ ''@'' @ domain s))
                    (Some (iname @ ''@'' @ domain s)) s;
                 (case r of
                    Inl _ \<Rightarrow> Some (Inl TransactionFailed, s)
                  | Inr _ \<Rightarrow> do {
                      s \<leftarrow> put_accounts [(PUser iuid, inn), (PUser ouid, out)] s;
                      let s = update_account E out ouid s;
                      let s = update_account E inn iuid s;
                      Some (Inr (), api_payment (resp\<lparr>prs_success := True\<rparr>) s) }) }) } })"

definition make_internal_tx ::
  "env \<Rightarrow> PaymentRequest \<Rightarrow> bank \<Rightarrow> ((PaymentResponseError + unit) \<times> bank) option" where
  "make_internal_tx E pr s =
     (let (conn, s) = get_conn E s in
      if \<not> conn then Some (Inl DatabaseConnectionFailed, s)
      else do {
        iname \<leftarrow> prq_recipient pr;
        let ouid = prq_uid pr;
        let rate = (case prq_rate pr of Some r \<Rightarrow> r
                    | None \<Rightarrow> rate_new (dec E) (prq_currency pr) (prq_currency pr) 1);
        let fees = money_zero (dec E) (prq_currency pr);
        amount \<leftarrow> prq_amount pr;
        let (h, s) = new_uuid E s;
        let resp = \<lparr>prs_req_id = prq_req_id pr, prs_payment_hash = uuid_show E h, prs_uid = ouid,
          prs_success = False, prs_currency = prq_currency pr, prs_payment_request = None,
          prs_amount = Some amount, prs_fees = Some fees, prs_rate = Some rate, prs_error = None,
          prs_payment_preimage = None, prs_destination = None, prs_description = None\<rparr>;
        (case query E (user_get_by_username iname) s of
           (None, s) \<Rightarrow> Some (Inl UserDoesNotExist, api_payment (resp\<lparr>prs_error := Some UserDoesNotExist\<rparr>) s)
         | (Some iuser, s) \<Rightarrow>
           (case query E (user_get_by_id (as_i32 ouid)) s of
              (None, s) \<Rightarrow> Some (Inl UserDoesNotExist, api_payment (resp\<lparr>prs_error := Some UserDoesNotExist\<rparr>) s)
            | (Some ouser, s) \<Rightarrow>
                let iuid = as_u64 (usr_uid iuser) in
                if iuid = ouid then Some (Inl SelfPayment, s)
                else internal_transfer E pr amount (usr_username ouser) iname iuid resp s)) })"

section \<open>Writing copies back\<close>

fun puts :: "(place \<times> Account) list \<Rightarrow> Ledger \<Rightarrow> Ledger option" where
  "puts [] L = Some L"
| "puts ((p, a) # xs) L = Option.bind (ledger_put p a L) (puts xs)"

text \<open>How much writing \<open>a\<close> at \<open>p\<close> changes the balances held in currency \<open>c\<close>.\<close>

definition put_delta :: "Currency \<Rightarrow> Ledger \<Rightarrow> place \<times> Account \<Rightarrow> rat" where
  "put_delta c L x = (if acc_currency (snd x) = c
     then balance (snd x) - balance (the (ledger_get (fst x) (account_id (snd x)) L)) else 0)"

definition writable :: "Ledger \<Rightarrow> place \<times> Account \<Rightarrow> bool" where
  "writable L x \<longleftrightarrow> grid 12 (balance (snd x)) \<and>
     (\<exists>b. ledger_get (fst x) (account_id (snd x)) L = Some b \<and> acc_currency (snd x) = acc_currency b)"

definition bank_ok :: "env \<Rightarrow> bank \<Rightarrow> bool" where
  "bank_ok E s = ledger_ok E (tick s) (ledger s)"

definition balances_small :: "Ledger \<Rightarrow> bool" where
  "balances_small L = (\<forall>p i a. ledger_get p i L = Some a \<longrightarrow> small (balance a))"

lemma ledger_small_balances: "ledger_small L \<Longrightarrow> balances_small L"
  unfolding balances_small_def using ledger_small_get by blast

text \<open>
  A state change that conserves the net positions and the invariant (and the configured fee margin,
  which no handler changes), and one that keeps the books altogether: in addition no user gets into
  debt and the insurance fund is not touched.
\<close>

definition conserves :: "env \<Rightarrow> bank \<Rightarrow> bank \<Rightarrow> bool" where
  "conserves E s s' \<longleftrightarrow> bank_ok E s' \<and> tick s \<le> tick s' \<and> (\<forall>c. net c (ledger s') = net c (ledger s)) \<and>
     ln_network_fee_margin s' = ln_network_fee_margin s"

definition users_nonneg :: "Ledger \<Rightarrow> bool" where
  "users_nonneg L \<longleftrightarrow> (\<forall>u i a. ledger_get (PUser u) i L = Some a \<longrightarrow> 0 \<le> balance a)"

definition keeps :: "env \<Rightarrow> bank \<Rightarrow> bank \<Rightarrow> bool" where
  "keeps E s s' \<longleftrightarrow> conserves E s s' \<and> (users_nonneg (ledger s) \<longrightarrow> users_nonneg (ledger s')) \<and>
     insurance_fund_account (ledger s') = insurance_fund_account (ledger s)"

lemma conserves_trans: "conserves E s s' \<Longrightarrow> conserves E s' s'' \<Longrightarrow> conserves E s s''"
  by (auto simp: conserves_def)

lemma keeps_trans: "keeps E s s' \<Longrightarrow> keeps E s' s'' \<Longrightarrow> keeps E s s''"
  using conserves_trans by (auto simp: keeps_def)

lemma keeps_conserves: "keeps E s s' \<Longrightarrow> conserves E s s'"
  by (simp add: keeps_def)

lemma keeps_ok: "keeps E s s' \<Longrightarrow> bank_ok E s'"
  by (simp add: keeps_def conserves_def)

lemma conserves_ok: "conserves E s s' \<Longrightarrow> bank_ok E s'"
  by (simp add: conserves_def)

lemma conserves_same:
  "bank_ok E s \<Longrightarrow> ledger s' = ledger s \<Longrightarrow> tick s \<le> tick s' \<Longrightarrow>
     ln_network_fee_margin s' = ln_network_fee_margin s \<Longrightarrow> conserves E s s'"
  by (auto simp: conserves_def bank_ok_def ledger_ok_mono)

lemma keeps_same:
  "bank_ok E s \<Longrightarrow> ledger s' = ledger s \<Longrightarrow> tick s \<le> tick s' \<Longrightarrow>
     ln_network_fee_margin s' = ln_network_fee_margin s \<Longrightarrow> keeps E s s'"
  by (simp add: keeps_def conserves_same)

lemma put_account_conv:
  "put_account p a s = Some s' \<longleftrightarrow> (\<exists>L. ledger_put p a (ledger s) = Some L \<and> s' = s\<lparr>ledger := L\<rparr>)"
  by (auto simp: put_account_def)

lemma make_tx_frame:
  assumes "make_tx E out ouid inn iuid amount s = Some (r, out', inn', s')"
  shows "ledger s' = ledger s" "tick s \<le> tick s'" "outbox s' = outbox s"
    "payment_threads s' = payment_threads s" "ln_network_fee_margin s' = ln_network_fee_margin s"
    "account_id out' = account_id out" "account_id inn' = account_id inn"
    "acc_currency out' = acc_currency out" "acc_currency inn' = acc_currency inn"
    "account_type out' = account_type out" "account_type inn' = account_type inn"
    "r = Inr txid \<Longrightarrow> 0 < mon_value amount \<and> acc_currency out = acc_currency inn"
  using assms
  by (auto simp: make_tx_def Let_def bind_Some_conv get_conn_def time_now_def
      split: if_splits prod.splits option.splits list.splits dest!: exec_frame)

lemma store_summary_frame:
  assumes "store_summary E out ouid inn iuid amounts otxid itxid ftxid ref oname iname s = (r, s')"
  shows "ledger s' = ledger s \<and> tick s \<le> tick s' \<and> tx_seq s' = tx_seq s \<and>
    payment_threads s' = payment_threads s \<and> ln_network_fee_margin s' = ln_network_fee_margin s"
  using assms
  by (auto simp: store_summary_def Let_def time_now_def split: if_splits prod.splits dest!: exec_frame)

lemma make_summary_tx_frame:
  assumes "make_summary_tx E out ouid inn iuid amount rate fees otxid itxid ftxid ref oname iname s = Some (r, s')"
  shows "ledger s' = ledger s \<and> tick s \<le> tick s' \<and> tx_seq s' = tx_seq s \<and>
    payment_threads s' = payment_threads s \<and> ln_network_fee_margin s' = ln_network_fee_margin s"
proof -
  have "s' = s \<or> s' = bump s \<or> (\<exists>amounts oname iname.
    store_summary E out ouid inn iuid amounts otxid itxid ftxid ref oname iname (bump s) = (r, s'))"
    using assms
    by (auto simp: make_summary_tx_def get_conn_def Let_def bind_Some_conv split: if_splits option.splits)
  then show ?thesis
    by (elim disjE exE) (auto dest!: store_summary_frame)
qed

lemma put_accounts_conv:
  "put_accounts xs s = Some s' \<longleftrightarrow> (\<exists>L. puts xs (ledger s) = Some L \<and> s' = s\<lparr>ledger := L\<rparr>)"
  by (induction xs s rule: put_accounts.induct) (auto simp: bind_Some_conv put_account_conv)

context env_ok
begin

lemma puts_spec:
  assumes "ledger_ok E n L" "puts xs L = Some L'"
    and "distinct (map (\<lambda>x. (fst x, account_id (snd x))) xs)" "\<forall>x \<in> set xs. writable L x"
  shows "ledger_ok E n L' \<and> net c L' = net c L + sum_list (map (put_delta c L) xs)"
  using assms
proof (induction xs arbitrary: L)
  case Nil
  then show ?case by simp
next
  case (Cons x xs)
  obtain p a where x: "x = (p, a)" by (cases x)
  obtain L1 where L1: "ledger_put p a L = Some L1" and rest: "puts xs L1 = Some L'"
    using Cons.prems(2) by (auto simp: x bind_Some_conv)
  obtain b where b: "ledger_get p (account_id a) L = Some b" "acc_currency a = acc_currency b"
    and g: "grid 12 (balance a)"
    using Cons.prems(4) by (auto simp: x writable_def)
  note put = ledger_put_spec [OF Cons.prems(1) b(1) g L1]
  have same: "ledger_get (fst y) (account_id (snd y)) L1 = ledger_get (fst y) (account_id (snd y)) L"
    if "y \<in> set xs" for y
    using that Cons.prems(3) by (auto simp: put(3) x)
  have "\<forall>y \<in> set xs. writable L1 y"
    using Cons.prems(4) by (auto simp: writable_def same)
  with Cons.IH [OF put(1) rest] Cons.prems(3)
  have "ledger_ok E n L' \<and> net c L' = net c L1 + sum_list (map (put_delta c L1) xs)"
    by simp
  moreover have "map (put_delta c L1) xs = map (put_delta c L) xs"
    by (auto simp: put_delta_def same)
  moreover have "put_delta c L (p, a) = (if acc_currency b = c then balance a - balance b else 0)"
    using b by (simp add: put_delta_def)
  ultimately show ?case
    using put(2) [OF b(2), of c] by (simp add: x)
qed

lemma puts_get:
  assumes "ledger_ok E n L" "puts xs L = Some L'"
    and "distinct (map (\<lambda>x. (fst x, account_id (snd x))) xs)" "\<forall>x \<in> set xs. writable L x"
    and "ledger_get q i L' = Some a"
  shows "ledger_get q i L = Some a \<or> (q, a) \<in> set xs"
  using assms
proof (induction xs arbitrary: L)
  case Nil
  then show ?case by simp
next
  case (Cons x xs)
  obtain p b where x: "x = (p, b)" by (cases x)
  obtain L1 where L1: "ledger_put p b L = Some L1" and rest: "puts xs L1 = Some L'"
    using Cons.prems(2) by (auto simp: x bind_Some_conv)
  obtain o' where o': "ledger_get p (account_id b) L = Some o'" and g: "grid 12 (balance b)"
    using Cons.prems(4) by (auto simp: x writable_def)
  note put = ledger_put_spec [OF Cons.prems(1) o' g L1]
  have "\<forall>y \<in> set xs. writable L1 y"
    using Cons.prems(3,4) by (auto simp: writable_def put(3) x)
  with Cons.IH [OF put(1) rest] Cons.prems(3,5) have "ledger_get q i L1 = Some a \<or> (q, a) \<in> set xs" by simp
  then show ?case by (auto simp: put(3) x split: if_splits)
qed

lemma puts_insurance: "puts xs L = Some L' \<Longrightarrow> insurance_fund_account L' = insurance_fund_account L"
  by (induction xs arbitrary: L) (auto simp: bind_Some_conv ledger_put_def split: option.splits)

lemma puts_keeps:
  assumes ok: "bank_ok E s" and p: "puts xs (ledger s) = Some (ledger s')" and t: "tick s \<le> tick s'"
    and m: "ln_network_fee_margin s' = ln_network_fee_margin s"
    and d: "distinct (map (\<lambda>x. (fst x, account_id (snd x))) xs)" "\<forall>x \<in> set xs. writable (ledger s) x"
    and z: "\<And>c. sum_list (map (put_delta c (ledger s)) xs) = 0"
    and nn: "\<And>u a. users_nonneg (ledger s) \<Longrightarrow> (PUser u, a) \<in> set xs \<Longrightarrow> 0 \<le> balance a"
  shows "keeps E s s'"
proof -
  have L: "ledger_ok E (tick s) (ledger s)" using ok by (simp add: bank_ok_def)
  note spec = puts_spec [OF L p d]
  then have "\<forall>c. net c (ledger s') = net c (ledger s)"
    using z by simp
  moreover have "ledger_ok E (tick s') (ledger s')"
    using spec ledger_ok_mono [OF _ t] by blast
  moreover have "users_nonneg (ledger s')" if "users_nonneg (ledger s)"
    using puts_get [OF L p d] nn [OF that] that by (fastforce simp: users_nonneg_def)
  ultimately show ?thesis
    using t m puts_insurance [OF p] by (simp add: keeps_def conserves_def bank_ok_def)
qed

lemma ensure_user_keeps: "bank_ok E s \<Longrightarrow> keeps E s (ensure_user u s)"
  by (simp add: keeps_def conserves_def users_nonneg_def bank_ok_def ensure_user_def ledger_ensure_user_ok)

lemma default_account_spec:
  assumes "bank_ok E s" "default_account E p cur aty s = Some (a, s')"
  shows "keeps E s s'" "ledger_get p (account_id a) (ledger s') = Some a" "acc_currency a = cur"
    "aty = Some t \<Longrightarrow> account_type a = t"
    "\<And>q i x. ledger_get q i (ledger s) = Some x \<Longrightarrow> ledger_get q i (ledger s') = Some x"
    "balances_small (ledger s) \<Longrightarrow> balances_small (ledger s')"
    "\<And>q. (ledger_ua q (ledger s') = None) = (ledger_ua q (ledger s) = None)"
    "insurance_fund_account (ledger s') = insurance_fund_account (ledger s)"
    "outbox s' = outbox s" "db s' = db s" "tx_seq s' = tx_seq s" "payment_threads s' = payment_threads s"
proof -
  obtain L n where d: "ledger_default E (tick s) p cur aty (ledger s) = Some (a, L, n)"
    and s': "s' = s\<lparr>ledger := L, tick := n\<rparr>"
    using assms(2) by (auto simp: default_account_def split: option.splits)
  note spec = ledger_default_spec [OF assms(1) [unfolded bank_ok_def] d]
  have "users_nonneg L" if "users_nonneg (ledger s)"
    using spec(8) that by (fastforce simp: users_nonneg_def)
  then show "keeps E s s'" using spec(1,2,6,10) by (simp add: keeps_def conserves_def bank_ok_def s')
  show "ledger_get p (account_id a) (ledger s') = Some a" using spec(3) by (simp add: s')
  show "acc_currency a = cur" by (rule spec(4))
  show "aty = Some t \<Longrightarrow> account_type a = t" by (rule spec(5))
  show "\<And>q i x. ledger_get q i (ledger s) = Some x \<Longrightarrow> ledger_get q i (ledger s') = Some x"
    using spec(7) by (simp add: s')
  show "balances_small (ledger s) \<Longrightarrow> balances_small (ledger s')"
    using spec(8) unfolding balances_small_def s' by (auto dest: spec(8))
  show "\<And>q. (ledger_ua q (ledger s') = None) = (ledger_ua q (ledger s) = None)"
    using spec(9) by (simp add: s')
  show "insurance_fund_account (ledger s') = insurance_fund_account (ledger s)"
    using spec(10) by (simp add: s')
  show "outbox s' = outbox s" "db s' = db s" "tx_seq s' = tx_seq s" "payment_threads s' = payment_threads s"
    by (simp_all add: s')
qed

text \<open>
  The contract of \<open>make_tx\<close>: the two copies move by the same \<open>d\<close>, which is the amount
  when the transaction is recorded.
\<close>

lemma make_tx_spec:
  assumes "make_tx E out ouid inn iuid amount s = Some (r, out', inn', s')"
    and "grid 12 (balance out)" "grid 12 (balance inn)" "grid 12 (mon_value amount)"
    and "small (balance out)" "small (balance inn)" "small (mon_value amount)"
  obtains d where "balance out' = balance out - d" "balance inn' = balance inn + d" "grid 12 d"
    "d = 0 \<or> acc_currency out = acc_currency inn" "\<And>txid. r = Inr txid \<Longrightarrow> d = mon_value amount"
proof -
  have "dec_sub (dec E) (balance out) (mon_value amount) = Some (balance out - mon_value amount)"
    "dec_add (dec E) (balance inn) (mon_value amount) = Some (balance inn + mon_value amount)"
    using assms by (auto intro: sub_small add_small)
  with assms(1)
  have "(out' = out \<and> inn' = inn \<and> (\<forall>txid. r \<noteq> Inr txid)) \<or>
    (out' = out\<lparr>balance := balance out - mon_value amount\<rparr> \<and>
     inn' = inn\<lparr>balance := balance inn + mon_value amount\<rparr> \<and> acc_currency out = acc_currency inn)"
    by (auto simp: make_tx_def Let_def bind_Some_conv split: if_splits prod.splits option.splits list.splits)
  then show ?thesis
    using that [of 0] that [of "mon_value amount"] assms(4) by auto
qed

end

end
