(* ===== verification/Accountant.thy ===== *)
theory Accountant
  imports BankTx
begin

text \<open>
  Reconciliation (\<open>bank/src/accountant.rs\<close>): the bank checks at start-up and every few
  seconds that no user account is negative and that in every currency the balances of users,
  liabilities and dealer cancel; it shuts down otherwise. The insurance fund is not part of the
  sum. The lemmas show that the check computes exactly this, as long as the sums of balances stay
  in the range in which decimal addition is exact.
\<close>

section \<open>Definitions\<close>

record ReconcilationError =
  rec_accounts :: "Account list"
  rec_net_zero :: "(Currency \<times> rat) list"

definition negative_accounts :: "Ledger \<Rightarrow> Account list" where
  "negative_accounts L =
     concat (map (\<lambda>(u, ua). filter (\<lambda>a. balance a < 0) (map snd (accounts ua))) (user_accounts L))"

definition reconcile_ledger :: "dec_ops \<Rightarrow> Ledger \<Rightarrow> (ReconcilationError + unit) option" where
  "reconcile_ledger D L = do {
     m \<leftarrow> tally_users D (user_accounts L) [];
     if negative_accounts L \<noteq> []
     then Some (Inl \<lparr>rec_accounts = negative_accounts L, rec_net_zero = []\<rparr>)
     else do {
       m \<leftarrow> tally_all D (accounts (bank_liabilities L)) m;
       m \<leftarrow> tally_all D (accounts (dealer_accounts L)) m;
       let wrong = filter (\<lambda>(c, b). b \<noteq> 0) m;
       if wrong \<noteq> [] then Some (Inl \<lparr>rec_accounts = [], rec_net_zero = wrong\<rparr>)
       else Some (Inr ()) } }"

section \<open>What the tallies are\<close>

text \<open>The abstract specification: the sum of the balances that the accountant looks at.\<close>

definition users_total :: "Currency \<Rightarrow> Ledger \<Rightarrow> rat" where
  "users_total c L = alist_sum (\<lambda>ua. acct_total c (accounts ua)) (user_accounts L)"

definition book_total :: "Currency \<Rightarrow> Ledger \<Rightarrow> rat" where
  "book_total c L = users_total c L + acct_total c (accounts (bank_liabilities L))
     + acct_total c (accounts (dealer_accounts L))"

definition abs_total :: "accounts \<Rightarrow> rat" where
  "abs_total = alist_sum (\<lambda>a. \<bar>balance a\<bar>)"

definition ledger_volume :: "Ledger \<Rightarrow> rat" where
  "ledger_volume L = alist_sum (\<lambda>ua. abs_total (accounts ua)) (user_accounts L)
     + abs_total (accounts (bank_liabilities L)) + abs_total (accounts (dealer_accounts L))"

lemma net_book_total:
  "net c L = book_total c L +
     (if acc_currency (insurance_fund_account L) = c then balance (insurance_fund_account L) else 0)"
  by (simp add: net_def book_total_def users_total_def)

definition tallied :: "(Currency \<times> rat) list \<Rightarrow> Currency \<Rightarrow> rat" where
  "tallied m c = (case map_of m c of Some x \<Rightarrow> x | None \<Rightarrow> 0)"

definition tally_ok :: "rat \<Rightarrow> (Currency \<times> rat) list \<Rightarrow> bool" where
  "tally_ok B m \<longleftrightarrow> distinct_keys m \<and> (\<forall>c. grid 12 (tallied m c) \<and> \<bar>tallied m c\<bar> \<le> B)"

definition all_grid :: "accounts \<Rightarrow> bool" where
  "all_grid xs \<longleftrightarrow> (\<forall>(k, a) \<in> set xs. grid 12 (balance a))"

lemma abs_total_nonneg: "0 \<le> abs_total xs"
  by (induction xs) (auto simp: abs_total_def)

context decimal
begin

lemma tally_spec:
  assumes "tally_ok B m" "grid 12 (balance a)" "B + \<bar>balance a\<bar> \<le> 4 * 10 ^ 16" "0 \<le> B"
  shows "\<exists>m'. tally D a m = Some m' \<and> tally_ok (B + \<bar>balance a\<bar>) m' \<and>
    (\<forall>c. tallied m' c = tallied m c + (if acc_currency a = c then balance a else 0))"
proof -
  let ?t = "tallied m (acc_currency a)"
  have t: "grid 12 ?t" "\<bar>?t\<bar> \<le> B" using assms(1) by (auto simp: tally_ok_def)
  have "dec_repr 12 ?t" "dec_repr 12 (balance a)" "dec_repr 12 (?t + balance a)"
    using t assms(2-4) by (auto intro!: dec_repr_12 grid_add)
  then have "dec_add D ?t (balance a) = Some (?t + balance a)" by (rule add_exact)
  then have m': "tally D a m = Some (AList.update (acc_currency a) (?t + balance a) m)"
    by (simp add: tally_def tallied_def)
  moreover have val: "tallied (AList.update (acc_currency a) (?t + balance a) m) c =
      tallied m c + (if acc_currency a = c then balance a else 0)" for c
    by (simp add: tallied_def)
  moreover have "\<bar>tallied m c + (if acc_currency a = c then balance a else 0)\<bar> \<le> B + \<bar>balance a\<bar>" for c
    using assms(1) by (auto simp: tally_ok_def intro: order_trans [OF abs_triangle_ineq] add_mono)
      (metis abs_ge_zero add_increasing2)
  ultimately show ?thesis
    using assms(1,2) by (auto simp: tally_ok_def val intro!: grid_add)
qed

lemma tally_all_spec:
  assumes "tally_ok B m" "all_grid xs" "B + abs_total xs \<le> 4 * 10 ^ 16" "0 \<le> B"
  shows "\<exists>m'. tally_all D xs m = Some m' \<and> tally_ok (B + abs_total xs) m' \<and>
    (\<forall>c. tallied m' c = tallied m c + acct_total c xs)"
  using assms
proof (induction xs arbitrary: m B)
  case Nil
  then show ?case by (auto simp: abs_total_def acct_total_def)
next
  case (Cons x xs)
  obtain i a where x: "x = (i, a)" by (cases x)
  have "B + \<bar>balance a\<bar> \<le> 4 * 10 ^ 16"
    using Cons.prems(3) abs_total_nonneg [of xs] by (simp add: x abs_total_def)
  then obtain m1 where m1: "tally D a m = Some m1" "tally_ok (B + \<bar>balance a\<bar>) m1"
    "\<forall>c. tallied m1 c = tallied m c + (if acc_currency a = c then balance a else 0)"
    using tally_spec [OF Cons.prems(1) _ _ Cons.prems(4), of a] Cons.prems(2) by (auto simp: x all_grid_def)
  with Cons.IH [OF m1(2)] Cons.prems(2-4) show ?case
    by (auto simp: x all_grid_def abs_total_def acct_total_def add.assoc)
qed

lemma tally_users_spec:
  assumes "tally_ok B m" "\<forall>(u, ua) \<in> set us. all_grid (accounts ua)"
    and "B + alist_sum (\<lambda>ua. abs_total (accounts ua)) us \<le> 4 * 10 ^ 16" "0 \<le> B"
  shows "\<exists>m'. tally_users D us m = Some m' \<and> tally_ok (B + alist_sum (\<lambda>ua. abs_total (accounts ua)) us) m' \<and>
    (\<forall>c. tallied m' c = tallied m c + alist_sum (\<lambda>ua. acct_total c (accounts ua)) us)"
  using assms
proof (induction us arbitrary: m B)
  case Nil
  then show ?case by auto
next
  case (Cons x us)
  obtain u ua where x: "x = (u, ua)" by (cases x)
  have nonneg: "0 \<le> alist_sum (\<lambda>ua. abs_total (accounts ua)) us"
    by (induction us) (auto simp: abs_total_nonneg add_nonneg_nonneg)
  have "B + abs_total (accounts ua) \<le> 4 * 10 ^ 16"
    using Cons.prems(3) nonneg by (simp add: x)
  then obtain m1 where m1: "tally_all D (accounts ua) m = Some m1" "tally_ok (B + abs_total (accounts ua)) m1"
    "\<forall>c. tallied m1 c = tallied m c + acct_total c (accounts ua)"
    using tally_all_spec [OF Cons.prems(1) _ _ Cons.prems(4), of "accounts ua"] Cons.prems(2) by (auto simp: x)
  with Cons.IH [OF m1(2)] Cons.prems(2-4) abs_total_nonneg show ?case
    by (auto simp: x add.assoc)
qed

end

section \<open>What the check decides\<close>

lemma ledger_ok_grids:
  assumes "ledger_ok E n L"
  shows "\<forall>(u, ua) \<in> set (user_accounts L). all_grid (accounts ua)"
    "all_grid (accounts (bank_liabilities L))" "all_grid (accounts (dealer_accounts L))"
proof -
  have grid: "all_grid (accounts ua)" if "ledger_ua p L = Some ua" for p ua
  proof -
    have "accs_ok E n (accounts ua)" using assms that by (auto simp: ledger_ok_def)
    then show ?thesis by (auto simp: accs_ok_def all_grid_def)
  qed
  show "all_grid (accounts (bank_liabilities L))" "all_grid (accounts (dealer_accounts L))"
    using grid [of PLiab] grid [of PDealer] by auto
  show "\<forall>(u, ua) \<in> set (user_accounts L). all_grid (accounts ua)"
    using assms grid [of "PUser u" for u] by (auto simp: ledger_ok_def map_of_eq_set)
qed

lemma negative_accounts_empty:
  assumes "ledger_ok E n L"
  shows "negative_accounts L = [] \<longleftrightarrow> users_nonneg L"
proof -
  have get: "ledger_get (PUser u) i L = Some a \<longleftrightarrow>
      (\<exists>ua. (u, ua) \<in> set (user_accounts L) \<and> (i, a) \<in> set (accounts ua))" for u i a
  proof -
    have "accs_ok E n (accounts ua)" if "map_of (user_accounts L) u = Some ua" for ua
      using assms that by (auto simp: ledger_ok_def dest: spec [of _ "PUser u"])
    moreover have "distinct_keys (user_accounts L)" using assms by (simp add: ledger_ok_def)
    ultimately show ?thesis
      by (auto simp: ledger_get_def bind_Some_conv map_of_eq_set accs_ok_def)
  qed
  have "negative_accounts L = [] \<longleftrightarrow>
      (\<forall>u ua i a. (u, ua) \<in> set (user_accounts L) \<longrightarrow> (i, a) \<in> set (accounts ua) \<longrightarrow> 0 \<le> balance a)"
    by (fastforce simp: negative_accounts_def filter_empty_conv)
  then show ?thesis unfolding users_nonneg_def get by blast
qed

lemma tally_empty: "tally_ok 0 []" "tallied [] c = 0"
  by (auto simp: tally_ok_def tallied_def)

lemma nonzero_entries:
  "distinct_keys m \<Longrightarrow> (filter (\<lambda>(c, b). b \<noteq> 0) m = []) = (\<forall>c. tallied m c = 0)"
  by (auto simp: filter_empty_conv tallied_def map_of_eq_set split: option.splits)

context env_ok
begin

lemma reconcile_ledger_iff:
  assumes ok: "ledger_ok E n L" and vol: "ledger_volume L \<le> 4 * 10 ^ 16"
  shows "reconcile_ledger (dec E) L \<noteq> None"
    "reconcile_ledger (dec E) L = Some (Inr ()) \<longleftrightarrow> users_nonneg L \<and> (\<forall>c. book_total c L = 0)"
proof -
  let ?U = "alist_sum (\<lambda>ua. abs_total (accounts ua)) (user_accounts L)"
  note grids = ledger_ok_grids [OF ok]
  have U: "0 \<le> ?U"
    by (induction "user_accounts L") (auto simp: alist_sum_def intro!: sum_list_nonneg abs_total_nonneg)
  obtain m1 where m1: "tally_users (dec E) (user_accounts L) [] = Some m1" "tally_ok ?U m1"
    "\<forall>c. tallied m1 c = users_total c L"
    using tally_users_spec [OF tally_empty(1) grids(1)] vol
      abs_total_nonneg [of "accounts (bank_liabilities L)"] abs_total_nonneg [of "accounts (dealer_accounts L)"]
    by (auto simp: ledger_volume_def users_total_def tally_empty(2))
  obtain m2 where m2: "tally_all (dec E) (accounts (bank_liabilities L)) m1 = Some m2"
    "tally_ok (?U + abs_total (accounts (bank_liabilities L))) m2"
    "\<forall>c. tallied m2 c = tallied m1 c + acct_total c (accounts (bank_liabilities L))"
    using tally_all_spec [OF m1(2) grids(2) _ U] vol abs_total_nonneg [of "accounts (dealer_accounts L)"]
    by (auto simp: ledger_volume_def)
  obtain m3 where m3: "tally_all (dec E) (accounts (dealer_accounts L)) m2 = Some m3"
    "tally_ok (?U + abs_total (accounts (bank_liabilities L)) + abs_total (accounts (dealer_accounts L))) m3"
    "\<forall>c. tallied m3 c = tallied m2 c + acct_total c (accounts (dealer_accounts L))"
    using tally_all_spec [OF m2(2) grids(3)] vol U abs_total_nonneg [of "accounts (bank_liabilities L)"]
    by (auto simp: ledger_volume_def)
  have "tallied m3 c = book_total c L" for c
    using m1(3) m2(3) m3(3) by (simp add: book_total_def)
  moreover have "distinct_keys m3" using m3(2) by (simp add: tally_ok_def)
  ultimately have "filter (\<lambda>(c, b). b \<noteq> 0) m3 = [] \<longleftrightarrow> (\<forall>c. book_total c L = 0)"
    by (simp add: nonzero_entries)
  then show "reconcile_ledger (dec E) L \<noteq> None"
    "reconcile_ledger (dec E) L = Some (Inr ()) \<longleftrightarrow> users_nonneg L \<and> (\<forall>c. book_total c L = 0)"
    using m1(1) m2(1) m3(1) negative_accounts_empty [OF ok] by (auto simp: reconcile_ledger_def)
qed

text \<open>A state change that keeps the books keeps the ledger reconciled.\<close>

lemma keeps_reconciled:
  assumes "keeps E s s'" "bank_ok E s" "ledger_volume (ledger s) \<le> 4 * 10 ^ 16" "ledger_volume (ledger s') \<le> 4 * 10 ^ 16"
    and "reconcile_ledger (dec E) (ledger s) = Some (Inr ())"
  shows "reconcile_ledger (dec E) (ledger s') = Some (Inr ())"
proof -
  have ok: "ledger_ok E (tick s) (ledger s)" "ledger_ok E (tick s') (ledger s')"
    using assms(1,2) keeps_ok by (auto simp: bank_ok_def)
  have "book_total c (ledger s') = book_total c (ledger s)" for c
  proof -
    have "net c (ledger s') = net c (ledger s)"
      "insurance_fund_account (ledger s') = insurance_fund_account (ledger s)"
      using assms(1) by (auto simp: keeps_def conserves_def)
    then show ?thesis by (auto simp: net_book_total split: if_splits)
  qed
  with assms(1,5) show ?thesis
    by (simp add: reconcile_ledger_iff(2) [OF ok(1) assms(3)] reconcile_ledger_iff(2) [OF ok(2) assms(4)] keeps_def)
qed

end

end
