(* ===== verification/Sample.thy ===== *)
theory Sample
  imports BankTx "HOL-Library.Code_Target_Nat"
begin

text \<open>
  A concrete environment and a concrete bank, on which the hypotheses of the theorems are shown to
  hold: exact decimals (\<open>dec96\<close>), counting identifiers and clocks, a database and a Lightning
  node that always answer; a bank with two users, one of whom holds 0.5 BTC and 100 USD.
\<close>

definition sample_invoice :: DecodedInvoice where
  "sample_invoice = \<lparr>di_amount_milli_satoshis = Some 1000000, di_payment_hash = ''hash'', di_expiry_secs = 3600\<rparr>"

definition env96 :: env where
  "env96 = \<lparr>
     dec = dec96,
     new_v4 = (\<lambda>n. n + 1000),
     uuid_show = show_nat,
     clock = (\<lambda>n. word_of_nat n + 1600),
     instant = (\<lambda>n. n),
     pool_get = (\<lambda>_. True),
     pg_ok = (\<lambda>_. True),
     hash_pick = (\<lambda>_ _. 0),
     parse_invoice = (\<lambda>s. if s = ''lnbc'' then Some sample_invoice else None),
     sha256_digest = (\<lambda>s. s),
     unescape = Some,
     hex_decode = Some,
     url_parse = Some,
     bech32_encode = (\<lambda>h s. Some (h @ s)),
     lnd_add_invoice = (\<lambda>_ amount memo expiry h. Some \<lparr>air_payment_request = ''lnbcnew'', air_r_hash = ''newhash'',
       air_add_index = 1\<rparr>),
     lnd_send_payment_sync = (\<lambda>_ pr fee. Some \<lparr>sr_payment_error = [], sr_route_total_fees = Some 1,
       sr_payment_hash = ''hash'', sr_payment_preimage = ''pre''\<rparr>),
     lnd_get_info = (\<lambda>_. None),
     lnd_decode_pay_req = (\<lambda>_ pr. Some \<lparr>pq_num_satoshis = 1000, pq_destination = ''node''\<rparr>),
     lnd_query_routes = (\<lambda>_ d v f. Some [2]) \<rparr>"

lemma env96_simps [simp]:
  "dec env96 = dec96" "new_v4 env96 = (\<lambda>n. n + 1000)" "pool_get env96 n" "pg_ok env96 n" "hash_pick env96 xs ys = 0"
  "clock env96 n = word_of_nat n + 1600" "instant env96 n = n"
  "uuid_show env96 = show_nat" "parse_invoice env96 s = (if s = ''lnbc'' then Some sample_invoice else None)"
  by (simp_all add: env96_def)

interpretation env96: env_ok env96
proof (rule env_ok.intro)
  show "decimal (dec env96)" by (simp add: dec96.decimal_axioms)
  show "new_v4 env96 m = new_v4 env96 n \<Longrightarrow> m = n" for m n by simp
qed

definition sample_acc :: "uuid \<Rightarrow> rat \<Rightarrow> Currency \<Rightarrow> AccountType \<Rightarrow> Account" where
  "sample_acc i b c t = \<lparr>account_id = i, balance = b, acc_currency = c, account_type = t, account_class = Cash\<rparr>"

definition sample_ua :: "user_id \<Rightarrow> Account list \<Rightarrow> UserAccount" where
  "sample_ua u as = (user_account_new u)\<lparr>accounts := map (\<lambda>a. (account_id a, a)) as\<rparr>"

definition sample_ledger :: Ledger where
  "sample_ledger = \<lparr>
     user_accounts = [(1, sample_ua 1 [sample_acc 11 (1 / 2) BTC Internal, sample_acc 12 100 USD Internal]),
                      (2, sample_ua 2 [sample_acc 21 0 BTC Internal])],
     insurance_fund_account = sample_acc 1 0 BTC Internal,
     fee_account = user_account_new BANK_UID,
     bank_liabilities = sample_ua BANK_UID [sample_acc 31 (- (1 / 2)) BTC External],
     dealer_accounts = sample_ua DEALER_UID [sample_acc 41 0 BTC Internal, sample_acc 42 (- 100) USD Internal],
     external_fee_account = sample_acc 2 0 BTC External \<rparr>"

definition sample_user :: "i32 \<Rightarrow> string \<Rightarrow> bool \<Rightarrow> User" where
  "sample_user u n internal =
     \<lparr>usr_uid = u, usr_username = n, usr_password = [], usr_is_internal = internal, usr_origin = None\<rparr>"

definition sample_db :: Db where
  "sample_db = \<lparr>
     db_users = [sample_user 1 ''alice'' False, sample_user 2 ''bob'' False,
       sample_user (as_i32 BANK_UID) ''bank'' True, sample_user (as_i32 DEALER_UID) ''dealer'' True],
     db_accounts = [], db_invoices = [], db_transactions = [], db_summaries = [], db_dca_settings = [],
     db_profiles = [], db_nostr_keys = [], db_ln_addresses = [], db_serial = 100 \<rparr>"

definition sample_settings :: BankSettings where
  "sample_settings = \<lparr>
     set_ln_network_fee_margin = 1 / 100, set_ln_network_max_fee = 1 / 100, set_internal_tx_fee = 0,
     set_external_tx_fee = 0, set_reserve_ratio = 1, set_withdrawal_only = False,
     set_withdrawal_limiter = \<lparr>request_limit = 10, replenishment_interval = 60\<rparr>,
     set_deposit_limiter = \<lparr>request_limit = 10, replenishment_interval = 60\<rparr>,
     set_domain = ''kollider.me''\<rparr>"

definition sample_bank :: bank where
  "sample_bank = (bank_new env96 True sample_settings sample_db)\<lparr>ledger := sample_ledger,
     available_currencies := [BTC, USD]\<rparr>"

lemma grid_of_nat_frac [simp]: "grid 12 (1 / 2)" "grid 12 (- (1 / 2))" "grid 12 100" "grid 12 (- 100)"
  by (simp_all add: grid_def is_integer_def)

lemmas sample_defs = sample_bank_def sample_ledger_def sample_ua_def sample_acc_def bank_new_def ledger_new_def
  user_account_new_def sample_settings_def BANK_UID_def DEALER_UID_def

lemma sample_bank_ok: "bank_ok env96 sample_bank"
proof -
  have "accs_ok env96 (Suc (Suc 0)) (accounts ua)" if "ledger_ua p sample_ledger = Some ua" for p ua
    using that
    by (cases p) (auto simp: sample_defs accs_ok_def distinct_keys_def split: if_splits)
  moreover have "owner ua = u" if "ledger_ua (PUser u) sample_ledger = Some ua" for u ua
    using that by (auto simp: sample_defs split: if_splits)
  moreover have "distinct_keys (user_accounts sample_ledger)" "grid 12 (balance (insurance_fund_account sample_ledger))"
    by (simp_all add: sample_defs distinct_keys_def)
  ultimately show ?thesis
    by (auto simp: bank_ok_def ledger_ok_def sample_bank_def bank_new_def ledger_new_def)
qed

lemma sample_bank_small: "ledger_small (ledger sample_bank)"
  by (simp add: sample_defs ledger_small_def accs_small_def small_def)

text \<open>Alice pays 0.1 BTC to bob.\<close>

definition sample_payment :: PaymentRequest where
  "sample_payment = \<lparr>prq_req_id = 7, prq_uid = 1, prq_payment_request = None, prq_currency = BTC,
     prq_recipient = Some ''bob'', prq_destination = None, prq_amount = Some (money_new dec96 BTC (1 / 10)),
     prq_invoice_amount = None, prq_rate = None, prq_fees = None\<rparr>"

text \<open>The same bank with an unpaid invoice of alice over 1000 satoshis, and the deposit that pays it.\<close>

definition sample_row :: Invoice where
  "sample_row = \<lparr>inv_payment_hash = ''h1'', inv_payment_request = ''lnbc1'', inv_created_at = 1,
     inv_value = 1000, inv_value_msat = 1000000, inv_expiry = 86400, inv_settled = False, inv_add_index = 1,
     inv_settled_date = 0, inv_account_id = ''11'', inv_uid = 1, inv_incoming = True, inv_owner = Some 1,
     inv_fees = None, inv_currency = Some ''BTC'', inv_target_account_currency = None,
     inv_reference = Some ''memo'', inv_description = None\<rparr>"

definition invoiced_bank :: bank where
  "invoiced_bank = sample_bank\<lparr>db := (db sample_bank)\<lparr>db_invoices := [sample_row]\<rparr>\<rparr>"

definition sample_deposit :: Deposit where
  "sample_deposit = \<lparr>dep_payment_request = ''lnbc1'', dep_payment_hash = ''h1'', dep_description_hash = [],
     dep_preimage = ''p1'', dep_value = 1000, dep_value_msat = 1000000, dep_settled = True,
     dep_creation_date = 1, dep_settle_date = 2\<rparr>"

lemma invoiced_bank_ok: "bank_ok env96 invoiced_bank" "balances_small (ledger invoiced_bank)"
  using sample_bank_ok ledger_small_balances [OF sample_bank_small]
  by (simp_all add: invoiced_bank_def bank_ok_def)

lemma invoiced_bank_row:
  "invoice_get_by_payment_request (dep_payment_request sample_deposit) (db invoiced_bank) = Some sample_row"
  by (simp add: invoiced_bank_def invoice_get_by_payment_request_def sample_deposit_def sample_row_def)

end
