(* ===== verification/BankWalk.thy ===== *)
theory BankWalk
  imports Sample
begin

text \<open>
  How the handlers are followed. \<open>in_sync E s0 cs s\<close>: from \<open>s0\<close> to \<open>s\<close> the
  books were kept, and the account copies \<open>cs\<close> the handler holds are the accounts in the
  ledger. \<open>walk I s P m\<close>: if \<open>I\<close> holds in the state \<open>s\<close> reached so far, every
  result of the rest \<open>m\<close> of the handler satisfies \<open>P\<close>. The rules \<open>walk_rules\<close>
  take a handler apart step by step: a step that leaves the ledger alone (\<open>quiet\<close>) keeps
  \<open>I\<close>, \<open>default_account\<close> adds a copy, \<open>make_tx\<close> yields two copies moved by
  opposite amounts, and writing back moved copies whose moves cancel keeps the books.
\<close>

definition in_sync :: "env \<Rightarrow> bank \<Rightarrow> (place \<times> Account) list \<Rightarrow> bank \<Rightarrow> bool" where
  "in_sync E s0 cs s \<longleftrightarrow> keeps E s0 s \<and> balances_small (ledger s) \<and>
     (\<forall>(p, a) \<in> set cs. ledger_get p (account_id a) (ledger s) = Some a)"

definition moved :: "rat \<Rightarrow> Account \<Rightarrow> Account \<Rightarrow> bool" where
  "moved d a a' \<longleftrightarrow> account_id a' = account_id a \<and> acc_currency a' = acc_currency a \<and>
     account_type a' = account_type a \<and> balance a' = balance a + d \<and> grid 12 d"

definition quiet :: "bank \<Rightarrow> bank \<Rightarrow> bool" where
  "quiet s s' \<longleftrightarrow> ledger s' = ledger s \<and> tick s \<le> tick s' \<and>
     ln_network_fee_margin s' = ln_network_fee_margin s"

text \<open>Predicates that quiet steps keep, and those that imply in addition that the books were kept.\<close>

definition framed :: "(bank \<Rightarrow> bool) \<Rightarrow> bool" where
  "framed I \<longleftrightarrow> (\<forall>s s'. I s \<longrightarrow> quiet s s' \<longrightarrow> I s')"

definition books :: "env \<Rightarrow> bank \<Rightarrow> (bank \<Rightarrow> bool) \<Rightarrow> bool" where
  "books E s0 I \<longleftrightarrow> framed I \<and> (\<forall>s. I s \<longrightarrow> keeps E s0 s)"

definition walk :: "(bank \<Rightarrow> bool) \<Rightarrow> bank \<Rightarrow> ('a \<Rightarrow> bool) \<Rightarrow> 'a option \<Rightarrow> bool" where
  "walk I s P m \<longleftrightarrow> (I s \<longrightarrow> ens P m)"

text \<open>A user's account does not get into debt; the other accounts may.\<close>

definition stays :: "place \<Rightarrow> Account \<Rightarrow> Account \<Rightarrow> bool" where
  "stays p a a' \<longleftrightarrow> (case p of PUser u \<Rightarrow> 0 \<le> balance a \<longrightarrow> 0 \<le> balance a' | _ \<Rightarrow> True)"

lemma stays_simps [simp]:
  "stays PLiab a a'" "stays PDealer a a'" "stays (if b then p else q) a a' = (if b then stays p a a' else stays q a a')"
  "stays (PUser u) a a' = (0 \<le> balance a \<longrightarrow> 0 \<le> balance a')"
  by (simp_all add: stays_def)

text \<open>Copies \<open>xs\<close> that can be written back: each is a held copy moved, and the moves cancel.\<close>

definition balanced :: "(place \<times> Account) list \<Rightarrow> (place \<times> Account) list \<Rightarrow> bool" where
  "balanced cs xs \<longleftrightarrow> (\<exists>ws. map (\<lambda>(p, a, a', d). (p, a')) ws = xs \<and>
     (\<forall>(p, a, a', d) \<in> set ws. (p, a) \<in> set cs \<and> moved d a a' \<and> stays p a a') \<and>
     distinct (map (\<lambda>(p, a, a', d). (p, account_id a)) ws) \<and>
     (\<forall>c. sum_list (map (\<lambda>(p, a, a', d). if acc_currency a = c then d else 0) ws) = 0))"

text \<open>Two copies of one account are equal, since both are the account in the ledger.\<close>

definition coherent :: "(place \<times> Account) list \<Rightarrow> bool" where
  "coherent cs \<longleftrightarrow> (\<forall>p a b. (p, a) \<in> set cs \<longrightarrow> (p, b) \<in> set cs \<longrightarrow> account_id a = account_id b \<longrightarrow> a = b)"

lemma coherentD:
  "coherent cs \<Longrightarrow> account_id a = account_id b \<Longrightarrow> (p, a) \<in> set cs \<Longrightarrow> (p, b) \<in> set cs \<Longrightarrow> a = b"
  by (auto simp: coherent_def)

section \<open>Quiet steps\<close>

lemma quiet_refl [simp]: "quiet s s"
  by (simp add: quiet_def)

lemma quiet_trans [trans]: "quiet s s' \<Longrightarrow> quiet s' s'' \<Longrightarrow> quiet s s''"
  by (simp add: quiet_def)

lemma quiet_listener [simp]: "quiet s (listener m d t) = quiet s t"
  by (simp add: quiet_def)

lemma quiet_api_payment [simp]: "quiet s (api_payment r t) = quiet s t"
  by (simp add: api_payment_def)

lemma quiet_update_account [simp]: "quiet s t \<Longrightarrow> quiet s (update_account E a u t)"
  using update_account_tick [of t E a u] by (auto simp: quiet_def)

lemma quiet_bump [simp]: "quiet s t \<Longrightarrow> quiet s (bump t)"
  by (auto simp: quiet_def)

lemma quiet_fields [simp]:
  "quiet s (t\<lparr>lnurl_withdrawal_requests := l\<rparr>) = quiet s t"
  "quiet s (t\<lparr>payment_threads := p\<rparr>) = quiet s t"
  "quiet s (t\<lparr>available_currencies := a\<rparr>) = quiet s t"
  "quiet s (t\<lparr>last_rates := r\<rparr>) = quiet s t"
  by (simp_all add: quiet_def)

lemma quiet_steps [simp]:
  "quiet s (snd (get_conn E s))" "quiet s (snd (query E f s))" "quiet s (snd (time_now E s))"
  "quiet s (snd (new_uuid E s))" "quiet s (snd (exec E g s))"
  "quiet s (snd (check_deposit_request_rate_limit E u s))"
  "quiet s (snd (check_withdrawal_request_rate_limit E u s))"
  using exec_frame [of E g s] rate_limit_frame [of E u s]
  by (auto simp: quiet_def get_conn_def query_def time_now_def new_uuid_def simp: prod_eq_iff)

lemma quiet_exec [simp]: "quiet s t \<Longrightarrow> quiet s (snd (exec E g t))"
  using quiet_steps(5) quiet_trans by blast

lemma ens_quiet_send [simp]: "ens (quiet s) (send_bank_state E s)"
  by (auto simp: ens_def quiet_def dest: send_bank_state_frame)

lemma ens_quiet_summary [simp]:
  "ens (\<lambda>x. quiet s (snd x))
     (make_summary_tx E out ouid inn iuid amount rate fees otxid itxid ftxid ref oname iname s)"
  by (auto simp: ens_def quiet_def dest: make_summary_tx_frame)

section \<open>Rules without ledger access\<close>

lemma walkD: "walk I s P m \<Longrightarrow> I s \<Longrightarrow> ens P m"
  by (simp add: walk_def)

lemma walk_assume: "(I s \<Longrightarrow> walk I s P m) \<Longrightarrow> walk I s P m"
  by (auto simp: walk_def)

lemma walk_None: "walk I s P None"
  by (simp add: walk_def ens_None)

lemma walk_ret: "books E s0 I \<Longrightarrow> quiet s s' \<Longrightarrow> walk I s (keeps E s0) (Some s')"
  by (auto simp: walk_def books_def framed_def ens_def)

lemma walk_ret2: "books E s0 I \<Longrightarrow> quiet s s' \<Longrightarrow> walk I s (\<lambda>x. keeps E s0 (snd x)) (Some (r, s'))"
  by (auto simp: walk_def books_def framed_def ens_def)

lemma walk_if: "(b \<Longrightarrow> walk I s P x) \<Longrightarrow> (\<not> b \<Longrightarrow> walk I s P y) \<Longrightarrow> walk I s P (if b then x else y)"
  by simp

lemma walk_case_option:
  "(m = None \<Longrightarrow> walk I s P x) \<Longrightarrow> (\<And>y. m = Some y \<Longrightarrow> walk I s P (f y)) \<Longrightarrow>
     walk I s P (case m of None \<Rightarrow> x | Some y \<Rightarrow> f y)"
  by (cases m) auto

lemma walk_case_sum:
  "(\<And>e. m = Inl e \<Longrightarrow> walk I s P (f e)) \<Longrightarrow> (\<And>y. m = Inr y \<Longrightarrow> walk I s P (g y)) \<Longrightarrow>
     walk I s P (case m of Inl e \<Rightarrow> f e | Inr y \<Rightarrow> g y)"
  by (cases m) auto

lemma walk_case_list:
  "(xs = [] \<Longrightarrow> walk I s P a) \<Longrightarrow> (\<And>y ys. xs = y # ys \<Longrightarrow> walk I s P (f y ys)) \<Longrightarrow>
     walk I s P (case xs of [] \<Rightarrow> a | y # ys \<Rightarrow> f y ys)"
  by (cases xs) auto

lemma walk_case_state:
  fixes e :: "'r \<times> bank"
  shows "framed I \<Longrightarrow> quiet s (snd e) \<Longrightarrow> (\<And>r s'. e = (r, s') \<Longrightarrow> walk I s' P (f r s')) \<Longrightarrow>
     walk I s P (case e of (r, s') \<Rightarrow> f r s')"
  by (cases e) (auto simp: walk_def framed_def)

lemma walk_case_prod:
  "(\<And>a b. e = (a, b) \<Longrightarrow> walk I s P (f a b)) \<Longrightarrow> walk I s P (case e of (a, b) \<Rightarrow> f a b)"
  by (cases e) auto

lemma walk_Let_state:
  fixes e :: bank
  shows "framed I \<Longrightarrow> quiet s e \<Longrightarrow> (\<And>s'. quiet s s' \<Longrightarrow> walk I s' P (f s')) \<Longrightarrow> walk I s P (Let e f)"
  by (auto simp: walk_def framed_def Let_def)

lemma walk_Let: "walk I s P (f e) \<Longrightarrow> walk I s P (Let e f)"
  by simp

lemma walk_bind_state:
  fixes m :: "bank option"
  shows "framed I \<Longrightarrow> ens (quiet s) m \<Longrightarrow> (\<And>s'. quiet s s' \<Longrightarrow> walk I s' P (f s')) \<Longrightarrow>
     walk I s P (Option.bind m f)"
  by (auto simp: walk_def framed_def ens_def bind_Some_conv)

lemma walk_bind_result:
  fixes m :: "('r \<times> bank) option"
  shows "framed I \<Longrightarrow> ens (\<lambda>x. quiet s (snd x)) m \<Longrightarrow>
     (\<And>r s'. quiet s s' \<Longrightarrow> m = Some (r, s') \<Longrightarrow> walk I s' P (f r s')) \<Longrightarrow>
     walk I s P (Option.bind m (\<lambda>(r, s'). f r s'))"
  by (fastforce simp: walk_def framed_def ens_def bind_Some_conv)

lemma walk_bind: "(\<And>x. m = Some x \<Longrightarrow> walk I s P (f x)) \<Longrightarrow> walk I s P (Option.bind m f)"
  by (auto simp: walk_def ens_def bind_Some_conv)

section \<open>Rules for the ledger\<close>

context env_ok
begin

lemma keeps_quiet: "keeps E s s' \<Longrightarrow> quiet s' s'' \<Longrightarrow> keeps E s s''"
  unfolding quiet_def using keeps_trans keeps_same keeps_ok by blast

lemma framed_keeps: "framed (keeps E s0)" and framed_in_sync: "framed (in_sync E s0 cs)"
  using keeps_quiet by (auto simp: framed_def in_sync_def quiet_def)

lemma books_keeps: "books E s0 (keeps E s0)" and books_in_sync: "books E s0 (in_sync E s0 cs)"
  using framed_keeps framed_in_sync by (auto simp: books_def in_sync_def)

lemma in_sync_start: "bank_ok E s \<Longrightarrow> balances_small (ledger s) \<Longrightarrow> in_sync E s [] s"
  by (simp add: in_sync_def keeps_same)

lemma in_sync_keeps: "in_sync E s0 cs s \<Longrightarrow> keeps E s0 s"
  by (simp add: in_sync_def)

text \<open>A handler is followed from a consistent state with small balances.\<close>

lemma walk_start:
  assumes "bank_ok E s" "balances_small (ledger s)" "walk (in_sync E s []) s P m"
  shows "ens P m"
  using assms in_sync_start by (simp add: walk_def)

lemma walk_ensure_user:
  assumes "\<And>s'. s' = ensure_user u s \<Longrightarrow> walk (in_sync E s0 cs) s' P (f s')"
  shows "walk (in_sync E s0 cs) s P (Let (ensure_user u s) f)"
proof -
  have "in_sync E s0 cs s \<Longrightarrow> in_sync E s0 cs (ensure_user u s)"
    using ensure_user_keeps keeps_trans keeps_ok
    by (fastforce simp: in_sync_def ensure_user_def balances_small_def)
  with assms show ?thesis by (simp add: walk_def)
qed

lemma in_sync_default:
  assumes "default_account E p cur aty s = Some (a, s')" "in_sync E s0 cs s"
  shows "in_sync E s0 ((p, a) # cs) s'" "acc_currency a = cur" "aty = Some t \<Longrightarrow> account_type a = t"
    "grid 12 (balance a)" "small (balance a)"
proof -
  note spec = default_account_spec [OF keeps_ok [OF in_sync_keeps [OF assms(2)]] assms(1)]
  show sync: "in_sync E s0 ((p, a) # cs) s'"
    using assms(2) spec(2,5,6) keeps_trans [OF _ spec(1)] by (auto simp: in_sync_def)
  show "acc_currency a = cur" "aty = Some t \<Longrightarrow> account_type a = t" by (rule spec(3,4))+
  show "grid 12 (balance a)" "small (balance a)"
    using sync ledger_ok_get(2) [OF _ spec(2)] spec(2)
    by (auto simp: in_sync_def keeps_def conserves_def bank_ok_def balances_small_def)
qed

lemma walk_default:
  assumes "\<And>a s'. acc_currency a = cur \<Longrightarrow> (\<And>t. aty = Some t \<Longrightarrow> account_type a = t) \<Longrightarrow>
      small (balance a) \<Longrightarrow> default_account E p cur aty s = Some (a, s') \<Longrightarrow>
      walk (in_sync E s0 ((p, a) # cs)) s' P (f a s')"
  shows "walk (in_sync E s0 cs) s P (Option.bind (default_account E p cur aty s) (\<lambda>(a, s'). f a s'))"
  unfolding walk_def ens_def
proof (intro impI allI)
  fix x assume sync: "in_sync E s0 cs s"
    and "Option.bind (default_account E p cur aty s) (\<lambda>(a, s'). f a s') = Some x"
  then obtain a s' where d: "default_account E p cur aty s = Some (a, s')" and x: "f a s' = Some x"
    by (auto simp: bind_Some_conv)
  note new = in_sync_default [OF d sync]
  have "walk (in_sync E s0 ((p, a) # cs)) s' P (f a s')"
    by (rule assms [OF new(2) _ new(5) d]) (rule new(3))
  with new(1) x show "P x" by (simp add: walk_def ens_def)
qed

lemma walk_default_case:
  assumes "walk (in_sync E s0 cs) s P x"
    and "\<And>a s'. acc_currency a = cur \<Longrightarrow> (\<And>t. aty = Some t \<Longrightarrow> account_type a = t) \<Longrightarrow>
      small (balance a) \<Longrightarrow> default_account E p cur aty s = Some (a, s') \<Longrightarrow>
      walk (in_sync E s0 ((p, a) # cs)) s' P (f a s')"
  shows "walk (in_sync E s0 cs) s P
    (case default_account E p cur aty s of None \<Rightarrow> x | Some y \<Rightarrow> (case y of (a, s') \<Rightarrow> f a s'))"
proof (cases "default_account E p cur aty s")
  case None
  with assms(1) show ?thesis by simp
next
  case (Some y)
  have "walk (in_sync E s0 cs) s P (Option.bind (default_account E p cur aty s) (\<lambda>(a, s'). f a s'))"
    by (rule walk_default, rule assms(2))
  with Some show ?thesis by simp
qed

lemma in_sync_make_tx:
  "make_tx E out ouid inn iuid amount s = Some (r, out', inn', s') \<Longrightarrow> in_sync E s0 cs s \<Longrightarrow> in_sync E s0 cs s'"
  using make_tx_frame(1,2,5) framed_in_sync by (auto simp: framed_def quiet_def)

lemma in_sync_copy:
  assumes "in_sync E s0 cs s" "(p, a) \<in> set cs"
  shows "ledger_get p (account_id a) (ledger s) = Some a" "grid 12 (balance a)" "small (balance a)"
proof -
  show get: "ledger_get p (account_id a) (ledger s) = Some a"
    using assms by (auto simp: in_sync_def)
  then show "grid 12 (balance a)" "small (balance a)"
    using assms(1) ledger_ok_get(2)
    by (auto simp: in_sync_def keeps_def conserves_def bank_ok_def balances_small_def)
qed

text \<open>A recorded transaction between two copies moves them by opposite amounts.\<close>

lemma make_tx_moved:
  assumes tx: "make_tx E out ouid inn iuid amount s = Some (r, out', inn', s')"
    and sync: "in_sync E s0 cs s" "(p, out) \<in> set cs" "(q, inn) \<in> set cs"
    and amount: "grid 12 (mon_value amount)" "0 < mon_value amount \<Longrightarrow> small (mon_value amount)"
  obtains d where "moved (- d) out out'" "moved d inn inn'" "d = 0 \<or> acc_currency out = acc_currency inn"
    "\<And>txid. r = Inr txid \<Longrightarrow> d = mon_value amount" "\<And>txid. r = Inr txid \<Longrightarrow> 0 < d"
proof (cases "0 < mon_value amount")
  case True
  obtain d where d: "balance out' = balance out - d" "balance inn' = balance inn + d" "grid 12 d"
    "d = 0 \<or> acc_currency out = acc_currency inn" "\<And>txid. r = Inr txid \<Longrightarrow> d = mon_value amount"
    using make_tx_spec [OF tx in_sync_copy(2) [OF sync(1,2)] in_sync_copy(2) [OF sync(1,3)] amount(1)
        in_sync_copy(3) [OF sync(1,2)] in_sync_copy(3) [OF sync(1,3)] amount(2) [OF True]] by metis
  have "moved (- d) out out'" "moved d inn inn'"
    using d(1-3) make_tx_frame(6-11) [OF tx] by (auto simp: moved_def)
  then show ?thesis
    by (rule that) (use d(4,5) True in auto)
next
  case False
  with tx have "out' = out" "inn' = inn" "r = Inl FailedTransaction" by (auto simp: make_tx_def)
  with that [of 0] show ?thesis by (simp add: moved_def)
qed

lemma walk_make_tx:
  assumes "out \<in> snd ` set cs" "inn \<in> snd ` set cs"
    and amount: "grid 12 (mon_value amount)" "0 < mon_value amount \<Longrightarrow> small (mon_value amount)"
    and step: "\<And>r out' inn' s' d. moved (- d) out out' \<Longrightarrow> moved d inn inn' \<Longrightarrow>
      d = 0 \<or> acc_currency out = acc_currency inn \<Longrightarrow>
      (\<And>txid. r = Inr txid \<Longrightarrow> d = mon_value amount) \<Longrightarrow> (\<And>txid. r = Inr txid \<Longrightarrow> 0 < d) \<Longrightarrow>
      walk (in_sync E s0 cs) s' P (f r out' inn' s')"
  shows "walk (in_sync E s0 cs) s P
    (Option.bind (make_tx E out ouid inn iuid amount s) (\<lambda>(r, out', inn', s'). f r out' inn' s'))"
  unfolding walk_def ens_def
proof (intro impI allI)
  fix x assume sync: "in_sync E s0 cs s"
    and "Option.bind (make_tx E out ouid inn iuid amount s) (\<lambda>(r, out', inn', s'). f r out' inn' s') = Some x"
  then obtain r out' inn' s' where tx: "make_tx E out ouid inn iuid amount s = Some (r, out', inn', s')"
    and x: "f r out' inn' s' = Some x"
    by (auto simp: bind_Some_conv)
  obtain p q where "(p, out) \<in> set cs" "(q, inn) \<in> set cs" using assms(1,2) by auto
  then obtain d where "moved (- d) out out'" "moved d inn inn'" "d = 0 \<or> acc_currency out = acc_currency inn"
    "\<And>txid. r = Inr txid \<Longrightarrow> d = mon_value amount" "\<And>txid. r = Inr txid \<Longrightarrow> 0 < d"
    using make_tx_moved [OF tx sync _ _ amount] by blast
  then have "walk (in_sync E s0 cs) s' P (f r out' inn' s')" by (rule step)
  with x in_sync_make_tx [OF tx sync] show "P x" by (simp add: walk_def ens_def)
qed

lemma writes_keep:
  assumes sync: "in_sync E s0 cs s"
    and copies: "\<forall>(p, a, a', d) \<in> set ws. (p, a) \<in> set cs \<and> moved d a a' \<and> stays p a a'"
    and dist: "distinct (map (\<lambda>(p, a, a', d). (p, account_id a)) ws)"
    and zero: "\<And>c. sum_list (map (\<lambda>(p, a, a', d). if acc_currency a = c then d else 0) ws) = 0"
    and put: "puts (map (\<lambda>(p, a, a', d). (p, a')) ws) (ledger s) = Some (ledger s')"
    and t: "tick s \<le> tick s'" and f: "ln_network_fee_margin s' = ln_network_fee_margin s"
  shows "keeps E s0 s'"
proof (rule keeps_trans [OF in_sync_keeps [OF sync]], rule puts_keeps [OF _ put t f])
  have get: "ledger_get p (account_id a) (ledger s) = Some a" and grid: "grid 12 (balance a)"
    and m: "moved d a a'" if "(p, a, a', d) \<in> set ws" for p a a' d
    using that copies in_sync_copy(1,2) [OF sync] by auto
  show "0 \<le> balance a" if "users_nonneg (ledger s)" "(PUser u, a) \<in> set (map (\<lambda>(p, a, a', d). (p, a')) ws)" for u a
    using that copies in_sync_copy(1) [OF sync] by (fastforce simp: users_nonneg_def)
  show "bank_ok E s" by (rule keeps_ok [OF in_sync_keeps [OF sync]])
  have eq: "map (\<lambda>x. (fst x, account_id (snd x))) (map (\<lambda>(p, a, a', d). (p, a')) ws) =
    map (\<lambda>(p, a, a', d). (p, account_id a)) ws"
    using copies by (auto simp: moved_def)
  show "distinct (map (\<lambda>x. (fst x, account_id (snd x))) (map (\<lambda>(p, a, a', d). (p, a')) ws))"
    unfolding eq by (rule dist)
  show "\<forall>x \<in> set (map (\<lambda>(p, a, a', d). (p, a')) ws). writable (ledger s) x"
  proof
    fix x assume "x \<in> set (map (\<lambda>(p, a, a', d). (p, a')) ws)"
    then obtain p a a' d where w: "(p, a, a', d) \<in> set ws" and x: "x = (p, a')" by auto
    from get [OF w] grid [OF w] m [OF w] show "writable (ledger s) x"
      by (auto simp: x writable_def moved_def)
  qed
  fix c
  have eq: "map (put_delta c (ledger s)) (map (\<lambda>(p, a, a', d). (p, a')) ws) =
    map (\<lambda>(p, a, a', d). if acc_currency a = c then d else 0) ws"
    using get m by (auto simp: put_delta_def moved_def)
  show "sum_list (map (put_delta c (ledger s)) (map (\<lambda>(p, a, a', d). (p, a')) ws)) = 0"
    unfolding eq by (rule zero)
qed

lemma in_sync_coherent: "in_sync E s0 cs s \<Longrightarrow> coherent cs"
  unfolding coherent_def
  by (intro allI impI) (metis in_sync_copy(1) option.inject)

lemma balanced_keeps:
  assumes "in_sync E s0 cs s" "balanced cs xs"
    and "puts xs (ledger s) = Some (ledger s')" "tick s \<le> tick s'"
    "ln_network_fee_margin s' = ln_network_fee_margin s"
  shows "keeps E s0 s'"
proof -
  obtain ws where ws: "xs = map (\<lambda>(p, a, a', d). (p, a')) ws"
    "\<forall>(p, a, a', d) \<in> set ws. (p, a) \<in> set cs \<and> moved d a a' \<and> stays p a a'"
    "distinct (map (\<lambda>(p, a, a', d). (p, account_id a)) ws)"
    "\<And>c. sum_list (map (\<lambda>(p, a, a', d). if acc_currency a = c then d else 0) ws) = 0"
    using assms(2) by (auto simp: balanced_def)
  show ?thesis
    by (rule writes_keep [OF assms(1) ws(2,3,4) assms(3) [unfolded ws(1)] assms(4,5)])
qed

lemma walk_put_accounts:
  assumes "coherent cs \<Longrightarrow> balanced cs xs" and step: "\<And>s'. walk (keeps E s0) s' P (f s')"
  shows "walk (in_sync E s0 cs) s P (Option.bind (put_accounts xs s) f)"
  unfolding walk_def
proof (intro impI ens_bind)
  fix s' assume sync: "in_sync E s0 cs s" and put: "put_accounts xs s = Some s'"
  have "keeps E s0 s'"
    by (rule balanced_keeps [OF sync assms(1) [OF in_sync_coherent [OF sync]]])
      (use put in \<open>auto simp: put_accounts_conv\<close>)
  with step [of s'] show "ens P (f s')" by (simp add: walk_def)
qed

lemma walk_put_update_put:
  assumes "coherent cs \<Longrightarrow> balanced cs [(p, a), (q, b)]" and step: "\<And>s'. walk (keeps E s0) s' P (f s')"
  shows "walk (in_sync E s0 cs) s P (Option.bind (put_account p a s)
    (\<lambda>s. Let (update_account E a u s) (\<lambda>s. Option.bind (put_account q b s) f)))"
  unfolding walk_def Let_def
proof (intro impI ens_bind)
  fix s1 s' assume sync: "in_sync E s0 cs s" and put: "put_account p a s = Some s1"
    and put': "put_account q b (update_account E a u s1) = Some s'"
  have "keeps E s0 s'"
    by (rule balanced_keeps [OF sync assms(1) [OF in_sync_coherent [OF sync]]])
      (use put put' update_account_tick [of s1 E a u] in \<open>auto simp: put_account_conv\<close>)
  with step [of s'] show "ens P (f s')" by (simp add: walk_def)
qed

lemma walk_owner:
  assumes "walk (in_sync E s0 cs) s P (f u)"
  shows "walk (in_sync E s0 cs) s P (Let (user_account_owner u s) f)"
proof -
  have "in_sync E s0 cs s \<Longrightarrow> user_account_owner u s = u"
    using ledger_ua.simps(1)
    by (auto simp: in_sync_def keeps_def conserves_def bank_ok_def ledger_ok_def user_account_owner_def split: option.split)
  with assms show ?thesis by (auto simp: walk_def)
qed

text \<open>Calls of another handler, which was followed on its own: in the middle and at the end.\<close>

lemma in_sync_call:
  assumes "in_sync E s0 cs s" "keeps E s s'"
  shows "keeps E s0 s'" "bank_ok E s" "balances_small (ledger s)"
  using assms keeps_trans by (auto simp: in_sync_def keeps_def conserves_def)

lemma walk_call:
  assumes "bank_ok E s \<Longrightarrow> balances_small (ledger s) \<Longrightarrow> ens (\<lambda>x. keeps E s (snd x)) m"
    and "\<And>r s'. walk (keeps E s0) s' P (f r s')"
  shows "walk (in_sync E s0 cs) s P (Option.bind m (\<lambda>(r, s'). f r s'))"
  unfolding walk_def
proof (intro impI ens_bind)
  fix x assume sync: "in_sync E s0 cs s" and x: "m = Some x"
  have "keeps E s (snd x)"
    using assms(1) sync x by (auto simp: in_sync_def keeps_def conserves_def ens_def)
  with in_sync_call(1) [OF sync] assms(2) show "ens P (case x of (r, s') \<Rightarrow> f r s')"
    by (cases x) (simp add: walk_def)
qed

lemma walk_seq:
  assumes "walk (in_sync E s0 cs) s (\<lambda>x. keeps E s0 (snd x)) m" and "\<And>r s'. walk (keeps E s0) s' P (f r s')"
  shows "walk (in_sync E s0 cs) s P (Option.bind m (\<lambda>(r, s'). f r s'))"
  using assms by (fastforce simp: walk_def ens_def bind_Some_conv)

lemma walk_tail:
  assumes "bank_ok E s \<Longrightarrow> balances_small (ledger s) \<Longrightarrow> ens (keeps E s) m"
  shows "walk (in_sync E s0 cs) s (keeps E s0) m"
  using assms in_sync_call(1) by (auto simp: walk_def ens_def in_sync_def keeps_def conserves_def)

lemma walk_tail2:
  assumes "bank_ok E s \<Longrightarrow> balances_small (ledger s) \<Longrightarrow> ens (\<lambda>x. keeps E s (snd x)) m"
  shows "walk (in_sync E s0 cs) s (\<lambda>x. keeps E s0 (snd x)) m"
  using assms in_sync_call(1) by (auto simp: walk_def ens_def in_sync_def keeps_def conserves_def)

lemma walk_tail_quiet: "books E s0 I \<Longrightarrow> ens (quiet s) m \<Longrightarrow> walk I s (keeps E s0) m"
  by (auto simp: walk_def ens_def books_def framed_def)

lemmas walk_rules = walk_None walk_ret walk_ret2 framed_keeps framed_in_sync books_keeps books_in_sync walk_if walk_default_case
  walk_case_option walk_case_sum walk_case_list walk_default walk_make_tx walk_put_accounts walk_put_update_put walk_ensure_user walk_owner
  walk_case_state walk_case_prod walk_Let_state walk_Let walk_bind_state walk_bind_result walk_bind

end

text \<open>The two shapes of write-backs: one transfer, and a pair of transfers.\<close>

definition apart :: "place \<times> Account \<Rightarrow> place \<times> Account \<Rightarrow> bool" where
  "apart x y \<longleftrightarrow> fst x \<noteq> fst y \<or> account_id (snd x) \<noteq> account_id (snd y) \<or>
     acc_currency (snd x) \<noteq> acc_currency (snd y) \<or> account_type (snd x) \<noteq> account_type (snd y)"

lemma apart_keys:
  "coherent cs \<Longrightarrow> (p, a) \<in> set cs \<Longrightarrow> (q, b) \<in> set cs \<Longrightarrow> apart (p, a) (q, b) \<Longrightarrow>
     (p, account_id a) \<noteq> (q, account_id b)"
  by (auto simp: apart_def coherent_def)

lemma balanced_pair:
  assumes "moved d a a'" "moved e b b'" "coherent cs" "(p, a) \<in> set cs" "(q, b) \<in> set cs"
    and "apart (p, a) (q, b)" "d + e = 0" "d = 0 \<or> acc_currency a = acc_currency b"
    and "stays p a a'" "stays q b b'"
  shows "balanced cs [(p, a'), (q, b')]"
  unfolding balanced_def
  using assms apart_keys [OF assms(3,4,5,6)]
  by (intro exI [of _ "[(p, a, a', d), (q, b, b', e)]"]) auto

lemma balanced_quad:
  assumes "moved d1 a1 b1" "moved d2 a2 b2" "moved d3 a3 b3" "moved d4 a4 b4" "coherent cs"
    and "(p1, a1) \<in> set cs" "(p2, a2) \<in> set cs" "(p3, a3) \<in> set cs" "(p4, a4) \<in> set cs"
    and "apart (p1, a1) (p2, a2)" "apart (p1, a1) (p3, a3)" "apart (p1, a1) (p4, a4)"
    "apart (p2, a2) (p3, a3)" "apart (p2, a2) (p4, a4)" "apart (p3, a3) (p4, a4)"
    and "stays p1 a1 b1" "stays p2 a2 b2" "stays p3 a3 b3" "stays p4 a4 b4"
    and "\<And>c. (if acc_currency a1 = c then d1 else 0) + (if acc_currency a2 = c then d2 else 0) +
      (if acc_currency a3 = c then d3 else 0) + (if acc_currency a4 = c then d4 else 0) = 0"
  shows "balanced cs [(p1, b1), (p2, b2), (p3, b3), (p4, b4)]"
proof -
  let ?ws = "[(p1, a1, b1, d1), (p2, a2, b2, d2), (p3, a3, b3, d3), (p4, a4, b4, d4)]"
  have "distinct (map (\<lambda>(p, a, a', d). (p, account_id a)) ?ws)"
    using assms(6-15) by (auto dest: apart_keys [OF assms(5)])
  with assms(1-4,6-9,16-20) show ?thesis
    unfolding balanced_def by (intro exI [of _ ?ws]) (auto simp: add.assoc)
qed

text \<open>What remains of a \<open>balanced\<close> goal once the moved copies are identified.\<close>

lemmas balanced_defs = apart_def moved_def

text \<open>The exchanged amount, if the exchange is possible, is in the range of exact arithmetic.\<close>

definition exchange_small :: "env \<Rightarrow> Money \<Rightarrow> Rate \<Rightarrow> bool" where
  "exchange_small E m r =
     (case money_exchange (dec E) m r of Some (Inr x) \<Rightarrow> small (mon_value x) | _ \<Rightarrow> True)"

lemma exchange_smallD: "exchange_small E m r \<Longrightarrow> money_exchange (dec E) m r = Some (Inr x) \<Longrightarrow> small (mon_value x)"
  by (simp add: exchange_small_def)

lemma small_below: "small b \<Longrightarrow> \<not> b < v \<Longrightarrow> 0 < v \<Longrightarrow> small v"
  by (simp add: small_def)

lemma moved_0 [simp]: "moved 0 a a"
  by (simp add: moved_def)

end
