(* ===== verification/BankInternal.thy ===== *)
theory BankInternal
  imports BankWalk
begin

text \<open>
  Internal transactions: they keep the books, and exactly what they do.
\<close>

context env_ok
begin

lemma internal_transfer_keeps:
  assumes "bank_ok E s" "balances_small (ledger s)" "money_ok amount" "iuid \<noteq> prq_uid pr"
  shows "ens (\<lambda>x. keeps E s (snd x)) (internal_transfer E pr amount oname iname iuid resp s)"
  unfolding internal_transfer_def
  by (rule walk_start [OF assms(1,2)], intro walk_rules)
    (simp_all add: assms(3,4) assms(4) [symmetric] money_ok_grid_12 small_below
      | rule balanced_pair, assumption+, simp_all add: balanced_defs assms(4))+

lemma make_internal_tx_keeps:
  assumes "bank_ok E s" "balances_small (ledger s)" "\<And>a. prq_amount pr = Some a \<Longrightarrow> money_ok a"
  shows "ens (\<lambda>x. keeps E s (snd x)) (make_internal_tx E pr s)"
  unfolding make_internal_tx_def
  by (rule walk_start [OF assms(1,2)], intro walk_rules)
    (use assms(3) in \<open>auto intro!: walk_tail2 internal_transfer_keeps\<close>)

end

section \<open>Exact effects on the ledger\<close>

lemma ledger_put_get:
  "ledger_put p a L = Some L' \<Longrightarrow>
     ledger_get q i L' = (if q = p \<and> i = account_id a then Some a else ledger_get q i L)"
  by (auto simp: ledger_put_def ledger_get_def update_conv' split: option.splits)

lemma put_account_get:
  "put_account p a s = Some s' \<Longrightarrow>
     ledger_get q i (ledger s') = (if q = p \<and> i = account_id a then Some a else ledger_get q i (ledger s))"
  by (auto simp: put_account_conv ledger_put_get)

lemma put_account_frame:
  "put_account p a s = Some s' \<Longrightarrow> db s' = db s \<and> outbox s' = outbox s \<and> tick s' = tick s \<and>
     payment_threads s' = payment_threads s \<and> conn_pool s' = conn_pool s"
  by (auto simp: put_account_conv)

lemma put_accounts_get:
  assumes "put_accounts xs s = Some s'" "distinct (map (\<lambda>x. (fst x, account_id (snd x))) xs)"
  shows "ledger_get q i (ledger s') =
    (case map_of (map (\<lambda>x. ((fst x, account_id (snd x)), snd x)) xs) (q, i) of
       Some a \<Rightarrow> Some a | None \<Rightarrow> ledger_get q i (ledger s))"
  using assms
proof (induction xs s rule: put_accounts.induct)
  case (2 p a xs s)
  then obtain t where t: "put_account p a s = Some t" "put_accounts xs t = Some s'"
    by (auto simp: bind_Some_conv)
  have none: "map_of (map (\<lambda>x. ((fst x, account_id (snd x)), snd x)) xs) (p, account_id a) = None"
    using "2.prems"(2) by (auto simp: map_of_eq_None_iff image_iff)
  show ?case
    using "2.IH" [OF t] "2.prems"(2) none put_account_get [OF t(1), of q i] by (auto split: option.split)
qed simp

context env_ok
begin

text \<open>\<open>default_account\<close> changes nothing but that it may add the empty account it returns.\<close>

lemma default_account_get:
  assumes "bank_ok E s" "default_account E p cur aty s = Some (a, s')"
  shows "ledger_get q i (ledger s') = (if q = p \<and> i = account_id a then Some a else ledger_get q i (ledger s))"
    and "ledger_get p (account_id a) (ledger s) = Some a \<or>
      ledger_get p (account_id a) (ledger s) = None \<and> balance a = 0"
proof -
  obtain ua ua' n where ua: "ledger_ua p (ledger s) = Some ua"
    and d: "get_default_account E (tick s) ua cur aty = (a, ua', n)"
    and s': "ledger s' = ledger_set_ua p ua' (ledger s)"
    using assms(2) by (auto simp: default_account_def ledger_default_def split: option.splits prod.splits)
  have "accs_ok E (tick s) (accounts ua)"
    using assms(1) ua by (auto simp: bank_ok_def ledger_ok_def)
  then show "ledger_get q i (ledger s') =
      (if q = p \<and> i = account_id a then Some a else ledger_get q i (ledger s))"
    and "ledger_get p (account_id a) (ledger s) = Some a \<or>
      ledger_get p (account_id a) (ledger s) = None \<and> balance a = 0"
    using d by (atomize (full), cases rule: get_default_account_cases)
      (use ua in \<open>auto simp: s' ledger_get_def update_conv' account_new_def\<close>)
qed


text \<open>\<open>make_tx\<close>, when the row is recorded: the copies move by the amount, the row is new.\<close>

lemma make_tx_recorded_spec:
  assumes "make_tx E out ouid inn iuid amount s = Some (Inr txid, out', inn', s')"
    and "grid 12 (balance out)" "grid 12 (balance inn)" "grid 12 (mon_value amount)"
    and "small (balance out)" "small (balance inn)" "small (mon_value amount)"
  shows "out' = out\<lparr>balance := balance out - mon_value amount\<rparr>"
    and "inn' = inn\<lparr>balance := balance inn + mon_value amount\<rparr>"
    and "0 < mon_value amount" "acc_currency out = acc_currency inn"
    and "txid = show_u64 (clock E (Suc (tick s))) @ ''-'' @ show_u64 (tx_seq s + 1)"
    and "tx_seq s' = tx_seq s + 1"
    and "\<exists>r. transaction_insert r (db s) = Some (db s') \<and> tx_txid r = txid \<and>
      tx_outbound_amount r = mon_value amount \<and> tx_inbound_amount r = mon_value amount \<and>
      tx_outbound_account_id r = account_id out \<and> tx_inbound_account_id r = account_id inn \<and>
      tx_outbound_uid r = as_i32 ouid \<and> tx_inbound_uid r = as_i32 iuid"
proof -
  have ops: "dec_sub (dec E) (balance out) (mon_value amount) = Some (balance out - mon_value amount)"
    "dec_add (dec E) (balance inn) (mon_value amount) = Some (balance inn + mon_value amount)"
    using assms by (auto intro: sub_small add_small)
  show "out' = out\<lparr>balance := balance out - mon_value amount\<rparr>"
    and "inn' = inn\<lparr>balance := balance inn + mon_value amount\<rparr>"
    and "0 < mon_value amount" "acc_currency out = acc_currency inn"
    and "txid = show_u64 (clock E (Suc (tick s))) @ ''-'' @ show_u64 (tx_seq s + 1)"
    and "tx_seq s' = tx_seq s + 1"
    and "\<exists>r. transaction_insert r (db s) = Some (db s') \<and> tx_txid r = txid \<and>
      tx_outbound_amount r = mon_value amount \<and> tx_inbound_amount r = mon_value amount \<and>
      tx_outbound_account_id r = account_id out \<and> tx_inbound_account_id r = account_id inn \<and>
      tx_outbound_uid r = as_i32 ouid \<and> tx_inbound_uid r = as_i32 iuid"
    using assms(1) ops
    by (auto simp: make_tx_def Let_def parse_bigs_def to_big get_conn_def time_now_def exec_def
        split: if_splits option.splits)
qed

end

context env_ok
begin

lemma make_summary_tx_ledger:
  "make_summary_tx E out ouid inn iuid amount rate fees otxid itxid ftxid ref oname iname s = Some (r, s') \<Longrightarrow>
     ledger s' = ledger s"
  by (drule make_summary_tx_frame) simp

text \<open>A recorded transaction between two accounts of the ledger, written back in either order.\<close>

lemma transfer_booked:
  assumes ok: "bank_ok E s" "balances_small (ledger s)"
    and a: "ledger_get p (account_id a) (ledger s) = Some a" and b: "ledger_get q (account_id b) (ledger s) = Some b"
    and ne: "(p, account_id a) \<noteq> (q, account_id b)"
    and val: "grid 12 (mon_value val)" "small (mon_value val)"
    and tx: "make_tx E a u b v val s = Some (Inr txid, a', b', s1)" and L: "ledger s2 = ledger s1"
    and put: "put_accounts xs s2 = Some s3" and xs: "xs = [(p, a'), (q, b')] \<or> xs = [(q, b'), (p, a')]"
  shows "ledger_get r i (ledger s3) =
    (if r = p \<and> i = account_id a then Some (a\<lparr>balance := balance a - mon_value val\<rparr>)
     else if r = q \<and> i = account_id b then Some (b\<lparr>balance := balance b + mon_value val\<rparr>)
     else ledger_get r i (ledger s))"
proof -
  have ab: "small (balance a)" "small (balance b)" "grid 12 (balance a)" "grid 12 (balance b)"
    using ok a b ledger_ok_get(2) by (auto simp: balances_small_def bank_ok_def)
  note rec = make_tx_recorded_spec [OF tx ab(3,4) val(1) ab(1,2) val(2)]
  show ?thesis
    using put_accounts_get [OF put, of r i] ne xs make_tx_frame(1) [OF tx]
    by (auto simp: rec(1,2) L)
qed

lemma internal_transfer_exact:
  assumes ok: "bank_ok E s" "balances_small (ledger s)" and amt: "money_ok amount" and ne: "iuid \<noteq> prq_uid pr"
    and run: "internal_transfer E pr amount oname iname iuid resp s = Some (Inr (), s')"
  obtains a b where "ledger_get (PUser (prq_uid pr)) (account_id a) (ledger s) = Some a"
    "acc_currency a = prq_currency pr" "0 < mon_value amount" "mon_value amount \<le> balance a"
    "ledger_get (PUser iuid) (account_id b) (ledger s) = Some b \<or>
       ledger_get (PUser iuid) (account_id b) (ledger s) = None \<and> balance b = 0"
    "acc_currency b = prq_currency pr"
    "\<And>q i. ledger_get q i (ledger s') =
       (if q = PUser (prq_uid pr) \<and> i = account_id a then Some (a\<lparr>balance := balance a - mon_value amount\<rparr>)
        else if q = PUser iuid \<and> i = account_id b then Some (b\<lparr>balance := balance b + mon_value amount\<rparr>)
        else ledger_get q i (ledger s))"
proof -
  let ?u = "prq_uid pr"
  obtain a s1 b s3 txid a' b' s4 s5 s6 where
    a: "default_account E (PUser ?u) (prq_currency pr) None s = Some (a, s1)" and
    b: "default_account E (PUser iuid) (prq_currency pr) None (ensure_user iuid s1) = Some (b, s3)" and
    le: "\<not> balance a < mon_value amount" and
    tx: "make_tx E a ?u b iuid amount s3 = Some (Inr txid, a', b', s4)" and
    L5: "ledger s5 = ledger s4" and
    put: "put_accounts [(PUser iuid, b'), (PUser ?u, a')] s5 = Some s6" and
    s': "ledger s' = ledger s6"
    using run
    by (auto simp: internal_transfer_def Let_def api_payment_def elim!: bind_SomeE
        split: option.split_asm prod.split_asm if_split_asm sum.split_asm dest!: make_summary_tx_ledger)
  note specA = default_account_spec [OF ok(1) a] and getA = default_account_get [OF ok(1) a]
  have ok1: "bank_ok E (ensure_user iuid s1)"
    using ensure_user_keeps keeps_ok specA(1) by blast
  note specB = default_account_spec [OF ok1 b] and getB = default_account_get [OF ok1 b]
  have L1 [simp]: "ledger_get q i (ledger (ensure_user iuid s1)) = ledger_get q i (ledger s1)" for q i
    by (simp add: ensure_user_def)
  have ok3: "bank_ok E s3" using specB(1) keeps_ok by blast
  have a3: "ledger_get (PUser ?u) (account_id a) (ledger s3) = Some a"
    using specB(5) specA(2) by simp
  have small: "balances_small (ledger s3)"
    using specA(6) [OF ok(2)] specB(6) by (simp add: balances_small_def)
  have g: "grid 12 (mon_value amount)" using amt by (rule money_ok_grid_12)
  have pos: "0 < mon_value amount" using make_tx_frame(12) [OF tx] by blast
  then have sm: "small (mon_value amount)"
    using small_below [OF _ le] small a3 unfolding balances_small_def by blast
  have eq: "ledger_get q i (ledger s') =
      (if q = PUser ?u \<and> i = account_id a then Some (a\<lparr>balance := balance a - mon_value amount\<rparr>)
       else if q = PUser iuid \<and> i = account_id b then Some (b\<lparr>balance := balance b + mon_value amount\<rparr>)
       else ledger_get q i (ledger s))" for q i
    using transfer_booked [OF ok3 small a3 specB(2) _ g sm tx L5 put, of q i] ne
    by (auto simp: s' getB(1) getA(1))
  have inA: "ledger_get (PUser ?u) (account_id a) (ledger s) = Some a"
    using getA(2) pos le by auto
  have inB: "ledger_get (PUser iuid) (account_id b) (ledger s) = Some b \<or>
      ledger_get (PUser iuid) (account_id b) (ledger s) = None \<and> balance b = 0"
    using getB(2) ne by (auto simp: getA(1))
  show ?thesis
    by (rule that [OF inA specA(3) pos _ inB specB(3) eq]) (use le in auto)
qed

end

context env_ok
begin

lemma internal_transfer_refused:
  assumes ok: "bank_ok E s" and run: "internal_transfer E pr amount oname iname iuid resp s = Some (Inl e, s')"
  shows "ledger_get q i (ledger s) = Some x \<Longrightarrow> ledger_get q i (ledger s') = Some x"
    and "ledger_get q i (ledger s') = Some x \<Longrightarrow> ledger_get q i (ledger s) = Some x \<or> balance x = 0"
proof -
  let ?u = "prq_uid pr"
  have "s' = s \<or> (\<exists>a s1 b s3. default_account E (PUser ?u) (prq_currency pr) None s = Some (a, s1) \<and>
    default_account E (PUser iuid) (prq_currency pr) None (ensure_user iuid s1) = Some (b, s3) \<and>
    ledger s' = ledger s3)"
    using run
    by (auto simp: internal_transfer_def Let_def api_payment_def elim!: bind_SomeE
        split: option.split_asm prod.split_asm if_split_asm sum.split_asm
        dest!: make_summary_tx_ledger make_tx_frame(1))
  then have "(ledger_get q i (ledger s) = Some x \<longrightarrow> ledger_get q i (ledger s') = Some x) \<and>
    (ledger_get q i (ledger s') = Some x \<longrightarrow> ledger_get q i (ledger s) = Some x \<or> balance x = 0)"
  proof (elim disjE exE conjE)
    fix a s1 b s3
    assume a: "default_account E (PUser ?u) (prq_currency pr) None s = Some (a, s1)"
      and b: "default_account E (PUser iuid) (prq_currency pr) None (ensure_user iuid s1) = Some (b, s3)"
      and s': "ledger s' = ledger s3"
    have ok1: "bank_ok E (ensure_user iuid s1)"
      using ensure_user_keeps keeps_ok default_account_spec(1) [OF ok a] by blast
    show ?thesis
      using default_account_get [OF ok a] default_account_get [OF ok1 b]
      by (auto simp: s' ensure_user_def)
  qed simp
  then show "ledger_get q i (ledger s) = Some x \<Longrightarrow> ledger_get q i (ledger s') = Some x"
    and "ledger_get q i (ledger s') = Some x \<Longrightarrow> ledger_get q i (ledger s) = Some x \<or> balance x = 0"
    by blast+
qed

text \<open>What \<open>make_internal_tx\<close> has found out when it hands over to \<open>internal_transfer\<close>.\<close>

lemma make_internal_tx_cases:
  assumes "make_internal_tx E pr s = Some (r, s')"
  obtains (refused) e where "r = Inl e" "ledger s' = ledger s"
  | (transfer) iname amount iuser and ouser :: User and resp where "prq_recipient pr = Some iname" "prq_amount pr = Some amount"
      "user_get_by_username iname (db s) = Some iuser" "as_u64 (usr_uid iuser) \<noteq> prq_uid pr"
      "internal_transfer E pr amount (usr_username ouser) iname (as_u64 (usr_uid iuser)) resp
         (bump (bump (bump (bump s)))) = Some (r, s')"
proof -
  have "(\<exists>e. r = Inl e \<and> ledger s' = ledger s) \<or>
    (\<exists>iname amount iuser (ouser :: User) resp. prq_recipient pr = Some iname \<and> prq_amount pr = Some amount \<and>
       user_get_by_username iname (db s) = Some iuser \<and> as_u64 (usr_uid iuser) \<noteq> prq_uid pr \<and>
       internal_transfer E pr amount (usr_username ouser) iname (as_u64 (usr_uid iuser)) resp
         (bump (bump (bump (bump s)))) = Some (r, s'))"
    using assms
    by (auto simp: make_internal_tx_def Let_def api_payment_def get_conn_def new_uuid_def query_def
        elim!: bind_SomeE split: option.split_asm if_split_asm)
  with that show thesis by blast
qed

end

section \<open>Properties\<close>

text \<open>
  A recorded transaction is exact double entry: the outbound copy loses and the inbound copy
  gains exactly the amount, nothing else of them and nothing of the ledger changes, and the new row
  with both amounts and accounts can be retrieved under the returned identifier, which no earlier
  row had; all earlier rows are still there.
\<close>

theorem make_tx_recorded:
  assumes "env_ok E" "make_tx E out ouid inn iuid amount s = Some (Inr txid, out', inn', s')"
    and "grid 12 (balance out)" "grid 12 (balance inn)" "grid 12 (mon_value amount)"
    and "small (balance out)" "small (balance inn)" "small (mon_value amount)"
  shows "out' = out\<lparr>balance := balance out - mon_value amount\<rparr> \<and>
    inn' = inn\<lparr>balance := balance inn + mon_value amount\<rparr> \<and>
    0 < mon_value amount \<and> acc_currency out = acc_currency inn \<and> ledger s' = ledger s \<and>
    transaction_get_by_txid txid (db s) = None \<and>
    (\<forall>t x. transaction_get_by_txid t (db s) = Some x \<longrightarrow> transaction_get_by_txid t (db s') = Some x) \<and>
    (\<exists>r. transaction_get_by_txid txid (db s') = Some r \<and>
      tx_outbound_amount r = mon_value amount \<and> tx_inbound_amount r = mon_value amount \<and>
      tx_outbound_account_id r = account_id out \<and> tx_inbound_account_id r = account_id inn)"
proof -
  note rec = env_ok.make_tx_recorded_spec [OF assms]
  obtain r where r: "transaction_insert r (db s) = Some (db s')" "tx_txid r = txid"
    "tx_outbound_amount r = mon_value amount" "tx_inbound_amount r = mon_value amount"
    "tx_outbound_account_id r = account_id out" "tx_inbound_account_id r = account_id inn"
    using rec(7) by blast
  have "transaction_get_by_txid txid (db s) = None"
    using transactions.ins_present [of r "db s"] r(1,2) by (cases "transaction_get_by_txid txid (db s)") auto
  with rec(1-4) r transactions.ins_found [OF r(1)] transactions.ins_keeps [OF r(1)] make_tx_frame(1) [OF assms(2)]
  show ?thesis by auto
qed

definition sample_tx :: "((BankError + string) \<times> Account \<times> Account \<times> bank) option" where
  "sample_tx = make_tx env96 (sample_acc 11 (1 / 2) BTC Internal) 1 (sample_acc 21 0 BTC Internal) 2
     \<lparr>mon_value = 1 / 10, mon_currency = BTC\<rparr> sample_bank"

lemma sample_tx_recorded: "map_option fst sample_tx = Some (Inr ''1603-1'')"
  by code_simp

theorem make_tx_recorded_witness:
  "\<exists>a b s'. sample_tx = Some (Inr ''1603-1'', a, b, s') \<and> balance a = 4 / 10 \<and> balance b = 1 / 10"
proof -
  obtain a b s' where tx: "sample_tx = Some (Inr ''1603-1'', a, b, s')"
    using sample_tx_recorded by auto
  have g: "grid 12 (1 / 10)" by (simp add: grid_def is_integer_def)
  have "balance a = 4 / 10 \<and> balance b = 1 / 10"
    using make_tx_recorded [OF env96.env_ok_axioms tx [unfolded sample_tx_def]] g
    by (simp add: sample_acc_def small_def)
  with tx show ?thesis by blast
qed

text \<open>
  A transaction that is not recorded leaves database and ledger alone, and one that is refused
  for its amount or its currencies leaves the copies alone too.
\<close>

theorem make_tx_failed:
  assumes "make_tx E out ouid inn iuid amount s = Some (Inl e, out', inn', s')"
  shows "e = FailedTransaction \<and> db s' = db s \<and> ledger s' = ledger s \<and> outbox s' = outbox s \<and>
    (mon_value amount \<le> 0 \<or> acc_currency out \<noteq> acc_currency inn \<or> \<not> conn_pool s \<longrightarrow> out' = out \<and> inn' = inn)"
  using assms make_tx_frame(1,3) [OF assms]
  by (auto simp: make_tx_def Let_def get_conn_def time_now_def exec_def elim!: bind_SomeE
      split: if_split_asm option.split_asm)

theorem make_tx_failed_witness:
  "make_tx env96 (sample_acc 11 (1 / 2) BTC Internal) 1 (sample_acc 12 0 USD Internal) 1
     \<lparr>mon_value = 1 / 10, mon_currency = BTC\<rparr> sample_bank =
   Some (Inl FailedTransaction, sample_acc 11 (1 / 2) BTC Internal, sample_acc 12 0 USD Internal, sample_bank)"
proof -
  have eq: "make_tx env96 (sample_acc 11 (1 / 2) BTC Internal) 1 (sample_acc 12 0 USD Internal) 1
     \<lparr>mon_value = 1 / 10, mon_currency = BTC\<rparr> sample_bank =
   Some (Inl FailedTransaction, sample_acc 11 (1 / 2) BTC Internal, sample_acc 12 0 USD Internal, sample_bank)"
    by (simp add: make_tx_def sample_acc_def)
  with make_tx_failed [OF eq] show ?thesis by blast
qed

lemma dash_split:
  "xs @ CHR ''-'' # ys = xs' @ CHR ''-'' # ys' \<Longrightarrow> CHR ''-'' \<notin> set ys \<Longrightarrow> CHR ''-'' \<notin> set ys' \<Longrightarrow> ys = ys'"
proof (induction xs arbitrary: xs')
  case Nil
  then show ?case by (cases xs') auto
next
  case (Cons x xs)
  then show ?case by (cases xs') auto
qed

lemma make_tx_txid:
  "make_tx E out ouid inn iuid amount s = Some (Inr txid, out', inn', s') \<Longrightarrow>
     \<exists>t. txid = show_u64 t @ ''-'' @ show_u64 (tx_seq s + 1)"
  by (auto simp: make_tx_def Let_def get_conn_def time_now_def elim!: bind_SomeE
      split: if_split_asm option.split_asm prod.split_asm)

text \<open>
  Transaction identifiers are unique: two recorded transactions whose sequence numbers differ
  never have the same identifier, whatever the clock says.
\<close>

theorem txids_unique:
  assumes "make_tx E out1 o1 inn1 i1 amount1 s1 = Some (Inr txid1, r1)"
    and "make_tx E' out2 o2 inn2 i2 amount2 s2 = Some (Inr txid2, r2)"
    and "tx_seq s1 \<noteq> tx_seq s2"
  shows "txid1 \<noteq> txid2"
proof
  assume "txid1 = txid2"
  moreover obtain t1 t2 where "txid1 = show_u64 t1 @ CHR ''-'' # show_u64 (tx_seq s1 + 1)"
    "txid2 = show_u64 t2 @ CHR ''-'' # show_u64 (tx_seq s2 + 1)"
    using make_tx_txid assms(1,2) by (metis prod_cases3 append_Cons append_Nil)
  moreover have "CHR ''-'' \<notin> set (show_u64 w)" for w
    using show_nat_digits unfolding show_u64_def by blast
  ultimately have "show_u64 (tx_seq s1 + 1) = show_u64 (tx_seq s2 + 1)"
    using dash_split by blast
  then have "tx_seq s1 + 1 = tx_seq s2 + 1" by (rule show_u64_inj)
  with assms(3) show False by simp
qed


theorem txids_unique_witness:
  "\<exists>txid1 txid2 r1 r2. sample_tx = Some (Inr txid1, r1) \<and>
     make_tx env96 (sample_acc 11 (1 / 2) BTC Internal) 1 (sample_acc 21 0 BTC Internal) 2
       \<lparr>mon_value = 1 / 10, mon_currency = BTC\<rparr> (sample_bank\<lparr>tx_seq := 1\<rparr>) = Some (Inr txid2, r2) \<and> txid1 \<noteq> txid2"
proof -
  let ?second = "make_tx env96 (sample_acc 11 (1 / 2) BTC Internal) 1 (sample_acc 21 0 BTC Internal) 2
       \<lparr>mon_value = 1 / 10, mon_currency = BTC\<rparr> (sample_bank\<lparr>tx_seq := 1\<rparr>)"
  have "map_option fst ?second = Some (Inr ''1603-2'')" by code_simp
  then obtain r2 where second: "?second = Some (Inr ''1603-2'', r2)" by auto
  obtain r1 where first: "sample_tx = Some (Inr ''1603-1'', r1)" using sample_tx_recorded by auto
  have "tx_seq sample_bank \<noteq> tx_seq (sample_bank\<lparr>tx_seq := 1\<rparr>)" by (simp add: sample_defs)
  from txids_unique [OF first [unfolded sample_tx_def] second this] first second
  show ?thesis by blast
qed

text \<open>
  C7. A successful internal payment moves exactly the requested amount: the payer's account (which
  held enough) loses it, an account of the user named as recipient in the same currency gains it,
  and every other account of the ledger is unchanged.
\<close>

theorem internal_payment_exact:
  assumes "env_ok E" "bank_ok E s" "balances_small (ledger s)"
    and "prq_amount pr = Some amount" "money_ok amount"
    and "make_internal_tx E pr s = Some (Inr (), s')"
  shows "\<exists>iname user a b. prq_recipient pr = Some iname \<and> user_get_by_username iname (db s) = Some user \<and>
    as_u64 (usr_uid user) \<noteq> prq_uid pr \<and>
    ledger_get (PUser (prq_uid pr)) (account_id a) (ledger s) = Some a \<and>
    acc_currency a = prq_currency pr \<and> acc_currency b = prq_currency pr \<and>
    0 < mon_value amount \<and> mon_value amount \<le> balance a \<and>
    (ledger_get (PUser (as_u64 (usr_uid user))) (account_id b) (ledger s) = Some b \<or>
     ledger_get (PUser (as_u64 (usr_uid user))) (account_id b) (ledger s) = None \<and> balance b = 0) \<and>
    (\<forall>q i. ledger_get q i (ledger s') =
       (if q = PUser (prq_uid pr) \<and> i = account_id a then Some (a\<lparr>balance := balance a - mon_value amount\<rparr>)
        else if q = PUser (as_u64 (usr_uid user)) \<and> i = account_id b
             then Some (b\<lparr>balance := balance b + mon_value amount\<rparr>)
        else ledger_get q i (ledger s)))"
proof (rule env_ok.make_internal_tx_cases [OF assms(1,6)])
  fix iname amount' iuser ouser resp
  assume m: "prq_recipient pr = Some iname" "prq_amount pr = Some amount'"
    "user_get_by_username iname (db s) = Some iuser" "as_u64 (usr_uid iuser) \<noteq> prq_uid pr"
    "internal_transfer E pr amount' (usr_username ouser) iname (as_u64 (usr_uid iuser)) resp
         (bump (bump (bump (bump s)))) = Some (Inr (), s')"
  have ok: "bank_ok E (bump (bump (bump (bump s))))"
    using assms(2) by (auto simp: bank_ok_def intro: ledger_ok_mono)
  have amt: "money_ok amount'" "amount' = amount" using assms(4,5) m(2) by auto
  have small: "balances_small (ledger (bump (bump (bump (bump s)))))" using assms(3) by simp
  show ?thesis
  proof (rule env_ok.internal_transfer_exact [OF assms(1) ok small amt(1) m(4,5)], goal_cases)
    case (1 a b)
    show ?thesis
      using 1(1-6) m(1,3,4) amt(2)
      by (intro exI [of _ iname] exI [of _ iuser] exI [of _ a] exI [of _ b] conjI allI)
        (simp_all add: 1(7))
  qed
qed simp

theorem internal_payment_exact_witness:
  "(\<exists>s'. make_internal_tx env96 sample_payment sample_bank = Some (Inr (), s') \<and>
      ledger_get PDealer 42 (ledger s') = ledger_get PDealer 42 (ledger sample_bank))"
proof -
  have "map_option fst (make_internal_tx env96 sample_payment sample_bank) = Some (Inr ())" by code_simp
  then obtain s' where s': "make_internal_tx env96 sample_payment sample_bank = Some (Inr (), s')" by auto
  have amt: "prq_amount sample_payment = Some (money_new dec96 BTC (1 / 10))"
    by (simp add: sample_payment_def)
  show ?thesis
    using internal_payment_exact [OF env96.env_ok_axioms sample_bank_ok ledger_small_balances [OF sample_bank_small] amt _ s'] s'
    by auto
qed

text \<open>
  A refused internal payment moves no money: whatever the reason (no database, unknown user, self
  payment, insufficient funds, a failed transaction or summary), every account keeps its balance,
  and accounts that were added in the process are empty.
\<close>

theorem internal_payment_refused:
  assumes "env_ok E" "bank_ok E s" "make_internal_tx E pr s = Some (Inl e, s')"
  shows "(\<forall>q i x. ledger_get q i (ledger s) = Some x \<longrightarrow> ledger_get q i (ledger s') = Some x) \<and>
    (\<forall>q i x. ledger_get q i (ledger s') = Some x \<longrightarrow> ledger_get q i (ledger s) = Some x \<or> balance x = 0)"
proof (rule env_ok.make_internal_tx_cases [OF assms(1,3)])
  fix iname amount iuser ouser resp
  assume t: "internal_transfer E pr amount (usr_username ouser) iname (as_u64 (usr_uid iuser)) resp
         (bump (bump (bump (bump s)))) = Some (Inl e, s')"
  have ok: "bank_ok E (bump (bump (bump (bump s))))"
    using assms(2) by (auto simp: bank_ok_def intro: ledger_ok_mono)
  show ?thesis
    using env_ok.internal_transfer_refused [OF assms(1) ok t] by (auto split: prod.splits)
qed simp

theorem internal_payment_refused_witness:
  "\<exists>s'. make_internal_tx env96 (sample_payment\<lparr>prq_uid := 2, prq_recipient := Some ''alice''\<rparr>) sample_bank =
      Some (Inl InsufficientFunds, s') \<and>
    ledger_get (PUser 1) 11 (ledger s') = ledger_get (PUser 1) 11 (ledger sample_bank)"
proof -
  let ?pr = "sample_payment\<lparr>prq_uid := 2, prq_recipient := Some ''alice''\<rparr>"
  have "map_option fst (make_internal_tx env96 ?pr sample_bank) = Some (Inl InsufficientFunds)" by code_simp
  then obtain s' where s': "make_internal_tx env96 ?pr sample_bank = Some (Inl InsufficientFunds, s')" by auto
  have "ledger_get (PUser 1) 11 (ledger sample_bank) = Some (sample_acc 11 (1 / 2) BTC Internal)"
    by (simp add: ledger_get_def sample_defs)
  with internal_payment_refused [OF env96.env_ok_axioms sample_bank_ok s'] s' show ?thesis by auto
qed

section \<open>Progress\<close>

text \<open>The database answers, whenever it is asked.\<close>

definition db_up :: "env \<Rightarrow> bank \<Rightarrow> bool" where
  "db_up E s \<longleftrightarrow> conn_pool s \<and> (\<forall>n. pool_get E n \<and> pg_ok E n)"

text \<open>No row is in the way of the next transaction and its summary.\<close>

definition ids_free :: "env \<Rightarrow> bank \<Rightarrow> bool" where
  "ids_free E s \<longleftrightarrow>
     (\<forall>t. transaction_get_by_txid (show_u64 t @ ''-'' @ show_u64 (tx_seq s + 1)) (db s) = None) \<and>
     (\<forall>n \<ge> tick s. summary_get_by_txid (show_u64 (clock E n)) (db s) = None)"

lemma default_account_exists:
  "ledger_ua p (ledger s) \<noteq> None \<Longrightarrow> \<exists>a s'. default_account E p cur aty s = Some (a, s')"
  by (auto simp: default_account_def ledger_default_def split: prod.split)

lemma transaction_insert_free: "transaction_get_by_txid (tx_txid r) d = None \<Longrightarrow>
    transaction_insert r d = Some (d\<lparr>db_transactions := db_transactions d @ [r]\<rparr>)"
  by (auto simp: transaction_get_by_txid_def transaction_insert_def find_None_iff list_ex_iff)

lemma summary_insert_free: "summary_get_by_txid (stx_txid r) d = None \<Longrightarrow>
    summary_insert r d = Some (d\<lparr>db_summaries := db_summaries d @ [r]\<rparr>)"
  by (auto simp: summary_get_by_txid_def summary_insert_def find_None_iff list_ex_iff)

context env_ok
begin

lemma default_account_found:
  assumes "bank_ok E s" "default_account E p cur None s = Some (a, s')"
    and "ledger_get p i (ledger s) = Some b" "acc_currency b = cur"
  shows "ledger_get p (account_id a) (ledger s) = Some a"
proof -
  obtain ua ua' n where ua: "ledger_ua p (ledger s) = Some ua"
    and d: "get_default_account E (tick s) ua cur None = (a, ua', n)"
    using assms(2) by (auto simp: default_account_def ledger_default_def split: option.splits prod.splits)
  have b: "(i, b) \<in> set (accounts ua)" using assms(3) ua by (auto simp: ledger_get_def dest: map_of_SomeD)
  have "accs_ok E (tick s) (accounts ua)"
    using assms(1) ua by (auto simp: bank_ok_def ledger_ok_def)
  from this d show ?thesis
  proof (cases rule: get_default_account_cases)
    case found
    with ua show ?thesis by (simp add: ledger_get_def)
  next
    case created
    with b assms(4) show ?thesis by (auto simp: list_all_iff account_matches_def)
  qed
qed

lemma make_tx_succeeds:
  assumes up: "db_up E s" and free: "ids_free E s" and v: "0 < mon_value amount" "acc_currency out = acc_currency inn"
    and "grid 12 (balance out)" "grid 12 (balance inn)" "grid 12 (mon_value amount)"
    and "small (balance out)" "small (balance inn)" "small (mon_value amount)"
  shows "\<exists>txid s'. make_tx E out ouid inn iuid amount s = Some (Inr txid,
      out\<lparr>balance := balance out - mon_value amount\<rparr>, inn\<lparr>balance := balance inn + mon_value amount\<rparr>, s') \<and>
    conn_pool s' \<and> db_summaries (db s') = db_summaries (db s) \<and> ledger s' = ledger s \<and> tick s \<le> tick s' \<and>
    domain s' = domain s"
proof -
  have ops: "dec_sub (dec E) (balance out) (mon_value amount) = Some (balance out - mon_value amount)"
    "dec_add (dec E) (balance inn) (mon_value amount) = Some (balance inn + mon_value amount)"
    using assms by (auto intro: sub_small add_small)
  have up': "conn_pool s" "\<And>n. pool_get E n" "\<And>n. pg_ok E n" using up by (auto simp: db_up_def)
  show ?thesis
    using v free
    by (simp add: make_tx_def ops up' get_conn_def Let_def parse_bigs_def to_big time_now_def exec_def
        transaction_insert_free ids_free_def bump_def)
qed

lemma money_exchange_one:
  assumes "grid 12 (mon_value m)" "small (mon_value m)" "mon_currency m = c"
  shows "\<exists>m'. money_exchange (dec E) m (rate_new (dec E) c c 1) = Some (Inr m')"
proof -
  have "trunc_dp 12 1 = 1" by (rule trunc_dp_grid) (simp add: grid_def is_integer_def)
  moreover have "dec_mul (dec E) (mon_value m) 1 = Some (mon_value m * 1)"
    using assms by (intro mul_exact [of 12 _ 0] ) (auto simp: small_def dec_repr_def grid_def is_integer_def abs_mult)
  ultimately show ?thesis
    using assms(3) by (simp add: money_exchange_def rate_new_def rate_normalized_value_def RATE_DP_def round_to_zero)
qed

lemma make_summary_tx_succeeds:
  assumes up: "db_up E s" and free: "\<forall>n \<ge> tick s. summary_get_by_txid (show_u64 (clock E n)) (db s) = None"
    and "0 < mon_value amount" "mon_currency amount = acc_currency out" "acc_currency out = acc_currency inn"
    and "grid 12 (mon_value amount)" "small (mon_value amount)"
  shows "\<exists>txid s'. make_summary_tx E out ouid inn iuid amount None fees otx itx ftx ref oname iname s =
      Some (Inr txid, s') \<and> ledger s' = ledger s"
proof -
  obtain m' where m': "money_exchange (dec E) amount (rate_new (dec E) (acc_currency out) (acc_currency out) 1) =
      Some (Inr m')"
    using money_exchange_one assms(4,6,7) by blast
  have up': "conn_pool s" "\<And>n. pool_get E n" "\<And>n. pg_ok E n" using up by (auto simp: db_up_def)
  show ?thesis
    using assms(3-5) free m'
    by (simp add: make_summary_tx_def up' get_conn_def Let_def parse_bigs_def to_big store_summary_def
        time_now_def exec_def summary_insert_free split: option.split)
qed

end

context env_ok
begin

lemma default_ready:
  assumes ok: "bank_ok E s" "balances_small (ledger s)" and up: "db_up E s" "ids_free E s"
    and p: "ledger_ua p (ledger s) \<noteq> None"
  obtains a s' where "default_account E p c aty s = Some (a, s')" "bank_ok E s'" "balances_small (ledger s')"
    "ledger_get p (account_id a) (ledger s') = Some a" "acc_currency a = c" "small (balance a)" "grid 12 (balance a)"
    "\<And>q i x. ledger_get q i (ledger s) = Some x \<Longrightarrow> ledger_get q i (ledger s') = Some x"
    "db_up E s'" "ids_free E s'" "db s' = db s"
proof -
  obtain a s' where a: "default_account E p c aty s = Some (a, s')" using default_account_exists [OF p] by blast
  note spec = default_account_spec [OF ok(1) a]
  have ok': "bank_ok E s'" "balances_small (ledger s')" using spec(1,6) keeps_ok ok(2) by blast+
  have bal: "small (balance a)" "grid 12 (balance a)"
    using ok' spec(2) ledger_ok_get(2) by (auto simp: balances_small_def bank_ok_def)
  have frame: "conn_pool s' = conn_pool s" "tick s \<le> tick s'"
    using a spec(1) by (auto simp: default_account_def keeps_def conserves_def split: option.splits)
  show ?thesis
    by (rule that [OF a ok' spec(2,3) bal spec(5)]) (use frame up in \<open>auto simp: db_up_def ids_free_def spec(10,11)\<close>)
qed

lemma internal_transfer_succeeds:
  assumes ok: "bank_ok E s" "balances_small (ledger s)" and up: "db_up E s" and free: "ids_free E s"
    and amt: "money_ok amount" "0 < mon_value amount" "mon_currency amount = prq_currency pr"
    and ne: "iuid \<noteq> prq_uid pr"
    and funds: "ledger_get (PUser (prq_uid pr)) i (ledger s) = Some x" "acc_currency x = prq_currency pr"
      "\<And>j y. ledger_get (PUser (prq_uid pr)) j (ledger s) = Some y \<Longrightarrow> acc_currency y = prq_currency pr \<Longrightarrow>
         mon_value amount \<le> balance y"
  shows "\<exists>s'. internal_transfer E pr amount oname iname iuid resp s = Some (Inr (), s')"
proof -
  let ?u = "prq_uid pr"
  have "ledger_ua (PUser ?u) (ledger s) \<noteq> None" using funds(1) by (auto simp: ledger_get_def bind_Some_conv)
  from ok up free this obtain a s1
    where a: "default_account E (PUser ?u) (prq_currency pr) None s = Some (a, s1)" "bank_ok E s1" "balances_small (ledger s1)"
      "ledger_get (PUser ?u) (account_id a) (ledger s1) = Some a" "acc_currency a = prq_currency pr" "small (balance a)"
      "grid 12 (balance a)" "\<And>q i x. ledger_get q i (ledger s) = Some x \<Longrightarrow> ledger_get q i (ledger s1) = Some x"
      "db_up E s1" "ids_free E s1" "db s1 = db s"
    by (rule default_ready) (rule that; assumption)
  have le: "mon_value amount \<le> balance a"
    using default_account_found [OF ok(1) a(1) funds(1,2)] funds(3) a(5) by blast
  let ?s2 = "ensure_user iuid s1"
  have ok2: "bank_ok E ?s2" "balances_small (ledger ?s2)" "db_up E ?s2" "ids_free E ?s2"
    using keeps_ok [OF ensure_user_keeps [OF a(2)]] a(3,9,10)
    by (auto simp: balances_small_def ensure_user_def db_up_def ids_free_def)
  have "ledger_ua (PUser iuid) (ledger ?s2) \<noteq> None" by (simp add: ensure_user_def)
  from ok2 this obtain b s3
    where b: "default_account E (PUser iuid) (prq_currency pr) None ?s2 = Some (b, s3)" "bank_ok E s3" "balances_small (ledger s3)"
      "ledger_get (PUser iuid) (account_id b) (ledger s3) = Some b" "acc_currency b = prq_currency pr" "small (balance b)"
      "grid 12 (balance b)" "\<And>q i x. ledger_get q i (ledger ?s2) = Some x \<Longrightarrow> ledger_get q i (ledger s3) = Some x"
      "db_up E s3" "ids_free E s3" "db s3 = db ?s2"
    by (rule default_ready) (rule that; assumption)
  have a3: "ledger_get (PUser ?u) (account_id a) (ledger s3) = Some a"
    using b(8) a(4) by (simp add: ensure_user_def)
  have g: "grid 12 (mon_value amount)" using amt(1) by (rule money_ok_grid_12)
  have sm: "small (mon_value amount)" using small_below [OF a(6) _ amt(2)] le by simp
  let ?a = "a\<lparr>balance := balance a - mon_value amount\<rparr>" and ?b = "b\<lparr>balance := balance b + mon_value amount\<rparr>"
  obtain txid s4 where tx: "make_tx E a ?u b iuid amount s3 = Some (Inr txid, ?a, ?b, s4)"
    and s4: "conn_pool s4" "db_summaries (db s4) = db_summaries (db s3)" "ledger s4 = ledger s3" "tick s3 \<le> tick s4"
    using make_tx_succeeds [OF b(9,10) amt(2) _ a(7) b(7) g a(6) b(6) sm] a(5) b(5) by metis
  have up4: "db_up E s4" "\<forall>n \<ge> tick s4. summary_get_by_txid (show_u64 (clock E n)) (db s4) = None"
    using b(9,10) s4 by (auto simp: db_up_def ids_free_def summary_get_by_txid_def)
  have c: "mon_currency amount = acc_currency ?a" "acc_currency ?a = acc_currency ?b"
    using a(5) b(5) amt(3) by simp_all
  obtain txid' s5 where sum: "make_summary_tx E ?a ?u ?b iuid amount None None (Some txid) (Some txid) None
      (Some ''InternalTransfer'') (Some (oname @ ''@'' @ domain s4)) (Some (iname @ ''@'' @ domain s4)) s4 =
      Some (Inr txid', s5)" and s5: "ledger s5 = ledger s4"
    using make_summary_tx_succeeds [OF up4 amt(2) c g sm] by blast
  have "\<exists>s6. put_accounts [(PUser iuid, ?b), (PUser ?u, ?a)] s5 = Some s6"
    using a3 b(4) ne
    by (auto simp: put_account_def ledger_put_def s5 s4(3) ledger_get_def bind_Some_conv split: option.splits)
  then show ?thesis
    using a(1) b(1) le tx sum by (auto simp: internal_transfer_def Let_def bind_eq_Some_conv)
qed

end

text \<open>
  C9. Internal payments go through: if the database answers and no row is in the way, a payment of a
  positive amount to another registered user, in a currency in which every account of the payer
  covers it, succeeds; it neither panics nor is refused.
\<close>

theorem internal_payment_succeeds:
  assumes "env_ok E" "bank_ok E s" "balances_small (ledger s)" "db_up E s" "ids_free E s"
    and "prq_recipient pr = Some iname" "user_get_by_username iname (db s) = Some user"
    and "user_get_by_id (as_i32 (prq_uid pr)) (db s) = Some payer" "as_u64 (usr_uid user) \<noteq> prq_uid pr"
    and "prq_amount pr = Some amount" "money_ok amount" "0 < mon_value amount" "mon_currency amount = prq_currency pr"
    and "ledger_get (PUser (prq_uid pr)) i (ledger s) = Some x" "acc_currency x = prq_currency pr"
    and "\<And>j y. ledger_get (PUser (prq_uid pr)) j (ledger s) = Some y \<Longrightarrow> acc_currency y = prq_currency pr \<Longrightarrow>
      mon_value amount \<le> balance y"
  shows "\<exists>s'. make_internal_tx E pr s = Some (Inr (), s')"
proof -
  let ?s = "bump (bump (bump (bump s)))"
  have s: "bank_ok E ?s" "balances_small (ledger ?s)" "db_up E ?s" "ids_free E ?s"
    using assms(2-5) by (auto simp: bank_ok_def db_up_def ids_free_def intro: ledger_ok_mono)
  have funds: "ledger_get (PUser (prq_uid pr)) i (ledger ?s) = Some x" using assms(14) by simp
  have up: "conn_pool s" "\<And>n. pool_get E n" "\<And>n. pg_ok E n" using assms(4) by (auto simp: db_up_def)
  show ?thesis
    using env_ok.internal_transfer_succeeds [OF assms(1) s assms(11-13,9) funds assms(15)] assms(6-10,16)
    by (auto simp: make_internal_tx_def get_conn_def new_uuid_def query_def up Let_def split: option.split)
qed

theorem internal_payment_succeeds_witness:
  "\<exists>s'. make_internal_tx env96 sample_payment sample_bank = Some (Inr (), s')"
proof -
  have g: "grid 12 (1 / 10)" by (simp add: grid_def is_integer_def)
  have amt: "prq_amount sample_payment = Some \<lparr>mon_value = 1 / 10, mon_currency = BTC\<rparr>"
    by (simp add: sample_payment_def money_new_def dec96.round_to_zero trunc_dp_grid g)
  have users: "user_get_by_username ''bob'' (db sample_bank) = Some (sample_user 2 ''bob'' False)"
    "user_get_by_id (as_i32 (prq_uid sample_payment)) (db sample_bank) = Some (sample_user 1 ''alice'' False)"
    by (simp_all add: sample_defs sample_db_def sample_user_def user_get_by_username_def user_get_by_id_def
        sample_payment_def)
  have free: "db_up env96 sample_bank" "ids_free env96 sample_bank"
    by (simp_all add: db_up_def ids_free_def sample_defs sample_db_def transaction_get_by_txid_def
        summary_get_by_txid_def)
  have get: "ledger_get (PUser 1) j (ledger sample_bank) =
    (if j = 11 then Some (sample_acc 11 (1 / 2) BTC Internal) else if j = 12 then Some (sample_acc 12 100 USD Internal) else None)" for j
    by (simp add: ledger_get_def sample_defs)
  have payer: "prq_uid sample_payment = 1" "prq_currency sample_payment = BTC" "prq_recipient sample_payment = Some ''bob''"
    by (simp_all add: sample_payment_def)
  show ?thesis
    by (rule internal_payment_succeeds [OF env96.env_ok_axioms sample_bank_ok
          ledger_small_balances [OF sample_bank_small] free payer(3) users _ amt, of 11 "sample_acc 11 (1 / 2) BTC Internal"])
      (auto simp: payer get money_ok_def g sample_user_def sample_acc_def split: if_splits)
qed

end
