(* ===== verification/Texts.thy ===== *)
theory Texts
  imports Prelude
begin

text \<open>
  Operations of Rust's strings that the services use (\<open>parse::<u64>\<close>, slices, \<open>split_once\<close>,
  \<open>replace\<close>), and the checks of names: \<open>utils/src/user.rs\<close> for user names and the local
  parts of internet identifiers in \<open>nostr_engine/src/lib.rs\<close>. A string is its list of bytes.
\<close>

section \<open>Rust strings\<close>

text \<open>\<open>str::parse::<u64>\<close>: an optional plus sign and decimal digits, no overflow.\<close>

definition digit_value :: "char \<Rightarrow> nat option" where
  "digit_value c = (let n = of_char c in if 48 \<le> n \<and> n \<le> 57 then Some (n - 48) else None)"

fun digits_value :: "nat \<Rightarrow> string \<Rightarrow> nat option" where
  "digits_value n [] = Some n"
| "digits_value n (c # cs) = Option.bind (digit_value c) (\<lambda>v. digits_value (10 * n + v) cs)"

definition parse_u64 :: "string \<Rightarrow> u64 option" where
  "parse_u64 s =
     (let ds = (case s of c # cs \<Rightarrow> if c = CHR ''+'' then cs else s | [] \<Rightarrow> []) in
      if ds = [] then None
      else Option.bind (digits_value 0 ds) (\<lambda>n. if n < 2 ^ 64 then Some (word_of_nat n) else None))"

text \<open>
  \<open>&s[a..b]\<close> panics when the string is too short or a bound lies within a character of more than
  one byte; the further bytes of such a character are \<open>0x80\<close> to \<open>0xBF\<close>.
\<close>

definition char_boundary :: "string \<Rightarrow> nat \<Rightarrow> bool" where
  "char_boundary t n =
     (n = 0 \<or> (case drop n t of [] \<Rightarrow> n = length t | c # _ \<Rightarrow> of_char c < (0x80 :: nat) \<or> (0xC0 :: nat) \<le> of_char c))"

definition slice :: "nat \<Rightarrow> nat \<Rightarrow> string \<Rightarrow> string option" where
  "slice a b s =
     (if b \<le> length s \<and> char_boundary s a \<and> char_boundary s b then Some (take (b - a) (drop a s)) else None)"

fun split_once :: "char \<Rightarrow> string \<Rightarrow> (string \<times> string) option" where
  "split_once x [] = None"
| "split_once x (c # cs) =
     (if c = x then Some ([], cs) else map_option (\<lambda>(a, b). (c # a, b)) (split_once x cs))"

text \<open>\<open>replace\<close> of a single character by a string.\<close>

definition replace_char :: "char \<Rightarrow> string \<Rightarrow> string \<Rightarrow> string" where
  "replace_char x y s = concat (map (\<lambda>c. if c = x then y else [c]) s)"

definition upper_char :: "char \<Rightarrow> char" where
  "upper_char c = (let n = of_char c in if 97 \<le> n \<and> n \<le> (122::nat) then char_of (n - 32) else c)"

definition to_uppercase :: "string \<Rightarrow> string" where
  "to_uppercase s = map upper_char s"

lemma digit_value_digit: "d < 10 \<Longrightarrow> digit_value (digit_char d) = Some d"
  by (simp add: digit_value_def digit_char_def Let_def)

lemma digits_value_append:
  "digits_value n (xs @ ys) = Option.bind (digits_value n xs) (\<lambda>m. digits_value m ys)"
  by (induction n xs rule: digits_value.induct) (auto split: bind_split)

lemma digits_value_show: "digits_value 0 (show_nat n) = Some n"
proof (induction n rule: show_nat.induct)
  case (1 n)
  then show ?case
    by (subst show_nat.simps) (auto simp: digits_value_append digit_value_digit)
qed

lemma show_nat_no_plus: "c \<in> set (show_nat n) \<Longrightarrow> digit_value c \<noteq> None"
proof (induction n rule: show_nat.induct)
  case (1 n)
  from "1.prems" show ?case
    using "1.IH" by (cases "n < 10") (auto simp: show_nat.simps [of n] digit_value_digit)
qed

lemma parse_u64_show: "parse_u64 (show_u64 w) = Some w"
proof -
  obtain c cs where s: "show_nat (unat w) = c # cs" using show_nat_nonempty by (meson neq_Nil_conv)
  then have "c \<noteq> CHR ''+''" using show_nat_no_plus [of c "unat w"] by (auto simp: digit_value_def)
  moreover have "digits_value 0 (c # cs) = Some (unat w)" using digits_value_show [of "unat w"] s by simp
  moreover have "unat w < 2 ^ 64" using unsigned_less [of w] by simp
  ultimately show ?thesis by (simp add: parse_u64_def show_u64_def s del: digits_value.simps)
qed

lemma split_once_Some: "split_once x s = Some (a, b) \<longleftrightarrow> s = a @ x # b \<and> x \<notin> set a"
proof (induction s arbitrary: a)
  case (Cons c s)
  show ?case
  proof (cases a)
    case Nil
    then show ?thesis by (auto split: option.split)
  next
    case (Cons d a')
    with Cons.IH [of a'] show ?thesis by (auto simp: split_beta)
  qed
qed simp

section \<open>User names (\<open>utils/src/user.rs\<close>)\<close>

definition MAX_USERNAME_LEN :: nat where
  "MAX_USERNAME_LEN = 128"

definition ascii_in :: "nat \<Rightarrow> nat \<Rightarrow> char \<Rightarrow> bool" where
  "ascii_in lo hi c = (let n = of_char c in lo \<le> n \<and> n \<le> hi)"

definition is_username_alphanumeric :: "char \<Rightarrow> bool" where
  "is_username_alphanumeric c = (ascii_in 97 122 c \<or> ascii_in 48 57 c)"

definition is_username_punctuation :: "char \<Rightarrow> bool" where
  "is_username_punctuation c = (c = CHR ''-'' \<or> c = CHR ''.'' \<or> c = CHR ''_'')"

definition is_username_char :: "char \<Rightarrow> bool" where
  "is_username_char c = (is_username_alphanumeric c \<or> is_username_punctuation c)"

text \<open>The loop with its flag; \<open>None\<close> is the early return, \<open>Some\<close> the flag at the end.\<close>

fun username_loop :: "bool \<Rightarrow> string \<Rightarrow> bool option" where
  "username_loop alphanumeric [] = Some alphanumeric"
| "username_loop alphanumeric (c # cs) =
     (if \<not> alphanumeric \<and> \<not> is_username_alphanumeric c then None
      else username_loop (is_username_alphanumeric c) cs)"

definition check_username_valid :: "string \<Rightarrow> bool" where
  "check_username_valid username =
     (if MAX_USERNAME_LEN < length username then False
      else if \<not> list_all is_username_char username then False
      else (case username_loop False username of None \<Rightarrow> False | Some alphanumeric \<Rightarrow> alphanumeric))"

text \<open>The intended set of names: words of letters and digits, joined by single separators.\<close>

inductive proper_username :: "string \<Rightarrow> bool" where
  username_one: "is_username_alphanumeric c \<Longrightarrow> proper_username [c]"
| username_more: "is_username_alphanumeric c \<Longrightarrow> proper_username s \<Longrightarrow> proper_username (c # s)"
| username_join: "is_username_alphanumeric c \<Longrightarrow> is_username_punctuation p \<Longrightarrow> proper_username s \<Longrightarrow> proper_username (c # p # s)"

lemma punctuation_not_alphanumeric: "is_username_punctuation c \<Longrightarrow> \<not> is_username_alphanumeric c"
  by (auto simp: is_username_punctuation_def is_username_alphanumeric_def ascii_in_def)

lemma username_start: "proper_username s \<Longrightarrow> \<exists>c cs. s = c # cs \<and> is_username_alphanumeric c"
  by (cases rule: proper_username.cases) auto

lemma username_loop_sound:
  "username_loop b s = Some True \<Longrightarrow> list_all is_username_char s \<Longrightarrow>
     (if b then s = [] \<or> proper_username s \<or> (\<exists>p t. s = p # t \<and> is_username_punctuation p \<and> proper_username t) else proper_username s)"
proof (induction b s rule: username_loop.induct)
  case (2 b c cs)
  then show ?case
    by (cases b; cases "is_username_alphanumeric c")
      (auto simp: is_username_char_def intro: proper_username.intros split: if_split_asm)
qed simp

lemma username_loop_complete: "proper_username s \<Longrightarrow> username_loop b s = Some True \<and> list_all is_username_char s"
proof (induction arbitrary: b rule: proper_username.induct)
  case (username_join c p s)
  then show ?case
    using punctuation_not_alphanumeric [of p] username_start [OF username_join.hyps(3)]
    by (auto simp: is_username_char_def)
qed (auto simp: is_username_char_def)

text \<open>
  C40. The check of user names with its flag accepts exactly the intended names: at most 128
  characters, words of lower-case letters and digits joined by single dashes, dots and underscores;
  in particular no name is empty or starts or ends with a separator.
\<close>

theorem check_username_valid_iff:
  "check_username_valid s \<longleftrightarrow> length s \<le> MAX_USERNAME_LEN \<and> proper_username s"
  using username_loop_sound [of False s] username_loop_complete [of s False]
  by (auto simp: check_username_valid_def split: option.split if_split_asm)

text \<open>The memo that marks the invoice of a zap request (\<open>utils/src/nostr.rs\<close>).\<close>

definition ZAP_REQUEST_MEMO :: string where
  "ZAP_REQUEST_MEMO = ''Zap Request''"

section \<open>Internet identifiers (\<open>nostr_engine/src/lib.rs\<close>)\<close>

definition domain_valid :: "string \<Rightarrow> bool" where
  "domain_valid domain = (domain \<noteq> [] \<and> CHR ''@'' \<notin> set domain \<and> length domain \<le> 253)"

definition nip05_local_part_valid :: "string \<Rightarrow> bool" where
  "nip05_local_part_valid s =
     (s \<noteq> [] \<and> list_all (\<lambda>c. ascii_in 97 122 c \<or> ascii_in 65 90 c \<or> ascii_in 48 57 c \<or> is_username_punctuation c) s)"

definition lud16_local_part_valid :: "string \<Rightarrow> bool" where
  "lud16_local_part_valid s =
     (s \<noteq> [] \<and> list_all (\<lambda>c. ascii_in 97 122 c \<or> ascii_in 48 57 c \<or> is_username_punctuation c) s)"

definition lnurl_from_address :: "string \<Rightarrow> string option" where
  "lnurl_from_address lightning_address =
     (case split_once (CHR ''@'') lightning_address of
        Some (local_part, domain) \<Rightarrow>
          if lud16_local_part_valid local_part \<and> domain_valid domain
          then Some (''https://'' @ domain @ ''/.well-known/lnurlp/'' @ local_part) else None
      | None \<Rightarrow> None)"

section \<open>SQL literals (\<open>models/src/nostr_profiles.rs\<close>)\<close>

definition escaped_text :: "string \<Rightarrow> string" where
  "escaped_text s = replace_char (CHR 0x27) [CHR 0x27, CHR 0x27] s"

definition not_nullable_string :: "string \<Rightarrow> string" where
  "not_nullable_string s = [CHR 0x27] @ escaped_text s @ [CHR 0x27]"

definition nullable_string :: "string option \<Rightarrow> string" where
  "nullable_string v = (case v of Some s \<Rightarrow> not_nullable_string s | None \<Rightarrow> ''NULL'')"

definition nullable_bool :: "bool option \<Rightarrow> string" where
  "nullable_bool v = (case v of Some b \<Rightarrow> (if b then ''true'' else ''false'') | None \<Rightarrow> ''NULL'')"

text \<open>
  How the server reads a string literal (SQL standard): from the opening quote up to the first quote
  that is not doubled. The result is the text and the rest of the statement.
\<close>

fun sql_rest :: "string \<Rightarrow> (string \<times> string) option" where
  "sql_rest [] = None"
| "sql_rest (c # cs) =
     (if c \<noteq> CHR 0x27 then map_option (\<lambda>(t, r). (c # t, r)) (sql_rest cs)
      else (case cs of
              d # ds \<Rightarrow> if d = CHR 0x27 then map_option (\<lambda>(t, r). (CHR 0x27 # t, r)) (sql_rest ds) else Some ([], cs)
            | [] \<Rightarrow> Some ([], [])))"

definition sql_literal :: "string \<Rightarrow> (string \<times> string) option" where
  "sql_literal s = (case s of c # cs \<Rightarrow> if c = CHR 0x27 then sql_rest cs else None | [] \<Rightarrow> None)"

lemma sql_rest_escaped:
  "rest = [] \<or> hd rest \<noteq> CHR 0x27 \<Longrightarrow> sql_rest (escaped_text s @ CHR 0x27 # rest) = Some (s, rest)"
proof (induction s)
  case Nil
  then show ?case by (cases rest) (simp_all add: escaped_text_def replace_char_def)
next
  case (Cons c s)
  then show ?case by (simp add: escaped_text_def replace_char_def)
qed

text \<open>
  No injection through the hand-written statement: whatever text a profile holds, the literal
  that is put into the statement is read back by the server as exactly that text, and the literal
  ends where it was meant to end.
\<close>

theorem sql_literal_exact:
  assumes "rest = [] \<or> hd rest \<noteq> CHR 0x27"
  shows "sql_literal (not_nullable_string s @ rest) = Some (s, rest)"
  using sql_rest_escaped [OF assms] by (simp add: sql_literal_def not_nullable_string_def)

theorem sql_literal_exact_witness:
  "sql_literal (not_nullable_string [CHR ''x'', CHR 0x27, CHR 0x27, CHR '';''] @ '', NULL)'') =
     Some ([CHR ''x'', CHR 0x27, CHR 0x27, CHR '';''], '', NULL)'')"
  by (rule sql_literal_exact) simp

end
