(* ===== verification/BankDeposit.thy ===== *)
theory BankDeposit
  imports BankInternal Texts
begin

text \<open>
  Deposits (\<open>bank/src/bank_engine.rs\<close>): an invoice of a user or of the dealer was paid from
  outside (\<open>Message::Deposit\<close>), or the dealer answered with the rate for a deposit into a fiat
  account (\<open>Dealer::FiatDepositResponse\<close>). Both credit accounts out of the bank's external
  liabilities account, mark the invoice as settled and notify the receiver.
\<close>

section \<open>Notifications\<close>

definition MONEY_WINGS :: string where
  "MONEY_WINGS = [CHR 0xF0, CHR 0x9F, CHR 0x92, CHR 0xB8]"

definition MONEY_BAG :: string where
  "MONEY_BAG = [CHR 0xF0, CHR 0x9F, CHR 0x92, CHR 0xB0]"

definition paid_text :: "string \<Rightarrow> string" where
  "paid_text what = MONEY_WINGS @ '' You just got paid '' @ what @ '' into your Kollider Wallet! '' @ MONEY_BAG"

text \<open>The text is computed last, and its computation may panic.\<close>

definition notify_paid :: "env \<Rightarrow> i32 \<Rightarrow> string option \<Rightarrow> bank \<Rightarrow> bank option" where
  "notify_paid E uid text s =
     (case query E (profile_get_by_uid uid) s of
        (None, s) \<Rightarrow> Some s
      | (Some user_profile, s) \<Rightarrow> do {
          wanted \<leftarrow> up_nostr_notifications user_profile;
          if wanted
          then (case query E (nostr_key_get_by_uid uid) s of
                  (None, s) \<Rightarrow> Some s
                | (Some pk, s) \<Rightarrow> do {
                    text \<leftarrow> text;
                    Some (listener (MsgNostr (NostrPrivateMessageMsg
                      \<lparr>npm_pubkey = npk_pubkey pk, npm_text = text\<rparr>)) Nostr s) })
          else Some s })"

definition publish_if_zap_note ::
  "env \<Rightarrow> Invoice \<Rightarrow> string option \<Rightarrow> string option \<Rightarrow> u64 \<Rightarrow> bool \<Rightarrow> bank \<Rightarrow> bank option" where
  "publish_if_zap_note E invoice description_hash preimage settled_timestamp_seconds is_internally_settled s =
     (if inv_reference invoice = Some ZAP_REQUEST_MEMO
      then case inv_description invoice of
          None \<Rightarrow> Some s
        | Some description \<Rightarrow> do {
            desc_hash \<leftarrow> (case description_hash of
                Some hash \<Rightarrow> Some hash
              | None \<Rightarrow> if is_internally_settled then Some (sha256_digest E description) else None);
            Some (listener (MsgNostr (NostrZapNoteMsg \<lparr>
              nzn_amount = inv_value_msat invoice,
              nzn_description = description,
              nzn_description_hash = desc_hash,
              nzn_bolt11 = inv_payment_request invoice,
              nzn_preimage = preimage,
              nzn_settled_timestamp = settled_timestamp_seconds \<rparr>)) Nostr s) }
      else Some s)"

definition settle_invoice :: "env \<Rightarrow> Invoice \<Rightarrow> bank \<Rightarrow> bank" where
  "settle_invoice E invoice s =
     (let (now, s) = time_now E s
      in snd (exec E (invoice_update (invoice\<lparr>inv_settled := True, inv_settled_date := now\<rparr>)) s))"

section \<open>Deposits\<close>

definition handle_dealer_deposit :: "env \<Rightarrow> Deposit \<Rightarrow> bank \<Rightarrow> bank option" where
  "handle_dealer_deposit E deposit s =
     (let (conn, s) = get_conn E s in
      if \<not> conn then Some s
      else case query E (invoice_get_by_payment_request (dep_payment_request deposit)) s of
        (None, s) \<Rightarrow> Some s
      | (Some invoice, s) \<Rightarrow>
          (case inv_reference invoice of
             None \<Rightarrow> Some s
           | Some reference \<Rightarrow>
               if reference \<noteq> ''KolliderSettlement'' \<and> reference \<noteq> ''ExternalDeposit'' then Some s
               else do {
                 let is_internal = (reference = ''KolliderSettlement'');
                 let out_place = (if is_internal then PDealer else PLiab);
                 let outbound_uid = (if is_internal then DEALER_UID else BANK_UID);
                 (inbound_dealer_account, s) \<leftarrow> default_account E PDealer BTC (Some Internal) s;
                 (outbound_account, s) \<leftarrow> default_account E out_place BTC (Some External) s;
                 val \<leftarrow> money_from_sats (dec E) (of_int (sint (inv_value invoice)));
                 (r, outbound_account, inbound_dealer_account, s) \<leftarrow>
                   make_tx E outbound_account outbound_uid inbound_dealer_account DEALER_UID val s;
                 s \<leftarrow> put_account PDealer inbound_dealer_account s;
                 let s = update_account E inbound_dealer_account DEALER_UID s;
                 s \<leftarrow> put_account out_place outbound_account s;
                 Some (update_account E outbound_account outbound_uid s) }))"

definition invoice_currency_or_btc :: "string option \<Rightarrow> Currency option" where
  "invoice_currency_or_btc c = (case c of Some text \<Rightarrow> unwrap (currency_from_str text) | None \<Rightarrow> Some BTC)"

text \<open>The part of the deposit handler after the checks: only BTC deposits get here.\<close>

definition book_deposit :: "env \<Rightarrow> Deposit \<Rightarrow> Invoice \<Rightarrow> Money \<Rightarrow> Currency \<Rightarrow> bank \<Rightarrow> bank option" where
  "book_deposit E msg invoice val currency s = do {
     let u = as_u64 (inv_uid invoice);
     let s = ensure_user u s;
     (inbound_account, s) \<leftarrow> default_account E (PUser u) currency None s;
     let inbound_uid = user_account_owner u s;
     (liability_account, s) \<leftarrow> default_account E PLiab BTC (Some External) s;
     (r, liability_account, inbound_account, s) \<leftarrow>
       make_tx E liability_account BANK_UID inbound_account inbound_uid val s;
     (case r of
        Inl _ \<Rightarrow> Some s
      | Inr txid \<Rightarrow> do {
          s \<leftarrow> put_accounts [(PUser inbound_uid, inbound_account), (PLiab, liability_account)] s;
          let s = update_account E inbound_account inbound_uid s;
          let s = update_account E liability_account BANK_UID s;
          (r, s) \<leftarrow> make_summary_tx E liability_account BANK_UID inbound_account inbound_uid val None None
            (Some txid) (Some txid) None (Some ''ExternalDeposit'') None None s;
          (case r of
             Inl _ \<Rightarrow> Some s
           | Inr _ \<Rightarrow> do {
               let s = settle_invoice E invoice s;
               s \<leftarrow> notify_paid E (inv_uid invoice) (do {
                  sats \<leftarrow> money_try_sats (dec E) val;
                  sats \<leftarrow> unwrap sats;
                  Some (paid_text (dec_show (dec E) (dec_half_even (dec E) sats) @ '' Sats'')) }) s;
               publish_if_zap_note E invoice (Some (dep_description_hash msg)) (Some (dep_preimage msg))
                 (dep_settle_date msg) False s }) }) }"

definition process_deposit :: "env \<Rightarrow> Deposit \<Rightarrow> bank \<Rightarrow> bank option" where
  "process_deposit E msg s =
     (let (conn, s) = get_conn E s in
      if \<not> conn then Some s
      else case query E (invoice_get_by_payment_request (dep_payment_request msg)) s of
        (None, s) \<Rightarrow> Some s
      | (Some invoice, s) \<Rightarrow>
          if as_u64 (inv_uid invoice) = DEALER_UID then handle_dealer_deposit E msg s
          else do {
            val \<leftarrow> money_from_sats (dec E) (of_int (sint (inv_value invoice)));
            currency \<leftarrow> invoice_currency_or_btc (inv_currency invoice);
            target_account_currency \<leftarrow> invoice_currency_or_btc (inv_target_account_currency invoice);
            if currency \<noteq> BTC \<or> (currency = BTC \<and> target_account_currency \<noteq> BTC)
            then do {
              let (r, s) = new_uuid E s;
              Some (listener (MsgDealer (FiatDepositRequestMsg \<lparr>
                fdr_req_id = r,
                fdr_amount = val,
                fdr_currency = (if currency = BTC then target_account_currency else currency),
                fdr_payment_request = inv_payment_request invoice,
                fdr_uid = as_u64 (inv_uid invoice) \<rparr>)) Dealer s) }
            else book_deposit E msg invoice val currency s })"

section \<open>Fiat deposits\<close>

definition book_fiat_deposit ::
  "env \<Rightarrow> FiatDepositResponse \<Rightarrow> Invoice \<Rightarrow> Rate \<Rightarrow> bank \<Rightarrow> bank option" where
  "book_fiat_deposit E msg invoice rate s = do {
     let u = fds_uid msg;
     let s = ensure_user u s;
     (inbound_account, s) \<leftarrow> default_account E (PUser u) (fds_currency msg) None s;
     let inbound_uid = user_account_owner u s;
     (dealer_fiat_account, s) \<leftarrow> default_account E PDealer (fds_currency msg) (Some Internal) s;
     (dealer_btc_account, s) \<leftarrow> default_account E PDealer BTC (Some Internal) s;
     (liabilities_btc_account, s) \<leftarrow> default_account E PLiab BTC (Some External) s;
     let val = fds_amount msg;
     exchanged \<leftarrow> money_exchange (dec E) val rate;
     fiat_value \<leftarrow> unwrap exchanged;
     (r, liabilities_btc_account, dealer_btc_account, s) \<leftarrow>
       make_tx E liabilities_btc_account BANK_UID dealer_btc_account DEALER_UID val s;
     (case r of
        Inl _ \<Rightarrow> Some s
      | Inr outbound_txid \<Rightarrow> do {
          (r, dealer_fiat_account, inbound_account, s) \<leftarrow>
            make_tx E dealer_fiat_account DEALER_UID inbound_account inbound_uid fiat_value s;
          (case r of
             Inl _ \<Rightarrow> Some s
           | Inr inbound_txid \<Rightarrow> do {
               s \<leftarrow> put_accounts [(PUser inbound_uid, inbound_account), (PLiab, liabilities_btc_account),
                 (PDealer, dealer_btc_account), (PDealer, dealer_fiat_account)] s;
               let s = update_account E inbound_account inbound_uid s;
               let s = update_account E liabilities_btc_account BANK_UID s;
               let s = update_account E dealer_btc_account DEALER_UID s;
               let s = update_account E dealer_fiat_account DEALER_UID s;
               s \<leftarrow> send_bank_state E s;
               (r, s) \<leftarrow> make_summary_tx E liabilities_btc_account BANK_UID inbound_account inbound_uid val
                 (Some rate) None (Some outbound_txid) (Some inbound_txid) None (Some ''ExternalDeposit'')
                 None None s;
               (case r of
                  Inl _ \<Rightarrow> Some s
                | Inr _ \<Rightarrow>
                    notify_paid E (inv_uid invoice)
                      (Some (paid_text (dec_show (dec E) (dec_round (dec E) ToZero 2 (mon_value fiat_value)) @
                         '' '' @ currency_to_string (fds_currency msg))))
                      (settle_invoice E invoice s)) }) }) }"

definition process_fiat_deposit_response :: "env \<Rightarrow> FiatDepositResponse \<Rightarrow> bank \<Rightarrow> bank option" where
  "process_fiat_deposit_response E msg s =
     (if fds_error msg \<noteq> None then Some s
      else let (conn, s) = get_conn E s in
      if \<not> conn then Some s
      else case query E (invoice_get_by_payment_request (fds_payment_request msg)) s of
        (None, s) \<Rightarrow> Some s
      | (Some invoice, s) \<Rightarrow>
          (case fds_rate msg of
             None \<Rightarrow> Some s
           | Some rate \<Rightarrow> book_fiat_deposit E msg invoice rate s))"

section \<open>Deposits keep the books\<close>

lemma quiet_settle_invoice [simp]: "quiet s t \<Longrightarrow> quiet s (settle_invoice E i t)"
  by (auto simp: settle_invoice_def time_now_def)

lemma ens_quiet_notify: "quiet s t \<Longrightarrow> ens (quiet s) (notify_paid E u txt t)"
  unfolding notify_paid_def query_def by (auto intro!: ens_intros)

lemma ens_quiet_publish: "quiet s t \<Longrightarrow> ens (quiet s) (publish_if_zap_note E i h p n b t)"
  unfolding publish_if_zap_note_def by (auto intro!: ens_intros)

lemmas quiet_calls = ens_quiet_notify ens_quiet_publish

context env_ok
begin

lemma handle_dealer_deposit_keeps:
  assumes "bank_ok E s" "balances_small (ledger s)"
  shows "ens (keeps E s) (handle_dealer_deposit E d s)"
  unfolding handle_dealer_deposit_def
  by (rule walk_start [OF assms(1,2)], intro walk_rules)
    (simp_all split del: if_split | erule sats_grid | erule sats_small
      | rule balanced_pair, assumption+, simp_all add: balanced_defs)+

lemma book_deposit_keeps:
  assumes "bank_ok E s" "balances_small (ledger s)" "money_ok val" "small (mon_value val)"
  shows "ens (keeps E s) (book_deposit E d i val BTC s)"
  unfolding book_deposit_def
  by (rule walk_start [OF assms(1,2)], intro walk_rules)
    (simp_all add: assms(3,4) money_ok_grid_12 walk_tail_quiet books_keeps quiet_calls
      | rule balanced_pair, assumption+, simp_all add: balanced_defs)+

lemma process_deposit_keeps:
  assumes "bank_ok E s" "balances_small (ledger s)"
  shows "ens (keeps E s) (process_deposit E d s)"
  unfolding process_deposit_def
  by (rule walk_start [OF assms(1,2)], intro walk_rules)
    (auto intro!: walk_tail handle_dealer_deposit_keeps book_deposit_keeps elim: sats_amount)

lemma book_fiat_deposit_keeps:
  assumes "bank_ok E s" "balances_small (ledger s)" "money_ok (fds_amount m)" "small (mon_value (fds_amount m))"
    and "\<And>x. money_exchange (dec E) (fds_amount m) rate = Some (Inr x) \<Longrightarrow> small (mon_value x)"
    and "fds_currency m \<noteq> BTC"
  shows "ens (keeps E s) (book_fiat_deposit E m i rate s)"
  unfolding book_fiat_deposit_def
  by (rule walk_start [OF assms(1,2)], intro walk_rules)
    (simp_all add: assms(3,4,6) assms(6) [symmetric] money_ok_grid_12 walk_tail_quiet books_keeps quiet_calls
      | erule money_exchange_grid | erule assms(5)
      | rule balanced_quad, assumption+, simp_all add: balanced_defs assms(6) assms(6) [symmetric])+

text \<open>
  What the dealer's answer must satisfy: the amounts are in range, and the target is not the BTC
  account (\<open>process_deposit\<close> asks for a rate only for other currencies).
\<close>

lemma process_fiat_deposit_response_keeps:
  assumes "bank_ok E s" "balances_small (ledger s)" "money_ok (fds_amount m)" "small (mon_value (fds_amount m))"
    and "\<And>rate x. fds_rate m = Some rate \<Longrightarrow>
      money_exchange (dec E) (fds_amount m) rate = Some (Inr x) \<Longrightarrow> small (mon_value x)"
    and "fds_currency m \<noteq> BTC"
  shows "ens (keeps E s) (process_fiat_deposit_response E m s)"
  unfolding process_fiat_deposit_response_def
  by (rule walk_start [OF assms(1,2)], intro walk_rules)
    (use assms(3-6) in \<open>auto intro!: walk_tail book_fiat_deposit_keeps\<close>)

end

section \<open>Exact effects of a deposit\<close>

lemma notify_paid_ledger: "notify_paid E u t s = Some s' \<Longrightarrow> ledger s' = ledger s \<and> db s' = db s"
  by (auto simp: notify_paid_def query_def elim!: bind_SomeE split: option.split_asm if_split_asm prod.split_asm)

lemma publish_if_zap_note_ledger: "publish_if_zap_note E i h p n b s = Some s' \<Longrightarrow> ledger s' = ledger s \<and> db s' = db s"
  by (auto simp: publish_if_zap_note_def elim!: bind_SomeE split: option.split_asm if_split_asm)

lemma settle_invoice_ledger [simp]: "ledger (settle_invoice E i s) = ledger s"
  by (auto simp: settle_invoice_def time_now_def exec_def Let_def split: option.split)

context env_ok
begin

lemma user_account_owner_self:
  assumes "bank_ok E s" "ledger_ua (PUser u) (ledger s) \<noteq> None"
  shows "user_account_owner u s = u"
  using assms by (auto simp: user_account_owner_def bank_ok_def ledger_ok_def)

text \<open>The ledger when both accounts of a deposit have been opened.\<close>

lemma deposit_opened:
  assumes ok: "bank_ok E s" and a: "default_account E (PUser u) BTC None (ensure_user u s) = Some (a, s1)"
    and l: "default_account E PLiab BTC (Some External) s1 = Some (l, s2)"
  shows "bank_ok E s2" "balances_small (ledger s) \<Longrightarrow> balances_small (ledger s2)" "acc_currency a = BTC" "acc_currency l = BTC"
    "user_account_owner u s1 = u" "ledger_get (PUser u) (account_id a) (ledger s2) = Some a"
    "ledger_get PLiab (account_id l) (ledger s2) = Some l"
    "ledger_get (PUser u) (account_id a) (ledger s) = Some a \<or>
       ledger_get (PUser u) (account_id a) (ledger s) = None \<and> balance a = 0"
    "ledger_get PLiab (account_id l) (ledger s) = Some l \<or> ledger_get PLiab (account_id l) (ledger s) = None \<and> balance l = 0"
    "ledger_get q i (ledger s2) = (if q = PLiab \<and> i = account_id l then Some l
       else if q = PUser u \<and> i = account_id a then Some a else ledger_get q i (ledger s))"
proof -
  let ?s = "ensure_user u s"
  have ok0: "bank_ok E ?s" using ensure_user_keeps keeps_ok ok by blast
  note specA = default_account_spec [OF ok0 a] and getA = default_account_get [OF ok0 a]
  have ok1: "bank_ok E s1" using keeps_ok specA(1) by blast
  note specL = default_account_spec [OF ok1 l] and getL = default_account_get [OF ok1 l]
  have L0: "ledger_get q i (ledger ?s) = ledger_get q i (ledger s)" for q i by (simp add: ensure_user_def)
  show "bank_ok E s2" using specL(1) keeps_ok by blast
  show "balances_small (ledger s) \<Longrightarrow> balances_small (ledger s2)"
    using specA(6) specL(6) by (simp add: balances_small_def L0)
  show "acc_currency a = BTC" "acc_currency l = BTC" by (rule specA(3) specL(3))+
  have "ledger_get (PUser u) (account_id a) (ledger s1) = Some a" by (rule specA(2))
  then show "user_account_owner u s1 = u"
    by (intro user_account_owner_self [OF ok1]) (auto simp: ledger_get_def bind_Some_conv)
  show "ledger_get (PUser u) (account_id a) (ledger s2) = Some a" using specL(5) specA(2) by blast
  show "ledger_get PLiab (account_id l) (ledger s2) = Some l" by (rule specL(2))
  show "ledger_get (PUser u) (account_id a) (ledger s) = Some a \<or>
       ledger_get (PUser u) (account_id a) (ledger s) = None \<and> balance a = 0" using getA(2) by (simp add: L0)
  show "ledger_get PLiab (account_id l) (ledger s) = Some l \<or> ledger_get PLiab (account_id l) (ledger s) = None \<and> balance l = 0"
    using getL(2) by (simp add: getA(1) L0)
  show "ledger_get q i (ledger s2) = (if q = PLiab \<and> i = account_id l then Some l
       else if q = PUser u \<and> i = account_id a then Some a else ledger_get q i (ledger s))"
    by (simp add: getL(1) getA(1) L0)
qed

lemma book_deposit_exact:
  assumes ok: "bank_ok E s" "balances_small (ledger s)" and val: "grid 12 (mon_value val)" "small (mon_value val)"
    and run: "book_deposit E d iv val BTC s = Some s'"
  obtains (refused) "\<And>q i x. ledger_get q i (ledger s) = Some x \<Longrightarrow> ledger_get q i (ledger s') = Some x"
      "\<And>q i x. ledger_get q i (ledger s') = Some x \<Longrightarrow> ledger_get q i (ledger s) = Some x \<or> balance x = 0"
  | (booked) a l where "acc_currency a = BTC" "acc_currency l = BTC" "0 < mon_value val"
    "ledger_get (PUser (as_u64 (inv_uid iv))) (account_id a) (ledger s) = Some a \<or>
       ledger_get (PUser (as_u64 (inv_uid iv))) (account_id a) (ledger s) = None \<and> balance a = 0"
    "ledger_get PLiab (account_id l) (ledger s) = Some l \<or>
       ledger_get PLiab (account_id l) (ledger s) = None \<and> balance l = 0"
    "\<And>q i. ledger_get q i (ledger s') =
       (if q = PUser (as_u64 (inv_uid iv)) \<and> i = account_id a then Some (a\<lparr>balance := balance a + mon_value val\<rparr>)
        else if q = PLiab \<and> i = account_id l then Some (l\<lparr>balance := balance l - mon_value val\<rparr>)
        else ledger_get q i (ledger s))"
proof -
  let ?u = "as_u64 (inv_uid iv)" and ?s = "ensure_user (as_u64 (inv_uid iv)) s"
  obtain a s1 l s2 r l' a' s3 where
    a: "default_account E (PUser ?u) BTC None ?s = Some (a, s1)" and
    l: "default_account E PLiab BTC (Some External) s1 = Some (l, s2)" and
    tx: "make_tx E l BANK_UID a (user_account_owner ?u s1) val s2 = Some (r, l', a', s3)" and
    rest: "(\<exists>e. r = Inl e \<and> s' = s3) \<or> (\<exists>txid s4. r = Inr txid \<and>
      put_accounts [(PUser (user_account_owner ?u s1), a'), (PLiab, l')] s3 = Some s4 \<and> ledger s' = ledger s4)"
    using run
    by (auto simp: book_deposit_def Let_def elim!: bind_SomeE
        split: prod.split_asm sum.split_asm
        dest!: make_summary_tx_ledger notify_paid_ledger publish_if_zap_note_ledger)
  note open' = deposit_opened [OF ok(1) a l]
  from rest show ?thesis
  proof (elim disjE exE conjE)
    fix e
    assume "s' = s3"
    then have "ledger_get q i (ledger s') = ledger_get q i (ledger s2)" for q i using make_tx_frame(1) [OF tx] by simp
    then show ?thesis by (intro refused) (use open'(8,9) in \<open>auto simp: open'(10) split: if_splits\<close>)
  next
    fix txid s4
    assume r: "r = Inr txid" and put: "put_accounts [(PUser (user_account_owner ?u s1), a'), (PLiab, l')] s3 = Some s4"
      and s': "ledger s' = ledger s4"
    have eq: "ledger_get q i (ledger s') =
       (if q = PUser ?u \<and> i = account_id a then Some (a\<lparr>balance := balance a + mon_value val\<rparr>)
        else if q = PLiab \<and> i = account_id l then Some (l\<lparr>balance := balance l - mon_value val\<rparr>)
        else ledger_get q i (ledger s))" for q i
      using transfer_booked [OF open'(1) open'(2) [OF ok(2)] open'(7,6) _ val tx [unfolded r open'(5)] _
          put [unfolded open'(5)], of q i]
      by (auto simp: s' open'(10))
    have pos: "0 < mon_value val" using make_tx_frame(12) [OF tx] r by blast
    show ?thesis by (rule booked [OF open'(3,4) pos open'(8,9) eq])
  qed
qed

end

section \<open>Progress of a deposit\<close>

lemma update_account_tables [simp]:
  "db_invoices (db (update_account E a u s)) = db_invoices (db s)"
  "db_summaries (db (update_account E a u s)) = db_summaries (db s)"
  "db_profiles (db (update_account E a u s)) = db_profiles (db s)"
  "conn_pool (update_account E a u s) = conn_pool s"
  by (auto simp: update_account_def get_conn_def exec_def account_update_def account_insert_def Let_def
      split: option.splits if_splits)

lemma make_tx_tables:
  "make_tx E out ou inn iu m s = Some (r, out', inn', s') \<Longrightarrow>
     db_invoices (db s') = db_invoices (db s) \<and> db_profiles (db s') = db_profiles (db s)"
  by (auto simp: make_tx_def Let_def get_conn_def time_now_def exec_def transaction_insert_def elim!: bind_SomeE
      split: if_split_asm option.split_asm)

lemma make_summary_tx_tables:
  "make_summary_tx E out ou inn iu m rate fees a b c d e f s = Some (r, s') \<Longrightarrow>
     db_invoices (db s') = db_invoices (db s) \<and> db_profiles (db s') = db_profiles (db s)"
  by (auto simp: make_summary_tx_def store_summary_def Let_def get_conn_def time_now_def exec_def summary_insert_def
      elim!: bind_SomeE split: if_split_asm option.split_asm prod.split_asm)

text \<open>The table of invoices after one of them is marked as settled.\<close>

definition settled_rows :: "Invoice \<Rightarrow> i64 \<Rightarrow> Invoice list \<Rightarrow> Invoice list" where
  "settled_rows iv t rows = map (\<lambda>r. if inv_payment_hash r = inv_payment_hash iv
     then invoice_changeset (iv\<lparr>inv_settled := True, inv_settled_date := t\<rparr>) r else r) rows"

lemma settle_invoice_rows:
  assumes "\<And>n. pg_ok E n"
  shows "\<exists>t. db_invoices (db (settle_invoice E iv s)) = settled_rows iv t (db_invoices (db s))"
    "db_profiles (db (settle_invoice E iv s)) = db_profiles (db s)"
  using assms by (auto simp: settle_invoice_def time_now_def exec_def invoice_update_def settled_rows_def)

lemma settled_rows_settled:
  assumes "iv \<in> set rows"
  shows "\<exists>r. List.find (\<lambda>r. inv_payment_hash r = inv_payment_hash iv) (settled_rows iv t rows) = Some r \<and> inv_settled r"
  using assms by (induction rows) (auto simp: settled_rows_def invoice_changeset_def)

lemma settled_rows_request:
  assumes "distinct (map inv_payment_hash rows)" "List.find (\<lambda>r. inv_payment_request r = pr) rows = Some iv"
  shows "List.find (\<lambda>r. inv_payment_request r = pr) (settled_rows iv t rows) = Some (iv\<lparr>inv_settled := True, inv_settled_date := t\<rparr>)"
  using assms
proof (induction rows)
  case (Cons r rows)
  have self: "invoice_changeset (iv\<lparr>inv_settled := True, inv_settled_date := t\<rparr>) iv = iv\<lparr>inv_settled := True, inv_settled_date := t\<rparr>"
    by (cases iv) (simp add: invoice_changeset_def keep_none_def split: option.split)
  show ?case
  proof (cases "inv_payment_request r = pr")
    case True
    with Cons.prems self show ?thesis by (auto simp: settled_rows_def)
  next
    case False
    with Cons.prems(2) have "iv \<in> set rows" by (auto simp: find_Some_iff)
    with Cons.prems(1) have "inv_payment_hash r \<noteq> inv_payment_hash iv" by force
    with False Cons show ?thesis by (simp add: settled_rows_def)
  qed
qed simp

lemma notify_paid_returns:
  assumes "\<And>p. profile_get_by_uid u (db s) = Some p \<Longrightarrow> up_nostr_notifications p \<noteq> None"
  shows "\<exists>s'. notify_paid E u (Some t) s = Some s' \<and> ledger s' = ledger s \<and> db s' = db s"
proof -
  have "notify_paid E u (Some t) s \<noteq> None"
    using assms by (auto simp: notify_paid_def query_def split: option.split)
  with notify_paid_ledger show ?thesis by blast
qed

lemma publish_external:
  "\<exists>s'. publish_if_zap_note E iv (Some h) p n b s = Some s' \<and> db s' = db s \<and> ledger s' = ledger s"
  by (simp add: publish_if_zap_note_def split: option.split)

context env_ok
begin

text \<open>The tail of a booked deposit: the invoice is settled, and the receiver notified if that is wanted.\<close>

lemma deposit_settled:
  assumes "\<And>n. pg_ok E n" "\<And>p. profile_get_by_uid (inv_uid iv) (db s) = Some p \<Longrightarrow> up_nostr_notifications p \<noteq> None"
  shows "\<exists>s1 s' t. notify_paid E (inv_uid iv) (Some txt) (settle_invoice E iv s) = Some s1 \<and>
    publish_if_zap_note E iv (Some dh) (Some pre) date False s1 = Some s' \<and> ledger s' = ledger s \<and>
    db_invoices (db s') = settled_rows iv t (db_invoices (db s)) \<and> db_profiles (db s') = db_profiles (db s)"
proof -
  let ?s = "settle_invoice E iv s"
  obtain t where t: "db_invoices (db ?s) = settled_rows iv t (db_invoices (db s))" "db_profiles (db ?s) = db_profiles (db s)"
    using settle_invoice_rows [OF assms(1)] by blast
  have "up_nostr_notifications p \<noteq> None" if "profile_get_by_uid (inv_uid iv) (db ?s) = Some p" for p
    using that assms(2) by (simp add: profile_get_by_uid_def t(2))
  from notify_paid_returns [OF this] obtain s1 where
    s1: "notify_paid E (inv_uid iv) (Some txt) ?s = Some s1" "ledger s1 = ledger ?s" "db s1 = db ?s" by blast
  obtain s' where "publish_if_zap_note E iv (Some dh) (Some pre) date False s1 = Some s'" "db s' = db s1" "ledger s' = ledger s1"
    using publish_external by blast
  with s1 t show ?thesis by (intro exI [of _ s1] exI [of _ s'] exI [of _ t]) simp_all
qed

text \<open>The two accounts of a deposit, ready for a transaction between them.\<close>

lemma deposit_accounts:
  assumes "bank_ok E s" "balances_small (ledger s)" "db_up E s" "ids_free E s"
  obtains a s1 l s2 where "default_account E (PUser u) BTC None (ensure_user u s) = Some (a, s1)" "user_account_owner u s1 = u"
    "default_account E PLiab BTC (Some External) s1 = Some (l, s2)" "db_up E s2" "ids_free E s2" "db s2 = db s"
    "acc_currency a = BTC" "small (balance a)" "grid 12 (balance a)" "ledger_get (PUser u) (account_id a) (ledger s2) = Some a"
    "acc_currency l = BTC" "small (balance l)" "grid 12 (balance l)"
    "ledger_get (PUser u) (account_id a) (ledger s) = Some a \<or>
     ledger_get (PUser u) (account_id a) (ledger s) = None \<and> balance a = 0"
proof -
  let ?s = "ensure_user u s"
  have s0: "bank_ok E ?s" "balances_small (ledger ?s)" "db_up E ?s" "ids_free E ?s" "ledger_ua (PUser u) (ledger ?s) \<noteq> None"
    using keeps_ok [OF ensure_user_keeps [OF assms(1)]] assms(2-4)
    by (auto simp: balances_small_def ensure_user_def db_up_def ids_free_def)
  from s0 obtain a s1
    where a: "default_account E (PUser u) BTC None ?s = Some (a, s1)" "bank_ok E s1" "balances_small (ledger s1)"
      "ledger_get (PUser u) (account_id a) (ledger s1) = Some a" "acc_currency a = BTC" "small (balance a)"
      "grid 12 (balance a)" "db_up E s1" "ids_free E s1" "db s1 = db ?s"
    by (rule default_ready) (rule that; assumption)
  have own: "user_account_owner u s1 = u"
    using a(4) by (intro user_account_owner_self [OF a(2)]) (auto simp: ledger_get_def bind_Some_conv)
  have "ledger_ua PLiab (ledger s1) \<noteq> None" by simp
  with a(2,3,8,9) obtain l s2
    where l: "default_account E PLiab BTC (Some External) s1 = Some (l, s2)" "acc_currency l = BTC" "small (balance l)"
      "grid 12 (balance l)" "\<And>q i x. ledger_get q i (ledger s1) = Some x \<Longrightarrow> ledger_get q i (ledger s2) = Some x"
      "db_up E s2" "ids_free E s2" "db s2 = db s1"
    by (rule default_ready) (rule that; assumption)
  show thesis
  proof (rule that [OF a(1) own l(1)])
    show "db s2 = db s" by (simp add: l(8) a(10) ensure_user_def)
    show "ledger_get (PUser u) (account_id a) (ledger s) = Some a \<or>
        ledger_get (PUser u) (account_id a) (ledger s) = None \<and> balance a = 0"
      using default_account_get(2) [OF s0(1) a(1)] by (simp add: ensure_user_def)
  qed (use a l in simp_all)
qed

lemma book_deposit_succeeds:
  assumes ok: "bank_ok E s" "balances_small (ledger s)" and up: "db_up E s" and free: "ids_free E s"
    and val: "grid 12 (mon_value val)" "small (mon_value val)" "0 < mon_value val" "mon_currency val = BTC"
    and sats: "money_try_sats (dec E) val = Some (Inr n)"
    and told: "\<And>p. profile_get_by_uid (inv_uid iv) (db s) = Some p \<Longrightarrow> up_nostr_notifications p \<noteq> None"
  shows "\<exists>s' t a. book_deposit E d iv val BTC s = Some s' \<and>
    db_invoices (db s') = settled_rows iv t (db_invoices (db s)) \<and> db_profiles (db s') = db_profiles (db s) \<and> acc_currency a = BTC \<and>
    (ledger_get (PUser (as_u64 (inv_uid iv))) (account_id a) (ledger s) = Some a \<or>
     ledger_get (PUser (as_u64 (inv_uid iv))) (account_id a) (ledger s) = None \<and> balance a = 0) \<and>
    ledger_get (PUser (as_u64 (inv_uid iv))) (account_id a) (ledger s') = Some (a\<lparr>balance := balance a + mon_value val\<rparr>)"
proof -
  let ?u = "as_u64 (inv_uid iv)"
  obtain a s1 l s2 where a: "default_account E (PUser ?u) BTC None (ensure_user ?u s) = Some (a, s1)" "user_account_owner ?u s1 = ?u"
    and l: "default_account E PLiab BTC (Some External) s1 = Some (l, s2)" and s2: "db_up E s2" "ids_free E s2" "db s2 = db s"
    and acc: "acc_currency a = BTC" "small (balance a)" "grid 12 (balance a)"
      "ledger_get (PUser ?u) (account_id a) (ledger s2) = Some a"
      "acc_currency l = BTC" "small (balance l)" "grid 12 (balance l)"
    and before: "ledger_get (PUser ?u) (account_id a) (ledger s) = Some a \<or>
      ledger_get (PUser ?u) (account_id a) (ledger s) = None \<and> balance a = 0"
    by (rule deposit_accounts [OF ok up free]) (rule that; assumption)
  let ?a = "a\<lparr>balance := balance a + mon_value val\<rparr>" and ?l = "l\<lparr>balance := balance l - mon_value val\<rparr>"
  have c: "acc_currency l = acc_currency a" using acc(1,5) by simp
  obtain txid s3 where tx: "make_tx E l BANK_UID a ?u val s2 = Some (Inr txid, ?l, ?a, s3)"
    and s3: "conn_pool s3" "db_summaries (db s3) = db_summaries (db s2)" "ledger s3 = ledger s2" "tick s2 \<le> tick s3"
    using make_tx_succeeds [OF s2(1,2) val(3) c acc(7,3) val(1) acc(6,2) val(2)] by metis
  obtain s4 where put: "put_accounts [(PUser ?u, ?a), (PLiab, ?l)] s3 = Some s4"
    using acc(4) by (auto simp: put_account_def ledger_put_def s3(3) ledger_get_def bind_Some_conv split: option.splits)
  obtain L4 where s4: "s4 = s3\<lparr>ledger := L4\<rparr>" using put put_accounts_conv by blast
  let ?s5 = "update_account E ?l BANK_UID (update_account E ?a ?u s4)"
  have t5: "tick s2 \<le> tick ?s5"
    using s3(4) update_account_tick [of s4 E ?a ?u] update_account_tick [of "update_account E ?a ?u s4" E ?l BANK_UID]
    by (simp add: s4)
  have up5: "db_up E ?s5" "\<forall>n \<ge> tick ?s5. summary_get_by_txid (show_u64 (clock E n)) (db ?s5) = None"
    using s2(1,2) s3 t5 by (auto simp: db_up_def ids_free_def summary_get_by_txid_def s4)
  obtain txid' s6 where sum: "make_summary_tx E ?l BANK_UID ?a ?u val None None (Some txid) (Some txid) None
      (Some ''ExternalDeposit'') None None ?s5 = Some (Inr txid', s6)" and s6: "ledger s6 = ledger ?s5"
    using make_summary_tx_succeeds [OF up5 val(3) _ _ val(1,2), of ?l ?a] acc(1,5) val(4) by force
  have tables: "db_invoices (db s6) = db_invoices (db s)" "db_profiles (db s6) = db_profiles (db s)"
    using make_summary_tx_tables [OF sum] make_tx_tables [OF tx] by (simp_all add: s4 s2(3))
  let ?text = "paid_text (dec_show (dec E) (dec_half_even (dec E) n) @ '' Sats'')"
  have tail_ok: "\<And>n. pg_ok E n" "\<And>p. profile_get_by_uid (inv_uid iv) (db s6) = Some p \<Longrightarrow> up_nostr_notifications p \<noteq> None"
    using up told by (auto simp: db_up_def profile_get_by_uid_def tables)
  obtain s7 s8 t where tail: "notify_paid E (inv_uid iv) (Some ?text) (settle_invoice E iv s6) = Some s7"
    "publish_if_zap_note E iv (Some (dep_description_hash d)) (Some (dep_preimage d)) (dep_settle_date d) False s7 = Some s8"
    and s8: "ledger s8 = ledger s6" "db_invoices (db s8) = settled_rows iv t (db_invoices (db s6))" "db_profiles (db s8) = db_profiles (db s6)"
    using deposit_settled [where iv = iv and s = s6, OF tail_ok] by metis
  have "book_deposit E d iv val BTC s = Some s8"
    using a l tx put sum tail by (simp add: book_deposit_def Let_def sats unwrap_def del: put_accounts.simps)
  moreover have "ledger_get (PUser ?u) (account_id a) (ledger s8) = Some ?a"
    using put_accounts_get [OF put, of "PUser ?u" "account_id a"] by (simp add: s8(1) s6)
  ultimately show ?thesis using acc(1) before s8(2,3) tables by metis
qed

lemma process_deposit_succeeds:
  assumes "bank_ok E s" "balances_small (ledger s)" "db_up E s" "ids_free E s"
    and "invoice_get_by_payment_request (dep_payment_request d) (db s) = Some iv"
    and "invoice_currency_or_btc (inv_currency iv) = Some BTC"
    and "invoice_currency_or_btc (inv_target_account_currency iv) = Some BTC"
    and "as_u64 (inv_uid iv) \<noteq> DEALER_UID" "0 < sint (inv_value iv)"
    and told: "\<And>p. profile_get_by_uid (inv_uid iv) (db s) = Some p \<Longrightarrow> up_nostr_notifications p \<noteq> None"
  shows "\<exists>s' t a. process_deposit E d s = Some s' \<and>
    db_invoices (db s') = settled_rows iv t (db_invoices (db s)) \<and> db_profiles (db s') = db_profiles (db s) \<and> acc_currency a = BTC \<and>
    (ledger_get (PUser (as_u64 (inv_uid iv))) (account_id a) (ledger s) = Some a \<or>
     ledger_get (PUser (as_u64 (inv_uid iv))) (account_id a) (ledger s) = None \<and> balance a = 0) \<and>
    ledger_get (PUser (as_u64 (inv_uid iv))) (account_id a) (ledger s') =
      Some (a\<lparr>balance := balance a + of_int (sint (inv_value iv)) / 10 ^ 8\<rparr>)"
proof -
  let ?s = "bump (bump s)"
  let ?val = "\<lparr>mon_value = of_int (sint (inv_value iv)) / 10 ^ 8, mon_currency = BTC\<rparr>"
  have ok: "bank_ok E ?s" "balances_small (ledger ?s)" "db_up E ?s" "ids_free E ?s"
    using assms(1-4) by (auto simp: bank_ok_def db_up_def ids_free_def intro: ledger_ok_mono)
  have up: "conn_pool s" "\<And>n. pool_get E n" "\<And>n. pg_ok E n" using assms(3) by (auto simp: db_up_def)
  have v: "money_from_sats (dec E) (signed (inv_value iv)) = Some ?val"
    using from_sats_exact [OF abs_sint [of "inv_value iv"]] by simp
  note amount = sats_amount [OF v] and sats = try_sats_exact [OF abs_sint [of "inv_value iv"]]
  have pos: "0 < mon_value ?val" using assms(9) by (simp del: of_int_sint)
  have "process_deposit E d s = book_deposit E d iv ?val BTC ?s"
    using assms(5-8) v by (simp add: process_deposit_def get_conn_def query_def up Let_def)
  with book_deposit_succeeds [OF ok money_ok_grid_12 [OF amount(1)] amount(2) pos amount(3) sats] told
  show ?thesis by simp
qed

end

section \<open>Properties\<close>

text \<open>
  C6. A deposit moves exactly the value of its invoice, or nothing: when the handler returns, either
  no account has changed its balance, or an account of the invoice's user in BTC has gained the
  invoice's value in satoshis, a liability account has lost it, and every other account is unchanged.
\<close>

theorem deposit_exact:
  assumes "env_ok E" "bank_ok E s" "balances_small (ledger s)"
    and "invoice_get_by_payment_request (dep_payment_request d) (db s) = Some iv"
    and "invoice_currency_or_btc (inv_currency iv) = Some BTC"
    and "invoice_currency_or_btc (inv_target_account_currency iv) = Some BTC"
    and "as_u64 (inv_uid iv) \<noteq> DEALER_UID" "process_deposit E d s = Some s'"
  shows "(\<forall>q i x. (ledger_get q i (ledger s) = Some x \<longrightarrow> ledger_get q i (ledger s') = Some x) \<and>
      (ledger_get q i (ledger s') = Some x \<longrightarrow> ledger_get q i (ledger s) = Some x \<or> balance x = 0)) \<or>
    (\<exists>a l v. v = of_int (sint (inv_value iv)) / 10 ^ 8 \<and> 0 < v \<and> acc_currency a = BTC \<and> acc_currency l = BTC \<and>
      (ledger_get (PUser (as_u64 (inv_uid iv))) (account_id a) (ledger s) = Some a \<or>
       ledger_get (PUser (as_u64 (inv_uid iv))) (account_id a) (ledger s) = None \<and> balance a = 0) \<and>
      (ledger_get PLiab (account_id l) (ledger s) = Some l \<or>
       ledger_get PLiab (account_id l) (ledger s) = None \<and> balance l = 0) \<and>
      (\<forall>q i. ledger_get q i (ledger s') =
        (if q = PUser (as_u64 (inv_uid iv)) \<and> i = account_id a then Some (a\<lparr>balance := balance a + v\<rparr>)
         else if q = PLiab \<and> i = account_id l then Some (l\<lparr>balance := balance l - v\<rparr>)
         else ledger_get q i (ledger s))))"
proof -
  let ?s = "bump (bump s)"
  have ok: "bank_ok E ?s" "balances_small (ledger ?s)"
    using assms(2,3) by (auto simp: bank_ok_def intro: ledger_ok_mono)
  have "ledger s' = ledger s \<or> (\<exists>val. money_from_sats (dec E) (of_int (sint (inv_value iv))) = Some val \<and>
      book_deposit E d iv val BTC ?s = Some s')"
    using assms(4-8)
    by (auto simp: process_deposit_def get_conn_def query_def Let_def elim!: bind_SomeE split: if_split_asm)
  then show ?thesis
  proof (elim disjE exE conjE)
    fix val
    assume v: "money_from_sats (dec E) (of_int (sint (inv_value iv))) = Some val"
      and b: "book_deposit E d iv val BTC ?s = Some s'"
    note amount = decimal.sats_amount [OF env_ok.dec_ok [OF assms(1)]]
    have v': "money_from_sats (dec E) (signed (inv_value iv)) = Some val" using v by simp
    note val = money_ok_grid_12 [OF amount(1) [OF v']] amount(2,4) [OF v']
    show ?thesis
    proof (rule env_ok.book_deposit_exact [OF assms(1) ok val(1,2) b], goal_cases)
      case 1
      then show ?thesis by (intro disjI1) auto
    next
      case (2 a l)
      show ?thesis
        using 2(1-5) by (intro disjI2 exI [of _ a] exI [of _ l] exI [of _ "mon_value val"]) (simp add: 2(6) val(3))
    qed
  qed simp
qed

theorem deposit_exact_witness:
  "\<exists>s'. process_deposit env96 sample_deposit invoiced_bank = Some s' \<and>
     ledger_get PDealer 42 (ledger s') = ledger_get PDealer 42 (ledger invoiced_bank)"
proof -
  have "process_deposit env96 sample_deposit invoiced_bank \<noteq> None" by code_simp
  then obtain s' where s': "process_deposit env96 sample_deposit invoiced_bank = Some s'" by blast
  have get: "ledger_get PDealer 42 (ledger invoiced_bank) = Some (sample_acc 42 (- 100) USD Internal)"
    by (simp add: ledger_get_def invoiced_bank_def sample_defs)
  have btc: "invoice_currency_or_btc (inv_currency sample_row) = Some BTC"
    "invoice_currency_or_btc (inv_target_account_currency sample_row) = Some BTC"
    "as_u64 (inv_uid sample_row) \<noteq> DEALER_UID"
    by code_simp+
  show ?thesis
    using deposit_exact [OF env96.env_ok_axioms invoiced_bank_ok invoiced_bank_row btc s'] s' get by auto
qed

text \<open>
  C10. A paid invoice is credited and settled: if the database answers and no row is in the way, the
  deposit of a user's BTC invoice of positive value goes through, an account of the user gains
  exactly the value, and the invoice is marked as settled. The user may have a profile, and ask in it to
  be notified or not; only the column that says so must not be NULL, as it is not in any row that the
  program writes.
\<close>

theorem deposit_settles:
  assumes "env_ok E" "bank_ok E s" "balances_small (ledger s)" "db_up E s" "ids_free E s"
    and "invoice_get_by_payment_request (dep_payment_request d) (db s) = Some iv"
    and "invoice_currency_or_btc (inv_currency iv) = Some BTC"
    and "invoice_currency_or_btc (inv_target_account_currency iv) = Some BTC"
    and "as_u64 (inv_uid iv) \<noteq> DEALER_UID" "0 < sint (inv_value iv)"
    and "\<And>p. profile_get_by_uid (inv_uid iv) (db s) = Some p \<Longrightarrow> up_nostr_notifications p \<noteq> None"
  shows "\<exists>s' r a. process_deposit E d s = Some s' \<and>
    invoice_get_by_payment_hash (inv_payment_hash iv) (db s') = Some r \<and> inv_settled r \<and> acc_currency a = BTC \<and>
    (ledger_get (PUser (as_u64 (inv_uid iv))) (account_id a) (ledger s) = Some a \<or>
     ledger_get (PUser (as_u64 (inv_uid iv))) (account_id a) (ledger s) = None \<and> balance a = 0) \<and>
    ledger_get (PUser (as_u64 (inv_uid iv))) (account_id a) (ledger s') =
      Some (a\<lparr>balance := balance a + of_int (sint (inv_value iv)) / 10 ^ 8\<rparr>)"
proof -
  have row: "iv \<in> set (db_invoices (db s))"
    using assms(6) by (auto simp: invoice_get_by_payment_request_def find_Some_iff)
  have "\<exists>r. invoice_get_by_payment_hash (inv_payment_hash iv) (db s') = Some r \<and> inv_settled r"
    if "db_invoices (db s') = settled_rows iv t (db_invoices (db s))" for s' t
    using settled_rows_settled [OF row, of t] by (simp add: invoice_get_by_payment_hash_def that)
  with env_ok.process_deposit_succeeds [OF assms] show ?thesis by blast
qed

text \<open>A user as registration leaves one: with a profile, and without a wish to be notified.\<close>

definition profiled_bank :: bank where
  "profiled_bank = invoiced_bank\<lparr>db := (db invoiced_bank)\<lparr>db_profiles := [\<lparr>up_uid = 1, up_email = None,
     up_nostr_notifications = Some False, up_email_notifications = Some False, up_img_url = None, up_twitter_handle = None,
     up_is_twitter_verified = Some False, up_is_email_verified = Some False\<rparr>]\<rparr>\<rparr>"

lemma profiled_bank_ready:
  "bank_ok env96 profiled_bank" "balances_small (ledger profiled_bank)" "db_up env96 profiled_bank" "ids_free env96 profiled_bank"
  "invoice_get_by_payment_request (dep_payment_request sample_deposit) (db profiled_bank) = Some sample_row"
  "profile_get_by_uid (inv_uid sample_row) (db profiled_bank) = Some p \<Longrightarrow> up_nostr_notifications p \<noteq> None"
proof -
  show "bank_ok env96 profiled_bank" "balances_small (ledger profiled_bank)"
    using invoiced_bank_ok by (simp_all add: profiled_bank_def bank_ok_def)
  show "invoice_get_by_payment_request (dep_payment_request sample_deposit) (db profiled_bank) = Some sample_row"
    using invoiced_bank_row by (simp add: profiled_bank_def invoice_get_by_payment_request_def)
  show "db_up env96 profiled_bank" "ids_free env96 profiled_bank"
    by (simp_all add: profiled_bank_def db_up_def ids_free_def invoiced_bank_def sample_defs sample_db_def
        transaction_get_by_txid_def summary_get_by_txid_def)
  show "profile_get_by_uid (inv_uid sample_row) (db profiled_bank) = Some p \<Longrightarrow> up_nostr_notifications p \<noteq> None"
    by (auto simp: profiled_bank_def profile_get_by_uid_def split: if_splits)
qed

lemma sample_row_btc:
  "invoice_currency_or_btc (inv_currency sample_row) = Some BTC"
  "invoice_currency_or_btc (inv_target_account_currency sample_row) = Some BTC"
  "as_u64 (inv_uid sample_row) \<noteq> DEALER_UID" "0 < sint (inv_value sample_row)"
  by code_simp+

theorem deposit_settles_witness:
  "\<exists>s' a. process_deposit env96 sample_deposit profiled_bank = Some s' \<and>
    ledger_get (PUser 1) (account_id a) (ledger s') = Some (a\<lparr>balance := balance a + 1000 / 10 ^ 8\<rparr>)"
proof -
  have row: "as_u64 (inv_uid sample_row) = 1" "of_int (sint (inv_value sample_row)) = (1000 :: rat)"
    by (simp_all add: sample_row_def)
  show ?thesis
    using deposit_settles [OF env96.env_ok_axioms profiled_bank_ready(1-5) sample_row_btc profiled_bank_ready(6)] row
    by metis
qed

text \<open>
  C12. Deposits are not idempotent: the handler does not look at the \<open>settled\<close> flag of the invoice.
  When a deposit of a user's BTC invoice of positive value has gone through and the same message arrives
  again, the invoice is marked as settled and an account of the user nevertheless gains the value a
  second time (as long as the database answers, no row is in the way, the balances are in range and the
  hashes of the invoices, their primary key, are distinct).
\<close>

theorem deposit_replayed:
  assumes "env_ok E" "bank_ok E s" "balances_small (ledger s)" "db_up E s" "ids_free E s"
    and "invoice_get_by_payment_request (dep_payment_request d) (db s) = Some iv"
    and "invoice_currency_or_btc (inv_currency iv) = Some BTC"
    and "invoice_currency_or_btc (inv_target_account_currency iv) = Some BTC"
    and "as_u64 (inv_uid iv) \<noteq> DEALER_UID" "0 < sint (inv_value iv)"
    and "\<And>p. profile_get_by_uid (inv_uid iv) (db s) = Some p \<Longrightarrow> up_nostr_notifications p \<noteq> None"
    and "distinct (map inv_payment_hash (db_invoices (db s)))"
    and "process_deposit E d s = Some s1" "balances_small (ledger s1)" "db_up E s1" "ids_free E s1"
  shows "\<exists>iv1 s2 a b. invoice_get_by_payment_request (dep_payment_request d) (db s1) = Some iv1 \<and> inv_settled iv1 \<and>
    process_deposit E d s1 = Some s2 \<and> acc_currency a = BTC \<and> acc_currency b = BTC \<and>
    ledger_get (PUser (as_u64 (inv_uid iv))) (account_id a) (ledger s1) =
      Some (a\<lparr>balance := balance a + of_int (sint (inv_value iv)) / 10 ^ 8\<rparr>) \<and>
    (ledger_get (PUser (as_u64 (inv_uid iv))) (account_id b) (ledger s1) = Some b \<or>
     ledger_get (PUser (as_u64 (inv_uid iv))) (account_id b) (ledger s1) = None \<and> balance b = 0) \<and>
    ledger_get (PUser (as_u64 (inv_uid iv))) (account_id b) (ledger s2) =
      Some (b\<lparr>balance := balance b + of_int (sint (inv_value iv)) / 10 ^ 8\<rparr>)"
proof -
  obtain t a where first: "db_invoices (db s1) = settled_rows iv t (db_invoices (db s))" "db_profiles (db s1) = db_profiles (db s)"
    "acc_currency a = BTC" "ledger_get (PUser (as_u64 (inv_uid iv))) (account_id a) (ledger s1) =
      Some (a\<lparr>balance := balance a + of_int (sint (inv_value iv)) / 10 ^ 8\<rparr>)"
    using env_ok.process_deposit_succeeds [OF assms(1-11)] assms(13) by auto
  let ?iv = "iv\<lparr>inv_settled := True, inv_settled_date := t\<rparr>"
  have row: "invoice_get_by_payment_request (dep_payment_request d) (db s1) = Some ?iv"
    using assms(6) settled_rows_request [OF assms(12)] by (simp add: invoice_get_by_payment_request_def first(1))
  have ok: "bank_ok E s1"
    using env_ok.process_deposit_keeps [OF assms(1-3), of d] assms(13) keeps_ok by (simp add: ens_def)
  have told: "up_nostr_notifications p \<noteq> None" if "profile_get_by_uid (inv_uid ?iv) (db s1) = Some p" for p
    using that assms(11) by (simp add: profile_get_by_uid_def first(2))
  from env_ok.process_deposit_succeeds [OF assms(1) ok assms(14-16) row _ _ _ _ told] assms(7-10) first(3,4) row
  show ?thesis by auto
qed

text \<open>A clock that has moved on between the two deposits.\<close>

definition env_later :: env where
  "env_later = env96\<lparr>clock := (\<lambda>n. if n < 18 then 1600 else 1700)\<rparr>"

interpretation env_later: env_ok env_later
  by (rule env_ok.intro) (simp_all add: env_later_def dec96.decimal_axioms)

lemma later_bank:
  "case process_deposit env_later sample_deposit profiled_bank of
     None \<Rightarrow> False
   | Some s \<Rightarrow> conn_pool s \<and> ledger_small (ledger s) \<and> tx_seq s = 1 \<and> 18 \<le> tick s \<and>
       list_all (\<lambda>r. last (tx_txid r) = CHR ''1'') (db_transactions (db s)) \<and>
       list_all (\<lambda>r. stx_txid r = show_u64 1600) (db_summaries (db s))"
  by code_simp

lemma later_ready:
  assumes "process_deposit env_later sample_deposit profiled_bank = Some s"
  shows "balances_small (ledger s)" "db_up env_later s" "ids_free env_later s"
proof -
  have s: "conn_pool s" "ledger_small (ledger s)" "tx_seq s = 1" "18 \<le> tick s"
      "list_all (\<lambda>r. last (tx_txid r) = CHR ''1'') (db_transactions (db s))"
      "list_all (\<lambda>r. stx_txid r = show_u64 1600) (db_summaries (db s))"
    using later_bank by (simp_all add: assms)
  show "balances_small (ledger s)" by (rule ledger_small_balances [OF s(2)])
  show "db_up env_later s" using s(1) by (simp add: db_up_def env_later_def)
  have two: "show_u64 2 = ''2''" by code_simp
  have "show_u64 1600 \<noteq> show_u64 1700" using show_u64_inj by fastforce
  with s(3-6) show "ids_free env_later s"
    by (auto simp: ids_free_def transaction_get_by_txid_def summary_get_by_txid_def find_None_iff list_all_iff two env_later_def)
qed

theorem deposit_replayed_witness:
  "\<exists>s1 s2 b. process_deposit env_later sample_deposit profiled_bank = Some s1 \<and> process_deposit env_later sample_deposit s1 = Some s2 \<and>
    ledger_get (PUser 1) (account_id b) (ledger s2) = Some (b\<lparr>balance := balance b + 1000 / 10 ^ 8\<rparr>)"
proof -
  obtain s1 where s1: "process_deposit env_later sample_deposit profiled_bank = Some s1"
    using later_bank by (auto split: option.split_asm)
  have row: "as_u64 (inv_uid sample_row) = 1" "of_int (sint (inv_value sample_row)) = (1000 :: rat)"
    by (simp_all add: sample_row_def)
  have ready: "bank_ok env_later profiled_bank" "db_up env_later profiled_bank"
    "distinct (map inv_payment_hash (db_invoices (db profiled_bank)))"
    using profiled_bank_ready(1,3)
    by (simp_all add: bank_ok_def ledger_ok_def accs_ok_def db_up_def env_later_def profiled_bank_def invoiced_bank_def)
  have free: "ids_free env_later profiled_bank"
    by (simp add: profiled_bank_def ids_free_def invoiced_bank_def sample_defs sample_db_def transaction_get_by_txid_def
        summary_get_by_txid_def)
  from deposit_replayed [OF env_later.env_ok_axioms ready(1) profiled_bank_ready(2) ready(2) free profiled_bank_ready(5)
      sample_row_btc profiled_bank_ready(6) ready(3) s1 later_ready [OF s1]] s1 row
  show ?thesis by metis
qed

text \<open>
  The dealer's deposits can go unrecorded: when the row of the transaction cannot be inserted, the
  dealer's account is credited all the same and no transaction exists.
\<close>

theorem dealer_deposit_unrecorded:
  "map_option (\<lambda>s. (map_option balance (ledger_get PDealer 41 (ledger s)), db_transactions (db s)))
     (handle_dealer_deposit (env96\<lparr>pg_ok := (\<lambda>n. n \<noteq> 6)\<rparr>) sample_deposit
       (invoiced_bank\<lparr>db := (db sample_bank)\<lparr>db_invoices := [sample_row\<lparr>inv_reference := Some ''ExternalDeposit''\<rparr>]\<rparr>\<rparr>)) =
   Some (Some (1000 / 10 ^ 8), [])"
  by code_simp

end
