(* ===== verification/BankPayment.thy ===== *)
theory BankPayment
  imports BankInternal BankDeposit
begin

text \<open>
  Payments (\<open>Api::PaymentRequest\<close> and \<open>Bank::PaymentResult\<close> of
  \<open>bank/src/bank_engine.rs\<close>). A payment to a user of the bank is an internal transaction. A
  payment that leaves the platform is debited first, with the estimated network fee, and handed
  to a task that asks the Lightning node to pay; the task's result comes back as a message, on
  which the bank books the excess fee to the dealer or refunds the user.

  The one long handler of the source is cut into the stages it goes through: admission,
  recipient, decoding, invoice row, fee estimate, debit, task.
\<close>

section \<open>Definitions\<close>

definition SATS_DECIMALS :: nat where
  "SATS_DECIMALS = 8"

fun lnd_connector_error_to_string :: "LndConnectorError \<Rightarrow> string" where
  "lnd_connector_error_to_string FailedToCreateInvoice = ''FailedToCreateInvoice''"
| "lnd_connector_error_to_string FailedToSendPayment = ''FailedToSendPayment''"
| "lnd_connector_error_to_string FailedToGetNodeInfo = ''FailedToGetNodeInfo''"
| "lnd_connector_error_to_string FailedToDecodePaymentRequest = ''FailedToDecodePaymentRequest''"
| "lnd_connector_error_to_string FailedToQueryRoutes = ''FailedToQueryRoutes''"

definition refuse_payment :: "env \<Rightarrow> PaymentRequest \<Rightarrow> PaymentResponseError \<Rightarrow> bank \<Rightarrow> bank" where
  "refuse_payment E msg e s =
     (let (h, s) = new_uuid E s
      in api_payment (payment_response_error (uuid_show E h) e (prq_req_id msg) (prq_uid msg)
           (prq_payment_request msg) (prq_currency msg) None) s)"

text \<open>\<open>recipient.split('@')\<close>\<close>

fun split_at_sign :: "string \<Rightarrow> string list" where
  "split_at_sign [] = [[]]"
| "split_at_sign (c # cs) =
     (if c = CHR ''@'' then [] # split_at_sign cs
      else case split_at_sign cs of [] \<Rightarrow> [[c]] | x # xs \<Rightarrow> (c # x) # xs)"

text \<open>
  The recipient stage. \<open>None\<close> as result: the payment was an internal one and the handler
  returns; otherwise the name to book the payment under.
\<close>

definition route_recipient :: "env \<Rightarrow> PaymentRequest \<Rightarrow> bank \<Rightarrow> (string option \<times> bank) option" where
  "route_recipient E msg s =
     (case prq_recipient msg of
        None \<Rightarrow> Some (Some ''Unknown'', s)
      | Some recipient \<Rightarrow> do {
          let address = split_at_sign recipient;
          let username = hd address;
          let (found, s) = query E (user_get_by_username username) s;
          let is_internal = (found \<noteq> None);
          if length address = 2
          then do {
            let domain' = address ! 1;
            if prq_payment_request msg \<noteq> None \<and> domain' \<noteq> domain s
            then do {
              let (ok, s) = exec E (ln_address_insert recipient domain') s;
              Some (Some recipient, s) }
            else if domain' = domain s \<and> is_internal
            then do {
              (r, s) \<leftarrow> make_internal_tx E (msg\<lparr>prq_recipient := Some username\<rparr>) s;
              Some (None, s) }
            else Some (Some ''Unknown'', s) }
          else if is_internal
          then do {
            (r, s) \<leftarrow> make_internal_tx E (msg\<lparr>prq_recipient := Some username\<rparr>) s;
            Some (None, s) }
          else Some (Some ''Unknown'', s) })"

text \<open>The fee the payer has to reserve, from the first route found or the configured margin.\<close>

definition estimate_fee :: "env \<Rightarrow> string \<Rightarrow> rat \<Rightarrow> bank \<Rightarrow> (rat \<times> bank) option" where
  "estimate_fee E payment_request amount_in_btc s = do {
     x \<leftarrow> dec_mul (dec E) amount_in_btc (ln_network_fee_margin s);
     let max_fee_in_btc = dec_round (dec E) AwayFromZero SATS_DECIMALS x;
     res \<leftarrow> probe E (tick s) payment_request (ln_network_fee_margin s);
     let s = bump (bump s);
     (case res of
        Inr (best_route # _) \<Rightarrow> do {
          y \<leftarrow> dec_add (dec E) (of_int (sint best_route)) 1;
          fee \<leftarrow> dec_div (dec E) y 100000000;
          Some (fee, s) }
      | _ \<Rightarrow> Some (max_fee_in_btc, s)) }"

text \<open>What the later stages need to know of a payment.\<close>

record PaymentPlan =
  pp_msg :: PaymentRequest
  pp_payment_request :: string
  pp_amount_in_sats :: rat
  pp_amount_in_btc :: Money
  pp_rate :: Rate
  pp_estimated_fee_in_btc :: Money
  pp_outbound_btc :: Money
  pp_outbound :: Money
  pp_outbound_username :: string
  pp_inbound_username :: string

text \<open>
  The two debits. The result says whether the handler goes on; it returns silently when a
  transaction or the summary fails, except for the BTC transaction, whose failure is answered.
\<close>

definition debit_fiat :: "env \<Rightarrow> PaymentPlan \<Rightarrow> Account \<Rightarrow> Account \<Rightarrow> bank \<Rightarrow> (bool \<times> bank) option" where
  "debit_fiat E pp outbound_account bank_liability_account s = do {
     let uid = prq_uid (pp_msg pp);
     (dealer_fiat_account, s) \<leftarrow> default_account E PDealer (prq_currency (pp_msg pp)) (Some Internal) s;
     (r, outbound_account, dealer_fiat_account, s) \<leftarrow>
       make_tx E outbound_account uid dealer_fiat_account DEALER_UID (pp_outbound pp) s;
     (case r of
        Inl _ \<Rightarrow> Some (False, s)
      | Inr outbound_txid \<Rightarrow> do {
          (dealer_btc_account, s) \<leftarrow> default_account E PDealer BTC (Some Internal) s;
          (r, dealer_btc_account, bank_liability_account, s) \<leftarrow>
            make_tx E dealer_btc_account DEALER_UID bank_liability_account BANK_UID (pp_outbound_btc pp) s;
          (case r of
             Inl _ \<Rightarrow> Some (False, s)
           | Inr inbound_txid \<Rightarrow> do {
               s \<leftarrow> put_accounts [(PUser uid, outbound_account), (PLiab, bank_liability_account),
                 (PDealer, dealer_fiat_account), (PDealer, dealer_btc_account)] s;
               let s = update_account E outbound_account uid s;
               let s = update_account E bank_liability_account BANK_UID s;
               let s = update_account E dealer_btc_account DEALER_UID s;
               let s = update_account E dealer_fiat_account DEALER_UID s;
               (r, s) \<leftarrow> make_summary_tx E outbound_account uid bank_liability_account BANK_UID
                 (pp_outbound pp) (Some (pp_rate pp)) (Some (pp_estimated_fee_in_btc pp))
                 (Some outbound_txid) (Some inbound_txid) None (Some ''ExternalPayment'')
                 (Some (pp_outbound_username pp @ ''@kollider.xyz'')) (Some (pp_inbound_username pp)) s;
               (case r of Inl _ \<Rightarrow> Some (False, s) | Inr _ \<Rightarrow> Some (True, s)) }) }) }"

definition debit_btc ::
  "env \<Rightarrow> PaymentPlan \<Rightarrow> PaymentResponse \<Rightarrow> Account \<Rightarrow> Account \<Rightarrow> bank \<Rightarrow> (bool \<times> bank) option" where
  "debit_btc E pp resp outbound_account bank_liability_account s = do {
     let uid = prq_uid (pp_msg pp);
     (r, outbound_account, bank_liability_account, s) \<leftarrow>
       make_tx E outbound_account uid bank_liability_account BANK_UID (pp_outbound pp) s;
     (case r of
        Inl _ \<Rightarrow> Some (False, api_payment (resp\<lparr>prs_error := Some TransactionFailed\<rparr>) s)
      | Inr txid \<Rightarrow> do {
          s \<leftarrow> put_accounts [(PLiab, bank_liability_account), (PUser uid, outbound_account)] s;
          let s = update_account E outbound_account uid s;
          let s = update_account E bank_liability_account BANK_UID s;
          (r, s) \<leftarrow> make_summary_tx E outbound_account uid bank_liability_account BANK_UID
            (pp_outbound_btc pp) None (Some (pp_estimated_fee_in_btc pp)) (Some txid) (Some txid) None
            (Some ''ExternalPayment'') (Some (pp_outbound_username pp @ ''@kollider.xyz''))
            (Some (pp_inbound_username pp)) s;
          (case r of Inl _ \<Rightarrow> Some (False, s) | Inr _ \<Rightarrow> Some (True, s)) }) }"

text \<open>The task is spawned with what its closure captures.\<close>

definition spawn_payment :: "env \<Rightarrow> PaymentPlan \<Rightarrow> bank \<Rightarrow> bank option" where
  "spawn_payment E pp s = do {
     sats \<leftarrow> money_try_sats (dec E) (pp_estimated_fee_in_btc pp);
     estimated_fee_in_sats \<leftarrow> unwrap sats;
     Some (s\<lparr>payment_threads := payment_threads s @ [\<lparr>
       pt_uid = prq_uid (pp_msg pp),
       pt_req_id = prq_req_id (pp_msg pp),
       pt_payment_req = pp_payment_request pp,
       pt_amount_in_sats = pp_amount_in_sats pp,
       pt_estimated_fee_in_sats = estimated_fee_in_sats,
       pt_amount_in_btc = pp_amount_in_btc pp,
       pt_currency = prq_currency (pp_msg pp),
       pt_rate = pp_rate pp,
       pt_outbound_amount_in_btc_plus_max_fees = pp_outbound_btc pp \<rparr>]\<rparr>) }"

definition pay_external :: "env \<Rightarrow> PaymentPlan \<Rightarrow> PaymentResponse \<Rightarrow> Account \<Rightarrow> bank \<Rightarrow> bank option" where
  "pay_external E pp resp outbound_account s = do {
     (bank_liability_account, s) \<leftarrow> default_account E PLiab BTC (Some External) s;
     (go_on, s) \<leftarrow> (if prq_currency (pp_msg pp) \<noteq> BTC
                   then debit_fiat E pp outbound_account bank_liability_account s
                   else debit_btc E pp resp outbound_account bank_liability_account s);
     if go_on then spawn_payment E pp s else Some s }"

text \<open>The invoice belongs to a user: an internal transaction, then the invoice is settled.\<close>

definition pay_owner :: "env \<Rightarrow> PaymentRequest \<Rightarrow> Invoice \<Rightarrow> i32 \<Rightarrow> bank \<Rightarrow> bank option" where
  "pay_owner E msg invoice owner' s =
     (case query E (user_get_by_id owner') s of
        (None, s) \<Rightarrow> Some (refuse_payment E msg DatabaseConnectionFailed s)
      | (Some owner_user, s) \<Rightarrow> do {
          (r, s) \<leftarrow> make_internal_tx E (msg\<lparr>prq_recipient := Some (usr_username owner_user)\<rparr>) s;
          (case r of
             Inl _ \<Rightarrow> Some s
           | Inr _ \<Rightarrow> do {
               let (time_now_ms, s) = time_now E s;
               let invoice = invoice\<lparr>inv_settled := True, inv_settled_date := time_now_ms\<rparr>;
               let s = snd (exec E (invoice_update invoice) s);
               publish_if_zap_note E invoice None None (time_now_ms div 1000) True s }) })"

text \<open>Ownership, settlement and balance checks; the money leaves from here.\<close>

definition pay_invoice_row ::
  "env \<Rightarrow> PaymentPlan \<Rightarrow> Invoice \<Rightarrow> Account \<Rightarrow> PaymentResponse \<Rightarrow> bank \<Rightarrow> bank option" where
  "pay_invoice_row E pp invoice outbound_account resp s =
     (if (case inv_owner invoice of Some owner' \<Rightarrow> prq_uid (pp_msg pp) = as_u64 owner' | None \<Rightarrow> False)
      then Some (api_payment (resp\<lparr>prs_error := Some SelfPayment\<rparr>) s)
      else if inv_settled invoice
      then Some (api_payment (resp\<lparr>prs_error := Some InvoiceAlreadyPaid\<rparr>) s)
      else do {
        (estimated_fee, s) \<leftarrow> estimate_fee E (pp_payment_request pp) (mon_value (pp_amount_in_btc pp)) s;
        let estimated_fee_in_btc = money_from_btc (dec E) estimated_fee;
        total \<leftarrow> dec_add (dec E) (mon_value (pp_amount_in_btc pp)) (mon_value estimated_fee_in_btc);
        let outbound_btc = money_from_btc (dec E) total;
        exchanged \<leftarrow> money_exchange (dec E) outbound_btc (pp_rate pp);
        outbound \<leftarrow> unwrap exchanged;
        if balance outbound_account < mon_value outbound
        then Some (api_payment (resp\<lparr>prs_error := Some InsufficientFundsForFees\<rparr>) s)
        else let pp = pp\<lparr>pp_estimated_fee_in_btc := estimated_fee_in_btc, pp_outbound_btc := outbound_btc,
               pp_outbound := outbound\<rparr> in
          (case inv_owner invoice of
             None \<Rightarrow> pay_external E pp resp outbound_account s
           | Some owner' \<Rightarrow> pay_owner E (pp_msg pp) invoice owner' s) })"

text \<open>The row of a payment request not seen before; \<open>Uuid::default\<close> is the nil identifier.\<close>

definition outgoing_invoice :: "env \<Rightarrow> PaymentRequest \<Rightarrow> string \<Rightarrow> DecodedInvoice \<Rightarrow> u64 \<Rightarrow> u64 \<Rightarrow> Invoice" where
  "outgoing_invoice E msg payment_request decoded millisats now = \<lparr>
     inv_payment_hash = di_payment_hash decoded,
     inv_payment_request = payment_request,
     inv_created_at = now,
     inv_value = millisats div 1000,
     inv_value_msat = millisats,
     inv_expiry = di_expiry_secs decoded,
     inv_settled = False,
     inv_add_index = - 1,
     inv_settled_date = 0,
     inv_account_id = uuid_show E 0,
     inv_uid = as_i32 (prq_uid msg),
     inv_incoming = False,
     inv_owner = None,
     inv_fees = None,
     inv_currency = Some (currency_to_string (prq_currency msg)),
     inv_target_account_currency = None,
     inv_reference = None,
     inv_description = None \<rparr>"

definition find_or_store_invoice ::
  "env \<Rightarrow> PaymentRequest \<Rightarrow> string \<Rightarrow> DecodedInvoice \<Rightarrow> u64 \<Rightarrow> bank \<Rightarrow> Invoice option \<times> bank" where
  "find_or_store_invoice E msg payment_request decoded millisats s =
     (case query E (invoice_get_by_payment_request payment_request) s of
        (Some invoice, s) \<Rightarrow> (Some invoice, s)
      | (None, s) \<Rightarrow>
          let (now, s) = time_now E s;
              invoice = outgoing_invoice E msg payment_request decoded millisats now;
              (ok, s) = exec E (invoice_insert invoice) s
          in (if ok then Some invoice else None, s))"

text \<open>From the decoded invoice on.\<close>

definition pay_decoded ::
  "env \<Rightarrow> PaymentRequest \<Rightarrow> string \<Rightarrow> DecodedInvoice \<Rightarrow> u64 \<Rightarrow> Account \<Rightarrow> string \<Rightarrow> string \<Rightarrow> bank \<Rightarrow> bank option" where
  "pay_decoded E msg payment_request decoded millisats outbound_account oname iname s = do {
     let amount_in_sats = of_int (sint (millisats div 1000));
     amount_in_btc \<leftarrow> money_from_sats (dec E) amount_in_sats;
     let msg = msg\<lparr>prq_invoice_amount := Some amount_in_btc,
       prq_amount := map_option (\<lambda>a. if mon_currency a = mon_currency amount_in_btc \<and>
         mon_value a \<noteq> mon_value amount_in_btc then money_set (dec E) a (mon_value amount_in_btc) else a)
         (prq_amount msg)\<rparr>;
     if prq_currency msg \<noteq> BTC \<and> prq_rate msg = None
     then Some (listener (MsgApi (PaymentRequestMsg msg)) Dealer s)
     else do {
       let msg = (if prq_currency msg = BTC then msg\<lparr>prq_rate := Some (rate_new (dec E) BTC BTC 1)\<rparr> else msg);
       rate \<leftarrow> prq_rate msg;
       exchanged \<leftarrow> money_exchange (dec E) amount_in_btc rate;
       amount \<leftarrow> unwrap exchanged;
       let msg = msg\<lparr>prq_amount := Some amount\<rparr>;
       let (invoice, s) = find_or_store_invoice E msg payment_request decoded millisats s;
       (case invoice of
          None \<Rightarrow> Some s
        | Some invoice \<Rightarrow> do {
            fees \<leftarrow> (case prq_fees msg of Some f \<Rightarrow> Some f | None \<Rightarrow> money_from_sats (dec E) 0);
            let (h, s) = new_uuid E s;
            pay_invoice_row E \<lparr>pp_msg = msg, pp_payment_request = payment_request,
                pp_amount_in_sats = amount_in_sats, pp_amount_in_btc = amount_in_btc, pp_rate = rate,
                pp_estimated_fee_in_btc = money_zero (dec E) BTC, pp_outbound_btc = money_zero (dec E) BTC,
                pp_outbound = money_zero (dec E) BTC,
                pp_outbound_username = oname, pp_inbound_username = iname\<rparr>
              invoice outbound_account
              \<lparr>prs_req_id = prq_req_id msg, prs_payment_hash = uuid_show E h, prs_uid = prq_uid msg,
                prs_success = False, prs_currency = prq_currency msg,
                prs_payment_request = Some payment_request, prs_amount = Some amount_in_btc,
                prs_fees = Some fees, prs_rate = Some rate, prs_error = None,
                prs_payment_preimage = None, prs_destination = None, prs_description = None\<rparr> s }) } }"

definition process_payment_request :: "env \<Rightarrow> PaymentRequest \<Rightarrow> bank \<Rightarrow> bank option" where
  "process_payment_request E msg s =
     (let (admitted, s) = check_withdrawal_request_rate_limit E (prq_uid msg) s in
      if \<not> admitted then Some (refuse_payment E msg RequestLimitExceeded s)
      else case default_account E (PUser (prq_uid msg)) (prq_currency msg) None s of
        None \<Rightarrow> Some (refuse_payment E msg UserAccountNotFound s)
      | Some (outbound_account, s) \<Rightarrow>
          if (case prq_amount msg of Some a \<Rightarrow> mon_value a \<le> 0 | None \<Rightarrow> False)
          then Some (refuse_payment E msg InvalidAmount s)
          else let (conn, s) = get_conn E s in
          if \<not> conn then Some (refuse_payment E msg DatabaseConnectionFailed s)
          else case query E (user_get_by_id (as_i32 (prq_uid msg))) s of
            (None, s) \<Rightarrow> Some s
          | (Some outbound_user, s) \<Rightarrow> do {
              (iname, s) \<leftarrow> route_recipient E msg s;
              (case iname of
                 None \<Rightarrow> Some s
               | Some iname \<Rightarrow>
                   (case prq_payment_request msg of
                      None \<Rightarrow> Some s
                    | Some payment_request \<Rightarrow>
                        (case parse_invoice E payment_request of
                           None \<Rightarrow> Some (refuse_payment E msg InvalidInvoice s)
                         | Some decoded \<Rightarrow>
                             (case di_amount_milli_satoshis decoded of
                                None \<Rightarrow> Some (refuse_payment E msg ZeroAmountInvoice s)
                              | Some millisats \<Rightarrow>
                                  pay_decoded E msg payment_request decoded millisats outbound_account
                                    (usr_username outbound_user) iname s)))) })"

section \<open>Payment requests keep the books\<close>

lemma quiet_refuse_payment [simp]: "quiet s t \<Longrightarrow> quiet s (refuse_payment E m e t)"
  by (simp add: refuse_payment_def new_uuid_def)

lemma quiet_find_or_store [simp]: "quiet s (snd (find_or_store_invoice E m p d n s))"
proof (cases "fst (query E (invoice_get_by_payment_request p) s)")
  case None
  have "quiet s (snd (exec E g (bump (bump s))))" for g by simp
  with None show ?thesis
    by (simp add: find_or_store_invoice_def query_def time_now_def split_beta Let_def)
next
  case (Some i)
  then show ?thesis by (simp add: find_or_store_invoice_def query_def)
qed

lemma ens_quiet_spawn: "quiet s t \<Longrightarrow> ens (quiet s) (spawn_payment E pp t)"
  unfolding spawn_payment_def by (intro ens_intros) simp

lemma sint_div_1000: "0 \<le> sint ((w :: u64) div 1000)"
proof -
  have "uint (w div 1000) = uint w div 1000" by (simp add: uint_div)
  moreover have "uint w < 2 ^ 64" using uint_lt2p [of w] by simp
  ultimately have "uint (w div 1000) < 2 ^ 63" by simp
  moreover have "- (2 ^ 63) \<le> uint (w div 1000)" by (rule order_trans [of _ 0]) auto
  ultimately have "sint (w div 1000) = uint (w div 1000)"
    by (simp add: sint_uint signed_take_bit_int_eq_self)
  then show ?thesis by simp
qed

lemma away_dp_le: "0 \<le> x \<Longrightarrow> x \<le> a \<Longrightarrow> grid dp a \<Longrightarrow> away_dp dp x \<le> a"
proof -
  assume x: "0 \<le> x" "x \<le> a" and "grid dp a"
  then obtain n where n: "a * 10 ^ dp = of_int n" by (auto simp: grid_def elim: is_integerE)
  have "x * 10 ^ dp \<le> of_int n" using x(2) by (simp flip: n)
  then have "\<lceil>x * 10 ^ dp\<rceil> \<le> n" by (simp add: ceiling_le_iff)
  then have "of_int \<lceil>x * 10 ^ dp\<rceil> \<le> a * 10 ^ dp" by (simp add: n)
  with x show "away_dp dp x \<le> a" by (simp add: away_dp_def divide_le_eq)
qed

context env_ok
begin

text \<open>The fee for a route: its total fees and one satoshi.\<close>

lemma route_fee:
  assumes "dec_add (dec E) (of_int (sint (r :: i64))) 1 = Some y" "dec_div (dec E) y 100000000 = Some fee"
  shows "fee = (of_int (sint r) + 1) / 10 ^ 8"
proof -
  have r: "\<bar>of_int (sint r) + 1 :: rat\<bar> \<le> 2 ^ 63 + 1" using abs_sint_rat [of r] by linarith
  have int: "of_int (sint r) + 1 = (of_int (sint r + 1) :: rat)" by simp
  have "dec_repr 0 (of_int (sint r))" "dec_repr 0 1" "dec_repr 0 (of_int (sint r) + 1)"
    using r abs_sint_rat [of r] by (auto simp: dec_repr_def grid_def int simp del: of_int_add of_int_sint)
      (simp_all add: is_integer_def)
  then have y: "y = of_int (sint r) + 1"
    using add_exact [of 0 "of_int (sint r)" 1] assms(1) by simp
  have "dec_repr 0 y" "dec_repr 0 100000000" "dec_repr 8 (y / 100000000)"
    using r by (auto simp: y int dec_repr_def grid_def simp del: of_int_add of_int_sint) (simp_all add: is_integer_def)
  then show ?thesis
    using div_exact [of 0 y 0 100000000 8] assms(2) by (simp add: y)
qed

text \<open>The estimated fee is at most the amount, or the fee of a route.\<close>

lemma estimate_fee_bound:
  assumes "estimate_fee E pr a s = Some (fee, s')" "0 \<le> a" "a \<le> 10 ^ 12" "grid 8 a"
    and "0 \<le> ln_network_fee_margin s" "ln_network_fee_margin s \<le> 1"
  shows "\<bar>fee\<bar> \<le> 10 ^ 12"
proof -
  obtain x where x: "dec_mul (dec E) a (ln_network_fee_margin s) = Some x"
    using assms(1) by (auto simp: estimate_fee_def bind_Some_conv)
  have "0 \<le> x" "x \<le> a"
    using mul_sign [OF assms(2,5) x] mul_le [OF assms(2,5,6) x] by auto
  then have margin: "\<bar>away_dp 8 x\<bar> \<le> 10 ^ 12"
    using away_dp_ge [of x 8] away_dp_le [of x a 8] assms(3,4) by simp
  have route: "\<bar>fee\<bar> \<le> 10 ^ 12"
    if "dec_add (dec E) (of_int (sint r)) 1 = Some y" "dec_div (dec E) y 100000000 = Some fee" for r :: i64 and y
  proof -
    have "\<bar>of_int (sint r) + 1 :: rat\<bar> \<le> 2 ^ 63 + 1" using abs_sint_rat [of r] by linarith
    then show ?thesis by (simp add: route_fee [OF that] del: of_int_sint)
  qed
  obtain res where "probe E (tick s) pr (ln_network_fee_margin s) = Some res"
    using assms(1) by (auto simp: estimate_fee_def bind_Some_conv Let_def)
  with assms(1) x consider "fee = away_dp 8 x"
    | r y where "dec_add (dec E) (of_int (sint (r :: i64))) 1 = Some y" "dec_div (dec E) y 100000000 = Some fee"
    by (cases res; cases "projr res")
      (auto simp: estimate_fee_def bind_Some_conv round_away SATS_DECIMALS_def Let_def simp del: of_int_sint)
  then show ?thesis using margin route by cases auto
qed

lemma walk_debit_fiat:
  assumes "(PUser (prq_uid (pp_msg pp)), out) \<in> set cs" "(PLiab, liab) \<in> set cs"
    and "acc_currency out = prq_currency (pp_msg pp)" "acc_currency liab = BTC" "prq_currency (pp_msg pp) \<noteq> BTC"
    and "grid 12 (mon_value (pp_outbound pp))" "grid 12 (mon_value (pp_outbound_btc pp))"
    and "\<not> balance out < mon_value (pp_outbound pp)" "small (balance out)" "small (mon_value (pp_outbound_btc pp))"
  shows "walk (in_sync E s0 cs) s (\<lambda>x. keeps E s0 (snd x)) (debit_fiat E pp out liab s)"
proof -
  have cs: "out \<in> snd ` set cs" "liab \<in> snd ` set cs" using assms(1,2) by force+
  show ?thesis
    unfolding debit_fiat_def
    by (intro walk_rules)
      (simp_all add: cs assms(1-7,10) assms(5) [symmetric] small_below [OF assms(9,8)]
        | rule balanced_quad, assumption+, simp_all add: balanced_defs assms(1-5) assms(5) [symmetric] leI [OF assms(8)])+
qed

lemma walk_debit_btc:
  assumes "(PUser (prq_uid (pp_msg pp)), out) \<in> set cs" "(PLiab, liab) \<in> set cs"
    and "acc_currency out = BTC" "acc_currency liab = BTC" "grid 12 (mon_value (pp_outbound pp))"
    and "\<not> balance out < mon_value (pp_outbound pp)" "small (balance out)"
  shows "walk (in_sync E s0 cs) s (\<lambda>x. keeps E s0 (snd x)) (debit_btc E pp resp out liab s)"
proof -
  have cs: "out \<in> snd ` set cs" "liab \<in> snd ` set cs" using assms(1,2) by force+
  show ?thesis
    unfolding debit_btc_def
    by (intro walk_rules)
      (simp_all add: cs assms(1-5) small_below [OF assms(7,6)]
        | rule balanced_pair, assumption+, simp_all add: balanced_defs assms(1-4) leI [OF assms(6)])+
qed

lemma walk_pay_external:
  assumes "(PUser (prq_uid (pp_msg pp)), out) \<in> set cs" "acc_currency out = prq_currency (pp_msg pp)"
    and "grid 12 (mon_value (pp_outbound pp))" "grid 12 (mon_value (pp_outbound_btc pp))"
    and "\<not> balance out < mon_value (pp_outbound pp)" "small (balance out)" "small (mon_value (pp_outbound_btc pp))"
  shows "walk (in_sync E s0 cs) s (keeps E s0) (pay_external E pp resp out s)"
  unfolding pay_external_def
  by (intro walk_seq walk_rules)
    (simp_all add: assms walk_debit_fiat walk_debit_btc walk_tail_quiet books_keeps ens_quiet_spawn)

lemma payment_amounts:
  assumes "estimate_fee E pr a s = Some (fee, s')" "0 \<le> a" "a \<le> 10 ^ 12" "grid 8 a"
    and "0 \<le> ln_network_fee_margin s" "ln_network_fee_margin s \<le> 1"
    and "dec_add (dec E) a (mon_value (money_from_btc (dec E) fee)) = Some t"
  shows "small (mon_value (money_from_btc (dec E) t))" "grid 12 (mon_value (money_from_btc (dec E) t))"
    "mon_value (money_from_btc (dec E) t) = a + mon_value (money_from_btc (dec E) fee)"
proof -
  let ?f = "mon_value (money_from_btc (dec E) fee)"
  have f: "\<bar>?f\<bar> \<le> 10 ^ 12"
    using estimate_fee_bound [OF assms(1-6)] trunc_dp_abs_le [of 12 fee]
    by (simp add: money_from_btc_def money_normalized_value_def round_to_zero)
  have g: "grid 12 ?f" "grid 12 a"
    using money_ok_grid_12 [OF money_from_btc_ok] grid_mono [OF assms(4)] by auto
  have sum: "t = a + ?f"
    using add_small [OF g(2,1)] f assms(2,3,7) by (simp add: small_def)
  with g have "trunc_dp 12 t = t" by (intro trunc_dp_grid) auto
  then show val: "mon_value (money_from_btc (dec E) t) = a + ?f"
    by (simp add: sum money_from_btc_def money_normalized_value_def round_to_zero)
  show "small (mon_value (money_from_btc (dec E) t))"
    using f assms(2,3) by (simp add: val small_def)
  show "grid 12 (mon_value (money_from_btc (dec E) t))"
    using g by (auto simp: val)
qed

lemma ens_quiet_estimate [simp]: "ens (\<lambda>x. quiet s (snd x)) (estimate_fee E pr a s)"
  unfolding estimate_fee_def by (intro ens_intros) simp_all

lemma walk_pay_owner:
  assumes "\<And>a. prq_amount msg = Some a \<Longrightarrow> money_ok a"
  shows "walk (in_sync E s0 cs) s (keeps E s0) (pay_owner E msg invoice owner' s)"
  unfolding pay_owner_def
  by (intro walk_call walk_rules)
    (simp_all add: walk_tail_quiet books_keeps quiet_calls | rule make_internal_tx_keeps, simp_all add: assms)+

lemma walk_pay_invoice_row:
  assumes "(PUser (prq_uid (pp_msg pp)), out) \<in> set cs" "acc_currency out = prq_currency (pp_msg pp)"
    and amount: "0 \<le> mon_value (pp_amount_in_btc pp)" "mon_value (pp_amount_in_btc pp) \<le> 10 ^ 12"
      "grid 8 (mon_value (pp_amount_in_btc pp))"
    and "small (balance out)" "\<And>a. prq_amount (pp_msg pp) = Some a \<Longrightarrow> money_ok a"
    and margin: "0 \<le> ln_network_fee_margin s0" "ln_network_fee_margin s0 \<le> 1"
  shows "walk (in_sync E s0 cs) s (keeps E s0) (pay_invoice_row E pp invoice out resp s)"
proof (rule walk_assume)
  assume "in_sync E s0 cs s"
  then have "ln_network_fee_margin s = ln_network_fee_margin s0"
    by (simp add: in_sync_def keeps_def conserves_def)
  note amounts = payment_amounts [OF _ amount, of _ s, unfolded this, OF _ margin]
  show ?thesis
    unfolding pay_invoice_row_def
    by (intro walk_rules)
      (simp_all add: walk_pay_owner assms
       | rule walk_pay_external, simp_all add: assms amounts(1,2) money_exchange_grid)+
qed

lemma walk_pay_decoded:
  assumes "(PUser (prq_uid msg), out) \<in> set cs" "acc_currency out = prq_currency msg" "small (balance out)"
    and margin: "0 \<le> ln_network_fee_margin s0" "ln_network_fee_margin s0 \<le> 1"
  shows "walk (in_sync E s0 cs) s (keeps E s0) (pay_decoded E msg p d millisats out oname iname s)"
proof -
  have sats: "0 \<le> mon_value m" "mon_value m \<le> 1000000000000" "grid 8 (mon_value m)"
    if "money_from_sats (dec E) (signed (millisats div 1000)) = Some m" for m
  proof -
    have m: "mon_value m = of_int (sint (millisats div 1000)) / 10 ^ 8"
      by (rule sats_amount(4) [OF that])
    show "0 \<le> mon_value m" "mon_value m \<le> 1000000000000" "grid 8 (mon_value m)"
      unfolding m grid_def
      using sint_div_1000 [of millisats] abs_sint_rat [of "millisats div 1000"] by (simp_all del: of_int_sint)
  qed
  show ?thesis
    unfolding pay_decoded_def
    by (intro walk_pay_invoice_row walk_rules) (auto simp: assms sats dest: money_exchange_ok)
qed

text \<open>The recipient stage leaves the ledger alone unless it made an internal transaction.\<close>

lemma route_recipient_keeps:
  assumes "bank_ok E s" "balances_small (ledger s)" "\<And>a. prq_amount msg = Some a \<Longrightarrow> money_ok a"
  shows "ens (\<lambda>x. keeps E s (snd x)) (route_recipient E msg s)"
  unfolding route_recipient_def
  by (rule walk_start [OF assms(1,2)], intro walk_call walk_rules)
    (simp_all | rule make_internal_tx_keeps, simp_all add: assms)+

lemma route_recipient_quiet:
  "ens (\<lambda>x. fst x \<noteq> None \<longrightarrow> quiet s (snd x)) (route_recipient E msg s)"
  unfolding route_recipient_def query_def
  by (intro ens_intros) (auto simp: prod_eq_iff intro!: ens_intros)

lemma walk_route_recipient:
  assumes "\<And>a. prq_amount msg = Some a \<Longrightarrow> money_ok a"
    and "\<And>s'. walk (keeps E s0) s' P (f None s')"
    and "\<And>n s'. walk (in_sync E s0 cs) s' P (f (Some n) s')"
  shows "walk (in_sync E s0 cs) s P (Option.bind (route_recipient E msg s) (\<lambda>(r, s'). f r s'))"
  unfolding walk_def
proof (intro impI ens_bind)
  fix x assume sync: "in_sync E s0 cs s" and x: "route_recipient E msg s = Some x"
  note ok = in_sync_call(2,3) [OF sync keeps_same]
  have "keeps E s0 (snd x)"
    using sync in_sync_call(1) [OF sync] ensD [OF route_recipient_keeps x] assms(1)
    by (auto simp: in_sync_def keeps_def conserves_def)
  moreover have "in_sync E s0 cs (snd x)" if "fst x \<noteq> None"
    using ensD [OF route_recipient_quiet x] that sync framed_in_sync by (auto simp: framed_def)
  ultimately show "ens P (case x of (r, s') \<Rightarrow> f r s')"
    using assms(2,3) by (cases x; cases "fst x") (auto simp: walk_def)
qed

lemma process_payment_request_keeps:
  assumes "bank_ok E s" "balances_small (ledger s)" "\<And>a. prq_amount msg = Some a \<Longrightarrow> money_ok a"
    and margin: "0 \<le> ln_network_fee_margin s" "ln_network_fee_margin s \<le> 1"
  shows "ens (keeps E s) (process_payment_request E msg s)"
  unfolding process_payment_request_def
  by (rule walk_start [OF assms(1,2)], intro walk_route_recipient walk_rules)
    (simp_all add: assms walk_pay_decoded)

end

section \<open>Properties\<close>

lemma rate_limit_threads:
  "check_withdrawal_request_rate_limit E u s = (r, s') \<Longrightarrow>
     payment_threads s' = payment_threads s \<and> conn_pool s' = conn_pool s \<and> db s' = db s \<and> domain s' = domain s"
  by (auto simp: check_withdrawal_request_rate_limit_def rate_limit_step_def Let_def
      split: prod.splits option.splits if_splits)

lemma refuse_payment_frame [simp]:
  "ledger (refuse_payment E m e s) = ledger s" "payment_threads (refuse_payment E m e s) = payment_threads s"
  by (simp_all add: refuse_payment_def new_uuid_def api_payment_def)

text \<open>
  A row that is settled is found, or it keeps a row of the same hash from being inserted: with the
  database failing at any point no other row is paid.
\<close>

lemma find_or_store_settled:
  assumes "invoice_get_by_payment_request p (db s) = Some iv" "di_payment_hash d = inv_payment_hash iv"
    and "find_or_store_invoice E m p d n s = (r, s')"
  shows "(r = None \<or> r = Some iv) \<and> ledger s' = ledger s \<and> payment_threads s' = payment_threads s"
proof -
  have "iv \<in> set (db_invoices (db s))" using assms(1) by (auto simp: invoice_get_by_payment_request_def find_Some_iff)
  then have "invoice_insert (outgoing_invoice E m p d n t) (db s) = None" for t
    using assms(2) by (auto simp: invoice_insert_def outgoing_invoice_def list_ex_iff)
  with assms(1,3) show ?thesis
    by (auto simp: find_or_store_invoice_def query_def time_now_def exec_def Let_def split: if_split_asm option.split_asm)
qed

lemma pay_decoded_settled:
  assumes "invoice_get_by_payment_request p (db s) = Some iv" "inv_settled iv" "di_payment_hash d = inv_payment_hash iv"
    and "pay_decoded E msg p d n out oname iname s = Some s'"
  shows "ledger s' = ledger s \<and> payment_threads s' = payment_threads s"
proof -
  have row: "(r = None \<or> r = Some iv) \<and> ledger t = ledger s \<and> payment_threads t = payment_threads s"
    if "find_or_store_invoice E m p d n s = (r, t)" for m r t
    by (rule find_or_store_settled [OF assms(1,3) that])
  from assms(2,4) show ?thesis
    by (auto simp: pay_decoded_def pay_invoice_row_def new_uuid_def api_payment_def Let_def elim!: bind_SomeE
        split: if_split_asm option.split_asm prod.split_asm dest!: row)
qed

text \<open>Recipients to whom the bank does not transfer internally: of another domain, or unknown.\<close>

definition routed_outside :: "PaymentRequest \<Rightarrow> bank \<Rightarrow> bool" where
  "routed_outside msg s = (case prq_recipient msg of
     None \<Rightarrow> True
   | Some r \<Rightarrow> length (split_at_sign r) = 2 \<and> split_at_sign r ! 1 \<noteq> domain s \<or>
       user_get_by_username (hd (split_at_sign r)) (db s) = None)"

lemma domain_bump [simp]: "domain (bump s) = domain s"
  by (simp add: bump_def)

lemma route_recipient_outside:
  assumes "route_recipient E msg s = Some (r, s')" "routed_outside msg s"
  shows "r \<noteq> None \<and> ledger s' = ledger s \<and> payment_threads s' = payment_threads s \<and> db_invoices (db s') = db_invoices (db s)"
  using assms
  by (cases "prq_recipient msg")
    (auto simp: route_recipient_def routed_outside_def query_def exec_def ln_address_insert_def Let_def
      elim!: bind_SomeE split: option.split_asm if_split_asm, metis+)

text \<open>
  C8. No invoice is paid twice: a request to pay a payment request whose invoice is marked as settled
  starts no payment and changes no balance, even if the database fails at any point. The recipient named
  in the request, if any, is of another domain or not a user of the bank (to a user of the bank the
  handler transfers the amount internally and does not look at the payment request), and the row of
  the invoice has the payment hash of its payment request.
\<close>

theorem settled_invoice_not_paid:
  assumes "env_ok E" "bank_ok E s" "routed_outside msg s" "prq_payment_request msg = Some p"
    and "invoice_get_by_payment_request p (db s) = Some iv" "inv_settled iv"
    and "\<And>d. parse_invoice E p = Some d \<Longrightarrow> di_payment_hash d = inv_payment_hash iv"
    and "process_payment_request E msg s = Some s'"
  shows "payment_threads s' = payment_threads s \<and>
    (\<forall>q i x. ledger_get q i (ledger s) = Some x \<longrightarrow> ledger_get q i (ledger s') = Some x) \<and>
    (\<forall>q i x. ledger_get q i (ledger s') = Some x \<longrightarrow> ledger_get q i (ledger s) = Some x \<or> balance x = 0)"
proof -
  obtain ok s1 where lim: "check_withdrawal_request_rate_limit E (prq_uid msg) s = (ok, s1)"
    by (cases "check_withdrawal_request_rate_limit E (prq_uid msg) s") auto
  note frame = rate_limit_frame(2) [OF lim] rate_limit_threads [OF lim]
  have ok1: "bank_ok E s1" using assms(2) frame by (auto simp: bank_ok_def intro: ledger_ok_mono)
  show ?thesis
  proof (cases "default_account E (PUser (prq_uid msg)) (prq_currency msg) None s1")
    case None
    with assms(8) lim frame show ?thesis
      by (auto simp: process_payment_request_def split: if_splits)
  next
    case (Some as)
    then obtain a s2 where a: "default_account E (PUser (prq_uid msg)) (prq_currency msg) None s1 = Some (a, s2)"
      by (cases as) auto
    note spec = env_ok.default_account_spec [OF assms(1) ok1 a] and get = env_ok.default_account_get [OF assms(1) ok1 a]
    let ?s = "bump (bump s2)"
    have "domain s2 = domain s" using a frame by (auto simp: default_account_def split: option.splits)
    then have outside: "routed_outside msg ?s" using assms(3) spec(10) frame by (simp add: routed_outside_def split: option.splits)
    have settled: "ledger t' = ledger ?s \<and> payment_threads t' = payment_threads ?s"
      if "route_recipient E msg ?s = Some (r, t)" "parse_invoice E p = Some d"
        "pay_decoded E msg p d n out oname iname t = Some t'" for r t t' d n out oname iname
    proof -
      note r = route_recipient_outside [OF that(1) outside]
      then have "invoice_get_by_payment_request p (db t) = Some iv"
        using assms(5) spec(10) frame by (simp add: invoice_get_by_payment_request_def)
      from pay_decoded_settled [OF this assms(6) assms(7) [OF that(2)] that(3)] r show ?thesis by simp
    qed
    have "(ledger s' = ledger s1 \<or> ledger s' = ledger s2) \<and> payment_threads s' = payment_threads s1 \<or>
        (\<exists>r t. route_recipient E msg ?s = Some (r, t) \<and> (ledger s' = ledger t \<and> payment_threads s' = payment_threads t \<or>
          (\<exists>d n out oname iname. parse_invoice E p = Some d \<and> pay_decoded E msg p d n out oname iname t = Some s')))"
      using assms(8) spec(12)
      by (auto simp: process_payment_request_def lim a assms(4) get_conn_def query_def Let_def
          elim!: bind_SomeE split: if_split_asm option.split_asm)
    then have "(ledger s' = ledger s1 \<or> ledger s' = ledger s2) \<and> payment_threads s' = payment_threads s"
    proof (elim disjE exE conjE)
      fix r t
      assume "route_recipient E msg ?s = Some (r, t)" "ledger s' = ledger t" "payment_threads s' = payment_threads t"
      then show ?thesis using route_recipient_outside [OF _ outside] spec(12) frame by simp
    next
      fix r t d n out oname iname
      assume "route_recipient E msg ?s = Some (r, t)" "parse_invoice E p = Some d" "pay_decoded E msg p d n out oname iname t = Some s'"
      from settled [OF this] spec(12) frame show ?thesis by simp
    qed (use frame in simp_all)
    with get frame show ?thesis by (auto split: if_splits)
  qed
qed

definition paid_bank :: bank where
  "paid_bank = sample_bank\<lparr>db := (db sample_bank)\<lparr>db_invoices :=
     [sample_row\<lparr>inv_payment_hash := di_payment_hash sample_invoice, inv_payment_request := ''lnbc'', inv_settled := True,
       inv_owner := None\<rparr>]\<rparr>\<rparr>"

text \<open>A payment to an address of another domain.\<close>

definition sample_outgoing :: PaymentRequest where
  "sample_outgoing = sample_payment\<lparr>prq_recipient := Some ''bob@elsewhere'', prq_payment_request := Some ''lnbc''\<rparr>"

theorem settled_invoice_not_paid_witness:
  "\<exists>s'. process_payment_request env96 sample_outgoing paid_bank = Some s' \<and> payment_threads s' = []"
proof -
  have "process_payment_request env96 sample_outgoing paid_bank \<noteq> None" by code_simp
  then obtain s' where s': "process_payment_request env96 sample_outgoing paid_bank = Some s'" by blast
  let ?iv = "hd (db_invoices (db paid_bank))"
  have bank: "bank_ok env96 paid_bank" "payment_threads paid_bank = []"
    using sample_bank_ok by (simp_all add: paid_bank_def bank_ok_def) (simp add: sample_defs)
  have out: "routed_outside sample_outgoing paid_bank" by code_simp
  have msg: "prq_payment_request sample_outgoing = Some ''lnbc''"
    "invoice_get_by_payment_request ''lnbc'' (db paid_bank) = Some ?iv" "inv_settled ?iv"
    "parse_invoice env96 ''lnbc'' = Some d \<Longrightarrow> di_payment_hash d = inv_payment_hash ?iv" for d
    by (simp_all add: sample_outgoing_def paid_bank_def invoice_get_by_payment_request_def)
  from settled_invoice_not_paid [OF env96.env_ok_axioms bank(1) out msg s'] s' bank(2) show ?thesis by auto
qed

end
