(* ===== verification/BankResult.thy ===== *)
theory BankResult
  imports BankPayment
begin

text \<open>
  The end of a payment that left the platform: the spawned task asks the Lightning node to pay
  and sends a \<open>PaymentResult\<close>; the bank's handler for it (\<open>Bank::PaymentResult\<close> of
  \<open>bank/src/bank_engine.rs\<close>) credits the unused fee to the dealer, or refunds the payer in
  the currency the payment came from.
\<close>

section \<open>The payment task\<close>

definition payment_result :: "PaymentTask \<Rightarrow> PaymentResponse \<Rightarrow> string option \<Rightarrow> Message" where
  "payment_result t resp e = MsgBank (PaymentResultMsg \<lparr>
     pres_uid = pt_uid t,
     pres_currency = pt_currency t,
     pres_rate = pt_rate t,
     pres_is_success = prs_success resp,
     pres_amount = pt_outbound_amount_in_btc_plus_max_fees t,
     pres_payment_response = resp,
     pres_error = e \<rparr>)"

definition payment_task :: "env \<Rightarrow> nat \<Rightarrow> PaymentTask \<Rightarrow> Message option" where
  "payment_task E n t = do {
     r \<leftarrow> pay_invoice E n (Some (pt_payment_req t)) (pt_amount_in_sats t) None (Some (pt_estimated_fee_in_sats t));
     (case r of
        Inr result \<Rightarrow> do {
          fees \<leftarrow> money_from_sats (dec E) (of_int (sint (payr_fee result)));
          Some (payment_result t \<lparr>
            prs_req_id = pt_req_id t, prs_payment_hash = payr_payment_hash result, prs_uid = pt_uid t,
            prs_success = True, prs_currency = pt_currency t, prs_payment_request = Some (pt_payment_req t),
            prs_amount = Some (pt_amount_in_btc t), prs_fees = Some fees, prs_rate = Some (pt_rate t),
            prs_error = None, prs_payment_preimage = payr_preimage result,
            prs_destination = None, prs_description = None \<rparr> None) }
      | Inl e \<Rightarrow> do {
          fees \<leftarrow> money_from_sats (dec E) 0;
          Some (payment_result t \<lparr>
            prs_req_id = pt_req_id t, prs_payment_hash = [], prs_uid = pt_uid t,
            prs_success = False, prs_currency = pt_currency t, prs_payment_request = Some (pt_payment_req t),
            prs_amount = Some (pt_amount_in_btc t), prs_fees = Some fees, prs_rate = Some (pt_rate t),
            prs_error = Some InsufficientFundsForFees, prs_payment_preimage = None,
            prs_destination = None, prs_description = None \<rparr> (Some (lnd_connector_error_to_string e))) }) }"

section \<open>The result handler\<close>

text \<open>
  The fee that was reserved and not used goes to the dealer. The result says whether the handler
  goes on.
\<close>

definition credit_excess :: "env \<Rightarrow> Account \<Rightarrow> Account \<Rightarrow> rat \<Rightarrow> bank \<Rightarrow> (bool \<times> bank) option" where
  "credit_excess E btc_liabilities_account dealer_btc_account excess_fees_in_btc s =
     (if 0 < excess_fees_in_btc
      then do {
        (r, btc_liabilities_account, dealer_btc_account, s) \<leftarrow>
          make_tx E btc_liabilities_account BANK_UID dealer_btc_account DEALER_UID
            (money_new (dec E) BTC excess_fees_in_btc) s;
        (case r of
           Inl _ \<Rightarrow> Some (False, s)
         | Inr _ \<Rightarrow> do {
             s \<leftarrow> put_accounts [(PLiab, btc_liabilities_account), (PDealer, dealer_btc_account)] s;
             let s = update_account E dealer_btc_account DEALER_UID s;
             Some (True, update_account E btc_liabilities_account BANK_UID s) }) }
      else Some (True, s))"

definition settle_payment ::
  "env \<Rightarrow> PaymentResult \<Rightarrow> Account \<Rightarrow> Account \<Rightarrow> bank \<Rightarrow> (PaymentResponse option \<times> bank) option" where
  "settle_payment E res btc_liabilities_account dealer_btc_account s = do {
     let resp = pres_payment_response res;
     payment_amount \<leftarrow> prs_amount resp;
     fees_payed_in_btc \<leftarrow> prs_fees resp;
     used \<leftarrow> dec_add (dec E) (mon_value payment_amount) (mon_value fees_payed_in_btc);
     excess_fees_in_btc \<leftarrow> dec_sub (dec E) (mon_value (pres_amount res)) used;
     if excess_fees_in_btc < 0 then None
     else do {
       (go_on, s) \<leftarrow> credit_excess E btc_liabilities_account dealer_btc_account excess_fees_in_btc s;
       if \<not> go_on then Some (None, s)
       else do {
         pr \<leftarrow> prs_payment_request resp;
         (case query E (invoice_get_by_payment_request pr) s of
            (None, s) \<Rightarrow> Some (None, s)
          | (Some invoice, s) \<Rightarrow> do {
              let (now, s) = time_now E s;
              sats \<leftarrow> money_try_sats (dec E) fees_payed_in_btc;
              sats \<leftarrow> unwrap sats;
              fees \<leftarrow> dec_to_i64 (dec E) sats;
              let (ok, s) = exec E (invoice_update (invoice\<lparr>inv_settled := True, inv_settled_date := now,
                inv_fees := Some fees\<rparr>)) s;
              Some (Some (resp\<lparr>prs_success := True\<rparr>), s) }) } } }"

definition refund_fiat ::
  "env \<Rightarrow> PaymentResult \<Rightarrow> Money \<Rightarrow> Account \<Rightarrow> Account \<Rightarrow> bank \<Rightarrow> (bool \<times> bank) option" where
  "refund_fiat E res refund_exchanged btc_liabilities_account inbound_account s = do {
     let uid = pres_uid res;
     (dealer_btc_account, s) \<leftarrow> default_account E PDealer BTC (Some Internal) s;
     (dealer_fiat_account, s) \<leftarrow> default_account E PDealer (pres_currency res) (Some Internal) s;
     (r, btc_liabilities_account, dealer_btc_account, s) \<leftarrow>
       make_tx E btc_liabilities_account BANK_UID dealer_btc_account uid (pres_amount res) s;
     (case r of
        Inl _ \<Rightarrow> Some (False, s)
      | Inr outbound_txid \<Rightarrow> do {
          (r, dealer_fiat_account, inbound_account, s) \<leftarrow>
            make_tx E dealer_fiat_account DEALER_UID inbound_account uid refund_exchanged s;
          (case r of
             Inl _ \<Rightarrow> Some (False, s)
           | Inr inbound_txid \<Rightarrow> do {
               s \<leftarrow> put_accounts [(PLiab, btc_liabilities_account), (PDealer, dealer_btc_account),
                 (PDealer, dealer_fiat_account), (PUser uid, inbound_account)] s;
               let s = update_account E inbound_account uid s;
               let s = update_account E btc_liabilities_account BANK_UID s;
               let s = update_account E dealer_btc_account DEALER_UID s;
               let s = update_account E dealer_fiat_account DEALER_UID s;
               (r, s) \<leftarrow> make_summary_tx E btc_liabilities_account BANK_UID inbound_account uid
                 (pres_amount res) (Some (pres_rate res)) None (Some outbound_txid) (Some inbound_txid) None
                 (Some ''PaymentRefund'') None None s;
               (case r of Inl _ \<Rightarrow> Some (False, s) | Inr _ \<Rightarrow> Some (True, s)) }) }) }"

definition refund_btc :: "env \<Rightarrow> PaymentResult \<Rightarrow> Account \<Rightarrow> Account \<Rightarrow> bank \<Rightarrow> (bool \<times> bank) option" where
  "refund_btc E res btc_liabilities_account inbound_account s = do {
     let uid = pres_uid res;
     (r, btc_liabilities_account, inbound_account, s) \<leftarrow>
       make_tx E btc_liabilities_account BANK_UID inbound_account uid (pres_amount res) s;
     (case r of
        Inl _ \<Rightarrow> Some (False, s)
      | Inr txid \<Rightarrow> do {
          s \<leftarrow> put_accounts [(PLiab, btc_liabilities_account), (PUser uid, inbound_account)] s;
          let s = update_account E inbound_account uid s;
          let s = update_account E btc_liabilities_account BANK_UID s;
          (r, s) \<leftarrow> make_summary_tx E btc_liabilities_account BANK_UID inbound_account uid
            (pres_amount res) (Some (pres_rate res)) None (Some txid) (Some txid) None
            (Some ''PaymentRefund'') None None s;
          (case r of Inl _ \<Rightarrow> Some (False, s) | Inr _ \<Rightarrow> Some (True, s)) }) }"

definition refund_payment ::
  "env \<Rightarrow> PaymentResult \<Rightarrow> Account \<Rightarrow> Account \<Rightarrow> bank \<Rightarrow> (PaymentResponse option \<times> bank) option" where
  "refund_payment E res btc_liabilities_account inbound_account s = do {
     exchanged \<leftarrow> money_exchange (dec E) (pres_amount res) (pres_rate res);
     refund_exchanged \<leftarrow> unwrap exchanged;
     (go_on, s) \<leftarrow> (if pres_currency res \<noteq> BTC
                   then refund_fiat E res refund_exchanged btc_liabilities_account inbound_account s
                   else refund_btc E res btc_liabilities_account inbound_account s);
     Some (if go_on then Some (pres_payment_response res) else None, s) }"

definition process_payment_result :: "env \<Rightarrow> PaymentResult \<Rightarrow> bank \<Rightarrow> bank option" where
  "process_payment_result E res s =
     (if mon_value (pres_amount res) \<le> 0 then None
      else let (conn, s) = get_conn E s in
      if \<not> conn then Some s
      else do {
        (btc_liabilities_account, s) \<leftarrow> default_account E PLiab BTC (Some External) s;
        (case default_account E (PUser (pres_uid res)) (pres_currency res) None s of
           None \<Rightarrow> Some s
         | Some (inbound_account, s) \<Rightarrow> do {
             (dealer_btc_account, s) \<leftarrow> default_account E PDealer BTC (Some Internal) s;
             (resp, s) \<leftarrow> (if pres_is_success res
                          then settle_payment E res btc_liabilities_account dealer_btc_account s
                          else refund_payment E res btc_liabilities_account inbound_account s);
             (case resp of
                None \<Rightarrow> Some s
              | Some payment_response \<Rightarrow> do {
                  s \<leftarrow> send_bank_state E s;
                  Some (api_payment payment_response s) }) }) })"

section \<open>Results keep the books\<close>

text \<open>What the bank relies on in a result: amounts in range, as the task computes them.\<close>

definition result_ok :: "env \<Rightarrow> PaymentResult \<Rightarrow> bool" where
  "result_ok E res \<longleftrightarrow> money_ok (pres_amount res) \<and> small (mon_value (pres_amount res)) \<and>
     (if pres_is_success res
      then (case prs_amount (pres_payment_response res) of
          Some a \<Rightarrow> money_ok a \<and> 0 \<le> mon_value a \<and> small (mon_value a) | None \<Rightarrow> True) \<and>
        (case prs_fees (pres_payment_response res) of
          Some f \<Rightarrow> money_ok f \<and> 0 \<le> mon_value f \<and> small (mon_value f) | None \<Rightarrow> True)
      else exchange_small E (pres_amount res) (pres_rate res))"

context env_ok
begin

lemma excess_value:
  assumes "result_ok E res" "pres_is_success res" "prs_amount (pres_payment_response res) = Some a"
    "prs_fees (pres_payment_response res) = Some f"
    "dec_add (dec E) (mon_value a) (mon_value f) = Some u"
    "dec_sub (dec E) (mon_value (pres_amount res)) u = Some x"
  shows "u = mon_value a + mon_value f" "x = mon_value (pres_amount res) - u" "grid 12 x" "0 < x \<Longrightarrow> small x"
proof -
  have ok: "money_ok (pres_amount res)" "small (mon_value (pres_amount res))" "money_ok a" "money_ok f"
    "0 \<le> mon_value a" "0 \<le> mon_value f" "small (mon_value a)" "small (mon_value f)"
    using assms(1-4) by (auto simp: result_ok_def)
  note g = money_ok_grid_12 [OF ok(1)] money_ok_grid_12 [OF ok(3)] money_ok_grid_12 [OF ok(4)]
  show u: "u = mon_value a + mon_value f"
    using add_small [OF g(2,3) ok(7,8)] assms(5) by simp
  have "dec_repr 12 (mon_value (pres_amount res))" "dec_repr 12 u" "dec_repr 12 (mon_value (pres_amount res) - u)"
    using g ok by (auto simp: u small_def intro!: dec_repr_12)
  then show x: "x = mon_value (pres_amount res) - u"
    using sub_exact assms(6) by (metis option.inject)
  show "grid 12 x" using g by (auto simp: x u)
  show "0 < x \<Longrightarrow> small x" using ok by (simp add: x u small_def)
qed

lemma walk_credit_excess:
  assumes "(PLiab, liab) \<in> set cs" "(PDealer, dbtc) \<in> set cs" "acc_currency liab = BTC" "acc_currency dbtc = BTC"
    and "grid 12 x" "0 < x \<Longrightarrow> small x"
  shows "walk (in_sync E s0 cs) s (\<lambda>y. keeps E s0 (snd y)) (credit_excess E liab dbtc x s)"
proof -
  have cs: "liab \<in> snd ` set cs" "dbtc \<in> snd ` set cs" using assms(1,2) by force+
  have x: "mon_value (money_new (dec E) BTC x) = x"
    using trunc_dp_grid [OF assms(5)] by (simp add: money_new_def round_to_zero)
  show ?thesis
    unfolding credit_excess_def
    by (intro walk_rules)
      (simp_all add: cs x assms | rule balanced_pair, assumption+, simp_all add: balanced_defs assms)+
qed

lemma walk_settle_payment:
  assumes "(PLiab, liab) \<in> set cs" "(PDealer, dbtc) \<in> set cs" "acc_currency liab = BTC" "acc_currency dbtc = BTC"
    and "result_ok E res" "pres_is_success res"
  shows "walk (in_sync E s0 cs) s (\<lambda>y. keeps E s0 (snd y)) (settle_payment E res liab dbtc s)"
  unfolding settle_payment_def
  by (intro walk_None walk_if walk_Let walk_seq walk_credit_excess walk_rules)
    (auto simp: assms excess_value [OF assms(5,6)])

lemma walk_refund_fiat:
  assumes "(PLiab, liab) \<in> set cs" "(PUser (pres_uid res), inn) \<in> set cs" "acc_currency liab = BTC"
    and "acc_currency inn = pres_currency res" "pres_currency res \<noteq> BTC"
    and "grid 12 (mon_value x)" "small (mon_value x)"
    and "grid 12 (mon_value (pres_amount res))" "small (mon_value (pres_amount res))"
  shows "walk (in_sync E s0 cs) s (\<lambda>y. keeps E s0 (snd y)) (refund_fiat E res x liab inn s)"
proof -
  have cs: "liab \<in> snd ` set cs" "inn \<in> snd ` set cs" using assms(1,2) by force+
  show ?thesis
    unfolding refund_fiat_def
    by (intro walk_rules)
      (simp_all add: cs assms assms(5) [symmetric]
        | rule balanced_quad, assumption+, simp_all add: balanced_defs assms(1-5) assms(5) [symmetric])+
qed

lemma walk_refund_btc:
  assumes "(PLiab, liab) \<in> set cs" "(PUser (pres_uid res), inn) \<in> set cs" "acc_currency liab = BTC"
    and "acc_currency inn = BTC" "grid 12 (mon_value (pres_amount res))" "small (mon_value (pres_amount res))"
  shows "walk (in_sync E s0 cs) s (\<lambda>y. keeps E s0 (snd y)) (refund_btc E res liab inn s)"
proof -
  have cs: "liab \<in> snd ` set cs" "inn \<in> snd ` set cs" using assms(1,2) by force+
  show ?thesis
    unfolding refund_btc_def
    by (intro walk_rules)
      (simp_all add: cs assms | rule balanced_pair, assumption+, simp_all add: balanced_defs assms(1-4))+
qed

lemma walk_refund_payment:
  assumes "(PLiab, liab) \<in> set cs" "(PUser (pres_uid res), inn) \<in> set cs" "acc_currency liab = BTC"
    and "acc_currency inn = pres_currency res" and ok: "result_ok E res" "\<not> pres_is_success res"
  shows "walk (in_sync E s0 cs) s (\<lambda>y. keeps E s0 (snd y)) (refund_payment E res liab inn s)"
proof -
  have amount: "grid 12 (mon_value (pres_amount res))" "small (mon_value (pres_amount res))"
    and small: "\<And>x. money_exchange (dec E) (pres_amount res) (pres_rate res) = Some (Inr x) \<Longrightarrow> small (mon_value x)"
    using ok by (auto simp: result_ok_def money_ok_grid_12 exchange_smallD)
  show ?thesis
    unfolding refund_payment_def
    by (intro walk_seq walk_rules)
      (simp_all add: assms(1-4) amount small money_exchange_grid walk_refund_fiat walk_refund_btc)
qed

lemma process_payment_result_keeps:
  assumes "bank_ok E s" "balances_small (ledger s)" "result_ok E res"
  shows "ens (keeps E s) (process_payment_result E res s)"
  unfolding process_payment_result_def
  by (rule walk_start [OF assms(1,2)], intro walk_seq walk_rules)
    (simp_all add: assms(3) walk_settle_payment walk_refund_payment)

end

section \<open>The reserved fee\<close>

text \<open>
  What the node promises: it charges at most the fee limit it is given, and routes do not have
  negative fees.
\<close>

definition lnd_fees_ok :: "env \<Rightarrow> bool" where
  "lnd_fees_ok E \<longleftrightarrow>
     (\<forall>n pr limit r f. lnd_send_payment_sync E n pr limit = Some r \<longrightarrow> sr_payment_error r = [] \<longrightarrow>
        sr_route_total_fees r = Some f \<longrightarrow> sint f \<le> sint limit) \<and>
     (\<forall>n d v f rs. lnd_query_routes E n d v f = Some rs \<longrightarrow> list_all (\<lambda>r. 0 \<le> sint r) rs)"

lemma default_account_threads:
  "default_account E p c t s = Some (a, s') \<Longrightarrow> payment_threads s' = payment_threads s"
  by (auto simp: default_account_def split: option.splits)

lemma put_accounts_threads: "put_accounts xs s = Some s' \<Longrightarrow> payment_threads s' = payment_threads s"
  by (auto simp: put_accounts_conv)

lemma make_summary_tx_threads:
  "make_summary_tx E out ou inn iu m rate fees a b c d e f s = Some (r, s') \<Longrightarrow> payment_threads s' = payment_threads s"
  by (drule make_summary_tx_frame) simp

lemmas threads_frame = default_account_threads put_accounts_threads make_summary_tx_threads make_tx_frame(4)

lemma debit_threads:
  "debit_fiat E pp out liab s = Some (b, s') \<Longrightarrow> payment_threads s' = payment_threads s"
  "debit_btc E pp resp out liab s = Some (b, s') \<Longrightarrow> payment_threads s' = payment_threads s"
  by (auto simp: debit_fiat_def debit_btc_def Let_def api_payment_def simp del: put_accounts.simps
      elim!: bind_SomeE split: prod.split_asm sum.split_asm dest!: threads_frame)

lemma estimate_fee_threads:
  "estimate_fee E p a s = Some (fee, s') \<Longrightarrow> payment_threads s' = payment_threads s"
  by (auto simp: estimate_fee_def Let_def elim!: bind_SomeE split: sum.split_asm list.split_asm)

text \<open>The tasks that an external payment starts.\<close>

lemma pay_external_threads:
  assumes "pay_external E pp resp out s = Some s'" "t \<in> set (payment_threads s')" "t \<notin> set (payment_threads s)"
  shows "pt_amount_in_btc t = pp_amount_in_btc pp \<and> pt_outbound_amount_in_btc_plus_max_fees t = pp_outbound_btc pp \<and>
    money_try_sats (dec E) (pp_estimated_fee_in_btc pp) = Some (Inr (pt_estimated_fee_in_sats t))"
  using assms
  by (auto simp: pay_external_def spawn_payment_def elim!: bind_SomeE split: prod.split_asm if_split_asm
      dest!: default_account_threads debit_threads)

context env_ok
begin

lemma fee_in_sats_int:
  assumes "0 \<le> k"
  shows "sint (fee_in_sats E (of_int k) 0) \<le> k"
proof (cases "k < 2 ^ 63")
  case True
  then have "dec_to_i64 (dec E) (of_int k) = Some (word_of_int k)"
    using assms by (simp add: to_i64)
  moreover have "sint (word_of_int k :: i64) = k"
    using assms True by (simp add: int_word_sint)
  ultimately show ?thesis by (simp add: fee_in_sats_def half_even_int)
next
  case False
  then have "dec_to_i64 (dec E) (of_int k) = None" using assms by (simp add: to_i64)
  with assms show ?thesis by (simp add: fee_in_sats_def half_even_int)
qed

text \<open>The estimated fee is a whole, non-negative number of satoshis.\<close>

lemma estimate_fee_sats:
  assumes "lnd_fees_ok E" "estimate_fee E pr a s = Some (fee, s')" "0 \<le> a" "0 \<le> ln_network_fee_margin s"
  shows "\<exists>k. 0 \<le> k \<and> fee = of_int k / 10 ^ 8"
proof -
  obtain x res where x: "dec_mul (dec E) a (ln_network_fee_margin s) = Some x"
    and res: "probe E (tick s) pr (ln_network_fee_margin s) = Some res"
    using assms(2) by (auto simp: estimate_fee_def Let_def elim!: bind_SomeE)
  have "0 \<le> x" using mul_sign [OF assms(3,4) x] .
  then have margin: "\<exists>k. 0 \<le> k \<and> away_dp 8 x = of_int k / 10 ^ 8"
    by (auto simp: away_dp_def intro: exI [of _ "\<lceil>x * 10 ^ 8\<rceil>"])
  have route: "\<exists>k. 0 \<le> k \<and> fee = of_int k / 10 ^ 8"
    if r: "res = Inr (r # rs)" and y: "dec_add (dec E) (of_int (sint r)) 1 = Some y"
      and fee: "dec_div (dec E) y 100000000 = Some fee" for r rs y
  proof -
    have nonneg: "0 \<le> sint r"
      using res r assms(1)
      by (auto simp: probe_def lnd_fees_ok_def Let_def elim!: bind_SomeE split: option.split_asm sum.split_asm)
        (metis list.pred_inject(2))
    from route_fee [OF y fee] nonneg show ?thesis by (intro exI [of _ "sint r + 1"]) simp
  qed
  from assms(2) x res show ?thesis
    using margin route
    by (auto simp: estimate_fee_def round_away SATS_DECIMALS_def Let_def simp del: of_int_sint elim!: bind_SomeE
        split: sum.split_asm list.split_asm)
qed

text \<open>What the node charges for a task is at most the fee the task reserves.\<close>

lemma payment_task_fee:
  assumes "lnd_fees_ok E" "0 \<le> k" "pt_estimated_fee_in_sats t = of_int k"
    and "payment_task E n t = Some (MsgBank (PaymentResultMsg res))" "pres_is_success res"
  shows "\<exists>f. prs_amount (pres_payment_response res) = Some (pt_amount_in_btc t) \<and>
    prs_fees (pres_payment_response res) = Some f \<and> mon_value f \<le> of_int k / 10 ^ 8 \<and>
    pres_amount res = pt_outbound_amount_in_btc_plus_max_fees t"
proof -
  obtain r f where pay: "pay_invoice E n (Some (pt_payment_req t)) (pt_amount_in_sats t) None (Some (of_int k)) = Some (Inr r)"
    and f: "money_from_sats (dec E) (signed (payr_fee r)) = Some f"
    and res: "prs_amount (pres_payment_response res) = Some (pt_amount_in_btc t)"
      "prs_fees (pres_payment_response res) = Some f" "pres_amount res = pt_outbound_amount_in_btc_plus_max_fees t"
    using assms(3-5)
    by (auto simp: payment_task_def payment_result_def elim!: bind_SomeE split: sum.split_asm)
  have "sint (payr_fee r) \<le> k"
    using pay assms(1,2) fee_in_sats_int [OF assms(2)]
    by (auto simp: pay_invoice_def Let_def lnd_fees_ok_def split: option.split_asm if_split_asm) fastforce+
  then have "mon_value f \<le> of_int k / 10 ^ 8"
    using sats_amount(4) [OF f] by (simp add: divide_right_mono del: of_int_sint)
  with res show ?thesis by blast
qed

lemma from_btc_int: "mon_value (money_from_btc (dec E) (of_int k / 10 ^ 8)) = of_int k / 10 ^ 8"
proof -
  have g: "grid 8 (of_int k / 10 ^ 8 :: rat)" by (simp add: grid_def)
  have "trunc_dp 12 (of_int k / 10 ^ 8 :: rat) = of_int k / 10 ^ 8"
    by (rule trunc_dp_grid [OF grid_mono [OF g]]) simp
  then show ?thesis
    by (simp only: money_from_btc_def money_normalized_value_def round_to_zero currency_dp.simps Money.simps)
qed

lemma try_sats_int:
  assumes "0 \<le> k" "k \<le> 10 ^ 20"
  shows "money_try_sats (dec E) (money_from_btc (dec E) (of_int k / 10 ^ 8)) = Some (Inr (of_int k))"
proof -
  have k: "(of_int k :: rat) \<le> 10 ^ 20" using assms(2) by (metis of_int_le_iff of_int_numeral of_int_power)
  then have "(of_int k :: rat) * 10 ^ 8 < 2 ^ 96" by simp
  moreover have "is_integer (of_int k * 100000000 :: rat)"
    by (metis is_integer_of_int of_int_mult of_int_numeral)
  ultimately have "dec_repr 8 (of_int k / 10 ^ 8)" "dec_repr 0 SATS_IN_BITCOIN" "dec_repr (8 + 0) (of_int k / 10 ^ 8 * SATS_IN_BITCOIN)"
    using assms(1) k by (auto simp: dec_repr_def grid_def SATS_IN_BITCOIN_def) (simp_all add: is_integer_def)
  then have m: "dec_mul (dec E) (of_int k / 10 ^ 8) SATS_IN_BITCOIN = Some (of_int k / 10 ^ 8 * SATS_IN_BITCOIN)"
    by (rule mul_exact)
  have c: "mon_currency (money_from_btc (dec E) (of_int k / 10 ^ 8)) = BTC" by (simp add: money_from_btc_def)
  show ?thesis
    unfolding money_try_sats_def from_btc_int c m by (simp add: SATS_IN_BITCOIN_def)
qed

end

section \<open>What a started payment has taken from the user\<close>

lemma put_accounts_elsewhere:
  "put_accounts xs s = Some s' \<Longrightarrow> \<forall>x \<in> set xs. fst x \<noteq> q \<Longrightarrow> ledger_get q i (ledger s') = ledger_get q i (ledger s)"
  by (induction xs s rule: put_accounts.induct) (auto simp: bind_Some_conv put_account_get)

text \<open>The account of the user and the amount of the debit are in range.\<close>

definition debit_ready :: "PaymentPlan \<Rightarrow> Account \<Rightarrow> bool" where
  "debit_ready pp out \<longleftrightarrow> grid 12 (balance out) \<and> small (balance out) \<and> grid 12 (mon_value (pp_outbound pp)) \<and>
     mon_value (pp_outbound pp) \<le> balance out"

definition debited :: "PaymentPlan \<Rightarrow> Account \<Rightarrow> bank \<Rightarrow> bool" where
  "debited pp out s \<longleftrightarrow> 0 < mon_value (pp_outbound pp) \<and> ledger_get (PUser (prq_uid (pp_msg pp))) (account_id out) (ledger s) =
     Some (out\<lparr>balance := balance out - mon_value (pp_outbound pp)\<rparr>)"

context env_ok
begin

lemma debit_tx:
  assumes "make_tx E out u inn v (pp_outbound pp) s = Some (Inr txid, out', inn', s')" "debit_ready pp out"
    and "grid 12 (balance inn)" "small (balance inn)"
  shows "out' = out\<lparr>balance := balance out - mon_value (pp_outbound pp)\<rparr>" "0 < mon_value (pp_outbound pp)"
proof -
  show pos: "0 < mon_value (pp_outbound pp)" using make_tx_frame(12) [OF assms(1)] by blast
  with assms(2) have "small (mon_value (pp_outbound pp))" unfolding debit_ready_def small_def by linarith
  with assms show "out' = out\<lparr>balance := balance out - mon_value (pp_outbound pp)\<rparr>"
    by (intro make_tx_recorded_spec(1)) (auto simp: debit_ready_def)
qed

lemma debit_btc_debits:
  assumes "debit_btc E pp resp out l s = Some (True, s')" "debit_ready pp out" "grid 12 (balance l)" "small (balance l)"
  shows "debited pp out s'"
proof -
  let ?u = "prq_uid (pp_msg pp)"
  obtain txid out' l' s1 s2 r where tx: "make_tx E out ?u l BANK_UID (pp_outbound pp) s = Some (Inr txid, out', l', s1)"
    and put: "put_accounts [(PLiab, l'), (PUser ?u, out')] s1 = Some s2" and L: "ledger s' = ledger s2"
    using assms(1)
    by (auto simp: debit_btc_def Let_def elim!: bind_SomeE split: sum.split_asm prod.split_asm dest!: make_summary_tx_ledger)
  note out' = debit_tx [OF tx assms(2-4)]
  have "ledger_get (PUser ?u) (account_id out') (ledger s2) = Some out'"
    using put by (auto simp: put_account_get elim!: bind_SomeE)
  with out' show ?thesis by (simp add: debited_def L)
qed

lemma debit_fiat_debits:
  assumes "debit_fiat E pp out l s = Some (True, s')" "debit_ready pp out" "bank_ok E s" "balances_small (ledger s)"
  shows "debited pp out s'"
proof -
  let ?u = "prq_uid (pp_msg pp)"
  obtain dl s1 txid out' dl' s2 s3 s4 xs where
    dl: "default_account E PDealer (prq_currency (pp_msg pp)) (Some Internal) s = Some (dl, s1)"
    and tx: "make_tx E out ?u dl DEALER_UID (pp_outbound pp) s1 = Some (Inr txid, out', dl', s2)"
    and put: "put_accounts ((PUser ?u, out') # xs) s3 = Some s4" "\<forall>x \<in> set xs. fst x \<noteq> PUser ?u" and L: "ledger s' = ledger s4"
    using assms(1)
    by (auto simp: debit_fiat_def Let_def elim!: bind_SomeE split: sum.split_asm prod.split_asm dest!: make_summary_tx_ledger
        simp del: put_accounts.simps)
  note spec = default_account_spec [OF assms(3) dl]
  have "grid 12 (balance dl)" "small (balance dl)"
    using keeps_ok [OF spec(1)] spec(2) spec(6) [OF assms(4)] ledger_ok_get(2) by (auto simp: balances_small_def bank_ok_def)
  note out' = debit_tx [OF tx assms(2) this]
  obtain t where t: "put_account (PUser ?u) out' s3 = Some t" "put_accounts xs t = Some s4" using put(1) by (auto elim!: bind_SomeE)
  have "ledger_get (PUser ?u) (account_id out') (ledger s4) = Some out'"
    using put_accounts_elsewhere [OF t(2) put(2)] put_account_get [OF t(1)] by simp
  with out' show ?thesis by (simp add: debited_def L)
qed

lemma pay_external_debits:
  assumes ext: "pay_external E pp resp out s = Some s'" and new: "t \<in> set (payment_threads s')" "t \<notin> set (payment_threads s)"
    and ready: "debit_ready pp out" and ok: "bank_ok E s" "balances_small (ledger s)"
  shows "debited pp out s'"
proof -
  obtain l s1 go s2 where l: "default_account E PLiab BTC (Some External) s = Some (l, s1)"
    and debit: "(if prq_currency (pp_msg pp) \<noteq> BTC then debit_fiat E pp out l s1 else debit_btc E pp resp out l s1) = Some (go, s2)"
    and rest: "if go then spawn_payment E pp s2 = Some s' else s' = s2"
    using ext by (auto simp: pay_external_def elim!: bind_SomeE split: if_split_asm)
  note spec = default_account_spec [OF ok(1) l]
  have ok1: "bank_ok E s1" "balances_small (ledger s1)" using keeps_ok [OF spec(1)] spec(6) [OF ok(2)] by simp_all
  have l1: "grid 12 (balance l)" "small (balance l)"
    using ok1 spec(2) ledger_ok_get(2) by (auto simp: balances_small_def bank_ok_def)
  have "payment_threads s2 = payment_threads s"
    using debit spec(12) by (auto split: if_split_asm dest!: debit_threads)
  with new rest have go: go by (auto split: if_split_asm)
  then have "debited pp out s2"
    using debit ready ok1 l1 by (auto split: if_split_asm intro: debit_btc_debits debit_fiat_debits)
  moreover have "ledger s' = ledger s2" using go rest by (auto simp: spawn_payment_def elim!: bind_SomeE)
  ultimately show ?thesis by (simp add: debited_def)
qed

lemma money_exchange_at_one:
  assumes "money_exchange (dec E) m (rate_new (dec E) c c 1) = Some (Inr m')" "mon_currency m = c"
    and "grid 12 (mon_value m)" "small (mon_value m)" "money_ok m"
  shows "m' = m"
proof -
  have "trunc_dp 12 1 = 1" by (rule trunc_dp_grid) (simp add: grid_def is_integer_def)
  moreover have "dec_mul (dec E) (mon_value m) 1 = Some (mon_value m * 1)"
    using assms by (intro mul_exact [of 12 _ 0] ) (auto simp: small_def dec_repr_def grid_def is_integer_def abs_mult)
  ultimately show ?thesis
    using assms(1,2,5)
    by (cases m) (auto simp: money_exchange_def rate_new_def rate_normalized_value_def RATE_DP_def round_to_zero money_new_def
        money_ok_def trunc_dp_grid)
qed

end

lemma estimate_fee_bumps: "estimate_fee E p a s = Some (fee, s') \<Longrightarrow> s' = bump (bump s)"
  by (auto simp: estimate_fee_def Let_def elim!: bind_SomeE split: sum.split_asm list.split_asm)

text \<open>
  C13. The bank's assertion on fees never fails: when an external payment was started for an invoice and
  the node reports success, the amount paid and the fees charged are at most the reserve of the payment,
  provided the node respects the fee limit it is given; and the ledger shows that this reserve had been
  taken from the user when the payment was started: the user's account has lost exactly its value at the
  rate of the payment, which is positive, and for a payment in BTC, where the rate is one, is
  the reserve itself.
\<close>

theorem payment_result_covered:
  assumes "env_ok E" "lnd_fees_ok E" "bank_ok E s" "balances_small (ledger s)"
    and "0 \<le> mon_value (pp_amount_in_btc pp)" "mon_value (pp_amount_in_btc pp) \<le> 10 ^ 12"
    and "grid 8 (mon_value (pp_amount_in_btc pp))"
    and "0 \<le> ln_network_fee_margin s" "ln_network_fee_margin s \<le> 1"
    and "ledger_get (PUser (prq_uid (pp_msg pp))) (account_id out) (ledger s) = Some out"
    and "inv_owner iv = None" "pay_invoice_row E pp iv out resp s = Some s'"
    and "t \<in> set (payment_threads s')" "t \<notin> set (payment_threads s)"
    and "payment_task E n t = Some (MsgBank (PaymentResultMsg res))" "pres_is_success res"
  shows "\<exists>a f debit. prs_amount (pres_payment_response res) = Some a \<and> prs_fees (pres_payment_response res) = Some f \<and>
    mon_value a + mon_value f \<le> mon_value (pres_amount res) \<and>
    money_exchange (dec E) (pres_amount res) (pp_rate pp) = Some (Inr debit) \<and> 0 < mon_value debit \<and>
    ledger_get (PUser (prq_uid (pp_msg pp))) (account_id out) (ledger s') =
      Some (out\<lparr>balance := balance out - mon_value debit\<rparr>) \<and>
    (pp_rate pp = rate_new (dec E) BTC BTC 1 \<longrightarrow> debit = pres_amount res)"
proof -
  let ?a = "mon_value (pp_amount_in_btc pp)"
  obtain fee s1 total outb where fee: "estimate_fee E (pp_payment_request pp) ?a s = Some (fee, s1)"
    and total: "dec_add (dec E) ?a (mon_value (money_from_btc (dec E) fee)) = Some total"
    and outb: "money_exchange (dec E) (money_from_btc (dec E) total) (pp_rate pp) = Some (Inr outb)" "mon_value outb \<le> balance out"
    and ext: "pay_external E (pp\<lparr>pp_estimated_fee_in_btc := money_from_btc (dec E) fee,
      pp_outbound_btc := money_from_btc (dec E) total, pp_outbound := outb\<rparr>) resp out s1 = Some s'"
    using assms(11-14)
    by (auto simp: pay_invoice_row_def api_payment_def Let_def estimate_fee_threads unwrap_def not_less
        elim!: bind_SomeE split: if_split_asm prod.split_asm sum.split_asm)
  obtain k where k: "0 \<le> k" "fee = of_int k / 10 ^ 8"
    using env_ok.estimate_fee_sats [OF assms(1,2) fee assms(5,8)] by blast
  have "fee \<le> 10 ^ 12"
    using env_ok.estimate_fee_bound [OF assms(1) fee assms(5-9)] by simp
  then have "k \<le> 10 ^ 20"
    using k(2) by (simp add: field_simps)
  note sats = env_ok.try_sats_int [OF assms(1) k(1) this]
  have t: "pt_amount_in_btc t = pp_amount_in_btc pp"
    "pt_outbound_amount_in_btc_plus_max_fees t = money_from_btc (dec E) total"
    "pt_estimated_fee_in_sats t = of_int k"
    using pay_external_threads [OF ext assms(13)] assms(14) estimate_fee_threads [OF fee] sats k(2) by auto
  have "mon_value (money_from_btc (dec E) fee) = of_int k / 10 ^ 8"
    unfolding k(2) by (rule env_ok.from_btc_int [OF assms(1)])
  note total' = env_ok.payment_amounts [OF assms(1) fee assms(5-9) total]
  have s1: "s1 = bump (bump s)" by (rule estimate_fee_bumps [OF fee])
  have ok1: "bank_ok E s1" "balances_small (ledger s1)" using assms(3,4) by (auto simp: s1 bank_ok_def intro: ledger_ok_mono)
  have "grid 12 (balance out)" "small (balance out)"
    using assms(3,4,10) ledger_ok_get(2) by (auto simp: balances_small_def bank_ok_def)
  then have "debit_ready (pp\<lparr>pp_estimated_fee_in_btc := money_from_btc (dec E) fee,
      pp_outbound_btc := money_from_btc (dec E) total, pp_outbound := outb\<rparr>) out"
    using outb decimal.money_exchange_grid [OF env_ok.dec_ok [OF assms(1)]] by (simp add: debit_ready_def)
  from env_ok.pay_external_debits [OF assms(1) ext assms(13) _ this ok1] assms(14)
  have debit: "0 < mon_value outb" "ledger_get (PUser (prq_uid (pp_msg pp))) (account_id out) (ledger s') =
      Some (out\<lparr>balance := balance out - mon_value outb\<rparr>)"
    by (simp_all add: debited_def s1)
  have one: "outb = money_from_btc (dec E) total" if "pp_rate pp = rate_new (dec E) BTC BTC 1"
    using env_ok.money_exchange_at_one [OF assms(1) outb(1) [unfolded that]] total'(1,2)
      decimal.money_from_btc_ok [OF env_ok.dec_ok [OF assms(1)]] by (simp add: money_from_btc_def)
  show ?thesis
    using env_ok.payment_task_fee [OF assms(1,2) k(1) t(3) assms(15,16)] t total'(3) outb(1) debit one
      \<open>mon_value (money_from_btc (dec E) fee) = of_int k / 10 ^ 8\<close>
    by auto
qed

definition fee_env :: env where
  "fee_env = env96\<lparr>lnd_send_payment_sync := (\<lambda>_ pr limit. Some \<lparr>sr_payment_error = [], sr_route_total_fees = Some limit,
     sr_payment_hash = ''hash'', sr_payment_preimage = ''pre''\<rparr>)\<rparr>"

definition sample_plan :: PaymentPlan where
  "sample_plan = \<lparr>pp_msg = sample_outgoing, pp_payment_request = ''lnbc'', pp_amount_in_sats = 1000,
     pp_amount_in_btc = \<lparr>mon_value = 1 / 100000, mon_currency = BTC\<rparr>, pp_rate = rate_new dec96 BTC BTC 1,
     pp_estimated_fee_in_btc = money_zero dec96 BTC, pp_outbound_btc = money_zero dec96 BTC,
     pp_outbound = money_zero dec96 BTC, pp_outbound_username = ''alice'', pp_inbound_username = ''bob''\<rparr>"

definition plan_started :: "bank option" where
  "plan_started = pay_invoice_row fee_env sample_plan (sample_row\<lparr>inv_owner := None\<rparr>)
     (sample_acc 11 (1 / 2) BTC Internal) (payment_response_error ''hash'' InsufficientFunds 7 1 (Some ''lnbc'') BTC None) sample_bank"

lemma fee_env_ok: "env_ok fee_env" "lnd_fees_ok fee_env"
proof -
  show "env_ok fee_env" using env96.env_ok_axioms by (simp add: env_ok_def fee_env_def)
  show "lnd_fees_ok fee_env" by (simp add: fee_env_def lnd_fees_ok_def env96_def)
qed

theorem payment_result_covered_witness:
  "\<exists>s' t res a f. plan_started = Some s' \<and> payment_threads s' = [t] \<and>
     payment_task fee_env 0 t = Some (MsgBank (PaymentResultMsg res)) \<and> pres_is_success res \<and>
     prs_amount (pres_payment_response res) = Some a \<and> prs_fees (pres_payment_response res) = Some f \<and>
     mon_value a + mon_value f \<le> mon_value (pres_amount res) \<and>
     map_option balance (ledger_get (PUser 1) 11 (ledger s')) = Some (1 / 2 - mon_value (pres_amount res))"
proof -
  have "(case plan_started of Some s' \<Rightarrow>
      (case payment_threads s' of
         [t] \<Rightarrow> (case payment_task fee_env 0 t of Some (MsgBank (PaymentResultMsg res)) \<Rightarrow> pres_is_success res | _ \<Rightarrow> False)
       | _ \<Rightarrow> False)
    | None \<Rightarrow> False)"
    by code_simp
  then obtain s' t res where run: "plan_started = Some s'" "payment_threads s' = [t]"
    "payment_task fee_env 0 t = Some (MsgBank (PaymentResultMsg res))" "pres_is_success res"
    by (auto split: option.split_asm list.split_asm Message.split_asm BankMsg.split_asm)
  have plan: "0 \<le> mon_value (pp_amount_in_btc sample_plan)" "mon_value (pp_amount_in_btc sample_plan) \<le> 10 ^ 12"
    "grid 8 (mon_value (pp_amount_in_btc sample_plan))" "pp_rate sample_plan = rate_new (dec fee_env) BTC BTC 1"
    "prq_uid (pp_msg sample_plan) = 1"
    by (simp_all add: sample_plan_def grid_def is_integer_def fee_env_def sample_outgoing_def sample_payment_def)
  have bank: "0 \<le> ln_network_fee_margin sample_bank" "ln_network_fee_margin sample_bank \<le> 1" "payment_threads sample_bank = []"
    "ledger_get (PUser 1) 11 (ledger sample_bank) = Some (sample_acc 11 (1 / 2) BTC Internal)"
    by (simp_all add: sample_defs ledger_get_def)
  have ok: "bank_ok fee_env sample_bank" "balances_small (ledger sample_bank)"
    using sample_bank_ok ledger_small_balances [OF sample_bank_small]
    by (simp_all add: bank_ok_def ledger_ok_def accs_ok_def fee_env_def)
  have acc: "account_id (sample_acc 11 (1 / 2) BTC Internal) = 11" "balance (sample_acc 11 (1 / 2) BTC Internal) = 1 / 2"
    by (simp_all add: sample_acc_def)
  from payment_result_covered [OF fee_env_ok ok plan(1-3) bank(1,2) _ _ run(1) [unfolded plan_started_def] _ _ run(3,4)]
    run bank(3,4) plan(4,5) acc
  show ?thesis by fastforce
qed

end
