(* ===== verification/BankSwap.thy ===== *)
theory BankSwap
  imports BankInternal
begin

text \<open>
  Swaps between two currencies of a user (\<open>Api::SwapRequest\<close>, \<open>Api::SwapResponse\<close> of
  \<open>bank/src/bank_engine.rs\<close>), the balance query and the savings plan rebalancing
  (\<open>Api::GetBalances\<close>, \<open>Bank::DcaRebalance\<close>). A swap moves the amount from the user to
  the dealer in the source currency and the exchanged amount from the dealer to the user in the
  target currency.
\<close>

section \<open>Definitions\<close>

definition api_swap :: "SwapResponse \<Rightarrow> bank \<Rightarrow> bank" where
  "api_swap r s = listener (MsgApi (SwapResponseMsg r)) Api s"

definition swap_failed :: "SwapResponse \<Rightarrow> SwapResponseError \<Rightarrow> bank \<Rightarrow> bank" where
  "swap_failed r e s = api_swap (r\<lparr>srs_success := False, srs_error := Some e\<rparr>) s"

text \<open>From the account checks on; \<open>rate\<close> is the rate of the dealer's answer.\<close>

definition book_swap :: "env \<Rightarrow> SwapResponse \<Rightarrow> Rate \<Rightarrow> Account \<Rightarrow> Account \<Rightarrow> bank \<Rightarrow> bank option" where
  "book_swap E msg rate outbound_account inbound_account s = do {
     let uid = srs_uid msg;
     (outbound_dealer_account, s) \<leftarrow> default_account E PDealer (srs_to msg) (Some Internal) s;
     (inbound_dealer_account, s) \<leftarrow> default_account E PDealer (srs_from msg) (Some Internal) s;
     if balance outbound_account < mon_value (srs_amount msg)
     then Some (swap_failed msg NotEnoughAvailableBalance s)
     else do {
       (r, outbound_account, inbound_dealer_account, s) \<leftarrow>
         make_tx E outbound_account uid inbound_dealer_account DEALER_UID (srs_amount msg) s;
       (case r of
          Inl _ \<Rightarrow> Some (swap_failed msg SwapTransactionFailed s)
        | Inr outbound_txid \<Rightarrow> do {
            exchanged \<leftarrow> money_exchange (dec E) (srs_amount msg) rate;
            inbound_amount \<leftarrow> unwrap exchanged;
            (r, outbound_dealer_account, inbound_account, s) \<leftarrow>
              make_tx E outbound_dealer_account DEALER_UID inbound_account uid inbound_amount s;
            (case r of
               Inl _ \<Rightarrow> Some (swap_failed msg SwapTransactionFailed s)
             | Inr inbound_txid \<Rightarrow> do {
                 s \<leftarrow> put_accounts [(PUser uid, outbound_account), (PUser uid, inbound_account),
                   (PDealer, outbound_dealer_account), (PDealer, inbound_dealer_account)] s;
                 let s = update_account E outbound_account uid s;
                 let s = update_account E inbound_account uid s;
                 let s = update_account E outbound_dealer_account DEALER_UID s;
                 let s = update_account E inbound_dealer_account DEALER_UID s;
                 let s = api_swap msg s;
                 s \<leftarrow> send_bank_state E s;
                 (r, s) \<leftarrow> make_summary_tx E outbound_account uid inbound_account uid (srs_amount msg)
                   (Some rate) None (Some outbound_txid) (Some inbound_txid) None (Some ''Swap'') None None s;
                 Some s }) }) } }"

definition process_swap_response :: "env \<Rightarrow> SwapResponse \<Rightarrow> bank \<Rightarrow> bank option" where
  "process_swap_response E msg s =
     (if srs_error msg \<noteq> None \<or> \<not> srs_success msg then Some (api_swap msg s)
      else if srs_to msg \<notin> set (available_currencies s)
      then Some (swap_failed msg SwapCurrencyNotAvailable s)
      else case srs_rate msg of
        None \<Rightarrow> Some (swap_failed msg SwapCurrencyNotAvailable s)
      | Some rate \<Rightarrow>
          (case default_account E (PUser (srs_uid msg)) (srs_from msg) None s of
             None \<Rightarrow> Some (swap_failed msg SwapUserAccountNotFound s)
           | Some (outbound_account, s) \<Rightarrow> do {
               (inbound_account, s) \<leftarrow> default_account E (PUser (srs_uid msg)) (srs_to msg) None s;
               if account_id outbound_account = account_id inbound_account
               then Some (swap_failed msg SwapInvalid s)
               else book_swap E msg rate outbound_account inbound_account s }))"

text \<open>An account is created for every available currency, in order.\<close>

fun ensure_accounts :: "env \<Rightarrow> user_id \<Rightarrow> Currency list \<Rightarrow> bank \<Rightarrow> bank option" where
  "ensure_accounts E u [] s = Some s"
| "ensure_accounts E u (c # cs) s = do {
     (a, s) \<leftarrow> default_account E (PUser u) c (Some Internal) s;
     ensure_accounts E u cs s }"

definition process_get_balances :: "env \<Rightarrow> GetBalances \<Rightarrow> bank \<Rightarrow> bank option" where
  "process_get_balances E msg s = do {
     let u = gb_uid msg;
     let s = ensure_user u s;
     s \<leftarrow> ensure_accounts E u (available_currencies s) s;
     ua \<leftarrow> ledger_ua (PUser u) (ledger s);
     let visible = filter (\<lambda>(i, a). acc_currency a \<noteq> KKP) (accounts ua);
     Some (listener (MsgApi (BalancesMsg \<lparr>bal_req_id = gb_req_id msg, bal_uid = u, bal_accounts = visible\<rparr>))
       (if u = DEALER_UID then Dealer else Api) s) }"

text \<open>One swap request to the bank itself per user with a savings plan at this interval.\<close>

fun dca_requests :: "env \<Rightarrow> DcaSetting list \<Rightarrow> bank \<Rightarrow> bank option" where
  "dca_requests E [] s = Some s"
| "dca_requests E (user # users) s = do {
     from_currency \<leftarrow> unwrap (currency_from_str (dca_from_currency user));
     to_currency \<leftarrow> unwrap (currency_from_str (dca_to_currency user));
     amount \<leftarrow> dec_of_big (dec E) (dca_amount user);
     let (r, s) = new_uuid E s;
     dca_requests E users (listener (MsgApi (SwapRequestMsg \<lparr>
       srq_req_id = r,
       srq_uid = as_u64 (dca_uid user),
       srq_amount = money_new (dec E) from_currency amount,
       srq_from = from_currency,
       srq_to = to_currency,
       srq_quote_id = None \<rparr>)) Loopback s) }"

definition process_dca_rebalance :: "env \<Rightarrow> string \<Rightarrow> bank \<Rightarrow> bank option" where
  "process_dca_rebalance E interval_name s =
     (let (conn, s) = get_conn E s in
      if \<not> conn then Some s
      else case query E (\<lambda>d. Some (dca_get_by_interval interval_name d)) s of
        (None, s) \<Rightarrow> Some s
      | (Some relevant_users, s) \<Rightarrow> dca_requests E relevant_users s)"

section \<open>Swaps keep the books\<close>

lemma quiet_swap [simp]:
  "quiet s (api_swap r t) = quiet s t" "quiet s (swap_failed r e t) = quiet s t"
  by (simp_all add: api_swap_def swap_failed_def)

lemma filter_update_fresh:
  "filter (\<lambda>p. P (snd p)) xs = [] \<Longrightarrow> P v \<Longrightarrow> filter (\<lambda>p. P (snd p)) (AList.update k v xs) = [(k, v)]"
  by (induction xs) (auto split: if_splits)

text \<open>Asking twice for the same default account gives the same account.\<close>

lemma get_default_account_again:
  assumes "get_default_account E n ua cur aty = (a, ua', n')" "get_default_account E m ua' cur aty = (b, ua'', m')"
  shows "b = a"
proof (cases "filter (\<lambda>p. account_matches cur aty (snd p)) (accounts ua) = []")
  case False
  with assms show ?thesis by (auto simp: get_default_account_def Let_def)
next
  case True
  have "account_matches cur aty (account_new (new_v4 E n) cur (case aty of Some t \<Rightarrow> t | None \<Rightarrow> Internal) Cash)"
    by (simp add: account_matches_def account_new_def split: option.split)
  with True assms filter_update_fresh [OF True] show ?thesis
    by (auto simp: get_default_account_def Let_def)
qed

lemma default_account_again:
  assumes "default_account E p cur aty s = Some (a, s')" "default_account E p cur aty s' = Some (b, s'')"
  shows "b = a"
proof -
  obtain ua ua' n where ua: "get_default_account E (tick s) ua cur aty = (a, ua', n)"
    and s': "ledger s' = ledger_set_ua p ua' (ledger s)"
    using assms(1) by (auto simp: default_account_def ledger_default_def split: option.splits prod.splits)
  obtain ua'' m where "get_default_account E (tick s') ua' cur aty = (b, ua'', m)"
    using assms(2) s' by (auto simp: default_account_def ledger_default_def split: option.splits prod.splits)
  with ua show ?thesis by (rule get_default_account_again)
qed

lemma distinct_accounts_currencies:
  assumes "default_account E p c aty s = Some (a, s')" "default_account E p c' aty s' = Some (b, s'')"
    and "account_id a \<noteq> account_id b"
  shows "c \<noteq> c'"
  using assms default_account_again by blast

context env_ok
begin

lemma walk_book_swap:
  assumes "(PUser (srs_uid msg), out) \<in> set cs" "(PUser (srs_uid msg), inn) \<in> set cs"
    and "acc_currency out = srs_from msg" "acc_currency inn = srs_to msg"
    and "srs_from msg \<noteq> srs_to msg" "account_id out \<noteq> account_id inn" "small (balance out)"
    and "money_ok (srs_amount msg)"
    and "\<And>x. money_exchange (dec E) (srs_amount msg) rate = Some (Inr x) \<Longrightarrow> small (mon_value x)"
  shows "walk (in_sync E s0 cs) s (keeps E s0) (book_swap E msg rate out inn s)"
proof -
  have cs: "out \<in> snd ` set cs" "inn \<in> snd ` set cs" using assms(1,2) by force+
  show ?thesis
    unfolding book_swap_def
    by (intro walk_rules)
      (simp_all add: cs assms(1-6,8) assms(5) [symmetric] money_ok_grid_12
        small_below [OF assms(7)]
        | erule money_exchange_grid | erule assms(9)
        | rule balanced_quad, assumption+, simp_all add: balanced_defs assms(1-6) assms(5) [symmetric])+
qed

lemma process_swap_response_keeps:
  assumes "bank_ok E s" "balances_small (ledger s)" "money_ok (srs_amount m)"
    and "\<And>rate x. srs_rate m = Some rate \<Longrightarrow>
      money_exchange (dec E) (srs_amount m) rate = Some (Inr x) \<Longrightarrow> small (mon_value x)"
  shows "ens (keeps E s) (process_swap_response E m s)"
  unfolding process_swap_response_def
  by (rule walk_start [OF assms(1,2)], intro walk_rules)
    (simp_all | rule walk_book_swap; (assumption | simp add: assms(3,4) distinct_accounts_currencies))+

end

end
