(* ===== verification/BankInvoice.thy ===== *)
theory BankInvoice
  imports BankInternal
begin

text \<open>
  Invoices (\<open>bank/src/bank_engine.rs\<close>): requests of users (\<open>Api::InvoiceRequest\<close>, with
  the dealer's answer \<open>Api::InvoiceResponse\<close> when the amount is in a fiat currency), invoices
  for the dealer's own deposits and payments of invoices on the dealer's behalf. An invoice is
  created by the Lightning node and stored with the user and the account it is for.
\<close>

section \<open>Definitions\<close>

definition new_invoice ::
  "env \<Rightarrow> u64 \<Rightarrow> string \<Rightarrow> user_id \<Rightarrow> uuid \<Rightarrow> string option \<Rightarrow> bank \<Rightarrow>
     ((LndConnectorError + Invoice) \<times> bank) option" where
  "new_invoice E amount memo uid account_id' metadata s = do {
     r \<leftarrow> create_invoice E (tick s) amount memo uid account_id' metadata;
     Some (r, bump (bump s)) }"

definition api_invoice :: "InvoiceResponse \<Rightarrow> bank \<Rightarrow> bank" where
  "api_invoice r s = listener (MsgApi (InvoiceResponseMsg r)) Api s"

text \<open>The response to a request without payment request, rate and fees, and the refusals.\<close>

definition invoice_response :: "InvoiceRequest \<Rightarrow> uuid option \<Rightarrow> InvoiceResponse" where
  "invoice_response msg acc = \<lparr>
     irs_req_id = irq_req_id msg,
     irs_uid = irq_uid msg,
     irs_payment_hash = None,
     irs_payment_request = None,
     irs_meta = irq_meta msg,
     irs_metadata = irq_metadata msg,
     irs_amount = irq_amount msg,
     irs_rate = None,
     irs_currency = irq_currency msg,
     irs_target_account_currency = irq_target_account_currency msg,
     irs_account_id = acc,
     irs_error = None,
     irs_fees = None \<rparr>"

definition refuse_invoice :: "InvoiceRequest \<Rightarrow> uuid option \<Rightarrow> InvoiceResponseError \<Rightarrow> bank \<Rightarrow> bank" where
  "refuse_invoice msg acc e s = api_invoice ((invoice_response msg acc)\<lparr>irs_error := Some e\<rparr>) s"

text \<open>
  The end of the request handler: the node creates the invoice and the bank stores it. If the node
  fails, there is no answer.
\<close>

definition issue_invoice :: "env \<Rightarrow> InvoiceRequest \<Rightarrow> uuid \<Rightarrow> bank \<Rightarrow> bank option" where
  "issue_invoice E msg acc s = do {
     sats \<leftarrow> money_try_sats (dec E) (irq_amount msg);
     sats \<leftarrow> unwrap sats;
     amount_in_sats \<leftarrow> dec_to_u64 (dec E) sats;
     (r, s) \<leftarrow> new_invoice E amount_in_sats (irq_meta msg) (irq_uid msg) acc (irq_metadata msg) s;
     (case r of
        Inl _ \<Rightarrow> Some s
      | Inr invoice \<Rightarrow> do {
          let invoice = invoice\<lparr>inv_currency := Some (currency_to_string (irq_currency msg)),
            inv_target_account_currency := map_option currency_to_string (irq_target_account_currency msg)\<rparr>;
          let (ok, s) = exec E (invoice_insert invoice) s;
          if \<not> ok then Some (refuse_invoice msg (Some acc) InvoiceDatabaseConnectionFailed s)
          else Some (api_invoice ((invoice_response msg (Some acc))\<lparr>
            irs_payment_request := Some (inv_payment_request invoice),
            irs_payment_hash := Some (inv_payment_hash invoice)\<rparr>) s) }) }"

text \<open>
  The account the invoice is for: the one the caller names, or the default account; in either case
  an identifier is drawn first for an account that is then dropped. \<open>Inl\<close> carries it.
\<close>

definition target_account ::
  "env \<Rightarrow> user_id \<Rightarrow> uuid option \<Rightarrow> Currency \<Rightarrow> bank \<Rightarrow> ((uuid + Account) \<times> bank) option" where
  "target_account E u acc cur s = do {
     let (fresh, s) = new_uuid E s;
     (case acc of
        Some i \<Rightarrow> (case ledger_get (PUser u) i (ledger s) of
            Some a \<Rightarrow> Some (Inr a, s)
          | None \<Rightarrow> Some (Inl fresh, s))
      | None \<Rightarrow> do {
          (a, s) \<leftarrow> default_account E (PUser u) cur None s;
          Some (Inr a, s) }) }"

definition process_invoice_request :: "env \<Rightarrow> InvoiceRequest \<Rightarrow> bank \<Rightarrow> bank option" where
  "process_invoice_request E msg s =
     (let (admitted, s) = check_deposit_request_rate_limit E (irq_uid msg) s in
      if \<not> admitted then Some (refuse_invoice msg None InvoiceRequestLimitExceeded s)
      else let s = ensure_user (irq_uid msg) s in
      if withdrawal_only s then Some (refuse_invoice msg None WithdrawalOnly s)
      else let (conn, s) = get_conn E s in
      if \<not> conn then Some (refuse_invoice msg None InvoiceDatabaseConnectionFailed s)
      else do {
        (r, s) \<leftarrow> target_account E (irq_uid msg) (irq_account_id msg) (irq_currency msg) s;
        (case r of
           Inl fresh \<Rightarrow> Some (refuse_invoice msg (Some fresh) AccountDoesNotExist s)
         | Inr target \<Rightarrow> do {
             let msg = (if acc_currency target \<noteq> irq_currency msg
                        then msg\<lparr>irq_target_account_currency := Some (acc_currency target)\<rparr> else msg);
             if irq_currency msg \<noteq> BTC
             then Some (listener (MsgApi (InvoiceRequestMsg msg)) Dealer s)
             else issue_invoice E msg (account_id target) s }) })"

definition refuse_quoted :: "InvoiceResponse \<Rightarrow> uuid option \<Rightarrow> InvoiceResponseError \<Rightarrow> bank \<Rightarrow> bank" where
  "refuse_quoted msg acc e s = api_invoice (msg\<lparr>irs_rate := None, irs_payment_request := None,
     irs_payment_hash := None, irs_account_id := acc, irs_error := Some e, irs_fees := None\<rparr>) s"

text \<open>The amount of a quoted invoice in satoshis, rounded up.\<close>

definition quoted_sats :: "env \<Rightarrow> Money \<Rightarrow> Rate \<Rightarrow> u64 option" where
  "quoted_sats E amount rate = do {
     amount_in_btc \<leftarrow> dec_div (dec E) (mon_value amount) (rate_value rate);
     sats \<leftarrow> money_try_sats (dec E) (money_from_btc (dec E) amount_in_btc);
     sats \<leftarrow> unwrap sats;
     dec_to_u64 (dec E) (dec_round (dec E) AwayFromZero 0 sats) }"

definition process_invoice_response :: "env \<Rightarrow> InvoiceResponse \<Rightarrow> bank \<Rightarrow> bank option" where
  "process_invoice_response E msg s =
     (case irs_rate msg of
        None \<Rightarrow> Some (api_invoice (msg\<lparr>irs_error := Some InvoiceRateNotAvailable\<rparr>) s)
      | Some rate \<Rightarrow> do {
          amount_in_sats \<leftarrow> quoted_sats E (irs_amount msg) rate;
          let (conn, s) = get_conn E s;
          if \<not> conn then Some (refuse_quoted msg None InvoiceDatabaseConnectionFailed s)
          else do {
            let s = ensure_user (irs_uid msg) s;
            (r, s) \<leftarrow> target_account E (irs_uid msg) (irs_account_id msg) BTC s;
            (case r of
               Inl fresh \<Rightarrow> Some (refuse_quoted msg (Some fresh) AccountDoesNotExist s)
             | Inr target \<Rightarrow> do {
                 (r, s) \<leftarrow> new_invoice E amount_in_sats (irs_meta msg) (irs_uid msg) (account_id target)
                   (irs_metadata msg) s;
                 (case r of
                    Inl _ \<Rightarrow> Some s
                  | Inr invoice \<Rightarrow> do {
                      let invoice = invoice\<lparr>inv_currency := Some (currency_to_string (irs_currency msg))\<rparr>;
                      let (ok, s) = exec E (invoice_insert invoice) s;
                      if \<not> ok then Some (refuse_quoted msg (Some (account_id target)) InvoiceDatabaseConnectionFailed s)
                      else Some (api_invoice (msg\<lparr>
                        irs_payment_request := Some (inv_payment_request invoice),
                        irs_payment_hash := Some (inv_payment_hash invoice),
                        irs_account_id := Some (account_id target),
                        irs_error := None\<rparr>) s) }) }) } })"

definition process_create_invoice_request :: "env \<Rightarrow> CreateInvoiceRequest \<Rightarrow> user_id \<Rightarrow> bank \<Rightarrow> bank option" where
  "process_create_invoice_request E req invoice_owner s =
     (let (conn, s) = get_conn E s in
      if \<not> conn then Some s
      else do {
        (place, kind) \<leftarrow> (if invoice_owner = BANK_UID then Some (PLiab, External)
                         else if invoice_owner = DEALER_UID then Some (PDealer, Internal)
                         else None);
        (a, s) \<leftarrow> default_account E place BTC (Some kind) s;
        (r, s) \<leftarrow> new_invoice E (cir_amount req) (cir_memo req) invoice_owner (account_id a) None s;
        (case r of
           Inl _ \<Rightarrow> Some s
         | Inr invoice \<Rightarrow> do {
             let (ok, s) = exec E (invoice_insert invoice) s;
             if \<not> ok then Some s
             else Some (listener (MsgDealer (CreateInvoiceResponseMsg \<lparr>
               cis_req_id = cir_req_id req,
               cis_amount = cir_amount req,
               cis_payment_request = inv_payment_request invoice \<rparr>)) Dealer s) }) })"

text \<open>
  \<open>process_dealer_invoice\<close>: the node pays; then the dealer's internal account is debited, in
  favour of the bank's liabilities or of the dealer's external account.
\<close>

definition process_dealer_invoice :: "env \<Rightarrow> PayInvoice \<Rightarrow> bool \<Rightarrow> bank \<Rightarrow> bank option" where
  "process_dealer_invoice E pay is_external s =
     (case parse_invoice E (pi_payment_request pay) of
        None \<Rightarrow> Some s
      | Some decoded \<Rightarrow> do {
          msat \<leftarrow> di_amount_milli_satoshis decoded;
          let amount_in_sats = of_int (sint msat) / 1000;
          r \<leftarrow> pay_invoice E (tick s) (Some (pi_payment_request pay)) amount_in_sats
            (Some (ln_network_max_fee s)) None;
          let s = bump s;
          (case r of
             Inl _ \<Rightarrow> Some s
           | Inr _ \<Rightarrow> do {
               let in_place = (if is_external then PLiab else PDealer);
               let inbound_uid = (if is_external then BANK_UID else DEALER_UID);
               (inbound_account, s) \<leftarrow> default_account E in_place BTC (Some External) s;
               (outbound_account, s) \<leftarrow> default_account E PDealer BTC (Some Internal) s;
               amount \<leftarrow> money_from_sats (dec E) amount_in_sats;
               (r, outbound_account, inbound_account, s) \<leftarrow>
                 make_tx E outbound_account DEALER_UID inbound_account inbound_uid amount s;
               (case r of
                  Inl _ \<Rightarrow> Some s
                | Inr _ \<Rightarrow> do {
                    let s = update_account E inbound_account inbound_uid s;
                    let s = update_account E outbound_account DEALER_UID s;
                    s \<leftarrow> put_accounts [(in_place, inbound_account), (PDealer, outbound_account)] s;
                    Some s }) }) })"

section \<open>Invoices keep the books\<close>

lemma quiet_invoice [simp]:
  "quiet s (api_invoice r t) = quiet s t" "quiet s (refuse_invoice m a e t) = quiet s t"
  "quiet s (refuse_quoted q a e t) = quiet s t"
  by (simp_all add: api_invoice_def refuse_invoice_def refuse_quoted_def)

lemma ens_quiet_new_invoice [simp]: "ens (\<lambda>x. quiet s (snd x)) (new_invoice E amount memo u a md s)"
  unfolding new_invoice_def by (intro ens_intros) simp

context env_ok
begin

lemma target_account_keeps:
  assumes "bank_ok E s" "balances_small (ledger s)"
  shows "ens (\<lambda>x. keeps E s (snd x)) (target_account E u acc cur s)"
  unfolding target_account_def
  by (rule walk_start [OF assms(1,2)], intro walk_rules) simp_all

text \<open>After the choice of the target account no handler of this theory touches the ledger.\<close>

lemma walk_target_account:
  assumes "\<And>r s'. walk (keeps E s0) s' P (f r s')"
  shows "walk (in_sync E s0 cs) s P (Option.bind (target_account E u acc cur s) (\<lambda>(r, s'). f r s'))"
  using target_account_keeps assms by (rule walk_call)

lemma issue_invoice_walk: "walk (keeps E s0) s (keeps E s0) (issue_invoice E m a s)"
  unfolding issue_invoice_def by (intro walk_rules) simp_all

lemma process_invoice_request_keeps:
  assumes "bank_ok E s" "balances_small (ledger s)"
  shows "ens (keeps E s) (process_invoice_request E m s)"
  unfolding process_invoice_request_def
  by (rule walk_start [OF assms(1,2)], intro walk_target_account walk_rules) (simp_all add: issue_invoice_walk)

lemma process_invoice_response_keeps:
  assumes "bank_ok E s" "balances_small (ledger s)"
  shows "ens (keeps E s) (process_invoice_response E m s)"
  unfolding process_invoice_response_def
  by (rule walk_start [OF assms(1,2)], intro walk_target_account walk_rules) simp_all

lemma process_create_invoice_request_keeps:
  assumes "bank_ok E s" "balances_small (ledger s)"
  shows "ens (keeps E s) (process_create_invoice_request E r u s)"
  unfolding process_create_invoice_request_def
  by (rule walk_start [OF assms(1,2)], intro walk_rules) simp_all

lemma process_dealer_invoice_keeps:
  assumes "bank_ok E s" "balances_small (ledger s)"
  shows "ens (keeps E s) (process_dealer_invoice E p x s)"
  unfolding process_dealer_invoice_def
  by (rule walk_start [OF assms(1,2)], intro walk_rules)
    (simp_all split del: if_split | erule msat_amount
      | rule balanced_pair, assumption+, simp_all add: balanced_defs)+

end

end
