(* ===== verification/BankLnurl.thy ===== *)
theory BankLnurl
  imports BankInternal
begin

text \<open>
  LNURL withdrawals, route queries and node information (\<open>bank/src/bank_engine.rs\<close>). A
  withdrawal request is remembered under its request identifier; paying it removes it and sends
  the payment request to the bank itself.
\<close>

section \<open>Definitions\<close>

definition api_lnurl :: "CreateLnurlWithdrawalResponse \<Rightarrow> bank \<Rightarrow> bank" where
  "api_lnurl r s = listener (MsgApi (CreateLnurlWithdrawalResponseMsg r)) Api s"

definition process_create_lnurl_withdrawal :: "env \<Rightarrow> CreateLnurlWithdrawalRequest \<Rightarrow> bank \<Rightarrow> bank option" where
  "process_create_lnurl_withdrawal E msg s =
     (let response = \<lparr>clr_req_id = clw_req_id msg, clr_lnurl = None, clr_error = None\<rparr> in
      if mon_value (clw_amount msg) \<le> 0
      then Some (api_lnurl (response\<lparr>clr_error := Some LnurlInvalidAmount\<rparr>) s)
      else case default_account E (PUser (clw_uid msg)) (clw_currency msg) None s of
        None \<Rightarrow> Some (api_lnurl (response\<lparr>clr_error := Some LnurlUserAccountNotFound\<rparr>) s)
      | Some (outbound_account, s) \<Rightarrow>
          if clw_currency msg \<noteq> BTC \<and> clw_rate msg = None
          then Some (listener (MsgApi (CreateLnurlWithdrawalRequestMsg msg)) Dealer s)
          else if balance outbound_account < mon_value (clw_amount msg)
          then Some (api_lnurl (response\<lparr>clr_error := Some LnurlInsufficientFunds\<rparr>) s)
          else do {
            let (now, s) = time_now E s;
            let payment_request = \<lparr>
              prq_req_id = clw_req_id msg,
              prq_uid = clw_uid msg,
              prq_payment_request = Some [],
              prq_currency = clw_currency msg,
              prq_recipient = None,
              prq_destination = None,
              prq_amount = Some (clw_amount msg),
              prq_invoice_amount = None,
              prq_rate = clw_rate msg,
              prq_fees = clw_fees msg \<rparr>;
            (case lnurl_encode E (''https://'' @ domain s @ ''/api/lnurl_withdrawal/request'')
                    (Some (uuid_show E (clw_req_id msg))) of
               None \<Rightarrow> Some (api_lnurl (response\<lparr>clr_error := Some FailedToCreateLnUrl\<rparr>) s)
             | Some lnurl \<Rightarrow> do {
                 let s = s\<lparr>lnurl_withdrawal_requests :=
                   AList.update (prq_req_id payment_request) (now, payment_request) (lnurl_withdrawal_requests s)\<rparr>;
                 Some (api_lnurl (response\<lparr>clr_lnurl := Some lnurl\<rparr>) s) }) })"

definition api_get_lnurl :: "GetLnurlWithdrawalResponse \<Rightarrow> bank \<Rightarrow> bank" where
  "api_get_lnurl r s = listener (MsgApi (GetLnurlWithdrawalResponseMsg r)) Api s"

definition process_get_lnurl_withdrawal :: "env \<Rightarrow> uuid \<Rightarrow> bank \<Rightarrow> bank option" where
  "process_get_lnurl_withdrawal E req_id s =
     (let response = \<lparr>
        glr_req_id = req_id,
        glr_max_withdrawable = 0,
        glr_min_withdrawable = 1,
        glr_default_description = ''Lndhubx Withdrawal'',
        glr_tag = ''withdrawalRequest'',
        glr_callback = ''https://'' @ domain s @ ''/api/lnurl_withdrawal/pay'',
        glr_error = None \<rparr>;
        not_found = api_get_lnurl (response\<lparr>glr_error := Some GetRequestNotFound\<rparr>) s in
      case map_of (lnurl_withdrawal_requests s) req_id of
        None \<Rightarrow> Some not_found
      | Some (created, payment_request) \<Rightarrow>
          (case prq_amount payment_request of
             None \<Rightarrow> Some not_found
           | Some a \<Rightarrow> do {
               a \<leftarrow> (case prq_rate payment_request of
                   Some r \<Rightarrow> do { x \<leftarrow> money_exchange (dec E) a r; unwrap x }
                 | None \<Rightarrow> Some a);
               sats \<leftarrow> money_try_sats (dec E) a;
               sats \<leftarrow> unwrap sats;
               Some (case dec_to_u64 (dec E) sats of
                   Some ma \<Rightarrow> api_get_lnurl (response\<lparr>glr_max_withdrawable := ma\<rparr>) s
                 | None \<Rightarrow> not_found) }))"

definition process_pay_lnurl_withdrawal :: "PayLnurlWithdrawalRequest \<Rightarrow> bank \<Rightarrow> bank" where
  "process_pay_lnurl_withdrawal msg s =
     (case map_of (lnurl_withdrawal_requests s) (plw_req_id msg) of
        Some (created, payment_request) \<Rightarrow>
          listener (MsgApi (PaymentRequestMsg
              (payment_request\<lparr>prq_payment_request := Some (plw_payment_request msg)\<rparr>))) Loopback
            (s\<lparr>lnurl_withdrawal_requests := AList.delete (plw_req_id msg) (lnurl_withdrawal_requests s)\<rparr>)
      | None \<Rightarrow>
          listener (MsgApi (PayLnurlWithdrawalResponseMsg
            \<lparr>plr_req_id = plw_req_id msg, plr_error = Some PayRequestNotFound\<rparr>)) Api s)"

definition api_route :: "uuid \<Rightarrow> rat \<Rightarrow> QueryRouteError option \<Rightarrow> bank \<Rightarrow> bank" where
  "api_route r fee e s = listener (MsgApi (QueryRouteResponseMsg
     \<lparr>qrr_req_id = r, qrr_total_fee = fee, qrr_error = e\<rparr>)) Api s"

definition process_query_route :: "env \<Rightarrow> QueryRouteRequest \<Rightarrow> bank \<Rightarrow> bank option" where
  "process_query_route E msg s =
     (case parse_invoice E (qrt_payment_request msg) of
        None \<Rightarrow> Some (api_route (qrt_req_id msg) 0 (Some NoRouteFound) s)
      | Some decoded \<Rightarrow>
          (case di_amount_milli_satoshis decoded of
             None \<Rightarrow> Some (api_route (qrt_req_id msg) 0 (Some NoRouteFound) s)
           | Some millisats \<Rightarrow> do {
               amount_in_btc \<leftarrow> money_from_sats (dec E) (of_int (sint (millisats div 1000)));
               x \<leftarrow> dec_mul (dec E) (mon_value amount_in_btc) (ln_network_fee_margin s);
               let max_fee_in_btc = money_from_btc (dec E) (dec_round (dec E) AwayFromZero 8 x);
               res \<leftarrow> probe E (tick s) (qrt_payment_request msg) (ln_network_fee_margin s);
               let s = bump (bump s);
               (case res of
                  Inr routes \<Rightarrow>
                    (case routes of
                       best_route # _ \<Rightarrow> Some (api_route (qrt_req_id msg) (of_int (sint best_route)) None s)
                     | [] \<Rightarrow> Some (api_route (qrt_req_id msg) 0 (Some NoRouteFound) s))
                | Inl _ \<Rightarrow> do {
                    sats \<leftarrow> money_try_sats (dec E) max_fee_in_btc;
                    fee \<leftarrow> unwrap sats;
                    Some (api_route (qrt_req_id msg) fee None s) }) }))"

definition process_get_node_info :: "env \<Rightarrow> uuid \<Rightarrow> bank \<Rightarrow> bank" where
  "process_get_node_info E req_id s =
     (let info = (case get_node_info E (tick s) of Inr ni \<Rightarrow> ni | Inl _ \<Rightarrow> lnd_node_info_default) in
      listener (MsgApi (GetNodeInfoResponseMsg \<lparr>
        gni_req_id = req_id,
        gni_lnd_node_info = info,
        gni_ln_network_max_fee = ln_network_max_fee s,
        gni_ln_network_fee_margin = ln_network_fee_margin s,
        gni_reserve_ratio = reserve_ratio s,
        gni_external_tx_fee = external_tx_fee s,
        gni_internal_tx_fee = internal_tx_fee s \<rparr>)) Api (bump s))"

section \<open>They keep the books\<close>

lemma quiet_lnurl [simp]:
  "quiet s (api_lnurl r t) = quiet s t" "quiet s (api_get_lnurl g t) = quiet s t"
  "quiet s (api_route i f e t) = quiet s t" "quiet s (process_pay_lnurl_withdrawal m s)"
  "quiet s (process_get_node_info E i s)"
  by (auto simp: api_lnurl_def api_get_lnurl_def api_route_def process_pay_lnurl_withdrawal_def
      process_get_node_info_def Let_def split: option.split)

lemma process_get_lnurl_quiet: "ens (quiet s) (process_get_lnurl_withdrawal E i s)"
  unfolding process_get_lnurl_withdrawal_def
  by (intro ens_intros) (simp_all split: option.split)

lemma process_query_route_quiet: "ens (quiet s) (process_query_route E m s)"
  unfolding process_query_route_def by (intro ens_intros) simp_all

context env_ok
begin

lemma process_create_lnurl_keeps:
  assumes "bank_ok E s" "balances_small (ledger s)"
  shows "ens (keeps E s) (process_create_lnurl_withdrawal E m s)"
  unfolding process_create_lnurl_withdrawal_def
  by (rule walk_start [OF assms], intro walk_rules) simp_all

end

end
