(* ===== verification/BankKarma.thy ===== *)
theory BankKarma
  imports BankWalk
begin

text \<open>
  Distribution of the dealer's karma points (\<open>Dealer::KarmaBalance\<close>, \<open>get_user_totals\<close>
  and \<open>distribute_karma\<close> of \<open>bank/src/bank_engine.rs\<close>): every user gets a share in
  proportion to the BTC value of the swaps the summary table records for them. The karma currency
  is the only one that is created by the bank; the lemmas say that the books of the other
  currencies are kept.

  The error texts of \<open>get_user_totals\<close> are only logged, so its error side is \<open>unit\<close>. The
  iteration over the map of totals is the order in which users were first met; the shares do not
  depend on it.
\<close>

section \<open>Definitions\<close>

definition summary_uid :: "SummaryTransaction \<Rightarrow> user_id option" where
  "summary_uid summary =
     (if stx_outbound_uid summary \<noteq> as_i32 BANK_UID then Some (as_u64 (stx_outbound_uid summary))
      else if stx_inbound_uid summary \<noteq> as_i32 BANK_UID then Some (as_u64 (stx_inbound_uid summary))
      else None)"

text \<open>The BTC value of a summary; the outer option is a panic.\<close>

definition summary_btc_value ::
  "env \<Rightarrow> ((Currency \<times> Currency) \<times> Rate) list \<Rightarrow> SummaryTransaction \<Rightarrow> (unit + rat) option" where
  "summary_btc_value E rates summary =
     (case (dec_of_big (dec E) (stx_inbound_amount summary), dec_of_big (dec E) (stx_outbound_amount summary),
            currency_from_str (stx_inbound_currency summary), currency_from_str (stx_outbound_currency summary)) of
        (Some inbound_amount, Some outbound_amount, Inr inbound_currency, Inr outbound_currency) \<Rightarrow>
          if outbound_currency = BTC then Some (Inr outbound_amount)
          else if inbound_currency = BTC then Some (Inr inbound_amount)
          else (case map_of rates (BTC, outbound_currency) of
              None \<Rightarrow> Some (Inl ())
            | Some rate \<Rightarrow> do {
                x \<leftarrow> money_exchange (dec E) (money_new (dec E) outbound_currency outbound_amount) rate;
                Some (case x of Inl _ \<Rightarrow> Inl () | Inr converted \<Rightarrow> Inr (mon_value converted)) })
      | _ \<Rightarrow> Some (Inl ()))"

fun sum_swaps ::
  "env \<Rightarrow> ((Currency \<times> Currency) \<times> Rate) list \<Rightarrow> SummaryTransaction list \<Rightarrow> (user_id \<times> rat) list \<Rightarrow>
     (unit + (user_id \<times> rat) list) option" where
  "sum_swaps E rates [] totals = Some (Inr totals)"
| "sum_swaps E rates (summary # swaps) totals =
     (case summary_uid summary of
        None \<Rightarrow> sum_swaps E rates swaps totals
      | Some uid \<Rightarrow> do {
          v \<leftarrow> summary_btc_value E rates summary;
          (case v of
             Inl e \<Rightarrow> Some (Inl e)
           | Inr btc_value \<Rightarrow> do {
               let old = (case map_of totals uid of Some t \<Rightarrow> t | None \<Rightarrow> 0);
               new \<leftarrow> (if stx_reference summary = Some ''PaymentRefund''
                      then dec_sub (dec E) old btc_value else dec_add (dec E) old btc_value);
               sum_swaps E rates swaps (AList.update uid new totals) }) })"

definition get_user_totals :: "env \<Rightarrow> bank \<Rightarrow> ((unit + (user_id \<times> rat) list) \<times> bank) option" where
  "get_user_totals E s =
     (let (conn, s) = get_conn E s in
      if \<not> conn then Some (Inl (), s)
      else case query E (\<lambda>d. Some (summary_get_swaps d)) s of
        (None, s) \<Rightarrow> Some (Inl (), s)
      | (Some swaps, s) \<Rightarrow> do {
          r \<leftarrow> sum_swaps E (last_rates s) swaps [];
          Some (r, s) })"

fun dec_sum :: "env \<Rightarrow> rat \<Rightarrow> rat list \<Rightarrow> rat option" where
  "dec_sum E acc [] = Some acc"
| "dec_sum E acc (x # xs) = do { y \<leftarrow> dec_add (dec E) acc x; dec_sum E y xs }"

text \<open>\<open>default_account\<close>, then a new balance for it, in the ledger and in the database.\<close>

definition set_balance ::
  "env \<Rightarrow> place \<Rightarrow> user_id \<Rightarrow> AccountType \<Rightarrow> (rat \<Rightarrow> rat option) \<Rightarrow> bank \<Rightarrow> bank option" where
  "set_balance E p uid aty f s = do {
     (a, s) \<leftarrow> default_account E p KKP (Some aty) s;
     b \<leftarrow> f (balance a);
     let a = a\<lparr>balance := b\<rparr>;
     s \<leftarrow> put_account p a s;
     Some (update_account E a uid s) }"

fun give_karma ::
  "env \<Rightarrow> Money \<Rightarrow> rat \<Rightarrow> (user_id \<times> rat) list \<Rightarrow> Money \<Rightarrow> bank \<Rightarrow> (Money \<times> bank) option" where
  "give_karma E karma_amount total_btc_swapped [] dealer_change s = Some (dealer_change, s)"
| "give_karma E karma_amount total_btc_swapped ((uid, t) # totals) dealer_change s = do {
     ratio \<leftarrow> dec_div (dec E) t total_btc_swapped;
     x \<leftarrow> dec_mul (dec E) ratio (mon_value karma_amount);
     let karma_received = money_new (dec E) (mon_currency karma_amount) x;
     s \<leftarrow> (if 0 < mon_value karma_received
          then set_balance E (PUser uid) uid Internal
                 (\<lambda>b. dec_add (dec E) b (mon_value karma_received)) (ensure_user uid s)
          else Some s);
     rest \<leftarrow> dec_sub (dec E) (mon_value dealer_change) (mon_value karma_received);
     give_karma E karma_amount total_btc_swapped totals (money_set (dec E) dealer_change rest) s }"

definition distribute_karma :: "env \<Rightarrow> Money \<Rightarrow> (user_id \<times> rat) list \<Rightarrow> bank \<Rightarrow> bank option" where
  "distribute_karma E karma_amount user_totals s = do {
     total_btc_swapped \<leftarrow> dec_sum E 0 (map snd user_totals);
     (dealer_change, s) \<leftarrow> give_karma E karma_amount total_btc_swapped user_totals karma_amount s;
     set_balance E PDealer DEALER_UID Internal (\<lambda>_. Some (mon_value dealer_change)) s }"

definition process_karma_balance :: "env \<Rightarrow> rat \<Rightarrow> bank \<Rightarrow> bank option" where
  "process_karma_balance E karma s = do {
     let dealer_karma = money_new (dec E) KKP karma;
     bank_state \<leftarrow> get_bank_state E s;
     let distributed_karma = (case map_of (total_exposures bank_state) KKP of Some x \<Rightarrow> x | None \<Rightarrow> 0);
     (r, s) \<leftarrow> get_user_totals E s;
     (case r of
        Inl _ \<Rightarrow> Some s
      | Inr user_totals \<Rightarrow> do {
          s \<leftarrow> set_balance E PDealer DEALER_UID External (\<lambda>_. Some (- mon_value dealer_karma)) s;
          diff \<leftarrow> dec_sub (dec E) (mon_value dealer_karma) distributed_karma;
          let karma_diff = money_new (dec E) KKP diff;
          if 0 < mon_value karma_diff then distribute_karma E karma_diff user_totals s else Some s }) }"

section \<open>The books of the other currencies\<close>

definition keeps_but_karma :: "env \<Rightarrow> bank \<Rightarrow> bank \<Rightarrow> bool" where
  "keeps_but_karma E s s' \<longleftrightarrow> bank_ok E s' \<and> tick s \<le> tick s' \<and>
     (\<forall>c. c \<noteq> KKP \<longrightarrow> net c (ledger s') = net c (ledger s)) \<and>
     ln_network_fee_margin s' = ln_network_fee_margin s"

lemma keeps_but_karma_trans [trans]:
  "keeps_but_karma E s s' \<Longrightarrow> keeps_but_karma E s' s'' \<Longrightarrow> keeps_but_karma E s s''"
  by (auto simp: keeps_but_karma_def)

lemma keeps_imp_but_karma: "keeps E s s' \<Longrightarrow> keeps_but_karma E s s'"
  by (auto simp: keeps_def conserves_def keeps_but_karma_def)

context env_ok
begin

lemma keeps_but_karma_refl: "bank_ok E s \<Longrightarrow> keeps_but_karma E s s"
  by (simp add: keeps_but_karma_def)

lemma keeps_but_karma_quiet: "keeps_but_karma E s t \<Longrightarrow> quiet t t' \<Longrightarrow> keeps_but_karma E s t'"
  by (auto simp: keeps_but_karma_def quiet_def bank_ok_def ledger_ok_mono)

lemma set_balance_keeps:
  assumes "bank_ok E s" "\<And>b c. grid 12 b \<Longrightarrow> f b = Some c \<Longrightarrow> grid 12 c"
  shows "ens (keeps_but_karma E s) (set_balance E p uid aty f s)"
  unfolding set_balance_def
proof (intro ens_intros, goal_cases)
  case (1 x a s1 b s2)
  then have d: "default_account E p KKP (Some aty) s = Some (a, s1)" by simp
  note spec = default_account_spec [OF assms(1) d]
  have L: "ledger_ok E (tick s1) (ledger s1)" using spec(1) by (simp add: keeps_def conserves_def bank_ok_def)
  obtain L2 where put: "ledger_put p (a\<lparr>balance := b\<rparr>) (ledger s1) = Some L2" and s2: "s2 = s1\<lparr>ledger := L2\<rparr>"
    using 1 by (auto simp: put_account_def)
  have g: "grid 12 (balance (a\<lparr>balance := b\<rparr>))"
    using assms(2) [of "balance a" b] ledger_ok_get(2) [OF L spec(2)] 1 by auto
  have get: "ledger_get p (account_id (a\<lparr>balance := b\<rparr>)) (ledger s1) = Some a" using spec(2) by simp
  note put_spec = ledger_put_spec [OF L get g put]
  have "net c L2 = net c (ledger s1)" if "c \<noteq> KKP" for c
    using put_spec(2) [of c] spec(3) that by simp
  with put_spec(1) have "keeps_but_karma E s1 s2"
    by (simp add: keeps_but_karma_def s2 bank_ok_def)
  with keeps_imp_but_karma [OF spec(1)] keeps_but_karma_trans
  have "keeps_but_karma E s s2" by blast
  then show ?case by (rule keeps_but_karma_quiet) simp
qed

lemma give_karma_keeps:
  assumes "bank_ok E s" "money_ok change"
  shows "ens (\<lambda>x. keeps_but_karma E s (snd x) \<and> money_ok (fst x)) (give_karma E k t totals change s)"
  using assms
proof (induction totals arbitrary: change s)
  case Nil
  then show ?case by (auto simp: ens_def keeps_but_karma_refl)
next
  case (Cons ut totals)
  obtain uid ut' where ut: "ut = (uid, ut')" by (cases ut)
  show ?case
    unfolding ut give_karma.simps
  proof (intro ens_bind ens_Let, goal_cases)
    case (1 ratio x s1 rest)
    let ?k = "mon_value (money_new (dec E) (mon_currency k) x)"
    have "keeps_but_karma E s s1"
    proof (cases "0 < ?k")
      case True
      have "bank_ok E (ensure_user uid s)"
        using ensure_user_keeps [OF Cons.prems(1)] by (simp add: keeps_def conserves_def)
      moreover have "grid 12 c" if "grid 12 b" "dec_add (dec E) b ?k = Some c" for b c
        using add_grid [OF that(1) _ that(2)] by (simp add: money_ok_grid_12)
      ultimately have "keeps_but_karma E (ensure_user uid s) s1"
        using 1(3) True
        by (intro ensD [OF set_balance_keeps [where f = "\<lambda>b. dec_add (dec E) b ?k"]]) auto
      with keeps_imp_but_karma [OF ensure_user_keeps [OF Cons.prems(1)]] show ?thesis
        by (rule keeps_but_karma_trans)
    next
      case False
      with 1(3) keeps_but_karma_refl [OF Cons.prems(1)] show ?thesis by simp
    qed
    moreover from this have "bank_ok E s1" by (simp add: keeps_but_karma_def)
    ultimately show ?case
      using keeps_but_karma_trans by (intro ens_mono [OF Cons.IH]) auto
  qed
qed

lemma distribute_karma_keeps:
  assumes "bank_ok E s" "money_ok k"
  shows "ens (keeps_but_karma E s) (distribute_karma E k totals s)"
  unfolding distribute_karma_def
proof (intro ens_bind ens_case_prod, goal_cases)
  case (1 t x change s1)
  then have *: "keeps_but_karma E s s1" "money_ok change"
    using ensD [OF give_karma_keeps [OF assms]] by auto
  then have "bank_ok E s1" by (simp add: keeps_but_karma_def)
  then have "ens (keeps_but_karma E s1) (set_balance E PDealer DEALER_UID Internal (\<lambda>_. Some (mon_value change)) s1)"
    using *(2) by (intro set_balance_keeps) (auto simp: money_ok_grid_12)
  with *(1) keeps_but_karma_trans show ?case by (auto simp: ens_def)
qed

lemma ens_quiet_user_totals: "ens (\<lambda>x. quiet s (snd x)) (get_user_totals E s)"
  unfolding get_user_totals_def get_conn_def query_def by (intro ens_intros) auto

lemma process_karma_balance_keeps:
  assumes "bank_ok E s"
  shows "ens (keeps_but_karma E s) (process_karma_balance E karma s)"
  unfolding process_karma_balance_def
proof (intro ens_bind ens_case_prod ens_Let ens_case_sum ens_Some ens_if, goal_cases)
  case (1 st x r s1 e)
  then show ?case
    using ensD [OF ens_quiet_user_totals] keeps_but_karma_quiet [OF keeps_but_karma_refl [OF assms]] by auto
next
  case (2 st x r s1 totals s2 d)
  then have "keeps_but_karma E s s1"
    using ensD [OF ens_quiet_user_totals] keeps_but_karma_quiet [OF keeps_but_karma_refl [OF assms]] by auto
  moreover from this have "keeps_but_karma E s1 s2"
    using 2 by (intro ensD [OF set_balance_keeps]) (auto simp: keeps_but_karma_def money_ok_grid_12)
  moreover from this have "ens (keeps_but_karma E s2) (distribute_karma E (money_new (dec E) KKP d) totals s2)"
    by (intro distribute_karma_keeps) (auto simp: keeps_but_karma_def)
  ultimately show ?case using keeps_but_karma_trans by (blast intro: ens_mono)
next
  case (3 st x r s1 totals s2 d)
  then have "keeps_but_karma E s s1"
    using ensD [OF ens_quiet_user_totals] keeps_but_karma_quiet [OF keeps_but_karma_refl [OF assms]] by auto
  moreover from this have "keeps_but_karma E s1 s2"
    using 3 by (intro ensD [OF set_balance_keeps]) (auto simp: keeps_but_karma_def money_ok_grid_12)
  ultimately show ?case using keeps_but_karma_trans by blast
qed

end

end
