(* ===== verification/BankCli.thy ===== *)
theory BankCli
  imports BankSwap
begin

text \<open>
  Transactions entered by the operator (\<open>Cli::MakeTx\<close>, \<open>process_make_tx\<close> of
  \<open>bank/src/bank_engine.rs\<close>): between two user accounts, between a user account and the
  external liabilities account, or between that account and the insurance fund.
\<close>

section \<open>Definitions\<close>

text \<open>The liabilities are looked at only when the user is the bank.\<close>

definition is_external_account :: "env \<Rightarrow> user_id \<Rightarrow> uuid \<Rightarrow> bank \<Rightarrow> (bool \<times> bank) option" where
  "is_external_account E uid acc s =
     (if uid = BANK_UID
      then do {
        (a, s) \<leftarrow> default_account E PLiab BTC (Some External) s;
        Some (acc = account_id a, s) }
      else Some (False, s))"

definition is_insurance_account :: "user_id \<Rightarrow> uuid \<Rightarrow> bank \<Rightarrow> bool" where
  "is_insurance_account uid acc s \<longleftrightarrow>
     uid = DEALER_UID \<and> acc = account_id (insurance_fund_account (ledger s))"

definition lookup_account ::
  "env \<Rightarrow> bool \<Rightarrow> bool \<Rightarrow> user_id \<Rightarrow> uuid \<Rightarrow> bank \<Rightarrow> ((BankError + Account) \<times> bank) option" where
  "lookup_account E external insurance uid acc s =
     (if external
      then do {
        (a, s) \<leftarrow> default_account E PLiab BTC (Some External) s;
        Some (Inr a, s) }
      else if insurance then Some (Inr (insurance_fund_account (ledger s)), s)
      else case map_of (user_accounts (ledger s)) uid of
        None \<Rightarrow> Some (Inl BankUserAccountNotFound, s)
      | Some ua \<Rightarrow>
          (case map_of (accounts ua) acc of
             None \<Rightarrow> Some (Inl BankAccountNotFound, s)
           | Some a \<Rightarrow> Some (Inr a, s)))"

definition store_account :: "bool \<Rightarrow> bool \<Rightarrow> user_id \<Rightarrow> uuid \<Rightarrow> Account \<Rightarrow> bank \<Rightarrow> bank option" where
  "store_account external insurance uid acc a s =
     (if external then put_account PLiab a s
      else if insurance then Some (s\<lparr>ledger := (ledger s)\<lparr>insurance_fund_account := a\<rparr>\<rparr>)
      else insert_into_ledger uid acc a s)"

definition book_make_tx ::
  "env \<Rightarrow> MakeTx \<Rightarrow> bool \<Rightarrow> bool \<Rightarrow> bool \<Rightarrow> bool \<Rightarrow> Account \<Rightarrow> Account \<Rightarrow> bank \<Rightarrow>
     ((BankError + unit) \<times> bank) option" where
  "book_make_tx E m out_ext out_ins in_ext in_ins outbound_account inbound_account s = do {
     (r, outbound_account, inbound_account, s) \<leftarrow>
       make_tx E outbound_account (mk_outbound_uid m) inbound_account (mk_inbound_uid m)
         (money_new (dec E) (mk_currency m) (mk_amount m)) s;
     (case r of
        Inl e \<Rightarrow> Some (Inl e, s)
      | Inr _ \<Rightarrow> do {
          let s = update_account E outbound_account (mk_outbound_uid m) s;
          let s = update_account E inbound_account (mk_inbound_uid m) s;
          s \<leftarrow> store_account out_ext out_ins (mk_outbound_uid m) (mk_outbound_account_id m) outbound_account s;
          s \<leftarrow> store_account in_ext in_ins (mk_inbound_uid m) (mk_inbound_account_id m) inbound_account s;
          Some (Inr (), s) }) }"

text \<open>From the look-up of the two accounts on.\<close>

definition locate_and_book ::
  "env \<Rightarrow> MakeTx \<Rightarrow> bool \<Rightarrow> bool \<Rightarrow> bool \<Rightarrow> bool \<Rightarrow> bank \<Rightarrow> ((BankError + unit) \<times> bank) option" where
  "locate_and_book E m out_ext out_ins in_ext in_ins s = do {
     (r, s) \<leftarrow> lookup_account E out_ext out_ins (mk_outbound_uid m) (mk_outbound_account_id m) s;
     (case r of
        Inl e \<Rightarrow> Some (Inl e, s)
      | Inr outbound_account \<Rightarrow> do {
          (r, s) \<leftarrow> lookup_account E in_ext in_ins (mk_inbound_uid m) (mk_inbound_account_id m) s;
          (case r of
             Inl e \<Rightarrow> Some (Inl e, s)
           | Inr inbound_account \<Rightarrow>
               if acc_currency outbound_account \<noteq> mk_currency m
                  \<or> acc_currency outbound_account \<noteq> acc_currency inbound_account
               then Some (Inl FailedTransaction, s)
               else book_make_tx E m out_ext out_ins in_ext in_ins outbound_account inbound_account s) }) }"

definition process_make_tx :: "env \<Rightarrow> MakeTx \<Rightarrow> bank \<Rightarrow> ((BankError + unit) \<times> bank) option" where
  "process_make_tx E m s =
     (if mk_amount m < 0 then Some (Inl FailedTransaction, s)
      else if mk_outbound_uid m = mk_inbound_uid m \<and> mk_outbound_account_id m = mk_inbound_account_id m
      then Some (Inl FailedTransaction, s)
      else do {
        let in_ins = is_insurance_account (mk_inbound_uid m) (mk_inbound_account_id m) s;
        let out_ins = is_insurance_account (mk_outbound_uid m) (mk_outbound_account_id m) s;
        (in_ext, s) \<leftarrow> is_external_account E (mk_inbound_uid m) (mk_inbound_account_id m) s;
        (out_ext, s) \<leftarrow> is_external_account E (mk_outbound_uid m) (mk_outbound_account_id m) s;
        if (in_ins \<and> \<not> out_ext) \<or> (out_ins \<and> \<not> in_ext) then Some (Inl FailedTransaction, s)
        else locate_and_book E m out_ext out_ins in_ext in_ins s })"

definition process_cli_make_tx :: "env \<Rightarrow> MakeTx \<Rightarrow> bank \<Rightarrow> bank option" where
  "process_cli_make_tx E m s = do {
     (r, s) \<leftarrow> process_make_tx E m s;
     let result = (case r of Inr _ \<Rightarrow> ''Successful'' | Inl e \<Rightarrow> bank_error_to_string e);
     Some (listener (MsgCli (MakeTxResultMsg m result)) Api s) }"

section \<open>Operator transactions conserve the net positions\<close>

text \<open>Where an account of such a transaction lives: at a place of the ledger or as the insurance fund.\<close>

datatype slot = SPlace place | SIns

definition slot_of :: "bool \<Rightarrow> bool \<Rightarrow> user_id \<Rightarrow> slot" where
  "slot_of external insurance uid = (if external then SPlace PLiab else if insurance then SIns else SPlace (PUser uid))"

fun slot_get :: "slot \<Rightarrow> uuid \<Rightarrow> Ledger \<Rightarrow> Account option" where
  "slot_get (SPlace p) i L = ledger_get p i L"
| "slot_get SIns i L = (if i = account_id (insurance_fund_account L) then Some (insurance_fund_account L) else None)"

fun slot_put :: "slot \<Rightarrow> Account \<Rightarrow> Ledger \<Rightarrow> Ledger option" where
  "slot_put (SPlace p) a L = ledger_put p a L"
| "slot_put SIns a L = Some (L\<lparr>insurance_fund_account := a\<rparr>)"

definition in_range :: "bank \<Rightarrow> bool" where
  "in_range s \<longleftrightarrow> balances_small (ledger s) \<and> small (balance (insurance_fund_account (ledger s)))"

lemma store_account_slot:
  assumes "\<not> external \<and> \<not> insurance \<longrightarrow> account_id a = acc"
  shows "store_account external insurance uid acc a s =
    map_option (\<lambda>L. s\<lparr>ledger := L\<rparr>) (slot_put (slot_of external insurance uid) a (ledger s))"
  using assms insert_into_ledger_put [of uid a s]
  by (auto simp: store_account_def slot_of_def put_account_def)

lemma ledger_ua_insurance [simp]: "ledger_ua p (L\<lparr>insurance_fund_account := a\<rparr>) = ledger_ua p L"
  by (cases p) auto

context env_ok
begin

lemma conserves_quiet: "conserves E s s' \<Longrightarrow> quiet s' s'' \<Longrightarrow> conserves E s s''"
  by (auto simp: conserves_def quiet_def bank_ok_def ledger_ok_mono)

lemma slot_put_spec:
  assumes "ledger_ok E n L" "slot_get sl (account_id a) L = Some b" "grid 12 (balance a)"
    and "acc_currency a = acc_currency b" "slot_put sl a L = Some L'"
  shows "ledger_ok E n L'" "net c L' = net c L + (if acc_currency b = c then balance a - balance b else 0)"
    "(sl', i) \<noteq> (sl, account_id a) \<Longrightarrow> slot_get sl' i L' = slot_get sl' i L"
proof (atomize (full), goal_cases)
  case 1
  show ?case
  proof (cases sl)
    case (SPlace p)
    with assms have get: "ledger_get p (account_id a) L = Some b" and put: "ledger_put p a L = Some L'" by auto
    note spec = ledger_put_spec [OF assms(1) get assms(3) put]
    show ?thesis
      using spec(1) spec(2) [OF assms(4), of c] spec(3,5) SPlace by (cases sl') auto
  next
    case SIns
    with assms show ?thesis
      by (cases sl') (auto simp: ledger_ok_def net_def ledger_get_def split: if_splits)
  qed
qed

lemma slot_default:
  assumes "bank_ok E s" "in_range s" "default_account E PLiab BTC (Some External) s = Some (a, s')"
  shows "conserves E s s'" "in_range s'" "slot_get (SPlace PLiab) (account_id a) (ledger s') = Some a"
    "slot_get sl i (ledger s) = Some x \<Longrightarrow> slot_get sl i (ledger s') = Some x"
    "insurance_fund_account (ledger s') = insurance_fund_account (ledger s)"
proof -
  note spec = default_account_spec [OF assms(1,3)]
  show "conserves E s s'" "insurance_fund_account (ledger s') = insurance_fund_account (ledger s)"
    using spec(1,8) by (auto simp: keeps_conserves)
  show "in_range s'" using assms(2) spec(6,8) by (simp add: in_range_def)
  show "slot_get (SPlace PLiab) (account_id a) (ledger s') = Some a" using spec(2) by simp
  show "slot_get sl i (ledger s) = Some x \<Longrightarrow> slot_get sl i (ledger s') = Some x"
    using spec(5,8) by (cases sl) (auto split: if_splits)
qed

lemma lookup_account_spec:
  assumes "bank_ok E s" "in_range s" "lookup_account E external insurance uid acc s = Some (r, s')"
  shows "conserves E s s'" "in_range s'"
    "slot_get sl i (ledger s) = Some x \<Longrightarrow> slot_get sl i (ledger s') = Some x"
    "r = Inr a \<Longrightarrow> slot_get (slot_of external insurance uid) (account_id a) (ledger s') = Some a"
    "r = Inr a \<Longrightarrow> \<not> external \<and> \<not> insurance \<longrightarrow> account_id a = acc"
    "r = Inr a \<Longrightarrow> insurance \<and> \<not> external \<longrightarrow> a = insurance_fund_account (ledger s)"
proof (atomize (full), goal_cases)
  case 1
  show ?case
  proof (cases external)
    case True
    then obtain b where b: "default_account E PLiab BTC (Some External) s = Some (b, s')" "r = Inr b"
      using assms(3) by (auto simp: lookup_account_def bind_Some_conv)
    with True slot_default [OF assms(1,2) b(1)] show ?thesis by (auto simp: slot_of_def)
  next
    case False
    moreover have "ledger_get (PUser uid) acc (ledger s) = Some a \<Longrightarrow> account_id a = acc"
      using ledger_ok_get(1) assms(1) by (auto simp: bank_ok_def)
    ultimately show ?thesis
      using assms conserves_same [OF assms(1), of s]
      by (auto simp: lookup_account_def slot_of_def ledger_get_def split: if_splits option.splits)
  qed
qed

lemma slot_small: "in_range s \<Longrightarrow> slot_get sl i (ledger s) = Some a \<Longrightarrow> small (balance a)"
  by (cases sl) (auto simp: in_range_def balances_small_def split: if_splits)

lemma slot_grid: "bank_ok E s \<Longrightarrow> slot_get sl i (ledger s) = Some a \<Longrightarrow> grid 12 (balance a)"
  using ledger_ok_get(2)
  by (cases sl) (auto simp: bank_ok_def ledger_ok_def split: if_splits)

text \<open>Storing two accounts whose balances moved by opposite amounts.\<close>

lemma slot_transfer_conserves:
  assumes "bank_ok E s" "slot_get sl (account_id out) (ledger s) = Some out"
    and "slot_get sl' (account_id inn) (ledger s) = Some inn" "(sl, account_id out) \<noteq> (sl', account_id inn)"
    and "moved (- d) out out'" "moved d inn inn'" "acc_currency out = acc_currency inn"
    and "slot_put sl out' (ledger s) = Some L1" "slot_put sl' inn' L1 = Some L2"
    and s': "ledger s' = L2" "tick s \<le> tick s'" "ln_network_fee_margin s' = ln_network_fee_margin s"
  shows "conserves E s s'"
proof -
  have ids: "account_id out' = account_id out" "account_id inn' = account_id inn"
    using assms(5,6) by (auto simp: moved_def)
  have g: "grid 12 (balance out')" "grid 12 (balance inn')"
    using assms(5,6) slot_grid [OF assms(1,2)] slot_grid [OF assms(1,3)] by (auto simp: moved_def)
  have L: "ledger_ok E (tick s) (ledger s)" using assms(1) by (simp add: bank_ok_def)
  have get: "slot_get sl (account_id out') (ledger s) = Some out" using assms(2) ids by simp
  have cur: "acc_currency out' = acc_currency out" "acc_currency inn' = acc_currency inn"
    using assms(5,6) by (auto simp: moved_def)
  note put1 = slot_put_spec [OF L get g(1) cur(1) assms(8)]
  have get': "slot_get sl' (account_id inn') L1 = Some inn"
    using put1(3) [of sl' "account_id inn"] assms(3,4) ids by auto
  note put2 = slot_put_spec [OF put1(1) get' g(2) cur(2) assms(9)]
  have "net c L2 = net c (ledger s)" for c
    using put1(2) [of c] put2(2) [of c] assms(5,6,7) by (auto simp: moved_def)
  with put2(1) s' show ?thesis
    using ledger_ok_mono by (auto simp: conserves_def bank_ok_def)
qed

lemma book_make_tx_conserves:
  fixes out_ext out_ins in_ext in_ins m
  defines "sl \<equiv> slot_of out_ext out_ins (mk_outbound_uid m)" and "sl' \<equiv> slot_of in_ext in_ins (mk_inbound_uid m)"
  assumes ok: "bank_ok E s" "in_range s" and amount: "small (mk_amount m)"
    and out: "slot_get sl (account_id out) (ledger s) = Some out"
    and inn: "slot_get sl' (account_id inn) (ledger s) = Some inn"
    and ids: "\<not> out_ext \<and> \<not> out_ins \<longrightarrow> account_id out = mk_outbound_account_id m"
      "\<not> in_ext \<and> \<not> in_ins \<longrightarrow> account_id inn = mk_inbound_account_id m"
    and neq: "(sl, account_id out) \<noteq> (sl', account_id inn)" and cur: "acc_currency out = acc_currency inn"
  shows "ens (\<lambda>x. conserves E s (snd x)) (book_make_tx E m out_ext out_ins in_ext in_ins out inn s)"
  unfolding book_make_tx_def
proof (intro ens_intros, goal_cases)
  case (1 x r y out' z inn' s1 e)
  then show ?case
    using make_tx_frame(1,2,5) [of E out _ inn] conserves_same [OF ok(1)] by auto
next
  case (2 x r y out' z inn' s1 txid s2 s3)
  then have tx: "make_tx E out (mk_outbound_uid m) inn (mk_inbound_uid m)
    (money_new (dec E) (mk_currency m) (mk_amount m)) s = Some (Inr txid, out', inn', s1)" by simp
  let ?v = "mon_value (money_new (dec E) (mk_currency m) (mk_amount m))"
  have v: "grid 12 ?v" by (simp add: money_ok_grid_12)
  have v': "small ?v"
    using trunc_dp_abs_le [of "currency_dp (mk_currency m)" "mk_amount m"] amount
    by (auto simp: small_def money_new_def round_to_zero intro: order_trans)
  obtain d where "balance out' = balance out - d" "balance inn' = balance inn + d" "grid 12 d"
    by (rule make_tx_spec [OF tx slot_grid [OF ok(1) out] slot_grid [OF ok(1) inn] v
        slot_small [OF ok(2) out] slot_small [OF ok(2) inn] v'])
  then have d: "moved (- d) out out'" "moved d inn inn'"
    using make_tx_frame(6-11) [OF tx] by (auto simp: moved_def)
  have ids': "account_id out' = account_id out" "account_id inn' = account_id inn"
    using d by (auto simp: moved_def)
  let ?u = "update_account E inn' (mk_inbound_uid m) (update_account E out' (mk_outbound_uid m) s1)"
  have s1: "ledger ?u = ledger s" "tick s \<le> tick ?u" "ln_network_fee_margin ?u = ln_network_fee_margin s"
    using make_tx_frame(1,2,5) [OF tx] update_account_tick [of s1 E out' "mk_outbound_uid m"]
      update_account_tick [of "update_account E out' (mk_outbound_uid m) s1" E inn' "mk_inbound_uid m"]
    by auto
  obtain L1 L2 where "slot_put sl out' (ledger s) = Some L1" "slot_put sl' inn' L1 = Some L2"
    and s3: "ledger s3 = L2" "tick s3 = tick ?u" "ln_network_fee_margin s3 = ln_network_fee_margin ?u"
    using 2(6,7) s1(1) unfolding store_account_slot [OF ids(1) [folded ids'(1)]]
      store_account_slot [OF ids(2) [folded ids'(2)]] sl_def sl'_def
    by (auto simp del: update_account_frame)
  with slot_transfer_conserves [OF ok(1) out inn neq d cur] s1(2,3) s3 show ?case by simp
qed

lemma is_external_account_spec:
  assumes "bank_ok E s" "in_range s" "is_external_account E uid acc s = Some (x, s')"
  shows "conserves E s s'" "in_range s'" "insurance_fund_account (ledger s') = insurance_fund_account (ledger s)"
    "x \<Longrightarrow> uid = BANK_UID"
    "x \<Longrightarrow> \<exists>a. default_account E PLiab BTC (Some External) s = Some (a, s') \<and> acc = account_id a"
  using assms slot_default [OF assms(1,2)] conserves_same [OF assms(1), of s]
  by (auto simp: is_external_account_def bind_Some_conv split: if_splits)

text \<open>The two sides of a transaction that passes the checks are two different accounts.\<close>

lemma make_tx_sides_distinct:
  assumes "\<not> (mk_outbound_uid m = mk_inbound_uid m \<and> mk_outbound_account_id m = mk_inbound_account_id m)"
    and ok: "bank_ok E s" "in_range s"
    and in_ext: "is_external_account E (mk_inbound_uid m) (mk_inbound_account_id m) s = Some (in_ext, s1)"
    and out_ext: "is_external_account E (mk_outbound_uid m) (mk_outbound_account_id m) s1 = Some (out_ext, s2)"
  shows "\<not> (in_ext \<and> out_ext)"
proof
  assume both: "in_ext \<and> out_ext"
  have ok1: "bank_ok E s1" "in_range s1"
    using is_external_account_spec(1,2) [OF ok in_ext] by (auto simp: conserves_def)
  obtain a b where "default_account E PLiab BTC (Some External) s = Some (a, s1)" "mk_inbound_account_id m = account_id a"
    "default_account E PLiab BTC (Some External) s1 = Some (b, s2)" "mk_outbound_account_id m = account_id b"
    using is_external_account_spec(5) [OF ok in_ext] is_external_account_spec(5) [OF ok1 out_ext] both by auto
  moreover from this have "b = a" using default_account_again by blast
  moreover have "mk_inbound_uid m = BANK_UID" "mk_outbound_uid m = BANK_UID"
    using is_external_account_spec(4) [OF ok in_ext] is_external_account_spec(4) [OF ok1 out_ext] both by auto
  ultimately show False using assms(1) by simp
qed

lemma locate_and_book_conserves:
  assumes neq: "\<not> (mk_outbound_uid m = mk_inbound_uid m \<and> mk_outbound_account_id m = mk_inbound_account_id m)"
    and ok: "bank_ok E s" "in_range s" and amount: "small (mk_amount m)"
    and one: "\<not> (out_ext \<and> in_ext)" "\<not> (out_ins \<and> in_ins)"
  shows "ens (\<lambda>x. conserves E s (snd x)) (locate_and_book E m out_ext out_ins in_ext in_ins s)"
  unfolding locate_and_book_def
proof (intro ens_intros, goal_cases)
  case (1 x r s1 e)
  then show ?case using lookup_account_spec(1) [OF ok] by auto
next
  case (2 x r s1 out y r' s2 e)
  then have l: "lookup_account E out_ext out_ins (mk_outbound_uid m) (mk_outbound_account_id m) s = Some (r, s1)"
    "lookup_account E in_ext in_ins (mk_inbound_uid m) (mk_inbound_account_id m) s1 = Some (r', s2)" by auto
  note out = lookup_account_spec [OF ok l(1)]
  have ok1: "bank_ok E s1" using out(1) by (simp add: conserves_def)
  show ?case using conserves_trans [OF out(1) lookup_account_spec(1) [OF ok1 out(2) l(2)]] by simp
next
  case (3 x r s1 out y r' s2 inn)
  then have l: "lookup_account E out_ext out_ins (mk_outbound_uid m) (mk_outbound_account_id m) s = Some (r, s1)"
    "lookup_account E in_ext in_ins (mk_inbound_uid m) (mk_inbound_account_id m) s1 = Some (r', s2)" by auto
  note out = lookup_account_spec [OF ok l(1)]
  have ok1: "bank_ok E s1" using out(1) by (simp add: conserves_def)
  show ?case using conserves_trans [OF out(1) lookup_account_spec(1) [OF ok1 out(2) l(2)]] by simp
next
  case (4 x r s1 out y r' s2 inn)
  then have l: "lookup_account E out_ext out_ins (mk_outbound_uid m) (mk_outbound_account_id m) s = Some (Inr out, s1)"
    "lookup_account E in_ext in_ins (mk_inbound_uid m) (mk_inbound_account_id m) s1 = Some (Inr inn, s2)"
    and cur: "acc_currency out = acc_currency inn" by auto
  note out = lookup_account_spec [OF ok l(1)]
  have ok1: "bank_ok E s1" using out(1) by (simp add: conserves_def)
  note inn = lookup_account_spec [OF ok1 out(2) l(2)]
  have ok2: "bank_ok E s2" using inn(1) by (simp add: conserves_def)
  have "(slot_of out_ext out_ins (mk_outbound_uid m), account_id out) \<noteq>
    (slot_of in_ext in_ins (mk_inbound_uid m), account_id inn)"
    using one neq out(5) inn(5) by (auto simp: slot_of_def split: if_splits)
  then have "ens (\<lambda>x. conserves E s2 (snd x)) (book_make_tx E m out_ext out_ins in_ext in_ins out inn s2)"
    using book_make_tx_conserves [OF ok2 inn(2) amount inn(3) [OF out(4)] inn(4) out(5) inn(5) _ cur] by simp
  then show ?case
    using conserves_trans [OF conserves_trans [OF out(1) inn(1)]] by (auto simp: ens_def)
qed

lemma process_make_tx_conserves:
  assumes ok: "bank_ok E s" "in_range s" and amount: "small (mk_amount m)"
  shows "ens (\<lambda>x. conserves E s (snd x)) (process_make_tx E m s)"
  unfolding process_make_tx_def
proof (intro ens_intros, goal_cases)
  case (3 x in_ext s1 y out_ext s2)
  then have l: "is_external_account E (mk_inbound_uid m) (mk_inbound_account_id m) s = Some (in_ext, s1)"
    "is_external_account E (mk_outbound_uid m) (mk_outbound_account_id m) s1 = Some (out_ext, s2)" by auto
  note ext = is_external_account_spec [OF ok l(1)]
  have ok1: "bank_ok E s1" using ext(1) by (simp add: conserves_def)
  show ?case using conserves_trans [OF ext(1) is_external_account_spec(1) [OF ok1 ext(2) l(2)]] by simp
next
  case (4 x in_ext s1 y out_ext s2)
  then have l: "is_external_account E (mk_inbound_uid m) (mk_inbound_account_id m) s = Some (in_ext, s1)"
    "is_external_account E (mk_outbound_uid m) (mk_outbound_account_id m) s1 = Some (out_ext, s2)" by auto
  note ext = is_external_account_spec [OF ok l(1)]
  have ok1: "bank_ok E s1" using ext(1) by (simp add: conserves_def)
  note ext' = is_external_account_spec [OF ok1 ext(2) l(2)]
  have ok2: "bank_ok E s2" using ext'(1) by (simp add: conserves_def)
  have one: "\<not> (out_ext \<and> in_ext)"
    using make_tx_sides_distinct [OF 4(2) ok l] by blast
  have ins: "\<not> (is_insurance_account (mk_outbound_uid m) (mk_outbound_account_id m) s \<and>
      is_insurance_account (mk_inbound_uid m) (mk_inbound_account_id m) s)"
    using 4(2) by (auto simp: is_insurance_account_def)
  show ?case
    using locate_and_book_conserves [OF 4(2) ok2 ext'(2) amount one ins]
      conserves_trans [OF conserves_trans [OF ext(1) ext'(1)]] by (auto simp: ens_def)
qed (use conserves_same [OF ok(1), of s] in auto)

lemma process_cli_make_tx_conserves:
  assumes "bank_ok E s" "in_range s" "small (mk_amount m)"
  shows "ens (conserves E s) (process_cli_make_tx E m s)"
  unfolding process_cli_make_tx_def
  using process_make_tx_conserves [OF assms] by (intro ens_intros) (auto simp: ens_def intro: conserves_quiet)

end

end
