(* ===== verification/BankDispatch.thy ===== *)
theory BankDispatch
  imports Accountant BankResult BankSwap BankInvoice BankLnurl BankKarma BankCli
begin

text \<open>
  The message dispatch of the bank (\<open>process_msg\<close> of \<open>bank/src/bank_engine.rs\<close>) and its
  event loop (\<open>start\<close> of \<open>bank/src/lib.rs\<close>) as a step relation: receiving a message,
  forgetting payment tasks, reconciling, and time passing. The theorems follow the net positions,
  the users' balances and the reconciliation along every run.
\<close>

section \<open>Dispatch\<close>

definition process_health :: "DealerHealth \<Rightarrow> bank \<Rightarrow> bank" where
  "process_health h s = s\<lparr>
     available_currencies := (if dh_status h = Down then [] else dh_available_currencies h),
     last_rates := dh_rates h\<rparr>"

fun process_dealer_msg :: "env \<Rightarrow> DealerMsg \<Rightarrow> bank \<Rightarrow> bank option" where
  "process_dealer_msg E (HealthMsg h) s = Some (process_health h s)"
| "process_dealer_msg E (BankStateRequestMsg r) s = send_bank_state E s"
| "process_dealer_msg E (PayInvoiceMsg p) s = process_dealer_invoice E p False s"
| "process_dealer_msg E (PayInsuranceInvoiceMsg p) s = process_dealer_invoice E p True s"
| "process_dealer_msg E (CreateInvoiceRequestMsg r) s =
     process_create_invoice_request E (r\<lparr>cir_memo := ''KolliderSettlement''\<rparr>) DEALER_UID s"
| "process_dealer_msg E (CreateInsuranceInvoiceRequestMsg r) s =
     process_create_invoice_request E (r\<lparr>cir_memo := ''ExternalDeposit''\<rparr>) DEALER_UID s"
| "process_dealer_msg E (FiatDepositResponseMsg r) s = process_fiat_deposit_response E r s"
| "process_dealer_msg E (KarmaBalanceMsg k) s = process_karma_balance E k s"
| "process_dealer_msg E _ s = Some s"

fun process_api_msg :: "env \<Rightarrow> ApiMsg \<Rightarrow> bank \<Rightarrow> bank option" where
  "process_api_msg E (InvoiceRequestMsg r) s = process_invoice_request E r s"
| "process_api_msg E (InvoiceResponseMsg r) s = process_invoice_response E r s"
| "process_api_msg E (PaymentRequestMsg r) s = process_payment_request E r s"
| "process_api_msg E (SwapRequestMsg r) s = Some (listener (MsgApi (SwapRequestMsg r)) Dealer s)"
| "process_api_msg E (SwapResponseMsg r) s = process_swap_response E r s"
| "process_api_msg E (GetBalancesMsg r) s = process_get_balances E r s"
| "process_api_msg E (QuoteRequestMsg r) s = Some (listener (MsgApi (QuoteRequestMsg r)) Dealer s)"
| "process_api_msg E (QuoteResponseMsg r) s = Some (listener (MsgApi (QuoteResponseMsg r)) Api s)"
| "process_api_msg E (AvailableCurrenciesRequestMsg r) s =
     Some (listener (MsgApi (AvailableCurrenciesRequestMsg r)) Dealer s)"
| "process_api_msg E (AvailableCurrenciesResponseMsg r) s =
     Some (listener (MsgApi (AvailableCurrenciesResponseMsg r)) Api s)"
| "process_api_msg E (GetNodeInfoRequestMsg r) s = Some (process_get_node_info E r s)"
| "process_api_msg E (CreateLnurlWithdrawalRequestMsg r) s = process_create_lnurl_withdrawal E r s"
| "process_api_msg E (GetLnurlWithdrawalRequestMsg r) s = process_get_lnurl_withdrawal E r s"
| "process_api_msg E (PayLnurlWithdrawalRequestMsg r) s = Some (process_pay_lnurl_withdrawal r s)"
| "process_api_msg E (QueryRouteRequestMsg r) s = process_query_route E r s"
| "process_api_msg E (NostrProfileRequestMsg r) s = Some (listener (MsgApi (NostrProfileRequestMsg r)) Nostr s)"
| "process_api_msg E (NostrProfileSearchRequestMsg r) s =
     Some (listener (MsgApi (NostrProfileSearchRequestMsg r)) Nostr s)"
| "process_api_msg E (NostrProfileSearchResponseMsg r) s =
     Some (listener (MsgApi (NostrProfileSearchResponseMsg r)) Api s)"
| "process_api_msg E _ s = Some s"

fun process_msg :: "env \<Rightarrow> Message \<Rightarrow> bank \<Rightarrow> bank option" where
  "process_msg E (MsgDealer m) s = process_dealer_msg E m s"
| "process_msg E (MsgDeposit d) s = process_deposit E d s"
| "process_msg E (MsgApi m) s = process_api_msg E m s"
| "process_msg E (MsgBank (PaymentResultMsg r)) s = process_payment_result E r s"
| "process_msg E (MsgBank (DcaRebalanceMsg i)) s = process_dca_rebalance E i s"
| "process_msg E (MsgCli (MakeTxMsg m)) s = process_cli_make_tx E m s"
| "process_msg E (MsgNostr (NostrProfilesRefetchRequestMsg r)) s =
     Some (listener (MsgNostr (NostrProfilesRefetchRequestMsg r)) Nostr s)"
| "process_msg E _ s = Some s"

section \<open>What the bank relies on in a message\<close>

text \<open>
  Amounts of money are multiples of the currency's unit (every constructor of \<open>Money\<close> cuts them)
  and in the range of exact arithmetic; a fiat deposit is not for BTC. Everything else, such as
  signs, sizes against balances, unknown users and accounts, the bank checks itself.
\<close>

fun message_ok :: "env \<Rightarrow> Message \<Rightarrow> bool" where
  "message_ok E (MsgApi (PaymentRequestMsg r)) = (case prq_amount r of Some a \<Rightarrow> money_ok a | None \<Rightarrow> True)"
| "message_ok E (MsgApi (SwapResponseMsg r)) \<longleftrightarrow> money_ok (srs_amount r) \<and>
     (case srs_rate r of Some rate \<Rightarrow> exchange_small E (srs_amount r) rate | None \<Rightarrow> True)"
| "message_ok E (MsgDealer (FiatDepositResponseMsg r)) \<longleftrightarrow> fds_currency r \<noteq> BTC \<and>
     money_ok (fds_amount r) \<and> small (mon_value (fds_amount r)) \<and>
     (case fds_rate r of Some rate \<Rightarrow> exchange_small E (fds_amount r) rate | None \<Rightarrow> True)"
| "message_ok E (MsgBank (PaymentResultMsg r)) = result_ok E r"
| "message_ok E (MsgCli (MakeTxMsg m)) = small (mk_amount m)"
| "message_ok E _ = True"

fun is_karma :: "Message \<Rightarrow> bool" where
  "is_karma (MsgDealer (KarmaBalanceMsg k)) = True"
| "is_karma _ = False"

fun is_operator :: "Message \<Rightarrow> bool" where
  "is_operator (MsgCli (MakeTxMsg m)) = True"
| "is_operator _ = False"

text \<open>Balances in range, and a fee margin that is a fraction.\<close>

definition bank_range :: "bank \<Rightarrow> bool" where
  "bank_range s \<longleftrightarrow> in_range s \<and> 0 \<le> ln_network_fee_margin s \<and> ln_network_fee_margin s \<le> 1"

lemma quiet_health [simp]: "quiet s (process_health h s)"
  by (simp add: process_health_def quiet_def)

context env_ok
begin

lemma quiet_keeps: "bank_ok E s \<Longrightarrow> quiet s s' \<Longrightarrow> keeps E s s'"
  by (auto simp: quiet_def intro: keeps_same)

lemma ens_quiet_keeps: "bank_ok E s \<Longrightarrow> ens (quiet s) m \<Longrightarrow> ens (keeps E s) m"
  using quiet_keeps by (auto simp: ens_def)

lemma ensure_accounts_keeps: "bank_ok E s \<Longrightarrow> ens (keeps E s) (ensure_accounts E u cs s)"
proof (induction cs arbitrary: s)
  case Nil
  then show ?case by (auto simp: ens_def quiet_keeps)
next
  case (Cons c cs)
  show ?case
    unfolding ensure_accounts.simps
  proof (intro ens_bind ens_case_prod, goal_cases)
    case (1 x a s1)
    then have "keeps E s s1" using default_account_spec(1) [OF Cons.prems] by auto
    with Cons.IH [OF keeps_ok [OF this]] keeps_trans show ?case by (blast intro: ens_mono)
  qed
qed

lemma process_get_balances_keeps:
  assumes "bank_ok E s"
  shows "ens (keeps E s) (process_get_balances E m s)"
  unfolding process_get_balances_def
proof (intro ens_bind ens_Let ens_Some, goal_cases)
  case (1 s1 ua)
  note k = ensure_user_keeps [OF assms, of "gb_uid m"]
  have "keeps E s s1"
    using ensD [OF ensure_accounts_keeps [OF keeps_ok [OF k]] 1(1)] k keeps_trans by blast
  then show ?case by (rule keeps_quiet) simp
qed

lemma dca_requests_quiet: "ens (quiet s) (dca_requests E us s)"
proof (induction us arbitrary: s)
  case (Cons u us)
  show ?case
    unfolding dca_requests.simps
    by (intro ens_bind ens_Let ens_case_prod)
      (auto intro!: ens_mono [OF Cons.IH] intro: quiet_trans [rotated] dest!: new_uuid_frame)
qed (simp add: ens_def)

lemma process_dca_quiet: "ens (quiet s) (process_dca_rebalance E i s)"
  unfolding process_dca_rebalance_def get_conn_def query_def
  by (auto intro!: ens_intros ens_mono [OF dca_requests_quiet] intro: quiet_trans [rotated])

lemmas handler_keeps = process_deposit_keeps process_fiat_deposit_response_keeps process_swap_response_keeps
  process_invoice_request_keeps process_invoice_response_keeps process_create_invoice_request_keeps
  process_dealer_invoice_keeps process_payment_request_keeps process_payment_result_keeps
  process_create_lnurl_keeps process_get_balances_keeps

lemmas handler_quiet = process_get_lnurl_quiet process_query_route_quiet process_dca_quiet ens_quiet_send

text \<open>Every message except the operator's transactions and the karma update keeps the books.\<close>

lemma process_msg_keeps:
  assumes "bank_ok E s" "bank_range s" "message_ok E m" "\<not> is_karma m" "\<not> is_operator m"
  shows "ens (keeps E s) (process_msg E m s)"
proof -
  have small: "balances_small (ledger s)" using assms(2) by (simp add: bank_range_def in_range_def)
  have margin: "0 \<le> ln_network_fee_margin s" "ln_network_fee_margin s \<le> 1"
    using assms(2) by (auto simp: bank_range_def)
  show ?thesis
  proof (cases m)
    case (MsgApi a)
    with assms small margin show ?thesis
      by (cases a) (auto intro!: handler_keeps ens_quiet_keeps [OF _ handler_quiet(1)]
        ens_quiet_keeps [OF _ handler_quiet(2)] ens_Some quiet_keeps dest: exchange_smallD)
  next
    case (MsgDealer d)
    with assms small show ?thesis
      by (cases d) (auto intro!: handler_keeps ens_quiet_keeps [OF _ handler_quiet(4)] ens_Some quiet_keeps
        dest: exchange_smallD)
  next
    case (MsgBank b)
    with assms small show ?thesis
      by (cases b) (auto intro!: handler_keeps ens_quiet_keeps [OF _ handler_quiet(3)])
  next
    case (MsgCli c)
    with assms show ?thesis by (cases c) (auto intro!: ens_Some quiet_keeps)
  next
    case (MsgNostr n)
    with assms show ?thesis by (cases n) (auto intro!: ens_Some quiet_keeps)
  qed (use assms small in \<open>auto intro!: handler_keeps ens_Some quiet_keeps\<close>)
qed

lemma process_msg_conserves:
  assumes "bank_ok E s" "bank_range s" "message_ok E m" "\<not> is_karma m"
  shows "ens (conserves E s) (process_msg E m s)"
proof (cases "is_operator m")
  case True
  then obtain t where "m = MsgCli (MakeTxMsg t)" by (cases m rule: is_operator.cases) auto
  with assms show ?thesis by (auto intro!: process_cli_make_tx_conserves simp: bank_range_def)
next
  case False
  with process_msg_keeps [OF assms] show ?thesis using keeps_conserves by (blast intro: ens_mono)
qed

lemma process_msg_other_currencies:
  assumes "bank_ok E s" "bank_range s" "message_ok E m"
  shows "ens (keeps_but_karma E s) (process_msg E m s)"
proof (cases "is_karma m")
  case True
  then obtain k where "m = MsgDealer (KarmaBalanceMsg k)" by (cases m rule: is_karma.cases) auto
  with assms(1) show ?thesis by (auto intro!: process_karma_balance_keeps)
next
  case False
  have "conserves E s s' \<Longrightarrow> keeps_but_karma E s s'" for s'
    by (auto simp: conserves_def keeps_but_karma_def)
  with process_msg_conserves [OF assms False] show ?thesis by (blast intro: ens_mono)
qed

end

end
