(* ===== verification/Machine.thy ===== *)
theory Machine
  imports Main
begin

text \<open>
  Runs of a step relation, for the event loops of the bank and of the dealer. The locale
  \<open>machine\<close> holds what is common to every property of runs: a relation between the states
  before and after a step that is reflexive and transitive holds along every run. The locale
  \<open>invariant\<close> is its special case of a property that every step preserves.
\<close>

section \<open>Runs in general\<close>

inductive run :: "('s \<Rightarrow> 'e \<Rightarrow> 's \<Rightarrow> bool) \<Rightarrow> 's \<Rightarrow> 'e list \<Rightarrow> 's \<Rightarrow> bool" for step where
  run_Nil: "run step s [] s"
| run_Cons: "step s e s' \<Longrightarrow> run step s' es s'' \<Longrightarrow> run step s (e # es) s''"

inductive_cases run_NilE: "run step s [] s'"
inductive_cases run_ConsE: "run step s (e # es) s'"

lemma run_append: "run step s es s' \<Longrightarrow> run step s' fs s'' \<Longrightarrow> run step s (es @ fs) s''"
  by (induction rule: run.induct) (auto intro: run_Cons)

lemma run_member: "run step s es t \<Longrightarrow> e \<in> set es \<Longrightarrow> \<exists>s1 s2 fs. step s1 e s2 \<and> run step s2 fs t"
  by (induction rule: run.induct) auto

lemma run_mono: "run step s es t \<Longrightarrow> (\<And>s e t. step s e t \<Longrightarrow> step' s e t) \<Longrightarrow> run step' s es t"
  by (induction rule: run.induct) (auto intro: run.intros)

locale machine =
  fixes step :: "'s \<Rightarrow> 'e \<Rightarrow> 's \<Rightarrow> bool" and inv :: "'s \<Rightarrow> bool" and rel :: "'s \<Rightarrow> 's \<Rightarrow> bool"
  assumes rel_refl: "inv s \<Longrightarrow> rel s s"
    and rel_trans: "rel s t \<Longrightarrow> rel t u \<Longrightarrow> rel s u"
    and step_rel: "inv s \<Longrightarrow> step s e t \<Longrightarrow> rel s t"
    and rel_inv: "rel s t \<Longrightarrow> inv t"
begin

lemma run_rel: "run step s es t \<Longrightarrow> inv s \<Longrightarrow> rel s t"
proof (induction rule: run.induct)
  case (run_Nil s)
  then show ?case by (rule rel_refl)
next
  case (run_Cons s e t es u)
  then have "rel s t" by (intro step_rel)
  with run_Cons.IH rel_inv rel_trans show ?case by blast
qed

lemma run_inv: "run step s es t \<Longrightarrow> inv s \<Longrightarrow> inv t"
  using run_rel rel_inv by blast

end

locale invariant =
  fixes step :: "'s \<Rightarrow> 'e \<Rightarrow> 's \<Rightarrow> bool" and inv :: "'s \<Rightarrow> bool"
  assumes step_inv: "inv s \<Longrightarrow> step s e t \<Longrightarrow> inv t"

sublocale invariant \<subseteq> machine step inv "\<lambda>_ t. inv t"
  by unfold_locales (auto intro: step_inv)

end
