(* ===== verification/BankRun.thy ===== *)
theory BankRun
  imports BankDispatch Sample Machine
begin

text \<open>
  Runs of the bank's event loop (\<open>start\<close> of \<open>bank/src/lib.rs\<close>). Each step is one thing
  the loop does: it receives a message from one of its channels, drops payment tasks from its list,
  checks the ledger (and stops unless the check succeeds), or lets time pass. What single messages
  keep is lifted to runs by the locale \<open>machine\<close>.
\<close>

section \<open>The event loop\<close>

datatype event = Receive Message | Tidy "PaymentTask \<Rightarrow> bool" | Reconcile | Pass nat

inductive bank_step :: "env \<Rightarrow> bank \<Rightarrow> event \<Rightarrow> bank \<Rightarrow> bool" for E where
  receive: "process_msg E m s = Some s' \<Longrightarrow> bank_step E s (Receive m) s'"
| tidy: "bank_step E s (Tidy fin) (s\<lparr>payment_threads := filter fin (payment_threads s)\<rparr>)"
| reconcile: "reconcile_ledger (dec E) (ledger s) = Some (Inr ()) \<Longrightarrow> bank_step E s Reconcile s"
| pass: "tick s \<le> n \<Longrightarrow> bank_step E s (Pass n) (s\<lparr>tick := n\<rparr>)"

inductive_cases bank_stepE: "bank_step E s e s'"

inductive_simps bank_step_receive [simp]: "bank_step E s (Receive m) s'"

text \<open>Steps from states and with messages in the range the theorems speak about.\<close>

fun event_ok :: "env \<Rightarrow> (Message \<Rightarrow> bool) \<Rightarrow> event \<Rightarrow> bool" where
  "event_ok E allowed (Receive m) \<longleftrightarrow> message_ok E m \<and> allowed m"
| "event_ok E allowed _ = True"

definition loop_step :: "env \<Rightarrow> (Message \<Rightarrow> bool) \<Rightarrow> bank \<Rightarrow> event \<Rightarrow> bank \<Rightarrow> bool" where
  "loop_step E allowed s e s' \<longleftrightarrow> bank_range s \<and> event_ok E allowed e \<and> bank_step E s e s'"

lemma other_steps_quiet:
  "bank_step E s e s' \<Longrightarrow> (\<forall>m. e \<noteq> Receive m) \<Longrightarrow> quiet s s'"
  by (erule bank_stepE) (auto simp: quiet_def)

context env_ok
begin

lemma keeps_but_karma_ok: "keeps_but_karma E s s' \<Longrightarrow> bank_ok E s'"
  by (simp add: keeps_but_karma_def)

lemma loop_step_conserves:
  assumes "bank_ok E s" "loop_step E (\<lambda>m. \<not> is_karma m) s e s'"
  shows "conserves E s s'"
proof (cases "\<exists>m. e = Receive m")
  case True
  with assms process_msg_conserves show ?thesis by (auto simp: loop_step_def ens_def)
next
  case False
  with assms other_steps_quiet quiet_keeps keeps_conserves show ?thesis by (auto simp: loop_step_def)
qed

lemma loop_step_keeps:
  assumes "bank_ok E s" "loop_step E (\<lambda>m. \<not> is_karma m \<and> \<not> is_operator m) s e s'"
  shows "keeps E s s'"
proof (cases "\<exists>m. e = Receive m")
  case True
  with assms process_msg_keeps show ?thesis by (auto simp: loop_step_def ens_def)
next
  case False
  with assms other_steps_quiet quiet_keeps show ?thesis by (auto simp: loop_step_def)
qed

lemma loop_step_other_currencies:
  assumes "bank_ok E s" "loop_step E (\<lambda>m. True) s e s'"
  shows "keeps_but_karma E s s'"
proof (cases "\<exists>m. e = Receive m")
  case True
  with assms process_msg_other_currencies show ?thesis by (auto simp: loop_step_def ens_def)
next
  case False
  with assms other_steps_quiet quiet_keeps keeps_imp_but_karma show ?thesis by (auto simp: loop_step_def)
qed

end

sublocale env_ok \<subseteq> books: machine "loop_step E (\<lambda>m. \<not> is_karma m)" "bank_ok E" "conserves E"
  by unfold_locales
    (auto intro: conserves_same conserves_trans loop_step_conserves conserves_ok)

sublocale env_ok \<subseteq> solvent: machine "loop_step E (\<lambda>m. \<not> is_karma m \<and> \<not> is_operator m)" "bank_ok E" "keeps E"
  by unfold_locales (auto intro: keeps_same keeps_trans loop_step_keeps keeps_ok)

sublocale env_ok \<subseteq> karma: machine "loop_step E (\<lambda>m. True)" "bank_ok E" "keeps_but_karma E"
  by unfold_locales
    (auto intro: keeps_but_karma_refl keeps_but_karma_trans loop_step_other_currencies
      dest: keeps_but_karma_ok)

context env_ok
begin

lemmas run_conserves = books.run_rel
lemmas run_keeps = solvent.run_rel
lemmas run_keeps_but_karma = karma.run_rel

end

section \<open>A sample run\<close>

definition sample_msg :: Message where
  "sample_msg = MsgApi (PaymentRequestMsg sample_payment)"

definition sample_paid :: bank where
  "sample_paid = the (process_msg env96 sample_msg sample_bank)"

lemma sample_paid: "process_msg env96 sample_msg sample_bank = Some sample_paid"
proof -
  have "process_msg env96 sample_msg sample_bank \<noteq> None" by code_simp
  then show ?thesis by (simp add: sample_paid_def)
qed

lemma sample_paid_balances:
  "(\<forall>p\<in>{(1, 11, 4 / 10), (2, 21, 1 / 10)}. case p of (u, i, b) \<Rightarrow>
     map_option balance (ledger_get (PUser u) i (ledger sample_paid)) = Some b) \<and>
   ledger_volume (ledger sample_paid) = 201 \<and>
   reconcile_ledger dec96 (ledger sample_bank) = Some (Inr ()) \<and>
   ledger_volume (ledger sample_bank) = 201"
  by code_simp

lemma sample_bank_range: "bank_range sample_bank"
  using ledger_small_balances [OF sample_bank_small]
  by (simp add: bank_range_def in_range_def) (simp add: sample_defs)

lemma sample_msg_ok: "message_ok env96 sample_msg" "\<not> is_karma sample_msg" "\<not> is_operator sample_msg"
  by (simp_all add: sample_msg_def sample_payment_def)

lemma sample_run:
  assumes "\<And>m. \<not> is_karma m \<Longrightarrow> \<not> is_operator m \<Longrightarrow> allowed m"
  shows "run (loop_step env96 allowed) sample_bank [Receive sample_msg] sample_paid"
  by (rule run_Cons [OF _ run_Nil])
    (simp add: loop_step_def sample_bank_range sample_msg_ok assms sample_paid)

end
