(* ===== verification/Kollider.thy ===== *)
theory Kollider
  imports Msgs
begin

text \<open>
  The client of the Kollider exchange (\<open>kollider_hedging/src/lib.rs\<close>, \<open>hmac.rs\<close>) with the
  exchange's messages (\<open>msgs/src/kollider_client.rs\<close>, \<open>core_types/src/kollider_client.rs\<close>).

  The client's shared \<open>State\<close> is the record \<open>client\<close>; the mutex makes every access atomic.
  \<open>ws_sent\<close> is the channel to the socket thread (requests, before their serialisation to JSON),
  \<open>ws_callback\<close> the channel on which the socket thread passes the exchange's messages on to the
  dealer. What is outside the repository is the parameter \<open>denv\<close>: clocks and identifiers, the
  decimal operations, HMAC and base64, whether the channel to the socket is open and whether the
  exchange confirms an authentication before the timeout. Positions and books are keyed by symbols,
  hash maps being association lists. The loop of the socket thread is in \<open>KolliderThread\<close>;
  what it does with a message is here.
\<close>

section \<open>Messages of the exchange\<close>

type_synonym Symbol = string

datatype OrderType = Market | Limit
datatype MarginType = Isolated | Cross
datatype SettlementType = Instant | Delayed
datatype TradeOrigin = Sdk
datatype Channel = PositionStatesChannel | MarkPricesChannel | OrderbookLevel2Channel

record PositionState =
  ps_timestamp :: u64
  ps_symbol :: Symbol
  ps_upnl :: rat
  ps_rpnl :: rat
  ps_funding :: rat
  ps_leverage :: rat
  ps_real_leverage :: rat
  ps_entry_price :: rat
  ps_side :: "Side option"
  ps_quantity :: rat
  ps_open_order_ids :: "u64 list"
  ps_liq_price :: rat
  ps_bankruptcy_price :: rat
  ps_is_liquidating :: bool
  ps_entry_value :: rat
  ps_mark_value :: rat
  ps_adl_score :: rat
  ps_entry_time :: "u64 option"

record KolliderBalances =
  kb_cash :: "(Symbol \<times> rat) list"
  kb_isolated_margin :: "(Symbol \<times> rat) list"
  kb_order_margin :: "(Symbol \<times> rat) list"
  kb_cross_margin :: rat

record MarkPrice =
  mp_price :: rat
  mp_symbol :: Symbol

record AuthenticateRequest =
  ar_token :: string
  ar_passphrase :: string
  ar_signature :: string
  ar_timestamp :: string

record Order =
  or_ext_order_id :: uuid
  or_order_type :: OrderType
  or_side :: Side
  or_quantity :: u64
  or_symbol :: Symbol
  or_leverage :: u64
  or_margin_type :: MarginType
  or_settlement_type :: SettlementType
  or_origin :: TradeOrigin

record LnWithdrawalRequest =
  lw_payment_request :: string
  lw_amount :: u64

datatype ChangeMarginAction = AddMargin | DeleteMargin

record ChangeMargin =
  chm_uid :: u64
  chm_ext_id :: uuid
  chm_symbol :: Symbol
  chm_amount :: rat
  chm_action :: ChangeMarginAction

datatype Request =
    AuthenticateReq AuthenticateRequest
  | FetchBalances
  | FetchTradableSymbols
  | FetchPositions
  | Subscribe "Channel list" "Symbol list"
  | OrderReq Order
  | WithdrawalReq LnWithdrawalRequest
  | ChangeMarginReq ChangeMargin

record SettlementRequest =
  str_request_id :: uuid
  str_amount :: string
  str_lnurl :: "string option"
  str_side :: Side
  str_symbol :: Symbol

record OrderInvoice =
  oi_invoice :: string
  oi_margin :: string
  oi_symbol :: Symbol
  oi_order_id :: u64

record TradableSymbol =
  tsy_symbol :: Symbol
  tsy_contract_size :: rat
  tsy_max_leverage :: rat
  tsy_base_margin :: rat
  tsy_liquidation_fee :: rat
  tsy_is_inverse_priced :: bool
  tsy_price_dp :: nat
  tsy_underlying_symbol :: Symbol
  tsy_last_price :: rat
  tsy_tick_size :: rat
  tsy_risk_limit :: rat

record Level2State =
  l2_update_type :: string
  l2_seq_number :: u64
  l2_symbol :: Symbol
  l2_bids :: "(rat \<times> u64) list" \<comment> \<open>a \<open>BTreeMap\<close>: prices increasing\<close>
  l2_asks :: "(rat \<times> u64) list"

datatype RejectionReason =
    ContractNotAvailable | PositionIsUnderLiquidation | PositionIsNotUnderLiquidation | DuplicatedOrderId
  | RiskLimitExceeded | MalformedOrder | NotEnoughMargin | RejectNotEnoughAvailableBalance | MaxLeverageExceeded
  | BelowMinLeverage | NoMarket | InvalidOrder | OrderTooSmall | OrderDoesNotExist | InstantLiquidation
  | NoOpenPosition | PositionNotFound | InvalidMarginChange | SymbolInPostOnlyMode | SymbolInLimitOnlyMode
  | TradingForSymbolSuspended | SlippageExceeded

record ChangeMarginSuccess =
  cms_symbol :: Symbol
  cms_amount :: rat

record AddMarginRequest =
  amr_symbol :: Symbol
  amr_amount :: rat
  amr_invoice :: string

record FundingPayment =
  fp_symbol :: Symbol
  fp_rate :: rat
  fp_amount :: rat

text \<open>The reports on single orders (\<open>Received\<close>, \<open>Fill\<close>, \<open>Trade\<close>) are dropped by the
  client; they keep the identifier of the order here.\<close>

datatype KolliderApiResponse =
    KError string
  | KSuccess string
  | KAuthenticate string
  | KPositionStates PositionState
  | KPositions "(Symbol \<times> PositionState) list"
  | KBalances KolliderBalances
  | KMarkPrices MarkPrice
  | KReceived u64
  | KFill u64
  | KTrade u64
  | KSettlementRequest SettlementRequest
  | KOrderInvoice OrderInvoice
  | KTradableSymbols "(Symbol \<times> TradableSymbol) list"
  | KLevel2State Level2State
  | KDisconnected u64
  | KReconnected u64
  | KChangeMarginSuccess ChangeMarginSuccess
  | KChangeMarginRejection Symbol RejectionReason
  | KAddMarginRequest AddMarginRequest
  | KFundingPayment FundingPayment

definition auth_success :: "string \<Rightarrow> bool" where
  "auth_success message = (message = ''success'')"

datatype KolliderClientError =
    RequestSerializationFailed | WebsocketSendFailed | ActionTimeout | AuthenticationFailed
  | BalanceNotAvailable | NonFiatCurrency | CouldNotConnect | NotConnected | PositionStateNotAvailable
  | IncorrectMarginAmount

section \<open>What is outside the repository\<close>

record denv =
  d_dec :: dec_ops
  d_floor :: "rat \<Rightarrow> rat" \<comment> \<open>\<open>Decimal::floor\<close>\<close>
  d_ceil :: "rat \<Rightarrow> rat" \<comment> \<open>\<open>Decimal::ceil\<close>\<close>
  d_set_scale :: "nat \<Rightarrow> rat \<Rightarrow> rat option" \<comment> \<open>\<open>Decimal::set_scale\<close> on a value without decimal places\<close>
  d_new_v4 :: "nat \<Rightarrow> uuid"
  d_time :: "nat \<Rightarrow> nat" \<comment> \<open>\<open>SystemTime::now\<close> in microseconds\<close>
  d_instant :: "nat \<Rightarrow> int" \<comment> \<open>\<open>Instant::now\<close> in milliseconds\<close>
  d_hash_set :: "Currency list \<Rightarrow> Currency list" \<comment> \<open>the iteration order of a \<open>HashSet\<close> collected from a list\<close>
  b64_decode :: "string \<Rightarrow> string option"
  b64_encode :: "string \<Rightarrow> string"
  hmac_sha256 :: "string \<Rightarrow> string \<Rightarrow> string option"
  json_ok :: "Request \<Rightarrow> bool" \<comment> \<open>\<open>serde_json::to_string\<close> succeeds\<close>
  ws_open :: "nat \<Rightarrow> bool" \<comment> \<open>the channel to the socket thread is open\<close>
  ws_answer :: "nat \<Rightarrow> bool" \<comment> \<open>the exchange confirms an authentication in time\<close>

section \<open>The client\<close>

record client =
  ws_connected :: bool
  ws_authenticated :: bool
  ws_has_positions :: bool
  ws_positions :: "(Symbol \<times> PositionState) list"
  ws_mark_prices :: "(Symbol \<times> MarkPrice) list"
  ws_balances :: "KolliderBalances option"
  ws_symbols :: "(Symbol \<times> TradableSymbol) list"
  ws_sent :: "Request list"
  ws_callback :: "KolliderApiResponse list"
  ws_tick :: nat
  ws_credentials :: "string \<times> string \<times> string" \<comment> \<open>key, passphrase, secret\<close>

type_synonym 'a ws_result = "(KolliderClientError + 'a) \<times> client"

definition ws_clear :: "client \<Rightarrow> client" where
  "ws_clear c = c\<lparr>ws_connected := False, ws_authenticated := False, ws_has_positions := False,
     ws_positions := [], ws_mark_prices := [], ws_balances := None, ws_symbols := []\<rparr>"

definition ws_bump :: "client \<Rightarrow> client" where
  "ws_bump c = c\<lparr>ws_tick := Suc (ws_tick c)\<rparr>"

definition send_to_callback :: "KolliderApiResponse \<Rightarrow> client \<Rightarrow> client" where
  "send_to_callback r c = c\<lparr>ws_callback := ws_callback c @ [r]\<rparr>"

definition ws_time_now :: "denv \<Rightarrow> client \<Rightarrow> u64" where
  "ws_time_now E c = word_of_nat (d_time E (ws_tick c) div 1000)"

definition set_disconnected :: "denv \<Rightarrow> client \<Rightarrow> client" where
  "set_disconnected E c =
     (let c = ws_clear c in ws_bump (send_to_callback (KDisconnected (ws_time_now E c)) c))"

definition set_reconnected :: "denv \<Rightarrow> client \<Rightarrow> client" where
  "set_reconnected E c =
     (let c = c\<lparr>ws_authenticated := False, ws_connected := True\<rparr>
      in ws_bump (send_to_callback (KReconnected (ws_time_now E c)) c))"

fun process_incoming_message :: "KolliderApiResponse \<Rightarrow> client \<Rightarrow> client" where
  "process_incoming_message (KAuthenticate m) c =
     send_to_callback (KAuthenticate m) (if auth_success m then c\<lparr>ws_authenticated := True\<rparr> else c)"
| "process_incoming_message (KPositionStates p) c =
     send_to_callback (KPositionStates p) (c\<lparr>ws_positions := AList.update (ps_symbol p) p (ws_positions c)\<rparr>)"
| "process_incoming_message (KPositions ps) c =
     send_to_callback (KPositions ps) (c\<lparr>ws_positions := ps, ws_has_positions := True\<rparr>)"
| "process_incoming_message (KBalances b) c =
     send_to_callback (KBalances b) (c\<lparr>ws_balances := Some b\<rparr>)"
| "process_incoming_message (KMarkPrices m) c =
     c\<lparr>ws_mark_prices := AList.update (mp_symbol m) m (ws_mark_prices c)\<rparr>"
| "process_incoming_message (KOrderInvoice i) c = send_to_callback (KOrderInvoice i) c"
| "process_incoming_message (KTradableSymbols s) c =
     send_to_callback (KTradableSymbols s) (c\<lparr>ws_symbols := s\<rparr>)"
| "process_incoming_message (KSettlementRequest r) c = send_to_callback (KSettlementRequest r) c"
| "process_incoming_message (KLevel2State l) c = send_to_callback (KLevel2State l) c"
| "process_incoming_message (KChangeMarginSuccess s) c = send_to_callback (KChangeMarginSuccess s) c"
| "process_incoming_message (KChangeMarginRejection s r) c = send_to_callback (KChangeMarginRejection s r) c"
| "process_incoming_message (KAddMarginRequest r) c = send_to_callback (KAddMarginRequest r) c"
| "process_incoming_message (KFundingPayment p) c = send_to_callback (KFundingPayment p) c"
| "process_incoming_message _ c = c"

section \<open>Sending requests\<close>

definition hmac_encrypt_message :: "denv \<Rightarrow> string \<Rightarrow> string \<Rightarrow> string option" where
  "hmac_encrypt_message E b64_secret message = do {
     secret \<leftarrow> b64_decode E b64_secret;
     code \<leftarrow> hmac_sha256 E secret message;
     Some (b64_encode E code) }"

definition generate_authentication_signature :: "denv \<Rightarrow> nat \<Rightarrow> string \<Rightarrow> (string \<times> string) option" where
  "generate_authentication_signature E now b64_secret =
     (let timestamp_str = show_nat (now div 1000000) in
      map_option (Pair timestamp_str) (hmac_encrypt_message E b64_secret (timestamp_str @ ''authentication'')))"

definition send_request :: "denv \<Rightarrow> Request \<Rightarrow> client \<Rightarrow> unit ws_result" where
  "send_request E r c =
     (if \<not> ws_connected c then (Inl NotConnected, c)
      else if \<not> json_ok E r then (Inl RequestSerializationFailed, c)
      else if \<not> ws_open E (ws_tick c) then (Inl WebsocketSendFailed, ws_bump c)
      else (Inr (), ws_bump (c\<lparr>ws_sent := ws_sent c @ [r]\<rparr>)))"

text \<open>
  \<open>authenticate\<close> waits until the socket thread has seen the confirmation of the exchange; while
  it waits, the only message of interest is that confirmation.
\<close>

definition authenticate :: "denv \<Rightarrow> client \<Rightarrow> unit ws_result" where
  "authenticate E c =
     (case ws_credentials c of (token, passphrase, secret) \<Rightarrow>
      (case generate_authentication_signature E (d_time E (ws_tick c)) secret of
         None \<Rightarrow> (Inl AuthenticationFailed, ws_bump c)
       | Some (timestamp, signature) \<Rightarrow>
           (case send_request E (AuthenticateReq \<lparr>ar_token = token, ar_passphrase = passphrase,
                ar_signature = signature, ar_timestamp = timestamp\<rparr>) (ws_bump c) of
              (Inl e, c) \<Rightarrow> (Inl e, c)
            | (Inr _, c) \<Rightarrow>
                if ws_authenticated c then (Inr (), c)
                else if ws_answer E (ws_tick c)
                then (Inr (), process_incoming_message (KAuthenticate ''success'') (ws_bump c))
                else (Inl ActionTimeout, ws_bump c))))"

text \<open>
  \<open>checked_send_request\<close> and \<open>initialise\<close> call each other in the sources: a client that is not
  authenticated is initialised first, and the initialisation ends with three fetches that are sent
  in the same way. Since authentication has succeeded by then, the fetches do not initialise again.
\<close>

definition send_seq :: "denv \<Rightarrow> (denv \<Rightarrow> Request \<Rightarrow> client \<Rightarrow> unit ws_result) \<Rightarrow> client \<Rightarrow> unit ws_result" where
  "send_seq E f c =
     (case f E FetchTradableSymbols c of
        (Inl e, c) \<Rightarrow> (Inl e, c)
      | (Inr _, c) \<Rightarrow>
          (case f E FetchPositions c of
             (Inl e, c) \<Rightarrow> (Inl e, c)
           | (Inr _, c) \<Rightarrow> f E FetchBalances c))"

definition initialise :: "denv \<Rightarrow> client \<Rightarrow> unit ws_result" where
  "initialise E c =
     (case authenticate E c of
        (Inl e, c) \<Rightarrow> (Inl e, c)
      | (Inr _, c) \<Rightarrow> send_seq E send_request c)"

definition checked_send_request :: "denv \<Rightarrow> Request \<Rightarrow> client \<Rightarrow> unit ws_result" where
  "checked_send_request E r c =
     (if \<not> ws_connected c then (Inl NotConnected, c)
      else if \<not> ws_authenticated c
      then (case initialise E c of (Inl e, c) \<Rightarrow> (Inl e, c) | (Inr _, c) \<Rightarrow> send_request E r c)
      else send_request E r c)"

section \<open>The operations of the trait \<open>WsClient\<close>\<close>

definition ws_is_ready :: "client \<Rightarrow> bool" where
  "ws_is_ready c = (ws_connected c \<and> ws_authenticated c)"

definition get_position_state :: "Symbol \<Rightarrow> client \<Rightarrow> KolliderClientError + PositionState option" where
  "get_position_state symbol c =
     (if ws_has_positions c then Inr (map_of (ws_positions c) symbol) else Inl PositionStateNotAvailable)"

definition get_balance :: "denv \<Rightarrow> Currency \<Rightarrow> client \<Rightarrow> (KolliderClientError + rat) option" where
  "get_balance E currency c =
     (if currency \<noteq> BTC
      then do {
        symbol \<leftarrow> symbol_from_currency currency;
        (case map_of (ws_positions c) symbol of
           None \<Rightarrow> Some (Inl BalanceNotAvailable)
         | Some position \<Rightarrow>
             (case ps_side position of
                None \<Rightarrow> Some (Inl BalanceNotAvailable)
              | Some side \<Rightarrow>
                  (case (map_of (ws_mark_prices c) symbol,
                         Option.bind (ws_balances c) (\<lambda>b. map_of (kb_isolated_margin b) symbol)) of
                     (Some mark_price, Some margin) \<Rightarrow> do {
                       x \<leftarrow> dec_add (d_dec E) margin (ps_upnl position);
                       x \<leftarrow> dec_mul (d_dec E) x (mp_price mark_price);
                       fiat_value \<leftarrow> dec_div (d_dec E) x SATS_IN_BITCOIN;
                       Some (Inr (case side of Bid \<Rightarrow> - fiat_value | Ask \<Rightarrow> fiat_value)) }
                   | _ \<Rightarrow> Some (Inl BalanceNotAvailable)))) }
      else
        (case Option.bind (ws_balances c) (\<lambda>b. map_of (kb_cash b) ''SAT'') of
           None \<Rightarrow> Some (Inl BalanceNotAvailable)
         | Some b \<Rightarrow> Some (Inr b)))"

definition order_new :: "Side \<Rightarrow> u64 \<Rightarrow> Symbol \<Rightarrow> uuid \<Rightarrow> Order" where
  "order_new side quantity symbol ext_order_id = \<lparr>
     or_ext_order_id = ext_order_id, or_order_type = Market, or_side = side, or_quantity = quantity,
     or_symbol = symbol, or_leverage = 100, or_margin_type = Isolated, or_settlement_type = Instant,
     or_origin = Sdk \<rparr>"

definition make_order :: "denv \<Rightarrow> u64 \<Rightarrow> Symbol \<Rightarrow> Side \<Rightarrow> client \<Rightarrow> unit ws_result" where
  "make_order E quantity symbol side c =
     checked_send_request E (OrderReq (order_new side quantity symbol (d_new_v4 E (ws_tick c)))) (ws_bump c)"

definition order :: "denv \<Rightarrow> u64 \<Rightarrow> Currency \<Rightarrow> Side \<Rightarrow> client \<Rightarrow> unit ws_result option" where
  "order E quantity currency side c =
     (if currency = BTC then Some (Inl NonFiatCurrency, c)
      else do {
        symbol \<leftarrow> symbol_from_currency currency;
        Some (make_order E quantity symbol side c) })"

definition buy :: "denv \<Rightarrow> u64 \<Rightarrow> Currency \<Rightarrow> client \<Rightarrow> unit ws_result option" where
  "buy E quantity currency c = order E quantity currency Ask c"

definition sell :: "denv \<Rightarrow> u64 \<Rightarrow> Currency \<Rightarrow> client \<Rightarrow> unit ws_result option" where
  "sell E quantity currency c = order E quantity currency Bid c"

definition make_withdrawal :: "denv \<Rightarrow> u64 \<Rightarrow> string \<Rightarrow> client \<Rightarrow> unit ws_result" where
  "make_withdrawal E amount payment_request c =
     checked_send_request E (WithdrawalReq \<lparr>lw_payment_request = payment_request, lw_amount = amount\<rparr>) c"

definition subscribe :: "denv \<Rightarrow> Channel list \<Rightarrow> Symbol list option \<Rightarrow> client \<Rightarrow> unit ws_result" where
  "subscribe E channels symbols c =
     checked_send_request E (Subscribe channels (case symbols of Some s \<Rightarrow> s | None \<Rightarrow> [])) c"

definition change_margin :: "denv \<Rightarrow> Symbol \<Rightarrow> i64 \<Rightarrow> client \<Rightarrow> unit ws_result" where
  "change_margin E symbol amount c =
     (if sint amount = 0 then (Inl IncorrectMarginAmount, c)
      else checked_send_request E (ChangeMarginReq \<lparr>chm_uid = 0, chm_ext_id = d_new_v4 E (ws_tick c),
          chm_symbol = symbol,
          chm_amount = of_int (sint (if 0 < sint amount then amount else - amount)),
          chm_action = (if 0 < sint amount then AddMargin else DeleteMargin)\<rparr>) (ws_bump c))"

section \<open>What the requests do to the client\<close>

text \<open>
  \<open>ws_ext c c'\<close>: between \<open>c\<close> and \<open>c'\<close> only requests were appended, time has passed and
  authentication may have been confirmed; what the client knows of the exchange is the same.
\<close>

definition ws_ext :: "client \<Rightarrow> client \<Rightarrow> bool" where
  "ws_ext c c' \<longleftrightarrow> (\<exists>rs ms n b. c' = c\<lparr>ws_sent := ws_sent c @ rs, ws_callback := ws_callback c @ ms,
     ws_tick := n, ws_authenticated := ws_authenticated c \<or> b\<rparr>)"

lemma ws_ext_refl [simp, intro]: "ws_ext c c"
  unfolding ws_ext_def
  by (rule exI [of _ "[]"], rule exI [of _ "[]"], rule exI [of _ "ws_tick c"], rule exI [of _ False]) simp

lemma ws_ext_trans [trans]: "ws_ext c d \<Longrightarrow> ws_ext d e \<Longrightarrow> ws_ext c e"
  unfolding ws_ext_def
proof (elim exE)
  fix rs ms n b rs' ms' n' b'
  assume d: "d = c\<lparr>ws_sent := ws_sent c @ rs, ws_callback := ws_callback c @ ms, ws_tick := n,
      ws_authenticated := ws_authenticated c \<or> b\<rparr>"
    and e: "e = d\<lparr>ws_sent := ws_sent d @ rs', ws_callback := ws_callback d @ ms', ws_tick := n',
      ws_authenticated := ws_authenticated d \<or> b'\<rparr>"
  show "\<exists>rs ms n b. e = c\<lparr>ws_sent := ws_sent c @ rs, ws_callback := ws_callback c @ ms,
     ws_tick := n, ws_authenticated := ws_authenticated c \<or> b\<rparr>"
    by (rule exI [of _ "rs @ rs'"], rule exI [of _ "ms @ ms'"], rule exI [of _ n'], rule exI [of _ "b \<or> b'"])
      (simp add: d e)
qed

lemma ws_extI:
  "c' = c\<lparr>ws_sent := ws_sent c @ rs, ws_callback := ws_callback c @ ms, ws_tick := n,
     ws_authenticated := ws_authenticated c \<or> b\<rparr> \<Longrightarrow> ws_ext c c'"
  unfolding ws_ext_def by blast

lemma ws_ext_fields:
  assumes "ws_ext c c'"
  shows "ws_connected c' = ws_connected c" "ws_positions c' = ws_positions c"
    "ws_has_positions c' = ws_has_positions c" "ws_symbols c' = ws_symbols c" "ws_balances c' = ws_balances c"
    "ws_mark_prices c' = ws_mark_prices c" "ws_authenticated c \<Longrightarrow> ws_authenticated c'"
    "\<exists>rs. ws_sent c' = ws_sent c @ rs"
  using assms by (auto simp: ws_ext_def)

lemma ws_ext_bump [simp, intro]: "ws_ext c (ws_bump c)"
  by (rule ws_extI [where rs = "[]" and ms = "[]" and n = "Suc (ws_tick c)" and b = False]) (simp add: ws_bump_def)

lemma ws_bump_simps [simp]:
  "ws_connected (ws_bump c) = ws_connected c" "ws_authenticated (ws_bump c) = ws_authenticated c"
  "ws_sent (ws_bump c) = ws_sent c" "ws_positions (ws_bump c) = ws_positions c"
  by (simp_all add: ws_bump_def)

lemma send_request_ext:
  assumes "send_request E r c = (x, c')"
  shows "ws_ext c c'"
proof -
  have "ws_ext c (ws_bump (c\<lparr>ws_sent := ws_sent c @ [r]\<rparr>))"
    by (rule ws_extI [where rs = "[r]" and ms = "[]" and n = "Suc (ws_tick c)" and b = False]) (simp add: ws_bump_def)
  with assms show ?thesis by (auto simp: send_request_def split: if_split_asm)
qed

lemma send_request_sent:
  "send_request E r c = (Inr u, c') \<Longrightarrow> ws_connected c \<and> ws_connected c' \<and> ws_sent c' = ws_sent c @ [r] \<and> ws_authenticated c' = ws_authenticated c"
  by (auto simp: send_request_def split: if_split_asm)

lemma authenticate_ext:
  assumes "authenticate E c = (x, c')"
  shows "ws_ext c c'"
proof -
  have confirm: "ws_ext c (process_incoming_message (KAuthenticate ''success'') (ws_bump c))" for c
    by (rule ws_extI [where rs = "[]" and ms = "[KAuthenticate ''success'']" and n = "Suc (ws_tick c)" and b = True])
      (simp add: auth_success_def send_to_callback_def ws_bump_def)
  show ?thesis
    using assms
    by (auto simp: authenticate_def split: prod.split_asm option.split_asm sum.split_asm if_split_asm
        dest!: send_request_ext simp del: process_incoming_message.simps
        intro: ws_ext_trans [OF ws_ext_bump] ws_ext_trans [OF ws_ext_trans [OF ws_ext_bump]] confirm)
qed

lemma authenticate_ok: "authenticate E c = (Inr u, c') \<Longrightarrow> ws_authenticated c' \<and> ws_connected c'"
  by (auto simp: authenticate_def auth_success_def send_to_callback_def
      split: prod.split_asm option.split_asm sum.split_asm if_split_asm)
    (auto dest: send_request_sent)

lemma send_seq_ext:
  assumes "send_seq E send_request c = (x, c')"
  shows "ws_ext c c'"
  using assms
  by (auto simp: send_seq_def split: prod.split_asm sum.split_asm dest!: send_request_ext intro: ws_ext_trans)

lemma initialise_ext: "initialise E c = (x, c') \<Longrightarrow> ws_ext c c'"
  by (auto simp: initialise_def split: prod.split_asm sum.split_asm
      dest!: authenticate_ext send_seq_ext intro: ws_ext_trans)

text \<open>
  The model of the client satisfies the mutually recursive equations of the sources:
  \<open>initialise\<close> authenticates and then sends its three fetches through \<open>checked_send_request\<close>,
  which would initialise a client that is not authenticated; the recursion ends after one round.
\<close>

theorem initialise_recursive:
  "initialise E c =
     (case authenticate E c of
        (Inl e, c) \<Rightarrow> (Inl e, c)
      | (Inr _, c) \<Rightarrow>
          (case checked_send_request E FetchTradableSymbols c of
             (Inl e, c) \<Rightarrow> (Inl e, c)
           | (Inr _, c) \<Rightarrow>
               (case checked_send_request E FetchPositions c of
                  (Inl e, c) \<Rightarrow> (Inl e, c)
                | (Inr _, c) \<Rightarrow> checked_send_request E FetchBalances c)))"
proof -
  have direct: "checked_send_request E r c = send_request E r c" if "ws_authenticated c" "ws_connected c" for r c
    using that by (simp add: checked_send_request_def)
  have seq: "send_seq E checked_send_request c = send_seq E send_request c"
    if c: "ws_authenticated c" "ws_connected c" for c
  proof -
    have step: "ws_authenticated d' \<and> ws_connected d'"
      if "send_request E r d = (Inr u, d')" "ws_authenticated d" for r u d d'
      using send_request_sent [OF that(1)] that(2) by simp
    obtain x d where d: "send_request E FetchTradableSymbols c = (x, d)" by (cases "send_request E FetchTradableSymbols c")
    obtain y e where e: "send_request E FetchPositions d = (y, e)" by (cases "send_request E FetchPositions d")
    show ?thesis
      using step c d e
      by (cases x; cases y) (auto simp: send_seq_def direct)
  qed
  obtain x d where d: "authenticate E c = (x, d)" by (cases "authenticate E c")
  show ?thesis
  proof (cases x)
    case (Inr u)
    with authenticate_ok d seq [of d] show ?thesis
      by (simp add: initialise_def flip: send_seq_def)
  qed (simp add: initialise_def d)
qed

section \<open>The contract of the operations that send\<close>

lemma checked_send_request_ext: "checked_send_request E r c = (x, c') \<Longrightarrow> ws_ext c c'"
  by (auto simp: checked_send_request_def split: if_split_asm prod.split_asm sum.split_asm
      dest!: initialise_ext send_request_ext intro: ws_ext_trans)

lemma checked_send_request_ok:
  assumes "checked_send_request E r c = (Inr u, c')"
  shows "\<exists>rs. ws_sent c' = ws_sent c @ rs @ [r] \<and> (ws_authenticated c \<longrightarrow> rs = [])"
proof (cases "ws_authenticated c")
  case True
  with assms show ?thesis
    by (auto simp: checked_send_request_def split: if_split_asm dest: send_request_sent)
next
  case False
  with assms obtain v d where d: "initialise E c = (Inr v, d)" "send_request E r d = (Inr u, c')"
    by (auto simp: checked_send_request_def split: if_split_asm prod.split_asm sum.split_asm)
  from ws_ext_fields(8) [OF initialise_ext [OF d(1)]] send_request_sent [OF d(2)] False show ?thesis by auto
qed

locale ws_op =
  fixes E :: denv and op :: "client \<Rightarrow> unit ws_result"
  assumes via_checked: "(\<exists>e. op c = (Inl e, c)) \<or> (\<exists>r. op c = checked_send_request E r c) \<or>
    (\<exists>r. op c = checked_send_request E r (ws_bump c))"
begin

lemma ext: "op c = (x, c') \<Longrightarrow> ws_ext c c'"
  using via_checked [of c]
  by (auto dest!: sym [of _ "checked_send_request _ _ _"] checked_send_request_ext
      intro: ws_ext_trans [OF ws_ext_bump])

lemma offline: "op c = (x, c') \<Longrightarrow> \<not> ws_connected c \<Longrightarrow> ws_sent c' = ws_sent c \<and> (\<exists>e. x = Inl e)"
  using via_checked [of c] by (auto simp: checked_send_request_def)

end

interpretation make_order: ws_op E "make_order E q s side" for E q s side
  by unfold_locales (auto simp: make_order_def)

interpretation make_withdrawal: ws_op E "make_withdrawal E a p" for E a p
  by unfold_locales (auto simp: make_withdrawal_def)

interpretation subscribe: ws_op E "subscribe E ch s" for E ch s
  by unfold_locales (auto simp: subscribe_def)

interpretation change_margin: ws_op E "change_margin E s a" for E s a
  by unfold_locales (auto simp: change_margin_def)

text \<open>The positions the client reports are those the exchange sent last.\<close>

lemma position_after_update:
  "get_position_state s (process_incoming_message (KPositionStates p) c) =
     (if ws_has_positions c then Inr (if s = ps_symbol p then Some p else map_of (ws_positions c) s)
      else Inl PositionStateNotAvailable)"
  by (simp add: get_position_state_def send_to_callback_def)

end
