(* ===== verification/BTree.thy ===== *)
theory BTree
  imports Prelude
begin

text \<open>
  Rust's \<open>BTreeMap\<close> as a list of entries with strictly increasing keys: \<open>insert\<close>,
  \<open>remove\<close>, \<open>get\<close>, the first entry of a half-open \<open>range\<close>, and \<open>split_off\<close>, which
  keeps the entries from a key on. The locale \<open>btree\<close> is what the dealer's order books, price
  tables and quotes rely on; the sorted lists are an interpretation of it.
\<close>

section \<open>Operations\<close>

fun bt_insert :: "'k::linorder \<Rightarrow> 'v \<Rightarrow> ('k \<times> 'v) list \<Rightarrow> ('k \<times> 'v) list" where
  "bt_insert k v [] = [(k, v)]"
| "bt_insert k v ((l, w) # m) =
     (if k < l then (k, v) # (l, w) # m else if l < k then (l, w) # bt_insert k v m else (k, v) # m)"

definition bt_remove :: "'k \<Rightarrow> ('k \<times> 'v) list \<Rightarrow> ('k \<times> 'v) list" where
  "bt_remove k m = filter (\<lambda>e. fst e \<noteq> k) m"

definition bt_range :: "'k::linorder \<Rightarrow> 'k \<Rightarrow> ('k \<times> 'v) list \<Rightarrow> ('k \<times> 'v) option" where
  "bt_range lo hi m = find (\<lambda>e. lo \<le> fst e \<and> fst e < hi) m"

definition bt_split_off :: "'k::linorder \<Rightarrow> ('k \<times> 'v) list \<Rightarrow> ('k \<times> 'v) list" where
  "bt_split_off k m = filter (\<lambda>e. k \<le> fst e) m"

definition bt_sorted :: "('k::linorder \<times> 'v) list \<Rightarrow> bool" where
  "bt_sorted m = sorted_wrt (<) (map fst m)"

section \<open>The interface\<close>

locale btree =
  fixes wf :: "'m \<Rightarrow> bool"
    and get :: "'m \<Rightarrow> 'k::linorder \<Rightarrow> 'v option"
    and ins :: "'k \<Rightarrow> 'v \<Rightarrow> 'm \<Rightarrow> 'm"
    and del :: "'k \<Rightarrow> 'm \<Rightarrow> 'm"
    and first :: "'k \<Rightarrow> 'k \<Rightarrow> 'm \<Rightarrow> ('k \<times> 'v) option"
    and split :: "'k \<Rightarrow> 'm \<Rightarrow> 'm"
  assumes wf_ins: "wf m \<Longrightarrow> wf (ins k v m)"
    and wf_del: "wf m \<Longrightarrow> wf (del k m)"
    and wf_split: "wf m \<Longrightarrow> wf (split k m)"
    and get_ins: "wf m \<Longrightarrow> get (ins k v m) l = (if l = k then Some v else get m l)"
    and get_del: "wf m \<Longrightarrow> get (del k m) l = (if l = k then None else get m l)"
    and get_split: "wf m \<Longrightarrow> get (split k m) l = (if k \<le> l then get m l else None)"
    and first_Some: "wf m \<Longrightarrow> first lo hi m = Some (k, v) \<longleftrightarrow>
      get m k = Some v \<and> lo \<le> k \<and> k < hi \<and> (\<forall>l. lo \<le> l \<and> l < k \<longrightarrow> get m l = None)"
    and first_None: "wf m \<Longrightarrow> first lo hi m = None \<longleftrightarrow> (\<forall>l. lo \<le> l \<and> l < hi \<longrightarrow> get m l = None)"
begin

lemma first_covers:
  assumes "wf m" "get m k = Some v" "lo \<le> k" "k < hi"
  obtains l w where "first lo hi m = Some (l, w)" "lo \<le> l" "l \<le> k" "get m l = Some w"
proof -
  obtain e where e: "first lo hi m = Some e"
    using first_None [OF assms(1), of lo hi] assms by (cases "first lo hi m") auto
  then have f: "first lo hi m = Some (fst e, snd e)" by simp
  from first_Some [OF assms(1), of lo hi "fst e" "snd e"] f assms
  have "get m (fst e) = Some (snd e)" "lo \<le> fst e" "\<forall>l. lo \<le> l \<and> l < fst e \<longrightarrow> get m l = None" by auto
  with assms(2,3) have "fst e \<le> k" by (metis option.distinct(1) not_le)
  with f \<open>lo \<le> fst e\<close> \<open>get m (fst e) = Some (snd e)\<close> show thesis by (intro that)
qed

lemma first_mono:
  assumes "wf m" "first lo hi m = Some (k, v)" "lo \<le> lo'" "first lo' hi m = Some (k', v')"
  shows "k \<le> k'"
  using assms first_Some [OF assms(1)] by (metis not_le option.distinct(1) order_trans)

lemma split_forgets: "wf m \<Longrightarrow> l < k \<Longrightarrow> get (split k m) l = None"
  by (auto simp: get_split)

end

section \<open>Sorted lists implement it\<close>

lemma bt_sorted_Nil [simp]: "bt_sorted []"
  by (simp add: bt_sorted_def)

lemma bt_sorted_Cons: "bt_sorted ((k, v) # m) \<longleftrightarrow> (\<forall>l \<in> fst ` set m. k < l) \<and> bt_sorted m"
  by (auto simp: bt_sorted_def)

lemma set_bt_insert: "fst ` set (bt_insert k v m) = insert k (fst ` set m)"
  by (induction k v m rule: bt_insert.induct) auto

lemma bt_sorted_insert: "bt_sorted m \<Longrightarrow> bt_sorted (bt_insert k v m)"
  by (induction k v m rule: bt_insert.induct) (auto simp: bt_sorted_Cons set_bt_insert)

lemma bt_sorted_filter: "bt_sorted m \<Longrightarrow> bt_sorted (filter P m)"
  by (induction m) (auto simp: bt_sorted_def)

lemma map_of_bt_insert: "map_of (bt_insert k v m) = (map_of m)(k \<mapsto> v)"
  by (induction k v m rule: bt_insert.induct) (auto simp: fun_eq_iff)

lemma map_of_key_filter: "map_of (filter (\<lambda>e. P (fst e)) m) l = (if P l then map_of m l else None)"
  by (induction m) auto

lemma map_of_bt_remove: "map_of (bt_remove k m) l = (if l = k then None else map_of m l)"
  using map_of_key_filter [of "\<lambda>x. x \<noteq> k" m l] by (simp add: bt_remove_def)

lemma bt_first_Some:
  assumes "bt_sorted m"
  shows "bt_range lo hi m = Some (k, v) \<longleftrightarrow>
    map_of m k = Some v \<and> lo \<le> k \<and> k < hi \<and> (\<forall>l. lo \<le> l \<and> l < k \<longrightarrow> map_of m l = None)"
  using assms
proof (induction m)
  case (Cons e m)
  obtain a b where e: "e = (a, b)" by (cases e)
  from Cons.prems have less: "\<And>l w. map_of m l = Some w \<Longrightarrow> a < l" and "bt_sorted m"
    by (force simp: e bt_sorted_Cons dest: map_of_SomeD)+
  with Cons.IH show ?case
    by (auto simp: e bt_range_def) (metis less less_asym' option.exhaust order.strict_trans2 not_le)+
qed (simp add: bt_range_def)

lemma bt_first_None:
  "bt_range lo hi m = None \<longleftrightarrow> (\<forall>l. lo \<le> l \<and> l < hi \<longrightarrow> map_of m l = None)"
  by (force simp: bt_range_def find_None_iff map_of_eq_None_iff)

interpretation bt: btree bt_sorted map_of bt_insert bt_remove bt_range bt_split_off
  by unfold_locales
    (simp_all add: bt_sorted_insert map_of_bt_insert bt_first_Some bt_first_None map_of_bt_remove
      bt_split_off_def map_of_key_filter bt_sorted_filter, simp add: bt_remove_def bt_sorted_filter)

end
