(* ===== verification/Dealer.thy ===== *)
theory Dealer
  imports Kollider BTree
begin

text \<open>
  The dealer's state and prices (\<open>dealer/src/dealer_engine.rs\<close>): the engine's record, the
  spread, the rates derived from the price tables, quotes and their validation. The price tables
  \<open>bid_quotes\<close> and \<open>ask_quotes\<close> map a symbol to a table from quantities to prices.
  \<open>None\<close> as the result of an operation is a panic; a missing rate is the value
  \<open>(None, None)\<close>, as in the sources.
\<close>

section \<open>State\<close>

definition QUOTE_TTL_MS :: nat where
  "QUOTE_TTL_MS = 5000"

type_synonym price_table = "(u64 \<times> rat) list"

record DealerEngineSettings =
  ds_risk_tolerances :: "(string \<times> u64) list"
  ds_position_min_leverage :: rat
  ds_position_max_leverage :: rat
  ds_leverage_check_interval_ms :: u64
  ds_spread :: rat
  ds_max_single_order_quantities :: "(string \<times> u64) list"

record dealer =
  ws_client :: client
  level2_data :: "(Symbol \<times> Level2State) list"
  bid_quotes :: "(Symbol \<times> price_table) list"
  ask_quotes :: "(Symbol \<times> price_table) list"
  risk_tolerances :: "(Currency \<times> u64) list"
  guaranteed_quotes :: "(nat \<times> QuoteResponse) list"
  has_received_init_data :: bool
  has_received_symbols :: bool
  has_received_positions :: bool
  is_kollider_authenticated :: bool
  last_bank_state :: "BankState option"
  last_bank_state_timestamp :: "int option"
  hedged_qtys :: "(Symbol \<times> rat) list"
  position_min_leverage :: rat
  position_max_leverage :: rat
  leverage_check_interval_ms :: u64
  last_leverage_check_timestamp :: int
  spread :: rat
  funding_profit :: rat
  max_single_order_quantities :: "(string \<times> u64) list"
  dl_tick :: nat
  dl_outbox :: "Message list"

definition dl_send :: "Message \<Rightarrow> dealer \<Rightarrow> dealer" where
  "dl_send m d = d\<lparr>dl_outbox := dl_outbox d @ [m]\<rparr>"

definition dl_bump :: "dealer \<Rightarrow> dealer" where
  "dl_bump d = d\<lparr>dl_tick := Suc (dl_tick d)\<rparr>"

fun convert_tolerances :: "(string \<times> u64) list \<Rightarrow> (Currency \<times> u64) list \<Rightarrow> (Currency \<times> u64) list option" where
  "convert_tolerances [] m = Some m"
| "convert_tolerances ((c, r) # xs) m =
     (case currency_from_str c of
        Inr currency \<Rightarrow> convert_tolerances xs (AList.update currency r m)
      | Inl _ \<Rightarrow> None)"

definition dealer_new :: "denv \<Rightarrow> DealerEngineSettings \<Rightarrow> client \<Rightarrow> rat \<Rightarrow> dealer option" where
  "dealer_new E st c initial_funding_pnl = do {
     tolerances \<leftarrow> convert_tolerances (ds_risk_tolerances st) [];
     Some \<lparr>ws_client = c, level2_data = [], bid_quotes = [], ask_quotes = [],
       risk_tolerances = tolerances, guaranteed_quotes = [],
       has_received_init_data = False, has_received_symbols = False, has_received_positions = False,
       is_kollider_authenticated = False, last_bank_state = None, last_bank_state_timestamp = None,
       hedged_qtys = [], position_min_leverage = ds_position_min_leverage st,
       position_max_leverage = ds_position_max_leverage st,
       leverage_check_interval_ms = ds_leverage_check_interval_ms st,
       last_leverage_check_timestamp = d_instant E 0 - int (unat (ds_leverage_check_interval_ms st + 1)),
       spread = ds_spread st, funding_profit = initial_funding_pnl,
       max_single_order_quantities = ds_max_single_order_quantities st, dl_tick = 1, dl_outbox = []\<rparr> }"

definition is_ready :: "dealer \<Rightarrow> bool" where
  "is_ready d = has_received_init_data d"

definition has_bank_state :: "dealer \<Rightarrow> bool" where
  "has_bank_state d = (last_bank_state d \<noteq> None)"

definition get_hedged_quantity :: "Symbol \<Rightarrow> dealer \<Rightarrow> KolliderClientError + rat" where
  "get_hedged_quantity symbol d =
     (case get_position_state symbol (ws_client d) of
        Inl e \<Rightarrow> Inl e
      | Inr None \<Rightarrow> Inr 0
      | Inr (Some p) \<Rightarrow> Inr (case ps_side p of None \<Rightarrow> 0 | Some _ \<Rightarrow> ps_quantity p))"

definition check_has_received_initial_data :: "dealer \<Rightarrow> dealer" where
  "check_has_received_initial_data d = d\<lparr>has_received_init_data :=
     has_received_positions d \<and> has_received_symbols d \<and> is_kollider_authenticated d\<rparr>"

definition calc_num_contracts_for_value :: "denv \<Rightarrow> rat \<Rightarrow> rat" where
  "calc_num_contracts_for_value E v =
     (if 0 < v then dec_round (d_dec E) AwayFromZero 0 v else dec_round (d_dec E) ToZero 0 v)"

definition reset_state :: "dealer \<Rightarrow> dealer" where
  "reset_state d = d\<lparr>level2_data := [], bid_quotes := [], ask_quotes := [], has_received_init_data := False,
     has_received_symbols := False, has_received_positions := False, is_kollider_authenticated := False,
     guaranteed_quotes := [], hedged_qtys := [], last_bank_state := None, last_bank_state_timestamp := None\<rparr>"

section \<open>The spread\<close>

definition get_half_spread :: "denv \<Rightarrow> dealer \<Rightarrow> rat option" where
  "get_half_spread E d = dec_div (d_dec E) (spread d) 2"

definition get_linear_modifier :: "denv \<Rightarrow> dealer \<Rightarrow> rat option" where
  "get_linear_modifier E d = Option.bind (get_half_spread E d) (dec_sub (d_dec E) 1)"

definition get_inverse_modifier :: "denv \<Rightarrow> dealer \<Rightarrow> rat option" where
  "get_inverse_modifier E d = Option.bind (get_half_spread E d) (dec_add (d_dec E) 1)"

definition get_linear_rate :: "denv \<Rightarrow> dealer \<Rightarrow> rat \<Rightarrow> bool \<Rightarrow> rat option" where
  "get_linear_rate E d price charge_spread = do {
     modifier \<leftarrow> (if charge_spread then get_linear_modifier E d else Some 1);
     dec_mul (d_dec E) price modifier }"

definition get_inverse_rate :: "denv \<Rightarrow> dealer \<Rightarrow> rat \<Rightarrow> bool \<Rightarrow> rat option" where
  "get_inverse_rate E d price charge_spread = do {
     modifier \<leftarrow> (if charge_spread then get_inverse_modifier E d else Some 1);
     x \<leftarrow> dec_mul (d_dec E) price modifier;
     dec_div (d_dec E) 1 x }"

section \<open>Rates\<close>

type_synonym rate_and_fees = "Rate option \<times> Money option"

definition quotes_for :: "ConversionInfo \<Rightarrow> dealer \<Rightarrow> price_table option" where
  "quotes_for ci d =
     (case ci_side ci of
        Bid \<Rightarrow> map_of (ask_quotes d) (ci_symbol ci)
      | Ask \<Rightarrow> map_of (bid_quotes d) (ci_symbol ci))"

text \<open>The rate and the fees at a price; the code of both rate functions once a price is found.\<close>

definition rate_at :: "denv \<Rightarrow> dealer \<Rightarrow> ConversionInfo \<Rightarrow> bool \<Rightarrow> rat \<Rightarrow> rat \<Rightarrow> rate_and_fees option" where
  "rate_at E d ci charge_spread price value_in_fiat =
     (let D = d_dec E in
      if is_linear ci
      then do {
        user_rate \<leftarrow> get_linear_rate E d price charge_spread;
        x \<leftarrow> dec_sub D price user_rate;
        x \<leftarrow> dec_div D x price;
        v \<leftarrow> dec_mul D x value_in_fiat;
        Some (Some (rate_new D (ci_from ci) (ci_to ci) user_rate), Some (money_new D (ci_to ci) v)) }
      else do {
        no_fee_inverse_rate \<leftarrow> dec_div D 1 price;
        user_inverse_rate \<leftarrow> get_inverse_rate E d price charge_spread;
        x \<leftarrow> dec_sub D no_fee_inverse_rate user_inverse_rate;
        x \<leftarrow> dec_div D x no_fee_inverse_rate;
        y \<leftarrow> dec_div D value_in_fiat price;
        v \<leftarrow> dec_mul D x y;
        Some (Some (rate_new D (ci_from ci) (ci_to ci) user_inverse_rate), Some (money_new D (ci_to ci) v)) })"

definition price_lookup :: "denv \<Rightarrow> dealer \<Rightarrow> ConversionInfo \<Rightarrow> bool \<Rightarrow> price_table \<Rightarrow> rat \<Rightarrow> rate_and_fees option" where
  "price_lookup E d ci charge_spread quotes value_in_fiat =
     (case dec_to_u64 (d_dec E) value_in_fiat of
        None \<Rightarrow> Some (None, None)
      | Some lookup_quantity \<Rightarrow>
          (case bt_range lookup_quantity (- 1) quotes of
             None \<Rightarrow> Some (None, None)
           | Some (_, price) \<Rightarrow> rate_at E d ci charge_spread price value_in_fiat))"

definition get_btc_cross_rate :: "denv \<Rightarrow> Money \<Rightarrow> ConversionInfo \<Rightarrow> bool \<Rightarrow> dealer \<Rightarrow> rate_and_fees option" where
  "get_btc_cross_rate E amount ci charge_spread d =
     (case quotes_for ci d of
        None \<Rightarrow> Some (None, None)
      | Some quotes \<Rightarrow>
          (case (if ci_from ci \<noteq> ci_quote ci then map_option snd (bt_range 0 (- 1) quotes) else Some 1) of
             None \<Rightarrow> Some (None, None)
           | Some best_price \<Rightarrow> do {
               value_in_fiat \<leftarrow> dec_mul (d_dec E) (mon_value amount) best_price;
               price_lookup E d ci charge_spread quotes value_in_fiat }))"

definition get_rate :: "denv \<Rightarrow> Money \<Rightarrow> Currency \<Rightarrow> dealer \<Rightarrow> rate_and_fees option" where
  "get_rate E amount dest d =
     (if mon_currency amount = BTC \<or> dest = BTC
      then do {
        ci \<leftarrow> conversion_info_new (mon_currency amount) dest;
        get_btc_cross_rate E amount ci True d }
      else do {
        first_conversion \<leftarrow> conversion_info_new (mon_currency amount) BTC;
        (first_rate, _) \<leftarrow> get_btc_cross_rate E amount first_conversion False d;
        (case first_rate of
           None \<Rightarrow> Some (None, None)
         | Some to_btc_rate \<Rightarrow> do {
             x \<leftarrow> dec_mul (d_dec E) (mon_value amount) (rate_value to_btc_rate);
             let converted_money = money_new (d_dec E) BTC x;
             second_conversion \<leftarrow> conversion_info_new BTC dest;
             (second_rate, second_fee) \<leftarrow> get_btc_cross_rate E converted_money second_conversion True d;
             (case second_rate of
                None \<Rightarrow> Some (None, None)
              | Some to_target_rate \<Rightarrow> do {
                  y \<leftarrow> dec_mul (d_dec E) (rate_value to_btc_rate) (rate_value to_target_rate);
                  Some (Some (rate_new (d_dec E) (mon_currency amount) dest y), second_fee) }) }) })"

definition get_rate_inv :: "denv \<Rightarrow> Money \<Rightarrow> ConversionInfo \<Rightarrow> dealer \<Rightarrow> rate_and_fees option" where
  "get_rate_inv E amount ci d =
     (case quotes_for ci d of
        None \<Rightarrow> Some (None, None)
      | Some quotes \<Rightarrow>
          price_lookup E d ci True quotes (dec_round (d_dec E) AwayFromZero 0 (mon_value amount)))"

section \<open>Quotes\<close>

definition validate_quote :: "QuoteResponse \<Rightarrow> SwapRequest \<Rightarrow> bool" where
  "validate_quote q r \<longleftrightarrow> \<not> (qrs_from q \<noteq> srq_from r \<or> qrs_to q \<noteq> srq_to r
     \<or> mon_value (qrs_amount q) \<noteq> mon_value (srq_amount r) \<or> qrs_uid q \<noteq> srq_uid r)"

fun get_better_rate :: "Rate option \<Rightarrow> Rate option \<Rightarrow> bool \<Rightarrow> Rate option" where
  "get_better_rate (Some r1) (Some r2) lin =
     (if lin then (if rate_value r2 < rate_value r1 then Some r1 else Some r2)
      else if rate_value r1 < rate_value r2 then Some r1 else Some r2)"
| "get_better_rate (Some r1) None _ = Some r1"
| "get_better_rate None (Some r2) _ = Some r2"
| "get_better_rate None None _ = None"

record DealerPnl =
  total_pnl :: "rat option"
  funding_pnl :: "rat option"

definition get_pnl :: "dealer \<Rightarrow> DealerPnl" where
  "get_pnl d = \<lparr>
     total_pnl = Option.bind (last_bank_state d) (\<lambda>bs.
       map_option (balance \<circ> snd) (find (\<lambda>(_, a). acc_currency a = BTC \<and> account_type a = Internal) (fiat_exposures bs))),
     funding_pnl = Some (funding_profit d) \<rparr>"

section \<open>What the dealer relies on\<close>

text \<open>
  Beyond the laws of \<open>decimal\<close>: quotients in the range of prices are computed with an error of at
  most \<open>10\<^sup>-\<^sup>1\<^sup>2\<close>, \<open>floor\<close> and \<open>ceil\<close> round to whole numbers, \<open>set_scale\<close> moves the
  decimal point of a whole number and fails beyond 28 places, and a \<open>HashSet\<close> has each element of
  the list it was collected from once.
\<close>

locale dealer_env = decimal "d_dec E" for E :: denv +
  assumes div_close: "b \<noteq> 0 \<Longrightarrow> \<bar>a / b\<bar> \<le> 10 ^ 12 \<Longrightarrow> \<exists>c. dec_div (d_dec E) a b = Some c \<and> \<bar>c - a / b\<bar> \<le> 1 / 10 ^ 12"
    and floor_law: "d_floor E x = of_int \<lfloor>x\<rfloor>"
    and ceil_law: "d_ceil E x = of_int \<lceil>x\<rceil>"
    and set_scale_law: "d_set_scale E dp (of_int n) = (if dp \<le> 28 then Some (of_int n / 10 ^ dp) else None)"
    and hash_set_law: "distinct (d_hash_set E xs) \<and> set (d_hash_set E xs) = set xs"
begin

lemma div_to:
  assumes "b \<noteq> 0" "\<bar>a / b\<bar> \<le> 10 ^ 12"
  obtains c where "dec_div (d_dec E) a b = Some c" "\<bar>c - a / b\<bar> \<le> 1 / 10 ^ 12"
  using div_close [OF assms] by blast

end

definition denv96 :: denv where
  "denv96 = \<lparr>
     d_dec = dec96,
     d_floor = (\<lambda>x. of_int \<lfloor>x\<rfloor>),
     d_ceil = (\<lambda>x. of_int \<lceil>x\<rceil>),
     d_set_scale = (\<lambda>dp x. if dp \<le> 28 then Some (x / 10 ^ dp) else None),
     d_new_v4 = (\<lambda>n. n),
     d_time = (\<lambda>n. n + 10000000),
     d_instant = int,
     d_hash_set = remdups,
     b64_decode = Some,
     b64_encode = (\<lambda>s. s),
     hmac_sha256 = (\<lambda>k m. Some (k @ m)),
     json_ok = (\<lambda>_. True),
     ws_open = (\<lambda>_. True),
     ws_answer = (\<lambda>_. True) \<rparr>"

lemma denv96_simps [simp]:
  "d_dec denv96 = dec96" "d_floor denv96 x = of_int \<lfloor>x\<rfloor>" "d_ceil denv96 x = of_int \<lceil>x\<rceil>"
  "d_set_scale denv96 dp x = (if dp \<le> 28 then Some (x / 10 ^ dp) else None)" "d_hash_set denv96 = remdups"
  "json_ok denv96 r" "ws_open denv96 n" "ws_answer denv96 n" "d_instant denv96 n = int n" "d_time denv96 n = n + 10000000"
  by (simp_all add: denv96_def)

lemma trunc_dp_near: "\<bar>trunc_dp dp x - x\<bar> \<le> 1 / 10 ^ dp"
proof -
  have "\<bar>trunc_dp dp x * 10 ^ dp - x * 10 ^ dp\<bar> \<le> 1"
    by (auto simp: trunc_dp_def) linarith+
  then have "\<bar>trunc_dp dp x - x\<bar> * 10 ^ dp \<le> 1" by (simp add: abs_mult flip: left_diff_distrib)
  then show ?thesis by (simp add: field_simps)
qed

interpretation denv96: dealer_env denv96
proof (rule dealer_env.intro)
  show "decimal (d_dec denv96)" by (simp add: dec96.decimal_axioms)
  show "dealer_env_axioms denv96"
  proof
    fix a b :: rat
    assume b: "b \<noteq> 0" and q: "\<bar>a / b\<bar> \<le> 10 ^ 12"
    have "\<bar>trunc_dp 12 (a / b)\<bar> \<le> 10 ^ 12" using trunc_dp_abs_le [of 12 "a / b"] q by linarith
    then have "dec_repr 12 (trunc_dp 12 (a / b))" by (intro dec_repr_12) auto
    then have "fits96 (trunc_dp 12 (a / b))" by (rule fits96_dec_repr)
    with b show "\<exists>c. dec_div (d_dec denv96) a b = Some c \<and> \<bar>c - a / b\<bar> \<le> 1 / 10 ^ 12"
      using trunc_dp_near [of 12 "a / b"] by (auto simp: dec96_def check96_def)
  qed auto
qed

end
