(* ===== verification/DealerBook.thy ===== *)
theory DealerBook
  imports Dealer
begin

text \<open>
  The dealer's order books and price tables (\<open>process_orderbook_update\<close>, \<open>update_quotes\<close>).
  The table of a symbol is computed in one pass over the book: the levels are consumed from the best
  price on while the target quantity grows, and a price is entered for every quantity that the
  book can fill. \<open>book_cost\<close> is the reference: what a quantity costs, computed from scratch. The
  lemmas show that the pass agrees with it for each quantity, that its 64-bit counters do not
  wrap, and that the prices of an uncrossed book do not cross.
\<close>

section \<open>Definitions\<close>

definition QUANTITIES :: "u64 list" where
  "QUANTITIES = [10, 100, 1000, 2000, 3000, 5000, 10000, 100000, 1000000]"

text \<open>The variables of one side of the loop; \<open>levels\<close> is what is left of the iterator.\<close>

record fill =
  quantity_at_level :: u64
  price_at_level :: rat
  quantity_so_far :: u64
  num :: rat
  levels :: "(rat \<times> u64) list"

definition fill_init :: "(rat \<times> u64) list \<Rightarrow> fill" where
  "fill_init ls = \<lparr>quantity_at_level = 0, price_at_level = 0, quantity_so_far = 0, num = 0, levels = ls\<rparr>"

text \<open>The \<open>while\<close> loop: \<open>to_match\<close> is what is still missing when it ends.\<close>

function match_levels :: "dec_ops \<Rightarrow> u64 \<Rightarrow> fill \<Rightarrow> (u64 \<times> fill) option" where
  "match_levels D to_match f =
     (if to_match = 0 then Some (0, f)
      else if to_match \<le> quantity_at_level f
      then do {
        x \<leftarrow> dec_mul D (price_at_level f) (of_int (sint to_match));
        n \<leftarrow> dec_add D (num f) x;
        Some (0, f\<lparr>quantity_at_level := quantity_at_level f - to_match,
          quantity_so_far := quantity_so_far f + to_match, num := n\<rparr>) }
      else do {
        x \<leftarrow> dec_mul D (price_at_level f) (of_int (sint (quantity_at_level f)));
        n \<leftarrow> dec_add D (num f) x;
        (case levels f of
           (p, v) # ls \<Rightarrow> match_levels D (to_match - quantity_at_level f)
             (f\<lparr>quantity_so_far := quantity_so_far f + quantity_at_level f, num := n,
                price_at_level := p, quantity_at_level := v, levels := ls\<rparr>)
         | [] \<Rightarrow> Some (to_match - quantity_at_level f,
             f\<lparr>quantity_so_far := quantity_so_far f + quantity_at_level f, num := n,
                price_at_level := 0, quantity_at_level := 0\<rparr>)) })"
  by pat_completeness auto
termination by (relation "measure (\<lambda>(_, _, f). length (levels f))") auto

declare match_levels.simps [simp del]

definition table_insert :: "Symbol \<Rightarrow> u64 \<Rightarrow> rat \<Rightarrow> (Symbol \<times> price_table) list \<Rightarrow> (Symbol \<times> price_table) list" where
  "table_insert symbol qty price tables =
     AList.update symbol (bt_insert qty price (case map_of tables symbol of Some t \<Rightarrow> t | None \<Rightarrow> [])) tables"

text \<open>The price that is entered: the average over the quantity, rounded to a whole tick.\<close>

definition level_price :: "denv \<Rightarrow> (rat \<Rightarrow> rat) \<Rightarrow> nat \<Rightarrow> fill \<Rightarrow> rat option" where
  "level_price E rnd dp f = do {
     x \<leftarrow> dec_div (d_dec E) (num f) (of_int (sint (quantity_so_far f)));
     d_set_scale E dp (rnd x) }"

fun quote_loop :: "denv \<Rightarrow> Symbol \<Rightarrow> nat \<Rightarrow> u64 list \<Rightarrow> fill \<Rightarrow> fill \<Rightarrow> dealer \<Rightarrow> dealer option" where
  "quote_loop E symbol dp [] bids asks d = Some d"
| "quote_loop E symbol dp (qty # qs) bids asks d = do {
     (bid_to_match, bids) \<leftarrow> match_levels (d_dec E) (qty - quantity_so_far bids) bids;
     (ask_to_match, asks) \<leftarrow> match_levels (d_dec E) (qty - quantity_so_far asks) asks;
     d \<leftarrow> (if bid_to_match = 0
       then map_option (\<lambda>price. d\<lparr>bid_quotes := table_insert symbol qty price (bid_quotes d)\<rparr>)
         (level_price E (d_ceil E) dp bids)
       else Some d);
     d \<leftarrow> (if ask_to_match = 0
       then map_option (\<lambda>price. d\<lparr>ask_quotes := table_insert symbol qty price (ask_quotes d)\<rparr>)
         (level_price E (d_floor E) dp asks)
       else Some d);
     quote_loop E symbol dp qs bids asks d }"

definition update_quotes :: "denv \<Rightarrow> Symbol \<Rightarrow> dealer \<Rightarrow> dealer option" where
  "update_quotes E symbol d =
     (case map_of (ws_symbols (ws_client d)) symbol of
        None \<Rightarrow> Some d
      | Some contract \<Rightarrow>
          (case map_of (level2_data d) symbol of
             None \<Rightarrow> Some d
           | Some book \<Rightarrow> quote_loop E symbol (tsy_price_dp contract) QUANTITIES
               (fill_init (rev (l2_bids book))) (fill_init (l2_asks book)) d))"

text \<open>One entry of a delta: volume 0 removes a level. The volumes are unsigned, so that the case of a
  negative volume in the sources does not occur.\<close>

definition apply_level :: "(rat \<times> u64) list \<Rightarrow> rat \<times> u64 \<Rightarrow> (rat \<times> u64) list" where
  "apply_level book pv =
     (if snd pv = 0 then bt_remove (fst pv) book else bt_insert (fst pv) (snd pv) book)"

definition process_orderbook_update :: "denv \<Rightarrow> Level2State \<Rightarrow> dealer \<Rightarrow> dealer option" where
  "process_orderbook_update E l2 d =
     (let symbol = l2_symbol l2 in
      if l2_update_type l2 = ''snapshot''
      then update_quotes E symbol (d\<lparr>level2_data := AList.update symbol l2 (level2_data d)\<rparr>)
      else if l2_update_type l2 = ''delta''
      then update_quotes E symbol
        (case map_of (level2_data d) symbol of
           None \<Rightarrow> d
         | Some book \<Rightarrow> d\<lparr>level2_data := AList.update symbol
             (book\<lparr>l2_bids := foldl apply_level (l2_bids book) (l2_bids l2),
                l2_asks := foldl apply_level (l2_asks book) (l2_asks l2)\<rparr>) (level2_data d)\<rparr>)
      else None)"

section \<open>The reference\<close>

text \<open>What \<open>q\<close> contracts cost on a book, best level first; \<open>None\<close> if the book is too thin.\<close>

fun book_cost :: "nat \<Rightarrow> (rat \<times> u64) list \<Rightarrow> rat option" where
  "book_cost q [] = (if q = 0 then Some 0 else None)"
| "book_cost q ((p, v) # ls) =
     (if q \<le> unat v then Some (p * of_nat q)
      else map_option (\<lambda>c. p * of_nat (unat v) + c) (book_cost (q - unat v) ls))"

definition table_get :: "(Symbol \<times> price_table) list \<Rightarrow> Symbol \<Rightarrow> u64 \<Rightarrow> rat option" where
  "table_get tables symbol qty = Option.bind (map_of tables symbol) (\<lambda>t. map_of t qty)"

text \<open>Books in the range of exact arithmetic: whole ticks of at most \<open>10\<^sup>1\<^sup>2\<close>.\<close>

definition prices_ok :: "(rat \<times> u64) list \<Rightarrow> bool" where
  "prices_ok ls \<longleftrightarrow> list_all (\<lambda>pv. is_integer (fst pv) \<and> 0 \<le> fst pv \<and> fst pv \<le> 10 ^ 12) ls"

lemma book_cost_0 [simp]: "book_cost 0 ls = Some 0"
  by (cases ls) auto

lemma book_cost_pad [simp]: "book_cost q ((p, 0) # ls) = book_cost q ls"
  by (cases "q = 0") (simp_all add: option.map_ident_strong)

lemma book_cost_part:
  assumes "a \<le> unat v"
  shows "book_cost (a + k) ((p, v) # ls) =
    map_option ((+) (p * of_nat a)) (book_cost k ((p, v - word_of_nat a) # ls))"
proof -
  have "a < 2 ^ 64" using assms unsigned_less [of v, where 'a = nat] by simp
  then have a: "unat (word_of_nat a :: u64) = a" by (simp add: unsigned_of_nat take_bit_nat_eq_self)
  then have v: "unat (v - word_of_nat a) = unat v - a"
    using assms by (simp add: unat_sub word_le_nat_alt)
  show ?thesis
    using assms by (auto simp: v option.map_comp comp_def algebra_simps of_nat_diff intro!: option.map_cong)
qed

lemma book_cost_level:
  "book_cost (unat v + k) ((p, v) # ls) = map_option ((+) (p * of_nat (unat v))) (book_cost k ls)"
  by (cases "k = 0") auto

section \<open>The pass agrees with the reference\<close>

abbreviation rest :: "fill \<Rightarrow> (rat \<times> u64) list" where
  "rest f \<equiv> (price_at_level f, quantity_at_level f) # levels f"

text \<open>\<open>t\<close> contracts of the book \<open>L\<close> have been consumed.\<close>

definition consumed :: "(rat \<times> u64) list \<Rightarrow> nat \<Rightarrow> fill \<Rightarrow> bool" where
  "consumed L t f \<longleftrightarrow> t \<le> 10 ^ 6 \<and> quantity_so_far f = word_of_nat t \<and> prices_ok (rest f) \<and>
     is_integer (num f) \<and> 0 \<le> num f \<and> num f \<le> of_nat t * 10 ^ 12 \<and>
     (\<forall>k. book_cost (t + k) L = map_option ((+) (num f)) (book_cost k (rest f)))"

lemma consumed_init: "prices_ok L \<Longrightarrow> consumed L 0 (fill_init L)"
  by (auto simp: consumed_def fill_init_def prices_ok_def is_integer_def option.map_ident_strong
      simp del: book_cost.simps)

lemma consumed_total: "consumed L t f \<Longrightarrow> book_cost t L = Some (num f)"
  unfolding consumed_def by (metis add.right_neutral book_cost_0 option.map(2))

lemma small_word:
  assumes "n \<le> 10 ^ 6"
  shows "unat (word_of_nat n :: u64) = n" "sint (word_of_nat n :: u64) = int n"
  using assms by (simp_all add: unsigned_of_nat take_bit_nat_eq_self signed_of_nat signed_take_bit_int_eq_self)

lemma small_sint: "unat (w :: u64) \<le> 10 ^ 6 \<Longrightarrow> of_int (sint w) = (of_nat (unat w) :: rat)"
  using small_word(2) [of "unat w"] by (simp del: of_int_sint)

context decimal
begin

text \<open>Taking \<open>a\<close> contracts of the current level.\<close>

lemma take_level:
  assumes "consumed L t f" "n \<le> 10 ^ 6 - t"
  shows "dec_mul D (price_at_level f) (of_nat n) = Some (price_at_level f * of_nat n)"
    "dec_add D (num f) (price_at_level f * of_nat n) = Some (num f + price_at_level f * of_nat n)"
    "is_integer (num f + price_at_level f * of_nat n)" "0 \<le> num f + price_at_level f * of_nat n"
    "num f + price_at_level f * of_nat n \<le> of_nat (t + n) * 10 ^ 12"
proof -
  let ?p = "price_at_level f"
  have p: "is_integer ?p" "0 \<le> ?p" "?p \<le> 10 ^ 12" and num: "is_integer (num f)" "0 \<le> num f"
    "num f \<le> of_nat t * 10 ^ 12" and t: "t + n \<le> 10 ^ 6"
    using assms by (auto simp: consumed_def prices_ok_def)
  have n: "is_integer (of_nat n)" by (metis is_integer_of_int of_int_of_nat_eq)
  have pn: "?p * of_nat n \<le> of_nat n * 10 ^ 12" using mult_right_mono [OF p(3), of "of_nat n"] by (simp add: mult.commute)
  have tn: "(of_nat (t + n) :: rat) \<le> 10 ^ 6" using t by (metis of_nat_le_iff of_nat_numeral of_nat_power)
  show le: "num f + ?p * of_nat n \<le> of_nat (t + n) * 10 ^ 12"
    using num(3) pn by (simp add: algebra_simps)
  with tn have bound: "num f + ?p * of_nat n \<le> 10 ^ 18" by simp
  show int: "is_integer (num f + ?p * of_nat n)" using num(1) p(1) n by (intro is_integer_add is_integer_mult)
  show pos: "0 \<le> num f + ?p * of_nat n" using num(2) p(2) by simp
  have "num f \<le> 10 ^ 18" using bound mult_nonneg_nonneg [OF p(2), of "of_nat n"] by simp
  moreover have "(of_nat n :: rat) \<le> 10 ^ 6" using tn by simp
  ultimately have "dec_repr 0 ?p" "dec_repr 0 (of_nat n)" "dec_repr (0 + 0) (?p * of_nat n)" "dec_repr 0 (num f)"
      "dec_repr 0 (num f + ?p * of_nat n)"
    using p num(1,2) n bound int pos is_integer_mult [OF p(1) n] mult_nonneg_nonneg [OF p(2), of "of_nat n"]
    by (simp_all add: dec_repr_def grid_def)
  then show "dec_mul D ?p (of_nat n) = Some (?p * of_nat n)"
    "dec_add D (num f) (?p * of_nat n) = Some (num f + ?p * of_nat n)"
    by (auto intro: mul_exact add_exact [of 0])
qed

lemma consumed_take:
  assumes "consumed L t f" "t + n \<le> 10 ^ 6" "prices_ok (rest f')"
    and "quantity_so_far f' = word_of_nat (t + n)" "num f' = num f + price_at_level f * of_nat n"
    and "\<And>k. book_cost (n + k) (rest f) = map_option ((+) (price_at_level f * of_nat n)) (book_cost k (rest f'))"
  shows "consumed L (t + n) f'"
proof -
  have "book_cost (t + n + k) L = map_option ((+) (num f')) (book_cost k (rest f'))" for k
  proof -
    have "book_cost (t + (n + k)) L = map_option ((+) (num f)) (book_cost (n + k) (rest f))"
      using assms(1) unfolding consumed_def by blast
    then show ?thesis
      unfolding assms(6)
      by (auto simp: assms(5) option.map_comp add.assoc simp del: book_cost.simps intro!: option.map_cong)
  qed
  with assms take_level(3-5) [OF assms(1), of n] show ?thesis
    by (simp add: consumed_def del: book_cost.simps)
qed

lemma match_within:
  assumes "consumed L t f" "t + m \<le> 10 ^ 6" "m \<le> unat (quantity_at_level f)"
  shows "\<exists>f'. match_levels D (word_of_nat m) f = Some (0, f') \<and> consumed L (t + m) f'"
proof (cases "m = 0")
  case True
  with assms(1) show ?thesis by (simp add: match_levels.simps)
next
  case False
  let ?f = "f\<lparr>quantity_at_level := quantity_at_level f - word_of_nat m,
    quantity_so_far := quantity_so_far f + word_of_nat m, num := num f + price_at_level f * of_nat m\<rparr>"
  note m = small_word [of m] take_level(1,2) [OF assms(1), of m]
  have "word_of_nat m \<noteq> (0 :: u64)" "word_of_nat m \<le> quantity_at_level f"
    using m(1) False assms(2,3) by (auto simp: word_le_nat_alt dest: arg_cong [of _ _ unat])
  with m assms(2) have "match_levels D (word_of_nat m) f = Some (0, ?f)"
    by (subst match_levels.simps) (simp del: of_int_sint)
  moreover have "consumed L (t + m) ?f"
    using assms by (intro consumed_take [OF assms(1)])
      (auto simp: consumed_def prices_ok_def book_cost_part simp del: book_cost.simps)
  ultimately show ?thesis by blast
qed

text \<open>A level that does not suffice is consumed as a whole.\<close>

lemma match_beyond:
  assumes "consumed L t f" "t + m \<le> 10 ^ 6" "unat (quantity_at_level f) < m"
  defines "n \<equiv> unat (quantity_at_level f)"
  shows "match_levels D (word_of_nat m) f =
    (case levels f of
       (p, v) # ls \<Rightarrow> match_levels D (word_of_nat (m - n))
         (f\<lparr>quantity_so_far := word_of_nat (t + n), num := num f + price_at_level f * of_nat n,
            price_at_level := p, quantity_at_level := v, levels := ls\<rparr>)
     | [] \<Rightarrow> Some (word_of_nat (m - n),
         f\<lparr>quantity_so_far := word_of_nat (t + n), num := num f + price_at_level f * of_nat n,
            price_at_level := 0, quantity_at_level := 0\<rparr>))"
proof -
  note m = small_word(1) [of m] take_level(1,2) [OF assms(1), of n]
  have "\<not> word_of_nat m \<le> quantity_at_level f" "word_of_nat m \<noteq> (0 :: u64)"
    using m(1) assms(2,3) by (auto simp: word_le_nat_alt dest: arg_cong [of _ _ unat])
  moreover have "of_int (sint (quantity_at_level f)) = (of_nat n :: rat)"
    using small_sint [of "quantity_at_level f"] assms(2,3) by (simp add: n_def del: of_int_sint)
  moreover have "word_of_nat m - quantity_at_level f = word_of_nat (m - n)"
    using assms(3) by (simp add: n_def of_nat_diff)
  moreover have "quantity_so_far f + quantity_at_level f = word_of_nat (t + n)"
    using assms(1) by (simp add: consumed_def n_def)
  ultimately show ?thesis
    using m assms(2,3) by (subst match_levels.simps) (simp add: n_def del: of_int_sint split: list.split)
qed

lemma match_levels_correct:
  assumes "consumed L t f" "t + m \<le> 10 ^ 6"
  shows "\<exists>j f'. match_levels D (word_of_nat m) f = Some (word_of_nat (m - j), f') \<and> j \<le> m \<and> consumed L (t + j) f' \<and>
    (j = m \<longleftrightarrow> book_cost (t + m) L \<noteq> None)"
  using assms
proof (induction "levels f" arbitrary: f t m)
  case Nil
  show ?case
  proof (cases "m \<le> unat (quantity_at_level f)")
    case True
    from match_within [OF Nil(2,3) True] show ?thesis
      by (auto simp: consumed_total)
  next
    case False
    let ?n = "unat (quantity_at_level f)"
    let ?f = "f\<lparr>quantity_so_far := word_of_nat (t + ?n), num := num f + price_at_level f * of_nat ?n,
            price_at_level := 0, quantity_at_level := 0\<rparr>"
    have f: "consumed L (t + ?n) ?f"
      using Nil False by (intro consumed_take [OF Nil(2)])
        (auto simp: prices_ok_def is_integer_def book_cost_level simp del: book_cost.simps)
    then have "book_cost (t + ?n + (m - ?n)) L = map_option ((+) (num ?f)) (book_cost (m - ?n) (rest ?f))"
      unfolding consumed_def by blast
    moreover have "book_cost (m - ?n) (rest ?f) = None" using Nil(1) False by simp
    ultimately have "book_cost (t + m) L = None" using False by simp
    with match_beyond [OF Nil(2,3)] False f Nil(1) show ?thesis
      by (intro exI [of _ ?n] exI [of _ ?f]) auto
  qed
next
  case (Cons pv ls)
  obtain p v where pv: "pv = (p, v)" by (cases pv)
  show ?case
  proof (cases "m \<le> unat (quantity_at_level f)")
    case True
    from match_within [OF Cons.prems True] show ?thesis
      by (auto simp: consumed_total)
  next
    case False
    let ?n = "unat (quantity_at_level f)"
    let ?f = "f\<lparr>quantity_so_far := word_of_nat (t + ?n), num := num f + price_at_level f * of_nat ?n,
            price_at_level := p, quantity_at_level := v, levels := ls\<rparr>"
    have ls: "levels f = (p, v) # ls" using Cons(2) pv by simp
    have "prices_ok (rest f)" using Cons.prems(1) by (simp add: consumed_def)
    then have f: "consumed L (t + ?n) ?f"
      using Cons.prems False ls by (intro consumed_take [OF Cons.prems(1)])
        (auto simp: prices_ok_def book_cost_level simp del: book_cost.simps)
    have "ls = levels ?f" "t + ?n + (m - ?n) \<le> 10 ^ 6" using Cons.prems(2) False by simp_all
    from Cons.hyps(1) [OF this(1) f this(2)] obtain j f' where j:
      "match_levels D (word_of_nat (m - ?n)) ?f = Some (word_of_nat (m - ?n - j), f')" "j \<le> m - ?n"
      "consumed L (t + ?n + j) f'" "j = m - ?n \<longleftrightarrow> book_cost (t + ?n + (m - ?n)) L \<noteq> None" by blast
    with match_beyond [OF Cons.prems] False ls show ?thesis
      by (intro exI [of _ "?n + j"] exI [of _ f']) (auto simp: add.assoc)
  qed
qed

end

section \<open>The prices\<close>

lemma rounding_stable:
  fixes x :: rat
  assumes "0 < q" "q \<le> 10 ^ 6" "\<not> int q dvd N" "\<bar>x - of_int N / of_nat q\<bar> \<le> 1 / 10 ^ 12"
  shows "\<lfloor>x\<rfloor> = \<lfloor>of_int N / of_nat q :: rat\<rfloor>" "\<lceil>x\<rceil> = \<lceil>of_int N / of_nat q :: rat\<rceil>"
proof -
  define k r where "k = N div int q" and "r = N mod int q"
  let ?y = "of_int N / of_nat q :: rat"
  have r: "1 \<le> r" "r \<le> int q - 1" and N: "N = k * int q + r"
  proof -
    have "0 \<le> r" "r < int q" "r \<noteq> 0" using assms(1,3) by (simp_all add: r_def dvd_eq_mod_eq_0)
    then show "1 \<le> r" "r \<le> int q - 1" by simp_all
    show "N = k * int q + r" by (simp add: k_def r_def)
  qed
  have "?y = of_int k + of_int r / of_nat q" using assms(1) by (simp add: N field_simps)
  moreover have q: "(1 :: rat) / 10 ^ 12 < 1 / of_nat q"
  proof -
    have "(of_nat q :: rat) \<le> 10 ^ 6" using assms(2) by (metis of_nat_le_iff of_nat_numeral of_nat_power)
    then have "(of_nat q :: rat) < 10 ^ 12" by simp
    with assms(1) show ?thesis by (intro divide_strict_left_mono) simp_all
  qed
  moreover have "1 / of_nat q \<le> (of_int r / of_nat q :: rat)" using r(1) by (intro divide_right_mono) simp_all
  moreover have "(of_int r / of_nat q :: rat) \<le> 1 - 1 / of_nat q"
  proof -
    have "(of_int r :: rat) \<le> of_int (int q - 1)" using r(2) by (simp only: of_int_le_iff)
    then have "of_int r / of_nat q \<le> (of_nat q - 1) / (of_nat q :: rat)" by (intro divide_right_mono) simp_all
    with assms(1) show ?thesis by (simp add: diff_divide_distrib)
  qed
  ultimately have y: "of_int k < ?y" "?y < of_int k + 1" and x: "of_int k < x" "x < of_int k + 1"
    using assms(4) by linarith+
  show "\<lfloor>x\<rfloor> = \<lfloor>?y\<rfloor>" using x y by (metis floor_unique less_imp_le)
  have "\<lceil>x\<rceil> = k + 1" "\<lceil>?y\<rceil> = k + 1" using x y by (intro ceiling_unique; simp)+
  then show "\<lceil>x\<rceil> = \<lceil>?y\<rceil>" by simp
qed

lemma table_get_insert:
  "table_get (table_insert s q p tables) s' q' =
     (if s' = s \<and> q' = q then Some p else table_get tables s' q')"
  by (auto simp: table_get_def table_insert_def map_of_bt_insert split: option.split)

text \<open>
  What a pass enters for the side whose book is \<open>L\<close>: the rounded average price of every quantity
  that the book can fill; the other entries stay.
\<close>

definition entered :: "(rat \<Rightarrow> int) \<Rightarrow> nat \<Rightarrow> (rat \<times> u64) list \<Rightarrow> Symbol \<Rightarrow> u64 list \<Rightarrow>
    (Symbol \<times> price_table) list \<Rightarrow> (Symbol \<times> price_table) list \<Rightarrow> bool" where
  "entered rnd dp L s qs tables tables' \<longleftrightarrow> (\<forall>s' q. table_get tables' s' q =
     (if s' = s \<and> q \<in> set qs
      then (case book_cost (unat q) L of
              Some c \<Rightarrow> Some (of_int (rnd (c / of_nat (unat q))) / 10 ^ dp)
            | None \<Rightarrow> table_get tables s' q)
      else table_get tables s' q))"

context dealer_env
begin

lemma average_price:
  assumes "consumed L q f" "0 < q"
  shows "\<exists>x. dec_div (d_dec E) (num f) (of_int (sint (quantity_so_far f))) = Some x \<and>
    \<lfloor>x\<rfloor> = \<lfloor>num f / of_nat q\<rfloor> \<and> \<lceil>x\<rceil> = \<lceil>num f / of_nat q\<rceil>"
proof -
  have q: "q \<le> 10 ^ 6" and num: "0 \<le> num f" "num f \<le> of_nat q * 10 ^ 12" "is_integer (num f)"
    and so_far: "of_int (sint (quantity_so_far f)) = (of_nat q :: rat)"
    using assms(1) small_word [of q] by (auto simp: consumed_def simp del: of_int_sint)
  obtain N where N: "num f = of_int N" using num(3) by (elim is_integerE)
  have q6: "(of_nat q :: rat) \<le> 10 ^ 6" using q by (metis of_nat_le_iff of_nat_numeral of_nat_power)
  have range: "num f / of_nat q \<le> 10 ^ 12" "0 \<le> num f / of_nat q"
    using assms(2) num(1,2) by (simp_all add: field_simps)
  show ?thesis
  proof (cases "int q dvd N")
    case True
    then have int: "is_integer (num f / of_nat q)"
      using assms(2) N by (auto elim!: dvdE)
    have "num f \<le> 10 ^ 18" using num(2) mult_right_mono [OF q6, of "10 ^ 12"] by simp
    then have "dec_repr 0 (num f)" "dec_repr 0 (of_nat q)" "dec_repr 0 (num f / of_nat q)"
      using num q6 range int is_integer_of_int [of "int q"] by (simp_all add: dec_repr_def grid_def)
    from div_exact [OF this(1,2) _ this(3)] assms(2) so_far show ?thesis by simp
  next
    case False
    obtain x where x: "dec_div (d_dec E) (num f) (of_nat q) = Some x" "\<bar>x - num f / of_nat q\<bar> \<le> 1 / 10 ^ 12"
      by (rule div_to [of "of_nat q" "num f"]) (use range assms(2) in simp_all)
    note rnd = rounding_stable [OF assms(2) q False x(2) [unfolded N]]
    show ?thesis
      by (rule exI [of _ x]) (simp only: so_far x(1) [unfolded N] rnd N simp_thms)
  qed
qed

lemma level_prices:
  assumes "consumed L q f" "0 < q" "dp \<le> 28"
  shows "level_price E (d_ceil E) dp f = Some (of_int \<lceil>num f / of_nat q\<rceil> / 10 ^ dp)"
    "level_price E (d_floor E) dp f = Some (of_int \<lfloor>num f / of_nat q\<rfloor> / 10 ^ dp)"
  using average_price [OF assms(1,2)] assms(3)
  by (auto simp: level_price_def ceil_law floor_law set_scale_law)

text \<open>One quantity of one side.\<close>

lemma match_quantity:
  assumes "consumed L t f" "t \<le> unat q" "0 < unat q" "unat q \<le> 10 ^ 6" "dp \<le> 28"
  shows "\<exists>m f' t'. match_levels (d_dec E) (q - quantity_so_far f) f = Some (m, f') \<and> consumed L t' f' \<and> t' \<le> unat q \<and>
    (case book_cost (unat q) L of
       Some c \<Rightarrow> m = 0 \<and> level_price E (d_ceil E) dp f' = Some (of_int \<lceil>c / of_nat (unat q)\<rceil> / 10 ^ dp) \<and>
         level_price E (d_floor E) dp f' = Some (of_int \<lfloor>c / of_nat (unat q)\<rfloor> / 10 ^ dp)
     | None \<Rightarrow> m \<noteq> 0)"
proof -
  let ?m = "unat q - t"
  have start: "q - quantity_so_far f = word_of_nat ?m"
    using assms(1,2) by (simp add: consumed_def of_nat_diff)
  have tm: "t + ?m = unat q" "t + ?m \<le> 10 ^ 6" using assms(2,4) by simp_all
  from match_levels_correct [OF assms(1) tm(2), unfolded tm(1)] obtain j f' where
    j: "match_levels (d_dec E) (word_of_nat ?m) f = Some (word_of_nat (?m - j), f')" "j \<le> ?m"
      "consumed L (t + j) f'" "j = ?m \<longleftrightarrow> book_cost (unat q) L \<noteq> None"
    by blast
  show ?thesis
  proof (cases "j = ?m")
    case True
    then have f': "consumed L (unat q) f'" using j(3) tm(1) by simp
    show ?thesis
      unfolding start j(1) using f' consumed_total [OF f'] level_prices [OF f' assms(3,5)] True
      by (intro exI [of _ "word_of_nat (?m - j)"] exI [of _ f'] exI [of _ "unat q"]) simp
  next
    case False
    have "?m - j \<le> 10 ^ 6" using assms(4) by simp
    from small_word(1) [OF this] False j(2) have "word_of_nat (?m - j) \<noteq> (0 :: u64)"
      by (auto dest: arg_cong [of _ _ unat] simp del: of_nat_diff)
    with False j tm(1) show ?thesis
      unfolding start
      by (intro exI [of _ "word_of_nat (?m - j)"] exI [of _ f'] exI [of _ "t + j"]) auto
  qed
qed

lemma quote_loop_correct:
  assumes "consumed LB tb bids" "consumed LA ta asks" "dp \<le> 28" "sorted_wrt (<) (map unat qs)" "distinct qs"
    and "\<And>q. q \<in> set qs \<Longrightarrow> tb \<le> unat q \<and> ta \<le> unat q \<and> 0 < unat q \<and> unat q \<le> 10 ^ 6"
  shows "\<exists>bt askt. quote_loop E s dp qs bids asks d = Some (d\<lparr>bid_quotes := bt, ask_quotes := askt\<rparr>) \<and>
    entered ceiling dp LB s qs (bid_quotes d) bt \<and> entered floor dp LA s qs (ask_quotes d) askt"
  using assms
proof (induction qs arbitrary: tb ta bids asks d)
  case Nil
  then show ?case
    by (intro exI [of _ "bid_quotes d"] exI [of _ "ask_quotes d"]) (simp add: entered_def)
next
  case (Cons q qs)
  obtain mb bids' tb' where b: "match_levels (d_dec E) (q - quantity_so_far bids) bids = Some (mb, bids')"
      "consumed LB tb' bids'" "tb' \<le> unat q"
    and bp: "case book_cost (unat q) LB of
       Some c \<Rightarrow> mb = 0 \<and> level_price E (d_ceil E) dp bids' = Some (of_int \<lceil>c / of_nat (unat q)\<rceil> / 10 ^ dp)
     | None \<Rightarrow> mb \<noteq> 0"
    using match_quantity [OF Cons.prems(1), of q dp] Cons.prems by (fastforce split: option.splits)
  obtain ma asks' ta' where a: "match_levels (d_dec E) (q - quantity_so_far asks) asks = Some (ma, asks')"
      "consumed LA ta' asks'" "ta' \<le> unat q"
    and ap: "case book_cost (unat q) LA of
       Some c \<Rightarrow> ma = 0 \<and> level_price E (d_floor E) dp asks' = Some (of_int \<lfloor>c / of_nat (unat q)\<rfloor> / 10 ^ dp)
     | None \<Rightarrow> ma \<noteq> 0"
    using match_quantity [OF Cons.prems(2), of q dp] Cons.prems by (fastforce split: option.splits)
  define bt where "bt = (case book_cost (unat q) LB of
    Some c \<Rightarrow> table_insert s q (of_int \<lceil>c / of_nat (unat q)\<rceil> / 10 ^ dp) (bid_quotes d) | None \<Rightarrow> bid_quotes d)"
  define askt where "askt = (case book_cost (unat q) LA of
    Some c \<Rightarrow> table_insert s q (of_int \<lfloor>c / of_nat (unat q)\<rfloor> / 10 ^ dp) (ask_quotes d) | None \<Rightarrow> ask_quotes d)"
  let ?d = "d\<lparr>bid_quotes := bt, ask_quotes := askt\<rparr>"
  have step: "quote_loop E s dp (q # qs) bids asks d = quote_loop E s dp qs bids' asks' ?d"
    using b(1) a(1) bp ap by (auto simp: bt_def askt_def split: option.splits)
  have later: "\<And>r. r \<in> set qs \<Longrightarrow> tb' \<le> unat r \<and> ta' \<le> unat r \<and> 0 < unat r \<and> unat r \<le> 10 ^ 6"
    using Cons.prems(4,6) a(3) b(3) by fastforce
  have "sorted_wrt (<) (map unat qs)" "distinct qs" using Cons.prems(4,5) by simp_all
  from Cons.IH [OF b(2) a(2) Cons.prems(3) this later, of ?d] obtain bt' askt' where
    "quote_loop E s dp qs bids' asks' ?d = Some (?d\<lparr>bid_quotes := bt', ask_quotes := askt'\<rparr>)"
    "entered ceiling dp LB s qs bt bt'" "entered floor dp LA s qs askt askt'" by auto
  with step Cons.prems(5) show ?case
    by (intro exI [of _ bt'] exI [of _ askt'])
      (auto simp: entered_def bt_def askt_def table_get_insert split: option.split)
qed

end

lemma QUANTITIES_ok:
  "sorted_wrt (<) (map unat QUANTITIES)" "distinct QUANTITIES"
  "q \<in> set QUANTITIES \<Longrightarrow> 0 < unat q \<and> unat q \<le> 10 ^ 6"
  by (auto simp: QUANTITIES_def)

lemma update_quotes_entered:
  assumes "dealer_env E" "map_of (ws_symbols (ws_client d)) s = Some contract" "tsy_price_dp contract \<le> 28"
    and "map_of (level2_data d) s = Some book" "prices_ok (l2_bids book)" "prices_ok (l2_asks book)"
  shows "\<exists>bt askt. update_quotes E s d = Some (d\<lparr>bid_quotes := bt, ask_quotes := askt\<rparr>) \<and>
    entered ceiling (tsy_price_dp contract) (rev (l2_bids book)) s QUANTITIES (bid_quotes d) bt \<and>
    entered floor (tsy_price_dp contract) (l2_asks book) s QUANTITIES (ask_quotes d) askt"
proof -
  have "prices_ok (rev (l2_bids book))" using assms(5) by (simp add: prices_ok_def)
  from dealer_env.quote_loop_correct [OF assms(1) consumed_init [OF this] consumed_init [OF assms(6)] assms(3)
      QUANTITIES_ok(1,2), of s d] QUANTITIES_ok(3)
  show ?thesis by (simp add: update_quotes_def assms(2,4))
qed

text \<open>
  C14. The price table is right: for every quantity of the table, after an update the bid (ask) entry
  of the symbol is the average price of filling that quantity from the best bid (ask) on, computed
  from scratch, rounded up (down) to a whole tick and scaled to the contract's decimal places; if
  the book is too thin, the old entry stays. No counter wraps and nothing panics.
\<close>

theorem update_quotes_correct:
  assumes "dealer_env E" "map_of (ws_symbols (ws_client d)) s = Some contract" "tsy_price_dp contract \<le> 28"
    and "map_of (level2_data d) s = Some book" "prices_ok (l2_bids book)" "prices_ok (l2_asks book)"
  shows "\<exists>bt askt. update_quotes E s d = Some (d\<lparr>bid_quotes := bt, ask_quotes := askt\<rparr>) \<and>
    entered ceiling (tsy_price_dp contract) (rev (l2_bids book)) s QUANTITIES (bid_quotes d) bt \<and>
    entered floor (tsy_price_dp contract) (l2_asks book) s QUANTITIES (ask_quotes d) askt"
  using update_quotes_entered [OF assms] .

definition sample_contract :: TradableSymbol where
  "sample_contract = \<lparr>tsy_symbol = ''BTCUSD.PERP'', tsy_contract_size = 1, tsy_max_leverage = 100,
     tsy_base_margin = 0, tsy_liquidation_fee = 0, tsy_is_inverse_priced = True, tsy_price_dp = 1,
     tsy_underlying_symbol = ''.BTCUSD'', tsy_last_price = 20000, tsy_tick_size = 1, tsy_risk_limit = 0\<rparr>"

definition sample_book :: Level2State where
  "sample_book = \<lparr>l2_update_type = ''snapshot'', l2_seq_number = 1, l2_symbol = ''BTCUSD.PERP'',
     l2_bids = [(199990, 500), (200000, 50)], l2_asks = [(200010, 50), (200020, 500)]\<rparr>"

definition sample_client :: client where
  "sample_client = \<lparr>ws_connected = True, ws_authenticated = True, ws_has_positions = True, ws_positions = [],
     ws_mark_prices = [], ws_balances = None, ws_symbols = [(''BTCUSD.PERP'', sample_contract)], ws_sent = [],
     ws_callback = [], ws_tick = 0, ws_credentials = (''key'', ''pass'', ''secret'')\<rparr>"

definition sample_dealer_settings :: DealerEngineSettings where
  "sample_dealer_settings = \<lparr>ds_risk_tolerances = [(''USD'', 1)], ds_position_min_leverage = 1,
     ds_position_max_leverage = 2, ds_leverage_check_interval_ms = 1000, ds_spread = 1 / 100,
     ds_max_single_order_quantities = [(''btcusd.perp'', 1000)]\<rparr>"

definition sample_dealer :: dealer where
  "sample_dealer = (the (dealer_new denv96 sample_dealer_settings sample_client 0))\<lparr>
     level2_data := [(''BTCUSD.PERP'', sample_book)]\<rparr>"

lemma sample_tolerance [simp]: "currency_from_str ''USD'' = Inr USD"
  by code_simp

lemma sample_dealer_simps [simp]:
  "ws_client sample_dealer = sample_client" "level2_data sample_dealer = [(''BTCUSD.PERP'', sample_book)]"
  "bid_quotes sample_dealer = []" "ask_quotes sample_dealer = []" "spread sample_dealer = 1 / 100"
  by (simp_all add: sample_dealer_def dealer_new_def sample_dealer_settings_def)

theorem update_quotes_correct_witness:
  "\<exists>d. update_quotes denv96 ''BTCUSD.PERP'' sample_dealer = Some d \<and>
     table_get (bid_quotes d) ''BTCUSD.PERP'' 10 = Some 20000 \<and>
     table_get (bid_quotes d) ''BTCUSD.PERP'' 100 = Some (199995 / 10) \<and>
     table_get (bid_quotes d) ''BTCUSD.PERP'' 1000 = None"
proof -
  let ?s = "''BTCUSD.PERP''"
  have "prices_ok (l2_bids sample_book)" "prices_ok (l2_asks sample_book)"
    by (simp_all add: prices_ok_def sample_book_def is_integer_def)
  from update_quotes_correct [OF denv96.dealer_env_axioms, of sample_dealer ?s sample_contract sample_book] this
  obtain bt askt where up: "update_quotes denv96 ?s sample_dealer = Some (sample_dealer\<lparr>bid_quotes := bt, ask_quotes := askt\<rparr>)"
    and e: "entered ceiling 1 (rev (l2_bids sample_book)) ?s QUANTITIES [] bt"
    by (auto simp: sample_client_def sample_contract_def)
  have "table_get bt ?s 10 = Some 20000" "table_get bt ?s 100 = Some (199995 / 10)" "table_get bt ?s 1000 = None"
    using e [unfolded entered_def, rule_format, of ?s 10] e [unfolded entered_def, rule_format, of ?s 100]
      e [unfolded entered_def, rule_format, of ?s 1000]
    by (simp_all add: sample_book_def QUANTITIES_def table_get_def)
  with up show ?thesis by (intro exI conjI) (auto intro: up)
qed

section \<open>Uncrossed prices\<close>

lemma book_cost_bounds:
  assumes "book_cost q L = Some c"
  shows "list_all (\<lambda>pv. fst pv \<le> P) L \<Longrightarrow> c \<le> P * of_nat q"
    "list_all (\<lambda>pv. P \<le> fst pv) L \<Longrightarrow> P * of_nat q \<le> c"
proof -
  have "(list_all (\<lambda>pv. fst pv \<le> P) L \<longrightarrow> c \<le> P * of_nat q) \<and> (list_all (\<lambda>pv. P \<le> fst pv) L \<longrightarrow> P * of_nat q \<le> c)"
    using assms
  proof (induction q L arbitrary: c rule: book_cost.induct)
    case (2 q p v ls)
    show ?case
    proof (cases "q \<le> unat v")
      case True
      with "2.prems" show ?thesis by (auto intro: mult_right_mono)
    next
      case False
      with "2.prems" obtain c' where c': "book_cost (q - unat v) ls = Some c'" "c = p * of_nat (unat v) + c'"
        by (auto simp del: of_nat_unat)
      have q: "(of_nat q :: rat) = of_nat (unat v) + of_nat (q - unat v)" using False by simp
      from "2.IH" [OF False c'(1)] show ?thesis
        unfolding q c'(2) distrib_left
        by (auto simp del: of_nat_unat of_nat_diff intro!: add_mono mult_right_mono)
    qed
  qed (auto split: if_split_asm)
  then show "list_all (\<lambda>pv. fst pv \<le> P) L \<Longrightarrow> c \<le> P * of_nat q"
    "list_all (\<lambda>pv. P \<le> fst pv) L \<Longrightarrow> P * of_nat q \<le> c" by simp_all
qed

text \<open>
  The dealer never bids more than it asks: if no bid of the book is above an ask, then after
  an update every bid price that the book supports is at most every ask price that it supports,
  whatever the quantities; the rounding to ticks, up for bids and down for asks, does not change this.
\<close>

theorem quotes_uncrossed:
  assumes "dealer_env E" "map_of (ws_symbols (ws_client d)) s = Some contract" "tsy_price_dp contract \<le> 28"
    and "map_of (level2_data d) s = Some book" "prices_ok (l2_bids book)" "prices_ok (l2_asks book)"
    and "\<And>b a. b \<in> set (l2_bids book) \<Longrightarrow> a \<in> set (l2_asks book) \<Longrightarrow> fst b \<le> fst a" "l2_bids book \<noteq> []"
    and "q \<in> set QUANTITIES" "q' \<in> set QUANTITIES"
    and "book_cost (unat q) (rev (l2_bids book)) \<noteq> None" "book_cost (unat q') (l2_asks book) \<noteq> None"
  shows "\<exists>d' p p'. update_quotes E s d = Some d' \<and> table_get (bid_quotes d') s q = Some p \<and>
    table_get (ask_quotes d') s q' = Some p' \<and> p \<le> p'"
proof -
  obtain c c' where c: "book_cost (unat q) (rev (l2_bids book)) = Some c" "book_cost (unat q') (l2_asks book) = Some c'"
    using assms(11,12) by auto
  let ?P = "Max (fst ` set (l2_bids book))"
  have "?P \<in> fst ` set (l2_bids book)" using assms(8) by (intro Max_in) auto
  then have P: "is_integer ?P" "list_all (\<lambda>pv. ?P \<le> fst pv) (l2_asks book)"
    using assms(5,7) by (auto simp: prices_ok_def list_all_iff)
  have "list_all (\<lambda>pv. fst pv \<le> ?P) (rev (l2_bids book))" by (auto simp: list_all_iff)
  note bounds = book_cost_bounds(1) [OF c(1) this] book_cost_bounds(2) [OF c(2) P(2)]
  have pos: "0 < (of_nat (unat q) :: rat)" "0 < (of_nat (unat q') :: rat)"
    using QUANTITIES_ok(3) assms(9,10) by (simp_all del: of_nat_unat)
  obtain n where n: "?P = of_int n" using P(1) by (elim is_integerE)
  have "\<lceil>c / of_nat (unat q)\<rceil> \<le> n" "n \<le> \<lfloor>c' / of_nat (unat q')\<rfloor>"
    using bounds pos by (simp_all add: n ceiling_le_iff le_floor_iff field_simps del: of_nat_unat)
  then have "(of_int \<lceil>c / of_nat (unat q)\<rceil> :: rat) / 10 ^ tsy_price_dp contract \<le> of_int \<lfloor>c' / of_nat (unat q')\<rfloor> / 10 ^ tsy_price_dp contract"
    by (intro divide_right_mono) (simp_all del: of_nat_unat)
  then show ?thesis
    using update_quotes_entered [OF assms(1-6)] c assms(9,10)
    by (auto simp: entered_def simp del: of_nat_unat)
qed

theorem quotes_uncrossed_witness:
  "\<exists>d' p p'. update_quotes denv96 ''BTCUSD.PERP'' sample_dealer = Some d' \<and>
     table_get (bid_quotes d') ''BTCUSD.PERP'' 10 = Some p \<and> table_get (ask_quotes d') ''BTCUSD.PERP'' 100 = Some p' \<and> p \<le> p'"
  by (rule quotes_uncrossed [OF denv96.dealer_env_axioms, of _ _ sample_contract sample_book])
    (auto simp: sample_client_def sample_contract_def sample_book_def prices_ok_def is_integer_def QUANTITIES_def)

text \<open>
  Prices go stale: an entry is never removed. When the exchange sends a snapshot with an empty
  book, the prices of the old book stay in the table and are still quoted.
\<close>

theorem quotes_go_stale:
  assumes "dealer_env E" "map_of (ws_symbols (ws_client d)) s = Some contract" "tsy_price_dp contract \<le> 28"
    and "l2_update_type l = ''snapshot''" "l2_symbol l = s" "l2_bids l = []" "l2_asks l = []"
    and "table_get (bid_quotes d) s q = Some p"
  shows "\<exists>d'. process_orderbook_update E l d = Some d' \<and> table_get (bid_quotes d') s q = Some p"
proof -
  let ?d = "d\<lparr>level2_data := AList.update s l (level2_data d)\<rparr>"
  obtain bt askt where up: "update_quotes E s ?d = Some (?d\<lparr>bid_quotes := bt, ask_quotes := askt\<rparr>)"
    and e: "entered ceiling (tsy_price_dp contract) [] s QUANTITIES (bid_quotes ?d) bt"
    using update_quotes_entered [OF assms(1), of ?d s contract l] assms(2-7) by (auto simp: prices_ok_def)
  have "table_get bt s q = Some p"
    using e assms(8) QUANTITIES_ok(3) [of q] by (auto simp: entered_def)
  with up assms(4,5) show ?thesis by (simp add: process_orderbook_update_def)
qed

theorem quotes_go_stale_witness:
  "\<exists>d'. process_orderbook_update denv96 (sample_book\<lparr>l2_bids := [], l2_asks := []\<rparr>)
      (sample_dealer\<lparr>bid_quotes := [(''BTCUSD.PERP'', [(10, 20000)])]\<rparr>) = Some d' \<and>
    table_get (bid_quotes d') ''BTCUSD.PERP'' 10 = Some 20000"
  by (rule quotes_go_stale [OF denv96.dealer_env_axioms, of _ _ sample_contract])
    (simp_all add: sample_client_def sample_contract_def sample_book_def table_get_def)

end
