(* ===== verification/DealerEngine.thy ===== *)
theory DealerEngine
  imports DealerBook Texts
begin

text \<open>
  The dealer's handlers (\<open>process_msg\<close> and what it calls in \<open>dealer/src/dealer_engine.rs\<close>) and
  its event loop (\<open>start\<close> in \<open>dealer/src/lib.rs\<close>). \<open>Message::KolliderApiResponse\<close> is the
  constructor \<open>FromKollider\<close>; every other message of the dealer is a message of the bank.
  \<open>None\<close> is a panic. The loop is the step relation \<open>dealer_step\<close>: messages of the bank, the
  socket thread's actions, the messages it has queued for the dealer, and the timers.
\<close>

section \<open>Symbols\<close>

definition get_base_currency_from_symbol :: "Symbol \<Rightarrow> (string + Currency) option" where
  "get_base_currency_from_symbol symbol = do {
     base \<leftarrow> slice 3 6 symbol;
     Some (case currency_from_str base of
             Inr currency \<Rightarrow> Inr currency
           | Inl _ \<Rightarrow> Inl ''Couldn't find base currency'') }"

section \<open>Hedging\<close>

definition unsigned_abs :: "i64 \<Rightarrow> u64" where
  "unsigned_abs x = (if sint x < 0 then - x else x)"

definition capped_quantity :: "Symbol \<Rightarrow> u64 \<Rightarrow> dealer \<Rightarrow> u64" where
  "capped_quantity symbol q d =
     (case map_of (max_single_order_quantities d) (to_lowercase symbol) of
        Some cap \<Rightarrow> if cap < q then cap else q
      | None \<Rightarrow> q)"

definition currently_hedged :: "denv \<Rightarrow> PositionState option \<Rightarrow> rat option" where
  "currently_hedged E p =
     (case p of
        None \<Rightarrow> Some 0
      | Some p \<Rightarrow>
          (case ps_side p of
             None \<Rightarrow> Some 0
           | Some side \<Rightarrow> dec_mul (d_dec E) (of_int (side_to_sign side)) (ps_quantity p)))"

definition hedge_account :: "denv \<Rightarrow> Account \<Rightarrow> dealer \<Rightarrow> dealer option" where
  "hedge_account E account d =
     (let currency = acc_currency account; exposure = balance account in
      if currency = BTC \<or> currency = KKP then Some d
      else do {
        symbol \<leftarrow> symbol_from_currency currency;
        let qty_contracts_required = calc_num_contracts_for_value E exposure;
        (case get_position_state symbol (ws_client d) of
           Inl _ \<Rightarrow> Some d
         | Inr p \<Rightarrow> do {
             currently_hedged_qty \<leftarrow> currently_hedged E p;
             let d = d\<lparr>hedged_qtys := AList.update symbol currently_hedged_qty (hedged_qtys d)\<rparr>;
             delta_qty \<leftarrow> dec_sub (d_dec E) qty_contracts_required currently_hedged_qty;
             (case map_of (risk_tolerances d) currency of
                None \<Rightarrow> Some d
              | Some risk_tolerance \<Rightarrow>
                  if \<bar>delta_qty\<bar> < of_int (sint risk_tolerance) then Some d
                  else do {
                    converted \<leftarrow> dec_to_i64 (d_dec E) delta_qty;
                    (case make_order E (capped_quantity symbol (unsigned_abs converted) d) symbol
                            (side_from_sign (sint converted)) (ws_client d) of
                       (Inl _, _) \<Rightarrow> None
                     | (Inr _, c) \<Rightarrow> Some (d\<lparr>ws_client := c\<rparr>)) }) }) })"

fun hedge_accounts :: "denv \<Rightarrow> (uuid \<times> Account) list \<Rightarrow> dealer \<Rightarrow> dealer option" where
  "hedge_accounts E [] d = Some d"
| "hedge_accounts E ((_, a) # as) d = Option.bind (hedge_account E a d) (hedge_accounts E as)"

definition check_risk_from_bank_state :: "denv \<Rightarrow> BankState \<Rightarrow> dealer \<Rightarrow> dealer option" where
  "check_risk_from_bank_state E bs d =
     (if \<not> has_received_init_data d then Some d else hedge_accounts E (fiat_exposures bs) d)"

definition check_risk :: "denv \<Rightarrow> dealer \<Rightarrow> dealer option" where
  "check_risk E d =
     (case last_bank_state d of Some st \<Rightarrow> check_risk_from_bank_state E st d | None \<Rightarrow> Some d)"

definition maintain_leverage :: "denv \<Rightarrow> PositionState \<Rightarrow> dealer \<Rightarrow> dealer option" where
  "maintain_leverage E p d =
     (let elapsed = word_of_nat (nat (d_instant E (dl_tick d) - last_leverage_check_timestamp d)); d = dl_bump d in
      if elapsed \<le> leverage_check_interval_ms d then Some d
      else let d = dl_bump (d\<lparr>last_leverage_check_timestamp := d_instant E (dl_tick d)\<rparr>) in
      if position_min_leverage d \<le> ps_leverage p \<and> ps_leverage p \<le> position_max_leverage d then Some d
      else do {
        current_margin \<leftarrow> dec_div (d_dec E) (ps_entry_value p) (ps_leverage p);
        required_margin \<leftarrow> dec_div (d_dec E) (ps_entry_value p) 1;
        margin_delta \<leftarrow> dec_sub (d_dec E) required_margin current_margin;
        Some (if margin_delta = 0 then d
          else (case dec_to_i64 (d_dec E) margin_delta of
                  None \<Rightarrow> d
                | Some amount \<Rightarrow>
                    d\<lparr>ws_client := snd (change_margin E (ps_symbol p) amount (ws_client d))\<rparr>)) })"

section \<open>Housekeeping\<close>

definition dl_uuid :: "denv \<Rightarrow> dealer \<Rightarrow> uuid \<times> dealer" where
  "dl_uuid E d = (d_new_v4 E (dl_tick d), dl_bump d)"

definition sweep_excess_funds :: "denv \<Rightarrow> dealer \<Rightarrow> dealer" where
  "sweep_excess_funds E d =
     (case Option.bind (ws_balances (ws_client d)) (\<lambda>b. map_of (kb_cash b) ''SAT'') of
        None \<Rightarrow> d
      | Some sat_balance \<Rightarrow>
          if 10000 < sat_balance
          then (case dec_to_u64 (d_dec E) sat_balance of
                  None \<Rightarrow> d
                | Some amount \<Rightarrow>
                    let (r, d) = dl_uuid E d in
                    dl_send (MsgDealer (CreateInvoiceRequestMsg \<lparr>cir_req_id = r, cir_amount = amount,
                      cir_memo = ''Excess funds withdrawal''\<rparr>)) d)
          else d)"

fun health_currencies :: "Symbol list \<Rightarrow> Currency list option" where
  "health_currencies [] = Some []"
| "health_currencies (s # ss) = do {
     base \<leftarrow> slice 0 3 s;
     quote_currency_str \<leftarrow> slice 3 6 s;
     cs \<leftarrow> health_currencies ss;
     Some (case currency_from_str quote_currency_str of
             Inr quote \<Rightarrow> if base = ''BTC'' then quote # cs else cs
           | Inl _ \<Rightarrow> cs) }"

fun health_rates :: "denv \<Rightarrow> dealer \<Rightarrow> Currency list \<Rightarrow> ((Currency \<times> Currency) \<times> Rate) list option" where
  "health_rates E d [] = Some []"
| "health_rates E d (c # cs) = do {
     (rate, _) \<leftarrow> get_rate E (money_new (d_dec E) BTC (1 / 100000000)) c d;
     rs \<leftarrow> health_rates E d cs;
     Some (case rate of Some r \<Rightarrow> ((BTC, c), r) # rs | None \<Rightarrow> rs) }"

definition check_health :: "denv \<Rightarrow> dealer \<Rightarrow> dealer option" where
  "check_health E d = do {
     cs \<leftarrow> health_currencies (map fst (ws_symbols (ws_client d)));
     let available_currencies = d_hash_set E cs;
     rates \<leftarrow> health_rates E d available_currencies;
     let now = word_of_nat (d_time E (dl_tick d) div 1000);
     Some (dl_send (MsgDealer (HealthMsg \<lparr>
       dh_status = (if ws_authenticated (ws_client d) then Running else Down),
       dh_available_currencies = available_currencies @ [BTC],
       dh_rates = rates,
       dh_timestamp = now \<rparr>)) (dl_bump d)) }"

section \<open>Messages of the bank\<close>

definition swap_response_for :: "SwapRequest \<Rightarrow> SwapResponse" where
  "swap_response_for r = \<lparr>srs_req_id = srq_req_id r, srs_uid = srq_uid r, srs_success = True,
     srs_amount = srq_amount r, srs_from = srq_from r, srs_to = srq_to r, srs_rate = None,
     srs_error = None, srs_fees = None\<rparr>"

definition swap_refused :: "SwapResponseError \<Rightarrow> SwapRequest \<Rightarrow> SwapResponse" where
  "swap_refused e r = (swap_response_for r)\<lparr>srs_success := False, srs_error := Some e\<rparr>"

definition dl_swap_request :: "denv \<Rightarrow> SwapRequest \<Rightarrow> dealer \<Rightarrow> dealer option" where
  "dl_swap_request E r d =
     (if srq_from r = srq_to r then Some (dl_send (MsgApi (SwapResponseMsg (swap_refused SwapInvalid r))) d)
      else let now = d_time E (dl_tick d); d = dl_bump d in
      if now < QUOTE_TTL_MS * 1000 then None
      else do {
        let d = d\<lparr>guaranteed_quotes := bt_split_off (now - QUOTE_TTL_MS * 1000) (guaranteed_quotes d)\<rparr>;
        lin \<leftarrow> (if srq_from r = BTC \<or> srq_to r = BTC
          then map_option is_linear (conversion_info_new (srq_from r) (srq_to r)) else Some True);
        (current_rate, fees) \<leftarrow> get_rate E (srq_amount r) (srq_to r) d;
        let (response, d) =
          (case srq_quote_id r of
             None \<Rightarrow>
               (if current_rate \<noteq> None
                then (swap_response_for r)\<lparr>srs_rate := current_rate, srs_fees := fees\<rparr>
                else swap_refused SwapCurrencyNotAvailable r, d)
           | Some quote_id \<Rightarrow>
               (case map_of (guaranteed_quotes d) quote_id of
                  None \<Rightarrow> (swap_refused InvalidQuoteId r, d)
                | Some quote \<Rightarrow>
                    (if validate_quote quote r
                     then let best_rate = get_better_rate (qrs_rate quote) current_rate lin in
                       (swap_response_for r)\<lparr>srs_rate := best_rate,
                         srs_fees := (if best_rate = qrs_rate quote then qrs_fees quote else fees)\<rparr>
                     else swap_refused InvalidQuoteId r,
                     d\<lparr>guaranteed_quotes := bt_remove quote_id (guaranteed_quotes d)\<rparr>)));
        Some (dl_send (MsgApi (SwapResponseMsg response)) d) })"

definition dl_quote_request :: "denv \<Rightarrow> QuoteRequest \<Rightarrow> dealer \<Rightarrow> dealer option" where
  "dl_quote_request E r d = do {
     let response = \<lparr>qrs_req_id = qrq_req_id r, qrs_uid = qrq_uid r, qrs_amount = qrq_amount r,
       qrs_from = qrq_from r, qrs_to = qrq_to r, qrs_valid_until = 0, qrs_rate = None, qrs_quote_id = None,
       qrs_error = None, qrs_fees = None\<rparr>;
     (rate, fees) \<leftarrow> get_rate E (qrq_amount r) (qrq_to r) d;
     (if rate \<noteq> None
      then let now = d_time E (dl_tick d); d = dl_bump d;
             response = response\<lparr>qrs_quote_id := Some now, qrs_rate := rate,
               qrs_valid_until := word_of_nat ((now + QUOTE_TTL_MS * 1000) div 1000), qrs_fees := fees\<rparr>
           in Some (dl_send (MsgApi (QuoteResponseMsg response))
                (d\<lparr>guaranteed_quotes := bt_insert now response (guaranteed_quotes d)\<rparr>))
      else Some (dl_send (MsgApi (QuoteResponseMsg (response\<lparr>qrs_error := Some QuoteCurrencyNotAvailable\<rparr>))) d)) }"

fun base_currencies :: "Symbol list \<Rightarrow> Currency list option" where
  "base_currencies [] = Some []"
| "base_currencies (s # ss) = do {
     r \<leftarrow> get_base_currency_from_symbol s;
     cs \<leftarrow> base_currencies ss;
     Some (case r of Inr c \<Rightarrow> c # cs | Inl _ \<Rightarrow> cs) }"

definition dl_available_currencies :: "denv \<Rightarrow> uuid \<Rightarrow> dealer \<Rightarrow> dealer option" where
  "dl_available_currencies E req d = do {
     cs \<leftarrow> base_currencies (map fst (ws_symbols (ws_client d)));
     Some (dl_send (MsgApi (AvailableCurrenciesResponseMsg
       \<lparr>acr_req_id = req, acr_currencies = d_hash_set E cs @ [BTC], acr_error = None\<rparr>)) d) }"

definition dl_invoice_request :: "denv \<Rightarrow> InvoiceRequest \<Rightarrow> dealer \<Rightarrow> dealer option" where
  "dl_invoice_request E r d = do {
     ci \<leftarrow> conversion_info_new BTC (irq_currency r);
     (rate, fees) \<leftarrow> get_rate_inv E (irq_amount r) ci d;
     let response = \<lparr>irs_req_id = irq_req_id r, irs_uid = irq_uid r, irs_payment_hash = None,
       irs_payment_request = None, irs_meta = irq_meta r, irs_metadata = irq_metadata r,
       irs_amount = irq_amount r, irs_rate = None, irs_currency = irq_currency r,
       irs_target_account_currency = irq_target_account_currency r, irs_account_id = None,
       irs_error = None, irs_fees = None\<rparr>;
     Some (dl_send (MsgApi (InvoiceResponseMsg
       (if rate = None then response\<lparr>irs_error := Some InvoiceRateNotAvailable\<rparr>
        else response\<lparr>irs_rate := rate, irs_fees := fees\<rparr>))) d) }"

definition dl_payment_request :: "denv \<Rightarrow> PaymentRequest \<Rightarrow> dealer \<Rightarrow> dealer option" where
  "dl_payment_request E r d = do {
     ci \<leftarrow> conversion_info_new (prq_currency r) BTC;
     (case prq_invoice_amount r of
        None \<Rightarrow> Some d
      | Some amount \<Rightarrow> do {
          (rate, fees) \<leftarrow> get_rate_inv E amount ci d;
          Some (if rate = None then d
            else dl_send (MsgApi (PaymentRequestMsg (r\<lparr>prq_rate := rate, prq_fees := fees\<rparr>))) d) }) }"

definition dl_lnurl_request :: "denv \<Rightarrow> CreateLnurlWithdrawalRequest \<Rightarrow> dealer \<Rightarrow> dealer option" where
  "dl_lnurl_request E r d = do {
     ci \<leftarrow> conversion_info_new (clw_currency r) BTC;
     (rate, fees) \<leftarrow> get_rate_inv E (clw_amount r) ci d;
     Some (if rate = None then d
       else dl_send (MsgApi (CreateLnurlWithdrawalRequestMsg (r\<lparr>clw_rate := rate, clw_fees := fees\<rparr>))) d) }"

definition dl_fiat_deposit :: "denv \<Rightarrow> FiatDepositRequest \<Rightarrow> dealer \<Rightarrow> dealer option" where
  "dl_fiat_deposit E r d = do {
     ci \<leftarrow> conversion_info_new BTC (fdr_currency r);
     (rate, fees) \<leftarrow> get_rate_inv E (fdr_amount r) ci d;
     let response = \<lparr>fds_req_id = fdr_req_id r, fds_amount = fdr_amount r, fds_rate = None,
       fds_payment_request = fdr_payment_request r, fds_currency = fdr_currency r, fds_uid = fdr_uid r,
       fds_error = None, fds_fees = None\<rparr>;
     Some (dl_send (MsgDealer (FiatDepositResponseMsg
       (if rate = None then response\<lparr>fds_error := Some FiatCurrencyNotAvailable\<rparr>
        else response\<lparr>fds_rate := rate, fds_fees := fees\<rparr>))) d) }"

definition dl_bank_state :: "denv \<Rightarrow> BankState \<Rightarrow> dealer \<Rightarrow> dealer option" where
  "dl_bank_state E bs d =
     (let d = dl_bump (d\<lparr>last_bank_state_timestamp := Some (d_instant E (dl_tick d)), last_bank_state := Some bs\<rparr>)
      in check_risk_from_bank_state E bs d)"

definition dl_create_invoice_response :: "denv \<Rightarrow> CreateInvoiceResponse \<Rightarrow> dealer \<Rightarrow> dealer option" where
  "dl_create_invoice_response E r d =
     (case make_withdrawal E (cis_amount r) (cis_payment_request r) (ws_client d) of
        (Inl _, _) \<Rightarrow> None
      | (Inr _, c) \<Rightarrow> Some (d\<lparr>ws_client := c\<rparr>))"

section \<open>Messages of the exchange\<close>

definition create_invoice_msg :: "(CreateInvoiceRequest \<Rightarrow> DealerMsg) \<Rightarrow> denv \<Rightarrow> u64 \<Rightarrow> string \<Rightarrow> dealer \<Rightarrow> dealer" where
  "create_invoice_msg k E amount memo d =
     (let (r, d) = dl_uuid E d in
      dl_send (MsgDealer (k \<lparr>cir_req_id = r, cir_amount = amount, cir_memo = memo\<rparr>)) d)"

definition pay_invoice_msg :: "(PayInvoice \<Rightarrow> DealerMsg) \<Rightarrow> denv \<Rightarrow> string \<Rightarrow> dealer \<Rightarrow> dealer" where
  "pay_invoice_msg k E invoice d =
     (let (r, d) = dl_uuid E d in
      dl_send (MsgDealer (k \<lparr>pi_req_id = r, pi_payment_request = invoice\<rparr>)) d)"

definition dl_subscribe :: "denv \<Rightarrow> Channel list \<Rightarrow> Symbol list option \<Rightarrow> dealer \<Rightarrow> dealer" where
  "dl_subscribe E channels symbols d = d\<lparr>ws_client := snd (subscribe E channels symbols (ws_client d))\<rparr>"

fun process_kollider_msg :: "denv \<Rightarrow> KolliderApiResponse \<Rightarrow> dealer \<Rightarrow> dealer option" where
  "process_kollider_msg E (KDisconnected _) d = Some (reset_state d)"
| "process_kollider_msg E (KReconnected _) d = Some (dl_subscribe E [PositionStatesChannel] None d)"
| "process_kollider_msg E (KAuthenticate m) d =
     (let d = (if auth_success m
               then check_has_received_initial_data (d\<lparr>is_kollider_authenticated := True\<rparr>) else d)
      in Some (dl_subscribe E [PositionStatesChannel] None d))"
| "process_kollider_msg E (KOrderInvoice i) d = Some (pay_invoice_msg PayInvoiceMsg E (oi_invoice i) d)"
| "process_kollider_msg E (KSettlementRequest r) d =
     (case parse_u64 (str_amount r) of
        Some amount \<Rightarrow> Some (create_invoice_msg CreateInvoiceRequestMsg E amount
          (''Withdrawal upon settlement on '' @ str_symbol r) d)
      | None \<Rightarrow> None)"
| "process_kollider_msg E (KPositions _) d =
     Some (check_has_received_initial_data (d\<lparr>has_received_positions := True\<rparr>))"
| "process_kollider_msg E (KPositionStates p) d = maintain_leverage E p d"
| "process_kollider_msg E (KLevel2State l) d = process_orderbook_update E l d"
| "process_kollider_msg E (KTradableSymbols ss) d =
     Some (dl_subscribe E [MarkPricesChannel, OrderbookLevel2Channel] (Some (map fst ss))
       (check_has_received_initial_data (d\<lparr>has_received_symbols := True\<rparr>)))"
| "process_kollider_msg E (KChangeMarginSuccess s) d =
     (if cms_amount s < 0
      then (case dec_to_u64 (d_dec E) (- cms_amount s) of
              Some amount \<Rightarrow> Some (create_invoice_msg CreateInsuranceInvoiceRequestMsg E amount
                (''Reduced '' @ cms_symbol s @ '' position margin'') d)
            | None \<Rightarrow> None)
      else Some d)"
| "process_kollider_msg E (KAddMarginRequest r) d = Some (pay_invoice_msg PayInsuranceInvoiceMsg E (amr_invoice r) d)"
| "process_kollider_msg E (KFundingPayment p) d =
     map_option (\<lambda>x. d\<lparr>funding_profit := x\<rparr>) (dec_add (d_dec E) (funding_profit d) (fp_amount p))"
| "process_kollider_msg E (KBalances b) d =
     Some (dl_send (MsgDealer (KarmaBalanceMsg (case map_of (kb_cash b) ''KKP'' of Some k \<Rightarrow> k | None \<Rightarrow> 0))) d)"
| "process_kollider_msg E _ d = Some d"

datatype DealerIn = FromBank Message | FromKollider KolliderApiResponse

fun dealer_process_msg :: "denv \<Rightarrow> DealerIn \<Rightarrow> dealer \<Rightarrow> dealer option" where
  "dealer_process_msg E (FromBank (MsgApi (SwapRequestMsg r))) d = dl_swap_request E r d"
| "dealer_process_msg E (FromBank (MsgApi (QuoteRequestMsg r))) d = dl_quote_request E r d"
| "dealer_process_msg E (FromBank (MsgApi (AvailableCurrenciesRequestMsg r))) d = dl_available_currencies E r d"
| "dealer_process_msg E (FromBank (MsgApi (InvoiceRequestMsg r))) d = dl_invoice_request E r d"
| "dealer_process_msg E (FromBank (MsgApi (PaymentRequestMsg r))) d = dl_payment_request E r d"
| "dealer_process_msg E (FromBank (MsgApi (CreateLnurlWithdrawalRequestMsg r))) d = dl_lnurl_request E r d"
| "dealer_process_msg E (FromKollider r) d = process_kollider_msg E r d"
| "dealer_process_msg E (FromBank (MsgDealer (BankStateMsg bs))) d = dl_bank_state E bs d"
| "dealer_process_msg E (FromBank (MsgDealer (CreateInvoiceResponseMsg r))) d = dl_create_invoice_response E r d"
| "dealer_process_msg E (FromBank (MsgDealer (FiatDepositRequestMsg r))) d = dl_fiat_deposit E r d"
| "dealer_process_msg E _ d = Some d"

section \<open>The event loop\<close>

datatype dealer_event =
    BankMessage Message
  | KolliderMessage \<comment> \<open>the next message queued by the socket thread\<close>
  | Incoming KolliderApiResponse \<comment> \<open>the socket thread reads a message\<close>
  | SocketLost
  | SocketReopened
  | AskBankState
  | RiskTimer
  | HealthTimer
  | SweepTimer
  | DealerPass nat \<comment> \<open>time passes\<close>

inductive dealer_step :: "denv \<Rightarrow> dealer \<Rightarrow> dealer_event \<Rightarrow> dealer \<Rightarrow> bool" for E where
  bank_message: "dealer_process_msg E (FromBank m) d = Some d' \<Longrightarrow> dealer_step E d (BankMessage m) d'"
| kollider_message:
    "ws_callback (ws_client d) = r # rs \<Longrightarrow>
     dealer_process_msg E (FromKollider r) (d\<lparr>ws_client := (ws_client d)\<lparr>ws_callback := rs\<rparr>\<rparr>) = Some d' \<Longrightarrow>
     dealer_step E d KolliderMessage d'"
| incoming:
    "dealer_step E d (Incoming r) (d\<lparr>ws_client := process_incoming_message r (ws_client d)\<rparr>)"
| socket_lost:
    "ws_connected (ws_client d) \<Longrightarrow> dealer_step E d SocketLost (d\<lparr>ws_client := set_disconnected E (ws_client d)\<rparr>)"
| socket_reopened:
    "dealer_step E d SocketReopened (d\<lparr>ws_client := set_reconnected E (ws_client d)\<rparr>)"
| ask_bank_state:
    "\<not> has_bank_state d \<Longrightarrow> is_ready d \<Longrightarrow>
     dealer_step E d AskBankState (dl_send (MsgDealer (BankStateRequestMsg (fst (dl_uuid E d)))) (snd (dl_uuid E d)))"
| risk_timer: "has_bank_state d \<Longrightarrow> check_risk E d = Some d' \<Longrightarrow> dealer_step E d RiskTimer d'"
| health_timer: "check_health E d = Some d' \<Longrightarrow> dealer_step E d HealthTimer d'"
| sweep_timer: "dealer_step E d SweepTimer (sweep_excess_funds E d)"
| dealer_pass: "dl_tick d \<le> n \<Longrightarrow> dealer_step E d (DealerPass n) (d\<lparr>dl_tick := n\<rparr>)"

inductive_cases dealer_stepE: "dealer_step E d e d'"

end
