(* ===== verification/DealerQuotes.thy ===== *)
theory DealerQuotes
  imports DealerEngine
begin

text \<open>
  The life of a quote (it is kept for five seconds, is good for one swap of the user and the amount it
  was made for, and expires).
\<close>

section \<open>Quotes\<close>

lemma get_better_rate_Some:
  "get_better_rate (Some q) c lin = Some r \<Longrightarrow>
     (lin \<longrightarrow> rate_value q \<le> rate_value r) \<and> (\<not> lin \<longrightarrow> rate_value r \<le> rate_value q)"
  by (cases c) (auto split: if_split_asm)

lemma swap_linear:
  "(if srq_from r = BTC \<or> srq_to r = BTC
    then map_option is_linear (conversion_info_new (srq_from r) (srq_to r)) else Some True) = Some l \<Longrightarrow>
   srq_from r \<noteq> srq_to r \<Longrightarrow> l \<longleftrightarrow> srq_to r \<noteq> BTC"
  by (cases "srq_from r"; cases "srq_to r") (auto simp: conversion_info_new_def is_linear_def Let_def)

lemma bt_get_kept:
  assumes "bt_sorted m" "map_of m i = Some v" "lo \<le> i"
  shows "map_of (bt_split_off lo m) i = Some v" "map_of (bt_remove i (bt_split_off lo m)) i = None"
  using bt.get_split [OF assms(1)] bt.get_del [OF bt.wf_split [OF assms(1)]] assms(2,3) by auto

text \<open>
  C18. A quote is honoured, once: a swap that names a quote within five seconds, by the user and for the
  currencies and the amount it was made for, succeeds. Towards a fiat currency the rate is at
  least the quoted one; towards BTC it is at most the quoted one, that is, the rate that is
  worse for the user is taken. The quote is gone afterwards.
\<close>

theorem quote_honoured:
  assumes "bt_sorted (guaranteed_quotes d)" "map_of (guaranteed_quotes d) i = Some quote" "qrs_rate quote = Some q"
    and "validate_quote quote r" "srq_quote_id r = Some i" "srq_from r \<noteq> srq_to r"
    and "d_time E (dl_tick d) \<le> i + QUOTE_TTL_MS * 1000" "dl_swap_request E r d = Some d'"
  shows "\<exists>resp rate. dl_outbox d' = dl_outbox d @ [MsgApi (SwapResponseMsg resp)] \<and> srs_success resp \<and>
    srs_error resp = None \<and> srs_rate resp = Some rate \<and>
    (srq_to r \<noteq> BTC \<longrightarrow> rate_value q \<le> rate_value rate) \<and> (srq_to r = BTC \<longrightarrow> rate_value rate \<le> rate_value q) \<and>
    map_of (guaranteed_quotes d') i = None"
proof -
  have "d_time E (dl_tick d) - QUOTE_TTL_MS * 1000 \<le> i" using assms(7) by simp
  note kept = bt_get_kept [OF assms(1,2) this]
  obtain l c fees where l: "(if srq_from r = BTC \<or> srq_to r = BTC
      then map_option is_linear (conversion_info_new (srq_from r) (srq_to r)) else Some True) = Some l"
    and d': "d' = dl_send (MsgApi (SwapResponseMsg ((swap_response_for r)\<lparr>
        srs_rate := get_better_rate (Some q) c l,
        srs_fees := (if get_better_rate (Some q) c l = Some q then qrs_fees quote else fees)\<rparr>)))
      ((dl_bump d)\<lparr>guaranteed_quotes := bt_remove i (bt_split_off (d_time E (dl_tick d) - QUOTE_TTL_MS * 1000)
        (guaranteed_quotes d))\<rparr>)"
    using assms(3-6,8) kept(1)
    by (auto simp: dl_swap_request_def Let_def dl_bump_def elim!: bind_SomeE split: if_split_asm prod.split_asm)
  have "get_better_rate (Some q) c l \<noteq> None" by (cases c) auto
  then obtain rate where rate: "get_better_rate (Some q) c l = Some rate" by blast
  show ?thesis
    using get_better_rate_Some [OF rate] swap_linear [OF l assms(6)] rate kept(2)
    by (auto simp: d' dl_send_def dl_bump_def swap_response_for_def)
qed

definition sample_quote :: QuoteResponse where
  "sample_quote = \<lparr>qrs_req_id = 1, qrs_uid = 1, qrs_amount = \<lparr>mon_value = 1 / 100, mon_currency = BTC\<rparr>,
     qrs_from = BTC, qrs_to = USD, qrs_valid_until = 0, qrs_rate = Some \<lparr>rate_value = 19000, rate_quote = USD, rate_base = BTC\<rparr>,
     qrs_quote_id = Some 10000000, qrs_error = None, qrs_fees = None\<rparr>"

definition sample_swap :: SwapRequest where
  "sample_swap = \<lparr>srq_req_id = 2, srq_uid = 1, srq_amount = \<lparr>mon_value = 1 / 100, mon_currency = BTC\<rparr>,
     srq_from = BTC, srq_to = USD, srq_quote_id = Some 10000000\<rparr>"

definition quoting_dealer :: dealer where
  "quoting_dealer = sample_dealer\<lparr>guaranteed_quotes := [(10000000, sample_quote)]\<rparr>"

lemma sample_swap_runs: "dl_swap_request denv96 r quoting_dealer \<noteq> None"
  if "srq_from r = BTC" "srq_to r = USD" "mon_currency (srq_amount r) = BTC"
  using that
  by (auto simp: dl_swap_request_def QUOTE_TTL_MS_def Let_def get_rate_def conversion_info_new_def quotes_for_def
      get_btc_cross_rate_def dl_bump_def quoting_dealer_def split: option.split prod.split)

lemma sample_tick: "dl_tick sample_dealer = 1"
  by (simp add: sample_dealer_def dealer_new_def sample_dealer_settings_def)

theorem quote_honoured_witness:
  "\<exists>d' resp rate. dl_swap_request denv96 sample_swap quoting_dealer = Some d' \<and>
     dl_outbox d' = dl_outbox quoting_dealer @ [MsgApi (SwapResponseMsg resp)] \<and> srs_rate resp = Some rate \<and> 19000 \<le> rate_value rate"
proof -
  obtain d' where d': "dl_swap_request denv96 sample_swap quoting_dealer = Some d'"
    using sample_swap_runs [of sample_swap] by (auto simp: sample_swap_def)
  have "bt_sorted (guaranteed_quotes quoting_dealer)" "map_of (guaranteed_quotes quoting_dealer) 10000000 = Some sample_quote"
    by (simp_all add: quoting_dealer_def bt_sorted_def)
  from quote_honoured [OF this, of _ sample_swap denv96 d'] d' show ?thesis
    by (simp add: sample_quote_def sample_swap_def validate_quote_def quoting_dealer_def sample_tick QUOTE_TTL_MS_def)
      blast
qed

text \<open>
  No other use of a quote: a swap that names an unknown or expired quote, or one that was made for
  another user, other currencies or another amount, is refused without a rate.
\<close>

theorem quote_refused:
  assumes "bt_sorted (guaranteed_quotes d)" "srq_quote_id r = Some i" "srq_from r \<noteq> srq_to r"
    and "\<And>quote. map_of (guaranteed_quotes d) i = Some quote \<Longrightarrow>
      \<not> validate_quote quote r \<or> i + QUOTE_TTL_MS * 1000 < d_time E (dl_tick d)"
    and "dl_swap_request E r d = Some d'"
  shows "dl_outbox d' = dl_outbox d @ [MsgApi (SwapResponseMsg (swap_refused InvalidQuoteId r))] \<and>
    srs_rate (swap_refused InvalidQuoteId r) = None"
proof -
  let ?old = "d_time E (dl_tick d) - QUOTE_TTL_MS * 1000"
  have "\<not> validate_quote quote r" if "map_of (bt_split_off ?old (guaranteed_quotes d)) i = Some quote" for quote
    using that assms(4) bt.get_split [OF assms(1), of ?old i] by (auto split: if_split_asm)
  with assms(2,3,5) show ?thesis
    by (auto simp: dl_swap_request_def Let_def dl_bump_def dl_send_def swap_refused_def swap_response_for_def
        elim!: bind_SomeE split: if_split_asm prod.split_asm option.split_asm)
qed

theorem quote_refused_witness:
  "\<exists>d'. dl_swap_request denv96 (sample_swap\<lparr>srq_uid := 2\<rparr>) quoting_dealer = Some d' \<and>
     dl_outbox d' = dl_outbox quoting_dealer @ [MsgApi (SwapResponseMsg (swap_refused InvalidQuoteId (sample_swap\<lparr>srq_uid := 2\<rparr>)))]"
proof -
  let ?r = "sample_swap\<lparr>srq_uid := 2\<rparr>"
  obtain d' where d': "dl_swap_request denv96 ?r quoting_dealer = Some d'"
    using sample_swap_runs [of ?r] by (auto simp: sample_swap_def)
  have "bt_sorted (guaranteed_quotes quoting_dealer)" by (simp add: quoting_dealer_def bt_sorted_def)
  from quote_refused [OF this _ _ _ d', of 10000000] d' show ?thesis
    by (auto simp: sample_swap_def quoting_dealer_def validate_quote_def sample_quote_def)
qed

end
