(* ===== verification/DealerHedge.thy ===== *)
theory DealerHedge
  imports DealerEngine
begin

text \<open>
  The risk check does its job: for every fiat account of the reported bank state the orders it sends
  close the gap between the contracts required and the position held, up to the risk tolerance
  and the cap on single orders.
\<close>

section \<open>Orders and positions\<close>

text \<open>The change of the position in \<open>s\<close> when the requests are executed.\<close>

fun order_delta :: "Symbol \<Rightarrow> Request \<Rightarrow> int" where
  "order_delta s (OrderReq r) = (if or_symbol r = s then side_to_sign (or_side r) * int (unat (or_quantity r)) else 0)"
| "order_delta s _ = 0"

definition ordered :: "Symbol \<Rightarrow> Request list \<Rightarrow> int" where
  "ordered s rs = sum_list (map (order_delta s) rs)"

lemma ordered_Nil [simp]: "ordered s [] = 0"
  and ordered_append [simp]: "ordered s (xs @ ys) = ordered s xs + ordered s ys"
  by (simp_all add: ordered_def)

definition position_qty :: "PositionState option \<Rightarrow> rat" where
  "position_qty p = (case p of None \<Rightarrow> 0 | Some p \<Rightarrow>
     (case ps_side p of None \<Rightarrow> 0 | Some side \<Rightarrow> of_int (side_to_sign side) * ps_quantity p))"

text \<open>
  The specification of the risk check: the signed number of contracts to order when \<open>n\<close> are held,
  \<open>b\<close> is the exposure, \<open>tol\<close> the tolerance and \<open>cap\<close> the largest order allowed.
\<close>

definition hedge_target :: "rat \<Rightarrow> int \<Rightarrow> int \<Rightarrow> nat option \<Rightarrow> int" where
  "hedge_target b n tol cap =
     (let gap = \<lceil>b\<rceil> - n;
          q = (case cap of Some k \<Rightarrow> min \<bar>gap\<bar> (int k) | None \<Rightarrow> \<bar>gap\<bar>)
      in if \<bar>gap\<bar> < tol then 0 else sgn gap * q)"

lemma hedge_target_closes:
  "\<bar>\<lceil>b\<rceil> - (n + hedge_target b n tol None)\<bar> < max 1 tol"
  "\<bar>\<lceil>b\<rceil> - n\<bar> \<le> int k \<Longrightarrow> \<bar>\<lceil>b\<rceil> - (n + hedge_target b n tol (Some k))\<bar> < max 1 tol"
  by (auto simp: hedge_target_def Let_def sgn_if)

lemma hedge_target_progress:
  "tol \<le> \<bar>\<lceil>b\<rceil> - n\<bar> \<Longrightarrow> int k \<le> \<bar>\<lceil>b\<rceil> - n\<bar> \<Longrightarrow>
    \<bar>\<lceil>b\<rceil> - (n + hedge_target b n tol (Some k))\<bar> = \<bar>\<lceil>b\<rceil> - n\<bar> - int k"
  by (auto simp: hedge_target_def Let_def sgn_if min_def)

section \<open>A client that can send\<close>

definition ready :: "denv \<Rightarrow> client \<Rightarrow> bool" where
  "ready E c \<longleftrightarrow> ws_connected c \<and> ws_authenticated c \<and> (\<forall>r. json_ok E r) \<and> (\<forall>n. ws_open E n)"

lemma make_order_ready:
  "ready E c \<Longrightarrow> make_order E q s side c =
     (Inr (), c\<lparr>ws_sent := ws_sent c @ [OrderReq (order_new side q s (d_new_v4 E (ws_tick c)))], ws_tick := Suc (Suc (ws_tick c))\<rparr>)"
  by (simp add: ready_def make_order_def checked_send_request_def send_request_def ws_bump_def)

section \<open>One account\<close>

text \<open>The conditions on an account: the symbol's position is known and whole, amounts in range.\<close>

definition hedgeable :: "dealer \<Rightarrow> Account \<Rightarrow> Symbol \<Rightarrow> int \<Rightarrow> int \<Rightarrow> bool" where
  "hedgeable d a s n tol \<longleftrightarrow> symbol_from_currency (acc_currency a) = Some s \<and> ws_has_positions (ws_client d) \<and>
     position_qty (map_of (ws_positions (ws_client d)) s) = of_int n \<and> \<bar>n\<bar> \<le> 10 ^ 12 \<and> \<bar>balance a\<bar> \<le> 10 ^ 12 \<and>
     (\<exists>w. map_of (risk_tolerances d) (acc_currency a) = Some w \<and> sint w = tol)"

definition order_cap :: "dealer \<Rightarrow> Symbol \<Rightarrow> nat option" where
  "order_cap d s = map_option unat (map_of (max_single_order_quantities d) (to_lowercase s))"

definition held :: "dealer \<Rightarrow> Symbol \<Rightarrow> int" where
  "held d s = \<lfloor>position_qty (map_of (ws_positions (ws_client d)) s)\<rfloor>"

definition tolerance :: "dealer \<Rightarrow> Currency \<Rightarrow> int" where
  "tolerance d c = (case map_of (risk_tolerances d) c of Some w \<Rightarrow> sint w | None \<Rightarrow> 0)"

definition account_target :: "dealer \<Rightarrow> Symbol \<Rightarrow> Account \<Rightarrow> int" where
  "account_target d s a =
     (if symbol_from_currency (acc_currency a) = Some s
      then hedge_target (balance a) (held d s) (tolerance d (acc_currency a)) (order_cap d s) else 0)"

lemma unsigned_abs_of:
  assumes "\<bar>z\<bar> \<le> 10 ^ 13"
  shows "sint (word_of_int z :: i64) = z" "unat (unsigned_abs (word_of_int z)) = nat \<bar>z\<bar>"
proof -
  show s: "sint (word_of_int z :: i64) = z" using assms by (simp add: int_word_sint)
  have u: "unat (word_of_int y :: u64) = nat y" if "0 \<le> y" "y \<le> 10 ^ 13" for y
    using that by (simp add: unsigned_of_int take_bit_int_eq_self nat_eq_iff)
  show "unat (unsigned_abs (word_of_int z)) = nat \<bar>z\<bar>"
    using u [of z] u [of "- z"] assms by (auto simp: unsigned_abs_def s)
qed

lemma capped_unat:
  "unat (capped_quantity s q d) = (case order_cap d s of Some k \<Rightarrow> min (unat q) k | None \<Rightarrow> unat q)"
  by (auto simp: capped_quantity_def order_cap_def word_less_nat_alt split: option.split)

lemma dec_repr_int: "\<bar>n\<bar> \<le> 10 ^ 13 \<Longrightarrow> dec_repr 0 (of_int n)"
  by (simp add: dec_repr_def grid_def flip: of_int_abs)

context dealer_env
begin

lemma contracts_required: "calc_num_contracts_for_value E v = of_int \<lceil>v\<rceil>"
  by (auto simp: calc_num_contracts_for_value_def round_away round_to_zero away_dp_def trunc_dp_def)

lemma currently_hedged_int:
  assumes "position_qty p = of_int n" "\<bar>n\<bar> \<le> 10 ^ 12"
  shows "currently_hedged E p = Some (of_int n)"
proof (cases "\<exists>x side. p = Some x \<and> ps_side x = Some side")
  case True
  then obtain x side where p: "p = Some x" "ps_side x = Some side" by blast
  have q: "ps_quantity x = of_int (side_to_sign side * n)"
    using assms(1) by (cases side) (simp_all add: position_qty_def p minus_equation_iff)
  have r: "dec_repr 0 (of_int (side_to_sign side))" "dec_repr 0 (of_int (side_to_sign side * n))" "dec_repr (0 + 0) (of_int n)"
  proof -
    have "\<bar>side_to_sign side\<bar> = 1" by (cases side) simp_all
    then have "\<bar>side_to_sign side\<bar> \<le> 10 ^ 13" "\<bar>side_to_sign side * n\<bar> \<le> 10 ^ 13" "\<bar>n\<bar> \<le> 10 ^ 13"
      using assms(2) by (simp_all add: abs_mult)
    then show "dec_repr 0 (of_int (side_to_sign side))" "dec_repr 0 (of_int (side_to_sign side * n))" "dec_repr (0 + 0) (of_int n)"
      by (simp_all only: add_0 dec_repr_int)
  qed
  have e: "of_int (side_to_sign side) * of_int (side_to_sign side * n) = (of_int n :: rat)" by (cases side) simp_all
  show ?thesis using mul_exact [OF r(1,2)] r(3) by (simp only: e currently_hedged_def p q option.case)
next
  case False
  with assms(1) show ?thesis by (auto simp: currently_hedged_def position_qty_def split: option.split)
qed

lemma gap_exact:
  assumes "\<bar>n\<bar> \<le> 10 ^ 12" "\<bar>m\<bar> \<le> 10 ^ 12 + 1"
  shows "dec_sub (d_dec E) (of_int m) (of_int n) = Some (of_int (m - n))"
    "dec_to_i64 (d_dec E) (of_int (m - n)) = Some (word_of_int (m - n))"
proof -
  have "dec_repr 0 (of_int m)" "dec_repr 0 (of_int n)" "dec_repr 0 (of_int (m - n))"
    using assms by (intro dec_repr_int; simp)+
  then show "dec_sub (d_dec E) (of_int m) (of_int n) = Some (of_int (m - n))"
    using sub_exact [of 0 "of_int m" "of_int n"] by simp
  have "- (2 ^ 63) \<le> m - n" "m - n < 2 ^ 63" using assms by simp_all
  then show "dec_to_i64 (d_dec E) (of_int (m - n)) = Some (word_of_int (m - n))"
    by (simp only: to_i64 floor_of_int ceiling_of_int if_cancel Let_def) simp
qed

text \<open>An account is hedged as specified, and nothing else of the dealer changes.\<close>

lemma hedge_account_effect:
  assumes "ready E (ws_client d)" "hedgeable d a s n tol"
  shows "\<exists>rs hq t. hedge_account E a d = Some (d\<lparr>hedged_qtys := hq,
      ws_client := (ws_client d)\<lparr>ws_sent := ws_sent (ws_client d) @ rs, ws_tick := t\<rparr>\<rparr>) \<and>
    (\<forall>s'. ordered s' rs = (if s' = s then hedge_target (balance a) n tol (order_cap d s) else 0))"
proof -
  let ?gap = "\<lceil>balance a\<rceil> - n" and ?hq = "AList.update s (of_int n) (hedged_qtys d)"
  have a: "symbol_from_currency (acc_currency a) = Some s" "ws_has_positions (ws_client d)"
      "position_qty (map_of (ws_positions (ws_client d)) s) = of_int n" "\<bar>n\<bar> \<le> 10 ^ 12" "\<bar>balance a\<bar> \<le> 10 ^ 12"
    using assms(2) by (auto simp: hedgeable_def)
  obtain w where w: "map_of (risk_tolerances d) (acc_currency a) = Some w" "sint w = tol"
    using assms(2) by (auto simp: hedgeable_def)
  have cur: "acc_currency a \<noteq> BTC" "acc_currency a \<noteq> KKP" using a(1) by auto
  have m: "\<bar>\<lceil>balance a\<rceil>\<bar> \<le> 10 ^ 12 + 1"
  proof -
    have "balance a \<le> of_int (10 ^ 12)" "of_int (- (10 ^ 12)) \<le> balance a" using a(5) by (simp_all add: abs_le_iff)
    then have "\<lceil>balance a\<rceil> \<le> 10 ^ 12" "- (10 ^ 12) \<le> \<lceil>balance a\<rceil>" by (metis ceiling_mono ceiling_of_int)+
    then show ?thesis by (intro abs_leI) linarith+
  qed
  have gap: "\<bar>?gap\<bar> \<le> 10 ^ 13" using m a(4) by simp
  note steps = currently_hedged_int [OF a(3,4)] gap_exact [OF a(4) m] contracts_required
  show ?thesis
  proof (cases "\<bar>?gap\<bar> < tol")
    case True
    then have "\<bar>of_int ?gap :: rat\<bar> < of_int (sint w)" unfolding w(2) by linarith
    with True show ?thesis
      by (intro exI [of _ "[]"] exI [of _ ?hq] exI [of _ "ws_tick (ws_client d)"])
        (simp add: hedge_account_def get_position_state_def a cur steps w hedge_target_def Let_def del: of_int_diff of_int_sint)
  next
    case False
    then have "\<not> \<bar>of_int ?gap :: rat\<bar> < of_int (sint w)" unfolding w(2) by linarith
    moreover define q where "q = capped_quantity s (unsigned_abs (word_of_int ?gap)) (d\<lparr>hedged_qtys := ?hq\<rparr>)"
    have "int (unat q) = (case order_cap d s of Some k \<Rightarrow> min \<bar>?gap\<bar> (int k) | None \<Rightarrow> \<bar>?gap\<bar>)"
      unfolding q_def capped_unat unsigned_abs_of(2) [OF gap] by (auto simp: order_cap_def of_nat_min split: option.split)
    then have "side_to_sign (side_from_sign ?gap) * int (unat q) = hedge_target (balance a) n tol (order_cap d s)"
      using False by (auto simp: hedge_target_def Let_def side_from_sign_def sgn_if split: option.split)
    moreover have "ready E (ws_client (d\<lparr>hedged_qtys := ?hq\<rparr>))" using assms(1) by simp
    note order = make_order_ready [OF this, of q s "side_from_sign ?gap"]
    ultimately show ?thesis
      by (intro exI [of _ "[OrderReq (order_new (side_from_sign ?gap) q s (d_new_v4 E (ws_tick (ws_client d))))]"]
          exI [of _ ?hq] exI [of _ "Suc (Suc (ws_tick (ws_client d)))"])
        (simp add: hedge_account_def get_position_state_def a cur steps w unsigned_abs_of(1) [OF gap]
          order [simplified] order_new_def ordered_def flip: q_def del: of_int_diff of_int_sint)
  qed
qed

section \<open>All accounts\<close>

text \<open>What is ordered in \<open>s\<close> for one account of the report; BTC and KKP accounts are skipped.\<close>

lemma hedge_accounts_effect:
  assumes "ready E (ws_client d)"
    and "\<And>i a. (i, a) \<in> set as \<Longrightarrow> acc_currency a \<in> {BTC, KKP} \<or> (\<exists>s n tol. hedgeable d a s n tol)"
  shows "\<exists>rs hq t. hedge_accounts E as d = Some (d\<lparr>hedged_qtys := hq,
      ws_client := (ws_client d)\<lparr>ws_sent := ws_sent (ws_client d) @ rs, ws_tick := t\<rparr>\<rparr>) \<and>
    (\<forall>s. ordered s rs = sum_list (map (\<lambda>(i, a). account_target d s a) as))"
  using assms
proof (induction as arbitrary: d)
  case Nil
  then show ?case
    by (intro exI [of _ "[]"] exI [of _ "hedged_qtys d"] exI [of _ "ws_tick (ws_client d)"]) simp
next
  case (Cons ia as)
  obtain i a where ia: "ia = (i, a)" by (cases ia)
  have "\<exists>rs hq t. hedge_account E a d = Some (d\<lparr>hedged_qtys := hq,
      ws_client := (ws_client d)\<lparr>ws_sent := ws_sent (ws_client d) @ rs, ws_tick := t\<rparr>\<rparr>) \<and>
    (\<forall>s. ordered s rs = account_target d s a)"
  proof (cases "acc_currency a \<in> {BTC, KKP}")
    case True
    then show ?thesis
      by (intro exI [of _ "[]"] exI [of _ "hedged_qtys d"] exI [of _ "ws_tick (ws_client d)"])
        (auto simp: hedge_account_def account_target_def)
  next
    case False
    then obtain s n tol where h: "hedgeable d a s n tol" using Cons.prems(2) [of i a] ia by auto
    from hedge_account_effect [OF Cons.prems(1) h] h show ?thesis
      by (elim exE conjE) (intro exI conjI, assumption, auto simp: hedgeable_def account_target_def held_def tolerance_def)
  qed
  then obtain rs hq t where step: "hedge_account E a d = Some (d\<lparr>hedged_qtys := hq,
      ws_client := (ws_client d)\<lparr>ws_sent := ws_sent (ws_client d) @ rs, ws_tick := t\<rparr>\<rparr>)" (is "_ = Some ?d")
    and rs: "\<forall>s. ordered s rs = account_target d s a" by blast
  have same: "hedgeable ?d b s n tol = hedgeable d b s n tol" "account_target ?d s b = account_target d s b" for b s n tol
    by (simp_all add: hedgeable_def account_target_def held_def tolerance_def order_cap_def)
  have "ready E (ws_client ?d)" using Cons.prems(1) by (simp add: ready_def)
  moreover have "acc_currency b \<in> {BTC, KKP} \<or> (\<exists>s n tol. hedgeable ?d b s n tol)" if "(j, b) \<in> set as" for j b
    unfolding same using Cons.prems(2) that by auto
  ultimately obtain rs' hq' t' where "hedge_accounts E as ?d = Some (?d\<lparr>hedged_qtys := hq',
      ws_client := (ws_client ?d)\<lparr>ws_sent := ws_sent (ws_client ?d) @ rs', ws_tick := t'\<rparr>\<rparr>)"
    "\<forall>s. ordered s rs' = sum_list (map (\<lambda>(i, a). account_target ?d s a) as)"
    using Cons.IH [of ?d] by blast
  with step rs show ?case
    by (intro exI [of _ "rs @ rs'"] exI [of _ hq'] exI [of _ t']) (simp add: ia same)
qed

end

lemma sum_one:
  assumes "\<And>x. x \<in> set xs \<Longrightarrow> \<not> P x \<Longrightarrow> f x = 0" "filter P xs = [y]"
  shows "sum_list (map f xs) = (f y :: int)"
proof -
  have "sum_list (map f xs) = sum_list (map f (filter P xs))"
    using assms(1) by (simp add: sum_list_map_filter)
  with assms(2) show ?thesis by simp
qed

lemma symbol_inj: "symbol_from_currency c = Some s \<Longrightarrow> symbol_from_currency c' = Some s \<Longrightarrow> c' = c"
  by (cases c; cases c') auto

text \<open>What the report asks for: its fiat accounts can be hedged.\<close>

definition report_ok :: "dealer \<Rightarrow> BankState \<Rightarrow> bool" where
  "report_ok d bs \<longleftrightarrow> (\<forall>(i, a) \<in> set (fiat_exposures bs). acc_currency a \<in> {BTC, KKP} \<or> (\<exists>s n tol. hedgeable d a s n tol))"

lemma risk_check_effect:
  assumes "dealer_env E" "ready E (ws_client d)" "has_received_init_data d" "report_ok d bs"
  shows "\<exists>d' rs. check_risk_from_bank_state E bs d = Some d' \<and> ws_sent (ws_client d') = ws_sent (ws_client d) @ rs \<and>
    (\<forall>s. ordered s rs = sum_list (map (\<lambda>(i, a). account_target d s a) (fiat_exposures bs)))"
  using dealer_env.hedge_accounts_effect [OF assms(1,2), of "fiat_exposures bs"] assms(3,4)
  by (fastforce simp: check_risk_from_bank_state_def report_ok_def)

text \<open>
  C16. The risk check orders what it should: from a report whose fiat accounts can be hedged, the risk
  check succeeds, and for every symbol the signed sum of the orders it sends is the sum of the
  targets of the accounts: the difference between the exposure, rounded up to whole contracts, and
  the position held, or nothing if that is below the tolerance, cut to the largest order allowed.
\<close>

theorem risk_check_orders:
  assumes "dealer_env E" "ready E (ws_client d)" "has_received_init_data d" "report_ok d bs"
  shows "\<exists>d' rs. check_risk_from_bank_state E bs d = Some d' \<and> ws_sent (ws_client d') = ws_sent (ws_client d) @ rs \<and>
    (\<forall>s. ordered s rs = sum_list (map (\<lambda>(i, a). account_target d s a) (fiat_exposures bs)))"
  using risk_check_effect [OF assms] .

lemma risk_check_closes:
  assumes "dealer_env E" "ready E (ws_client d)" "has_received_init_data d" "report_ok d bs"
    and "symbol_from_currency c = Some s" "filter (\<lambda>(i, a). acc_currency a = c) (fiat_exposures bs) = [(j, b)]"
    and "\<And>k. order_cap d s = Some k \<Longrightarrow> \<bar>\<lceil>balance b\<rceil> - held d s\<bar> \<le> int k"
  shows "\<exists>d' rs. check_risk_from_bank_state E bs d = Some d' \<and> ws_sent (ws_client d') = ws_sent (ws_client d) @ rs \<and>
    \<bar>\<lceil>balance b\<rceil> - (held d s + ordered s rs)\<bar> < max 1 (tolerance d c)"
proof -
  obtain d' rs where d': "check_risk_from_bank_state E bs d = Some d'" "ws_sent (ws_client d') = ws_sent (ws_client d) @ rs"
    and rs: "ordered s rs = sum_list (map (\<lambda>(i, a). account_target d s a) (fiat_exposures bs))"
    using risk_check_effect [OF assms(1-4)] by blast
  have "(j, b) \<in> set (filter (\<lambda>(i, a). acc_currency a = c) (fiat_exposures bs))" unfolding assms(6) by simp
  then have b: "acc_currency b = c" by simp
  have other: "account_target d s a = 0" if "acc_currency a \<noteq> c" for a
    using symbol_inj [OF assms(5)] that by (auto simp: account_target_def)
  have "ordered s rs = account_target d s b"
    unfolding rs using sum_one [OF _ assms(6), of "\<lambda>(i, a). account_target d s a"] other by auto
  then have "ordered s rs = hedge_target (balance b) (held d s) (tolerance d c) (order_cap d s)"
    by (simp add: account_target_def b assms(5))
  then have "\<bar>\<lceil>balance b\<rceil> - (held d s + ordered s rs)\<bar> < max 1 (tolerance d c)"
    using assms(7) hedge_target_closes by (cases "order_cap d s") simp_all
  with d' show ?thesis by blast
qed

definition hedging_dealer :: dealer where
  "hedging_dealer = sample_dealer\<lparr>has_received_init_data := True\<rparr>"

lemma hedging_dealer_ok:
  "ready denv96 (ws_client hedging_dealer)" "has_received_init_data hedging_dealer"
  "acc_currency a = USD \<Longrightarrow> \<bar>balance a\<bar> \<le> 10 ^ 12 \<Longrightarrow> hedgeable hedging_dealer a ''BTCUSD.PERP'' 0 1"
  "held hedging_dealer s = 0" "tolerance hedging_dealer USD = 1" "order_cap hedging_dealer ''BTCUSD.PERP'' = Some 1000"
proof -
  have low: "to_lowercase ''BTCUSD.PERP'' = ''btcusd.perp''" by code_simp
  have sample: "risk_tolerances sample_dealer = [(USD, 1)]" "max_single_order_quantities sample_dealer = [(''btcusd.perp'', 1000)]"
    by (simp_all add: sample_dealer_def dealer_new_def sample_dealer_settings_def)
  show "ready denv96 (ws_client hedging_dealer)" "has_received_init_data hedging_dealer"
    "acc_currency a = USD \<Longrightarrow> \<bar>balance a\<bar> \<le> 10 ^ 12 \<Longrightarrow> hedgeable hedging_dealer a ''BTCUSD.PERP'' 0 1"
    "held hedging_dealer s = 0" "tolerance hedging_dealer USD = 1" "order_cap hedging_dealer ''BTCUSD.PERP'' = Some 1000"
    by (simp_all add: hedging_dealer_def ready_def sample_client_def hedgeable_def position_qty_def held_def
        tolerance_def order_cap_def sample low)
qed

theorem risk_check_orders_witness:
  "\<exists>d' rs. check_risk_from_bank_state denv96 \<lparr>total_exposures = [], fiat_exposures =
      [(42, \<lparr>account_id = 42, balance = - 100, acc_currency = USD, account_type = Internal, account_class = Cash\<rparr>)],
      bs_insurance_fund_account = undefined\<rparr> hedging_dealer = Some d' \<and>
    ws_sent (ws_client d') = rs \<and> ordered ''BTCUSD.PERP'' rs = - 100"
proof -
  let ?a = "\<lparr>account_id = 42, balance = - 100, acc_currency = USD, account_type = Internal, account_class = Cash\<rparr>"
  let ?bs = "\<lparr>total_exposures = [], fiat_exposures = [(42, ?a)], bs_insurance_fund_account = undefined\<rparr>"
  have "report_ok hedging_dealer ?bs" using hedging_dealer_ok(3) [of ?a] by (auto simp: report_ok_def)
  from risk_check_orders [OF denv96.dealer_env_axioms hedging_dealer_ok(1,2) this] obtain d' rs where
    "check_risk_from_bank_state denv96 ?bs hedging_dealer = Some d'" "ws_sent (ws_client d') = ws_sent (ws_client hedging_dealer) @ rs"
    "ordered ''BTCUSD.PERP'' rs = account_target hedging_dealer ''BTCUSD.PERP'' ?a" by auto
  then show ?thesis
    by (simp add: account_target_def hedging_dealer_ok hedge_target_def Let_def)
      (simp add: hedging_dealer_def sample_client_def)
qed

end
