(* ===== verification/DealerRun.thy ===== *)
theory DealerRun
  imports DealerQuotes DealerHedge Machine
begin

text \<open>
  Runs of the dealer's event loop: an invariant of its state (the price tables and the quotes stay
  sorted and complete, and the dealer counts itself as ready only with positions, symbols and
  authentication), and that orders leave only a dealer that is ready, by the messages it has handled
  since it was last told that the connection was lost.
\<close>

section \<open>What the dealer's state always satisfies\<close>

definition tables_sorted :: "(Symbol \<times> price_table) list \<Rightarrow> bool" where
  "tables_sorted ts \<longleftrightarrow> list_all (\<lambda>(s, t). bt_sorted t) ts"

definition quote_ok :: "nat \<times> QuoteResponse \<Rightarrow> bool" where
  "quote_ok iq \<longleftrightarrow> qrs_quote_id (snd iq) = Some (fst iq) \<and> qrs_rate (snd iq) \<noteq> None \<and> qrs_error (snd iq) = None"

definition dealer_inv :: "dealer \<Rightarrow> bool" where
  "dealer_inv d \<longleftrightarrow> bt_sorted (guaranteed_quotes d) \<and> list_all quote_ok (guaranteed_quotes d) \<and>
     tables_sorted (bid_quotes d) \<and> tables_sorted (ask_quotes d) \<and>
     (has_received_init_data d \<longrightarrow>
       has_received_positions d \<and> has_received_symbols d \<and> is_kollider_authenticated d)"

lemma list_all_bt_insert: "list_all P m \<Longrightarrow> P (k, v) \<Longrightarrow> list_all P (bt_insert k v m)"
  by (induction k v m rule: bt_insert.induct) auto

lemma list_all_update: "list_all P m \<Longrightarrow> P (k, v) \<Longrightarrow> list_all P (AList.update k v m)"
  by (induction m) auto

lemma tables_sorted_insert:
  assumes "tables_sorted ts"
  shows "tables_sorted (table_insert s q p ts)"
proof -
  have "bt_sorted t" if "map_of ts s = Some t" for t
    using assms map_of_SomeD [OF that] by (auto simp: tables_sorted_def list_all_iff)
  then show ?thesis
    using assms unfolding tables_sorted_def table_insert_def
    by (auto split: option.split intro!: list_all_update bt_sorted_insert simp: bt_sorted_def [of "[_]"])
qed

definition flags :: "dealer \<Rightarrow> _" where
  "flags d = (has_received_init_data d, has_received_positions d, has_received_symbols d, is_kollider_authenticated d)"

definition sorted_tables :: "dealer \<Rightarrow> bool" where
  "sorted_tables d \<longleftrightarrow> tables_sorted (bid_quotes d) \<and> tables_sorted (ask_quotes d)"

lemma quote_loop_frame:
  "quote_loop E s dp qs b a d = Some d' \<Longrightarrow> sorted_tables d \<Longrightarrow>
     sorted_tables d' \<and> guaranteed_quotes d' = guaranteed_quotes d \<and> flags d' = flags d"
proof (induction qs arbitrary: b a d)
  case (Cons q qs)
  obtain b' a' d1 where rest: "quote_loop E s dp qs b' a' d1 = Some d'"
    and d1: "sorted_tables d1" "guaranteed_quotes d1 = guaranteed_quotes d" "flags d1 = flags d"
    using Cons.prems
    by (auto simp: sorted_tables_def tables_sorted_insert flags_def elim!: bind_SomeE split: if_split_asm)
  from Cons.IH [OF rest d1(1)] d1 show ?case by simp
qed simp

lemma update_quotes_frame:
  "update_quotes E s d = Some d' \<Longrightarrow> sorted_tables d \<Longrightarrow>
     sorted_tables d' \<and> guaranteed_quotes d' = guaranteed_quotes d \<and> flags d' = flags d"
  unfolding update_quotes_def by (auto split: option.split_asm dest: quote_loop_frame)

text \<open>The part of the state that the invariant speaks about.\<close>

definition quote_view :: "dealer \<Rightarrow> _" where
  "quote_view d = (guaranteed_quotes d, bid_quotes d, ask_quotes d, has_received_init_data d, has_received_positions d,
     has_received_symbols d, is_kollider_authenticated d)"

lemma dealer_inv_view: "quote_view d' = quote_view d \<Longrightarrow> dealer_inv d' = dealer_inv d"
  by (simp add: dealer_inv_def quote_view_def)

lemma quote_view_simps [simp]:
  "quote_view (dl_send m d) = quote_view d" "quote_view (dl_bump d) = quote_view d"
  "quote_view (d\<lparr>ws_client := c\<rparr>) = quote_view d" "quote_view (d\<lparr>hedged_qtys := h\<rparr>) = quote_view d"
  "quote_view (d\<lparr>dl_tick := n\<rparr>) = quote_view d" "quote_view (d\<lparr>last_leverage_check_timestamp := t\<rparr>) = quote_view d"
  "quote_view (d\<lparr>last_bank_state_timestamp := u, last_bank_state := v\<rparr>) = quote_view d"
  "quote_view (d\<lparr>funding_profit := x\<rparr>) = quote_view d"
  "quote_view (create_invoice_msg k E am memo d) = quote_view d" "quote_view (pay_invoice_msg k' E i d) = quote_view d"
  "quote_view (dl_subscribe E ch ss d) = quote_view d"
  by (simp_all add: quote_view_def dl_send_def dl_bump_def create_invoice_msg_def pay_invoice_msg_def dl_uuid_def
      dl_subscribe_def)

lemma hedge_account_view: "hedge_account E a d = Some d' \<Longrightarrow> quote_view d' = quote_view d"
  by (auto simp: hedge_account_def Let_def elim!: bind_SomeE split: if_split_asm sum.split_asm option.split_asm prod.split_asm)

lemma hedge_accounts_view: "hedge_accounts E as d = Some d' \<Longrightarrow> quote_view d' = quote_view d"
proof (induction as arbitrary: d)
  case (Cons ua as)
  obtain u a where ua: "ua = (u, a)" by fastforce
  obtain d1 where "hedge_account E a d = Some d1" "hedge_accounts E as d1 = Some d'"
    using Cons.prems by (auto simp: ua elim!: bind_SomeE)
  with Cons.IH hedge_account_view show ?case by metis
qed simp

lemma check_risk_view: "check_risk_from_bank_state E bs d = Some d' \<Longrightarrow> quote_view d' = quote_view d"
  by (auto simp: check_risk_from_bank_state_def split: if_split_asm dest: hedge_accounts_view)

lemma maintain_leverage_view: "maintain_leverage E p d = Some d' \<Longrightarrow> quote_view d' = quote_view d"
  by (auto simp: maintain_leverage_def Let_def elim!: bind_SomeE split: if_split_asm option.split_asm)

lemma dealer_inv_flags:
  "dealer_inv d \<longleftrightarrow> bt_sorted (guaranteed_quotes d) \<and> list_all quote_ok (guaranteed_quotes d) \<and> sorted_tables d \<and>
     (case flags d of (i, p, s, a) \<Rightarrow> i \<longrightarrow> p \<and> s \<and> a)"
  by (simp add: dealer_inv_def sorted_tables_def flags_def conj_assoc)

lemma orderbook_inv:
  assumes "process_orderbook_update E l d = Some d'" "dealer_inv d"
  shows "dealer_inv d'"
proof -
  have up: "dealer_inv d'" if "update_quotes E (l2_symbol l) d1 = Some d'" "dealer_inv d1" for d1
    using update_quotes_frame [OF that(1)] that(2) unfolding dealer_inv_flags by simp
  have l2: "dealer_inv (d\<lparr>level2_data := x\<rparr>)" for x using assms(2) by (simp add: dealer_inv_def)
  show ?thesis
    using assms(1) unfolding process_orderbook_update_def Let_def
    by (auto split: if_split_asm option.split_asm intro: up l2 assms(2))
qed

lemma swap_frame:
  assumes "dl_swap_request E r d = Some d'"
  defines "kept \<equiv> bt_split_off (d_time E (dl_tick d) - QUOTE_TTL_MS * 1000) (guaranteed_quotes d)"
  shows "guaranteed_quotes d' \<in> {guaranteed_quotes d, kept, bt_remove (the (srq_quote_id r)) kept} \<and>
    bid_quotes d' = bid_quotes d \<and> ask_quotes d' = ask_quotes d \<and> flags d' = flags d"
  using assms(1) unfolding kept_def
  by (auto simp: dl_swap_request_def Let_def dl_send_def dl_bump_def flags_def
      elim!: bind_SomeE split: if_split_asm prod.split_asm option.split_asm)

lemma swap_inv: "dl_swap_request E r d = Some d' \<Longrightarrow> dealer_inv d \<Longrightarrow> dealer_inv d'"
  by (drule swap_frame)
    (auto simp: dealer_inv_flags sorted_tables_def bt_split_off_def bt_remove_def bt_sorted_filter list_all_iff)

lemma quote_frame:
  assumes "dl_quote_request E r d = Some d'"
  shows "(guaranteed_quotes d' = guaranteed_quotes d \<or>
      (\<exists>q. quote_ok (d_time E (dl_tick d), q) \<and>
        guaranteed_quotes d' = bt_insert (d_time E (dl_tick d)) q (guaranteed_quotes d))) \<and>
    bid_quotes d' = bid_quotes d \<and> ask_quotes d' = ask_quotes d \<and> flags d' = flags d"
proof -
  obtain rate fees where "get_rate E (qrq_amount r) (qrq_to r) d = Some (rate, fees)"
    using assms unfolding dl_quote_request_def Let_def by (auto elim!: bind_SomeE)
  note rate = this
  show ?thesis
  proof (cases rate)
    case None
    with assms rate show ?thesis by (auto simp: dl_quote_request_def Let_def dl_send_def flags_def)
  next
    case (Some x)
    let ?t = "d_time E (dl_tick d)"
    let ?q = "\<lparr>qrs_req_id = qrq_req_id r, qrs_uid = qrq_uid r, qrs_amount = qrq_amount r, qrs_from = qrq_from r,
      qrs_to = qrq_to r, qrs_valid_until = word_of_nat ((?t + QUOTE_TTL_MS * 1000) div 1000), qrs_rate = Some x,
      qrs_quote_id = Some ?t, qrs_error = None, qrs_fees = fees\<rparr>"
    have "quote_ok (?t, ?q)" by (simp add: quote_ok_def)
    moreover have "guaranteed_quotes d' = bt_insert ?t ?q (guaranteed_quotes d)" "bid_quotes d' = bid_quotes d"
      "ask_quotes d' = ask_quotes d" "flags d' = flags d"
      using assms rate Some by (auto simp: dl_quote_request_def Let_def dl_send_def dl_bump_def flags_def)
    ultimately show ?thesis by blast
  qed
qed

lemma quote_inv: "dl_quote_request E r d = Some d' \<Longrightarrow> dealer_inv d \<Longrightarrow> dealer_inv d'"
  by (drule quote_frame)
    (auto simp: dealer_inv_flags sorted_tables_def bt_sorted_insert list_all_bt_insert)

lemma quiet_inv: "quote_view d' = quote_view d \<Longrightarrow> dealer_inv d \<Longrightarrow> dealer_inv d'"
  by (blast dest: dealer_inv_view)

lemma subscribe_inv: "dealer_inv d \<Longrightarrow> dealer_inv (dl_subscribe E ch ss d)"
  by (rule quiet_inv [rotated]) simp_all

lemma flag_inv:
  assumes "dealer_inv d"
  shows "dealer_inv (check_has_received_initial_data (d\<lparr>is_kollider_authenticated := True\<rparr>))"
    "dealer_inv (check_has_received_initial_data (d\<lparr>has_received_positions := True\<rparr>))"
    "dealer_inv (check_has_received_initial_data (d\<lparr>has_received_symbols := True\<rparr>))"
    "dealer_inv (reset_state d)"
  using assms
  by (simp_all add: dealer_inv_def check_has_received_initial_data_def reset_state_def tables_sorted_def)

lemma kollider_inv:
  assumes "process_kollider_msg E r d = Some d'" "dealer_inv d"
  shows "dealer_inv d'"
proof (cases "(\<exists>m. r = KDisconnected m) \<or> (\<exists>m. r = KReconnected m) \<or> (\<exists>m. r = KAuthenticate m) \<or> (\<exists>m. r = KPositions m) \<or>
    (\<exists>m. r = KTradableSymbols m) \<or> (\<exists>m. r = KLevel2State m)")
  case True
  then show ?thesis
    using assms flag_inv [OF assms(2)] by (auto simp: Let_def subscribe_inv intro: orderbook_inv)
next
  case False
  then have "quote_view d' = quote_view d"
    using assms(1)
    by (cases r) (auto simp: maintain_leverage_view split: option.split_asm if_split_asm)
  from this assms(2) show ?thesis by (rule quiet_inv)
qed

lemma bank_message_view:
  assumes "dealer_process_msg E (FromBank m) d = Some d'"
    and "\<not> ((\<exists>r. m = MsgApi (SwapRequestMsg r)) \<or> (\<exists>r. m = MsgApi (QuoteRequestMsg r)))"
  shows "quote_view d' = quote_view d"
  using assms
  by (cases "(E, FromBank m, d)" rule: dealer_process_msg.cases)
    (auto simp: dl_available_currencies_def dl_invoice_request_def dl_payment_request_def dl_lnurl_request_def
      dl_bank_state_def dl_create_invoice_response_def dl_fiat_deposit_def Let_def elim!: bind_SomeE
      split: option.split_asm sum.split_asm prod.split_asm if_split_asm dest!: check_risk_view)

lemma bank_message_inv:
  assumes "dealer_process_msg E (FromBank m) d = Some d'" "dealer_inv d"
  shows "dealer_inv d'"
proof (cases "(\<exists>r. m = MsgApi (SwapRequestMsg r)) \<or> (\<exists>r. m = MsgApi (QuoteRequestMsg r))")
  case True
  with assms show ?thesis by (auto intro: swap_inv quote_inv)
next
  case False
  from bank_message_view [OF assms(1) False] assms(2) show ?thesis by (rule quiet_inv)
qed

lemma timers_view:
  "check_risk E d = Some d' \<Longrightarrow> quote_view d' = quote_view d"
  "check_health E d = Some d' \<Longrightarrow> quote_view d' = quote_view d"
  "quote_view (sweep_excess_funds E d) = quote_view d" "quote_view (snd (dl_uuid E d)) = quote_view d"
  by (auto simp: check_risk_def check_health_def sweep_excess_funds_def dl_uuid_def Let_def elim!: bind_SomeE
      split: option.split_asm option.split dest!: check_risk_view)

lemma dealer_step_inv: "dealer_inv d \<Longrightarrow> dealer_step E d e d' \<Longrightarrow> dealer_inv d'"
proof (elim dealer_stepE)
  fix m assume "dealer_inv d" "dealer_process_msg E (FromBank m) d = Some d'"
  then show "dealer_inv d'" by (blast intro: bank_message_inv)
next
  fix r rs
  assume "dealer_inv d"
    "process_kollider_msg E r (d\<lparr>ws_client := (ws_client d)\<lparr>ws_callback := rs\<rparr>\<rparr>) = Some d'"
  then show "dealer_inv d'"
    using kollider_inv [OF _ quiet_inv [OF quote_view_simps(3)]] by auto
qed (auto intro: quiet_inv timers_view simp: timers_view)

interpretation dealer: invariant "dealer_step E" dealer_inv
  by unfold_locales (rule dealer_step_inv)

lemma dealer_new_inv: "dealer_new E st c p = Some d \<Longrightarrow> dealer_inv d"
  by (auto simp: dealer_new_def dealer_inv_def tables_sorted_def elim!: bind_SomeE)

text \<open>
  C19. Whatever the bank, the exchange and the timers do, a dealer that was started keeps its quotes
  sorted by their identifiers, each with a rate and under its own identifier, and its price tables
  sorted by quantity; and it takes itself for ready only when it has received the positions and
  the symbols and is authenticated.
\<close>

theorem run_dealer_inv:
  assumes "dealer_new E st c p = Some d" "run (dealer_step E) d es d'"
  shows "dealer_inv d'"
  using assms(2) dealer_new_inv [OF assms(1)] by (rule dealer.run_inv)

section \<open>Orders\<close>

definition orders :: "client \<Rightarrow> Order list" where
  "orders c = List.map_filter (\<lambda>r. case r of OrderReq o' \<Rightarrow> Some o' | _ \<Rightarrow> None) (ws_sent c)"

lemma orders_send:
  "send_request E r c = (x, c') \<Longrightarrow> \<forall>o'. r \<noteq> OrderReq o' \<Longrightarrow> orders c' = orders c"
  by (cases r) (auto simp: send_request_def orders_def ws_bump_def map_filter_def split: if_split_asm)

lemma orders_checked:
  assumes "checked_send_request E r c = (x, c')" "\<forall>o'. r \<noteq> OrderReq o'"
  shows "orders c' = orders c"
proof -
  have auth: "orders c' = orders c" if "authenticate E c = (x, c')" for x c c'
    using that orders_send
    by (fastforce simp: authenticate_def orders_def ws_bump_def send_to_callback_def auth_success_def
        split: prod.split_asm option.split_asm sum.split_asm if_split_asm)
  have "orders c' = orders c" if "send_seq E send_request c = (x, c')" for x c c'
    using that by (auto simp: send_seq_def split: prod.split_asm sum.split_asm dest!: orders_send)
  with auth have "orders c' = orders c" if "initialise E c = (x, c')" for x c c'
    using that by (fastforce simp: initialise_def split: prod.split_asm sum.split_asm)
  with assms show ?thesis
    by (fastforce simp: checked_send_request_def split: if_split_asm prod.split_asm sum.split_asm dest: orders_send)
qed

lemma orders_bump [simp]: "orders (ws_bump c) = orders c"
  by (simp add: orders_def ws_bump_def)

lemma orders_requests:
  "subscribe E ch ss c = (x, c') \<Longrightarrow> orders c' = orders c"
  "make_withdrawal E am pr c = (x, c') \<Longrightarrow> orders c' = orders c"
  "change_margin E s n c = (x, c') \<Longrightarrow> orders c' = orders c"
  by (auto simp: subscribe_def make_withdrawal_def change_margin_def split: if_split_asm dest!: orders_checked)

lemma orders_incoming [simp]: "orders (process_incoming_message r c) = orders c"
  by (cases r) (auto simp: orders_def send_to_callback_def)

lemma orders_socket [simp]: "orders (set_disconnected E c) = orders c" "orders (set_reconnected E c) = orders c"
  by (simp_all add: orders_def set_disconnected_def set_reconnected_def send_to_callback_def ws_clear_def ws_bump_def
      Let_def)

definition dl_orders :: "dealer \<Rightarrow> Order list" where
  "dl_orders d = orders (ws_client d)"

lemma dl_orders_simps [simp]:
  "dl_orders (dl_send m d) = dl_orders d" "dl_orders (dl_bump d) = dl_orders d"
  "dl_orders (d\<lparr>dl_tick := n\<rparr>) = dl_orders d" "dl_orders (d\<lparr>last_leverage_check_timestamp := t\<rparr>) = dl_orders d"
  "dl_orders (d\<lparr>last_bank_state_timestamp := u, last_bank_state := v\<rparr>) = dl_orders d"
  "dl_orders (d\<lparr>funding_profit := x\<rparr>) = dl_orders d" "dl_orders (d\<lparr>guaranteed_quotes := g\<rparr>) = dl_orders d"
  "dl_orders (d\<lparr>level2_data := l\<rparr>) = dl_orders d"
  "dl_orders (create_invoice_msg k E am memo d) = dl_orders d" "dl_orders (pay_invoice_msg k' E i d) = dl_orders d"
  "dl_orders (check_has_received_initial_data d) = dl_orders d" "dl_orders (reset_state d) = dl_orders d"
  "dl_orders (d\<lparr>is_kollider_authenticated := b\<rparr>) = dl_orders d"
  "dl_orders (d\<lparr>has_received_positions := b\<rparr>) = dl_orders d" "dl_orders (d\<lparr>has_received_symbols := b\<rparr>) = dl_orders d"
  "dl_orders (snd (dl_uuid E d)) = dl_orders d" "dl_orders (d\<lparr>ws_client := c\<rparr>) = orders c"
  by (simp_all add: dl_orders_def dl_send_def dl_bump_def create_invoice_msg_def pay_invoice_msg_def dl_uuid_def
      check_has_received_initial_data_def reset_state_def)

lemma orders_snd [simp]:
  "orders (snd (subscribe E ch ss c)) = orders c" "orders (snd (change_margin E s n c)) = orders c"
  by (metis orders_requests surjective_pairing)+

lemma dl_orders_subscribe [simp]: "dl_orders (dl_subscribe E ch ss d) = dl_orders d"
  by (simp add: dl_subscribe_def) (simp add: dl_orders_def)

lemma quote_loop_orders: "quote_loop E s dp qs b a d = Some d' \<Longrightarrow> ws_client d' = ws_client d"
proof (induction qs arbitrary: b a d)
  case (Cons q qs)
  obtain b' a' d1 where "quote_loop E s dp qs b' a' d1 = Some d'" "ws_client d1 = ws_client d"
    using Cons.prems by (auto elim!: bind_SomeE split: if_split_asm)
  with Cons.IH show ?case by metis
qed simp

lemma orderbook_orders: "process_orderbook_update E l d = Some d' \<Longrightarrow> dl_orders d' = dl_orders d"
  by (auto simp: process_orderbook_update_def update_quotes_def Let_def dl_orders_def
      split: option.split_asm if_split_asm dest!: quote_loop_orders)

lemma maintain_leverage_orders: "maintain_leverage E p d = Some d' \<Longrightarrow> dl_orders d' = dl_orders d"
  by (auto simp: maintain_leverage_def Let_def elim!: bind_SomeE split: if_split_asm option.split_asm)
    (simp_all add: dl_orders_def dl_bump_def)

lemma kollider_orders: "process_kollider_msg E r d = Some d' \<Longrightarrow> dl_orders d' = dl_orders d"
  by (cases r)
    (auto simp: Let_def orderbook_orders maintain_leverage_orders split: option.split_asm if_split_asm)

lemma bank_message_orders:
  "dealer_process_msg E (FromBank m) d = Some d' \<Longrightarrow> \<not> has_received_init_data d \<Longrightarrow> dl_orders d' = dl_orders d"
  by (cases "(E, FromBank m, d)" rule: dealer_process_msg.cases)
    (auto simp: dl_available_currencies_def dl_invoice_request_def dl_payment_request_def dl_lnurl_request_def
      dl_bank_state_def check_risk_from_bank_state_def dl_create_invoice_response_def dl_fiat_deposit_def
      dl_swap_request_def dl_quote_request_def Let_def elim!: bind_SomeE
      split: option.split_asm sum.split_asm prod.split_asm if_split_asm dest!: orders_requests,
     simp_all add: dl_orders_def dl_bump_def)

lemma step_orders:
  "dealer_step E d e d' \<Longrightarrow> \<not> has_received_init_data d \<Longrightarrow> dl_orders d' = dl_orders d"
proof (elim dealer_stepE)
  fix m assume "\<not> has_received_init_data d" "dealer_process_msg E (FromBank m) d = Some d'"
  then show "dl_orders d' = dl_orders d" by (blast intro: bank_message_orders)
next
  fix r rs
  assume "process_kollider_msg E r (d\<lparr>ws_client := (ws_client d)\<lparr>ws_callback := rs\<rparr>\<rparr>) = Some d'"
  from kollider_orders [OF this] show "dl_orders d' = dl_orders d" by (simp add: dl_orders_def orders_def)
next
  assume "\<not> has_received_init_data d" "check_risk E d = Some d'"
  then show "dl_orders d' = dl_orders d"
    by (auto simp: check_risk_def check_risk_from_bank_state_def split: option.split_asm)
next
  assume "check_health E d = Some d'"
  then show "dl_orders d' = dl_orders d" by (auto simp: check_health_def Let_def elim!: bind_SomeE)
next
  assume "d' = sweep_excess_funds E d"
  then show "dl_orders d' = dl_orders d"
    by (auto simp: sweep_excess_funds_def dl_uuid_def Let_def split: option.split)
qed (simp_all, simp_all add: dl_orders_def)

section \<open>What the dealer has heard\<close>

text \<open>Runs with the messages of the exchange that the dealer has handled, in order.\<close>

definition handled :: "dealer \<Rightarrow> dealer_event \<Rightarrow> KolliderApiResponse list" where
  "handled d e = (case e of KolliderMessage \<Rightarrow> take 1 (ws_callback (ws_client d)) | _ \<Rightarrow> [])"

fun heard_step :: "denv \<Rightarrow> dealer \<times> KolliderApiResponse list \<Rightarrow> dealer_event \<Rightarrow> dealer \<times> KolliderApiResponse list \<Rightarrow> bool" where
  "heard_step E (d, h) e (d', h') \<longleftrightarrow> dealer_step E d e d' \<and> h' = h @ handled d e"

fun is_lost :: "KolliderApiResponse \<Rightarrow> bool" where
  "is_lost (KDisconnected _) = True"
| "is_lost _ = False"

definition since_lost :: "KolliderApiResponse list \<Rightarrow> KolliderApiResponse list" where
  "since_lost h = rev (takeWhile (\<lambda>r. \<not> is_lost r) (rev h))"

fun heard_inv :: "dealer \<times> KolliderApiResponse list \<Rightarrow> bool" where
  "heard_inv (d, h) \<longleftrightarrow> dealer_inv d \<and>
     (is_kollider_authenticated d \<longrightarrow> (\<exists>m. KAuthenticate m \<in> set (since_lost h) \<and> auth_success m)) \<and>
     (has_received_positions d \<longrightarrow> (\<exists>p. KPositions p \<in> set (since_lost h))) \<and>
     (has_received_symbols d \<longrightarrow> (\<exists>ss. KTradableSymbols ss \<in> set (since_lost h)))"

lemma since_lost_snoc [simp]: "since_lost (h @ [r]) = (if is_lost r then [] else since_lost h @ [r])"
  by (simp add: since_lost_def)

lemma since_lost_suffix: "\<exists>xs. h = xs @ since_lost h \<and> (\<forall>r \<in> set (since_lost h). \<not> is_lost r)"
proof -
  have "rev h = takeWhile (\<lambda>r. \<not> is_lost r) (rev h) @ dropWhile (\<lambda>r. \<not> is_lost r) (rev h)" by simp
  then have "h = rev (dropWhile (\<lambda>r. \<not> is_lost r) (rev h)) @ since_lost h" unfolding since_lost_def by (metis rev_append rev_rev_ident)
  moreover have "\<forall>r \<in> set (since_lost h). \<not> is_lost r" by (auto simp: since_lost_def dest: set_takeWhileD)
  ultimately show ?thesis by blast
qed

text \<open>Only messages of the exchange touch the flags.\<close>

lemma flags_view: "quote_view d' = quote_view d \<Longrightarrow> flags d' = flags d"
  by (simp add: quote_view_def flags_def)

lemma orderbook_flags: "process_orderbook_update E l d = Some d' \<Longrightarrow> sorted_tables d \<Longrightarrow> flags d' = flags d"
  by (auto simp: process_orderbook_update_def Let_def sorted_tables_def flags_def
      split: option.split_asm if_split_asm dest!: update_quotes_frame)

lemma bank_message_flags:
  assumes "dealer_process_msg E (FromBank m) d = Some d'"
  shows "flags d' = flags d"
proof (cases "(\<exists>r. m = MsgApi (SwapRequestMsg r)) \<or> (\<exists>r. m = MsgApi (QuoteRequestMsg r))")
  case True
  with assms show ?thesis by (auto dest: swap_frame quote_frame)
next
  case False
  then have "quote_view d' = quote_view d" by (rule bank_message_view [OF assms])
  then show ?thesis by (rule flags_view)
qed

lemma step_flags: "dealer_step E d e d' \<Longrightarrow> e \<noteq> KolliderMessage \<Longrightarrow> flags d' = flags d"
proof (elim dealer_stepE)
  fix m assume "dealer_process_msg E (FromBank m) d = Some d'"
  then show "flags d' = flags d" by (rule bank_message_flags)
qed (auto intro: flags_view timers_view simp: timers_view)

lemma heard_flags [simp]:
  "has_received_positions (check_has_received_initial_data d) = has_received_positions d"
  "has_received_symbols (check_has_received_initial_data d) = has_received_symbols d"
  "is_kollider_authenticated (check_has_received_initial_data d) = is_kollider_authenticated d"
  "has_received_positions (dl_subscribe E ch ss d) = has_received_positions d"
  "has_received_symbols (dl_subscribe E ch ss d) = has_received_symbols d"
  "is_kollider_authenticated (dl_subscribe E ch ss d) = is_kollider_authenticated d"
  using flags_view [of "dl_subscribe E ch ss d" d] by (simp_all add: check_has_received_initial_data_def flags_def)

lemma heard_frame:
  "flags d' = flags d \<Longrightarrow> dealer_inv d' \<Longrightarrow> set (since_lost h) \<subseteq> set (since_lost h') \<Longrightarrow> heard_inv (d, h) \<Longrightarrow> heard_inv (d', h')"
  by (auto simp: flags_def)

lemma kollider_heard:
  assumes "process_kollider_msg E r d = Some d'" "heard_inv (d, h)"
  shows "heard_inv (d', h @ [r])"
proof -
  have inv: "dealer_inv d" using assms(2) by simp
  have inv': "dealer_inv d'" by (rule kollider_inv [OF assms(1) inv])
  show ?thesis
  proof (cases "(\<exists>m. r = KDisconnected m) \<or> (\<exists>m. r = KReconnected m) \<or> (\<exists>m. r = KAuthenticate m) \<or> (\<exists>m. r = KPositions m) \<or>
      (\<exists>m. r = KTradableSymbols m)")
    case True
    with assms inv' show ?thesis by (auto simp: Let_def reset_state_def split: if_split_asm)
  next
    case False
    have "flags d' = flags d"
    proof (cases "\<exists>l. r = KLevel2State l")
      case True
      with assms(1) inv show ?thesis by (auto simp: dealer_inv_flags intro: orderbook_flags)
    next
      case level2: False
      have "quote_view d' = quote_view d"
        using False level2 assms(1) by (cases r) (auto simp: maintain_leverage_view split: option.split_asm if_split_asm)
      then show ?thesis by (rule flags_view)
    qed
    moreover have "\<not> is_lost r" using False by (cases r) auto
    ultimately show ?thesis by (intro heard_frame [OF _ inv' _ assms(2)]) auto
  qed
qed

lemma heard_inv_step: "heard_inv x \<Longrightarrow> heard_step E x e y \<Longrightarrow> heard_inv y"
proof (cases x; cases y; cases "e = KolliderMessage")
  fix d h d' h'
  assume inv: "heard_inv x" and step: "heard_step E x e y" and xy: "x = (d, h)" "y = (d', h')"
  have inv': "dealer_inv d'" using inv step xy by (auto intro: dealer_step_inv)
  {
    assume "e = KolliderMessage"
    with step xy obtain r rs where r: "h' = h @ [r]" "process_kollider_msg E r (d\<lparr>ws_client := (ws_client d)\<lparr>ws_callback := rs\<rparr>\<rparr>) = Some d'"
      by (auto simp: handled_def elim: dealer_stepE)
    moreover have "heard_inv (d\<lparr>ws_client := (ws_client d)\<lparr>ws_callback := rs\<rparr>\<rparr>, h)"
      using inv xy quiet_inv [OF quote_view_simps(3)] by auto
    ultimately show "heard_inv y" using kollider_heard xy by blast
  }
  assume other: "e \<noteq> KolliderMessage"
  then have "h' = h" using step xy by (cases e) (auto simp: handled_def)
  moreover have "flags d' = flags d" using step xy other by (auto intro: step_flags)
  ultimately show "heard_inv y" using inv inv' heard_frame xy by blast
qed

interpretation heard: invariant "heard_step E" heard_inv
  by unfold_locales (rule heard_inv_step)

lemma heard_run: "run (dealer_step E) d es d' \<Longrightarrow> \<exists>h'. run (heard_step E) (d, h) es (d', h @ h')"
proof (induction arbitrary: h rule: run.induct)
  case (run_Nil s)
  show ?case using run.run_Nil [of "heard_step E" "(s, h)"] by (intro exI [of _ "[]"]) simp
next
  case (run_Cons s e s' es s'')
  from run_Cons.IH [of "h @ handled s e"] obtain h' where "run (heard_step E) (s', h @ handled s e) es (s'', h @ handled s e @ h')" by auto
  moreover have "heard_step E (s, h) e (s', h @ handled s e)" using run_Cons.hyps(1) by simp
  ultimately show ?case by (blast intro: run.run_Cons)
qed

text \<open>
  C20. The dealer never trades blindly: in every run, when a step hands an order to the exchange
  client, then after the last message about a lost connection the dealer has handled, it has handled
  a successful authentication, a report of the positions and a list of the symbols of the exchange; and its flags say so.
\<close>

theorem orders_only_when_ready:
  assumes "dealer_new E st c p = Some d" "run (heard_step E) (d, []) es (d1, h)" "dealer_step E d1 e d2"
    and "orders (ws_client d2) \<noteq> orders (ws_client d1)"
  shows "(\<exists>xs ys m ps ss. h = xs @ ys \<and> (\<forall>x. KDisconnected x \<notin> set ys) \<and> auth_success m \<and>
      {KAuthenticate m, KPositions ps, KTradableSymbols ss} \<subseteq> set ys) \<and>
    has_received_positions d1 \<and> has_received_symbols d1 \<and> is_kollider_authenticated d1"
proof -
  have ready: "has_received_init_data d1" using step_orders [OF assms(3)] assms(4) by (auto simp: dl_orders_def)
  have new: "heard_inv (d, [])" using assms(1) dealer_new_inv [OF assms(1)] by (auto simp: dealer_new_def elim!: bind_SomeE)
  have inv: "heard_inv (d1, h)" by (rule heard.run_inv [OF assms(2) new])
  with ready have flags: "has_received_positions d1" "has_received_symbols d1" "is_kollider_authenticated d1"
    by (auto simp: dealer_inv_def)
  with inv obtain m ps ss where "auth_success m" "{KAuthenticate m, KPositions ps, KTradableSymbols ss} \<subseteq> set (since_lost h)"
    by auto
  moreover obtain xs where "h = xs @ since_lost h" "\<forall>r \<in> set (since_lost h). \<not> is_lost r" using since_lost_suffix by blast
  moreover from this(2) have "\<forall>x. KDisconnected x \<notin> set (since_lost h)" by fastforce
  ultimately show ?thesis using flags by blast
qed

text \<open>A dealer that is started, receives what it needs from the exchange, and then a report of the bank.\<close>

definition fresh_dealer :: dealer where
  "fresh_dealer = the (dealer_new denv96 sample_dealer_settings sample_client 0)"

definition start_events :: "dealer_event list" where
  "start_events = [Incoming (KAuthenticate ''success''), KolliderMessage, Incoming (KPositions []), KolliderMessage,
     Incoming (KTradableSymbols [(''BTCUSD.PERP'', sample_contract)]), KolliderMessage]"

definition started_dealer :: dealer where
  "started_dealer = fresh_dealer\<lparr>is_kollider_authenticated := True, has_received_positions := True,
     has_received_symbols := True, has_received_init_data := True,
     ws_client := sample_client\<lparr>ws_sent := [Subscribe [PositionStatesChannel] [],
       Subscribe [MarkPricesChannel, OrderbookLevel2Channel] [''BTCUSD.PERP'']], ws_tick := Suc (Suc 0)\<rparr>\<rparr>"

lemma receive:
  assumes "process_incoming_message r (ws_client d) = c\<lparr>ws_callback := [r]\<rparr>"
    and "process_kollider_msg E r (d\<lparr>ws_client := c\<lparr>ws_callback := []\<rparr>\<rparr>) = Some d1"
    and "run (dealer_step E) d1 es d2"
  shows "run (dealer_step E) d (Incoming r # KolliderMessage # es) d2"
proof (rule run_Cons [OF incoming run_Cons [OF kollider_message assms(3)]])
  show "ws_callback (ws_client (d\<lparr>ws_client := process_incoming_message r (ws_client d)\<rparr>)) = [r]"
    by (simp add: assms(1))
qed (use assms(1,2) in simp)

lemma fresh_dealer:
  "dealer_new denv96 sample_dealer_settings sample_client 0 = Some fresh_dealer"
  "ws_client fresh_dealer = sample_client" "has_received_init_data fresh_dealer = False"
  "has_received_symbols fresh_dealer = False" "has_received_positions fresh_dealer = False"
  "is_kollider_authenticated fresh_dealer = False" "risk_tolerances fresh_dealer = [(USD, 1)]"
  "max_single_order_quantities fresh_dealer = [(''btcusd.perp'', 1000)]"
  by (simp_all add: fresh_dealer_def dealer_new_def sample_dealer_settings_def)

lemma start_run: "run (dealer_step denv96) fresh_dealer start_events started_dealer"
  unfolding start_events_def
  apply (rule receive [where c = sample_client])
    apply (simp add: fresh_dealer sample_client_def send_to_callback_def auth_success_def)
   apply (simp add: fresh_dealer sample_client_def auth_success_def check_has_received_initial_data_def
      dl_subscribe_def subscribe_def checked_send_request_def send_request_def ws_bump_def)
  apply (rule receive [where c = "sample_client\<lparr>ws_sent := [Subscribe [PositionStatesChannel] []], ws_tick := 1\<rparr>"])
    apply (simp add: fresh_dealer sample_client_def send_to_callback_def)
   apply (simp add: fresh_dealer sample_client_def check_has_received_initial_data_def)
  apply (rule receive [where c = "sample_client\<lparr>ws_sent := [Subscribe [PositionStatesChannel] []], ws_tick := 1\<rparr>"])
    apply (simp add: fresh_dealer sample_client_def send_to_callback_def)
   apply (simp add: fresh_dealer sample_client_def check_has_received_initial_data_def
      dl_subscribe_def subscribe_def checked_send_request_def send_request_def ws_bump_def)
  apply (simp add: started_dealer_def sample_client_def run_Nil)
  done

theorem run_dealer_inv_witness: "dealer_inv started_dealer"
  by (rule run_dealer_inv [OF fresh_dealer(1) start_run])

lemma ordered_none:
  "orders c' = orders c \<Longrightarrow> ws_sent c' = ws_sent c @ rs \<Longrightarrow> ordered s rs = 0"
proof -
  have "order_delta s r = 0" if "\<forall>o'. r \<noteq> OrderReq o'" for r using that by (cases r) auto
  then have "ordered s rs = 0" if "list_all (\<lambda>r. \<forall>o'. r \<noteq> OrderReq o') rs" for rs
    using that by (induction rs) (auto simp: ordered_def)
  moreover assume "orders c' = orders c" "ws_sent c' = ws_sent c @ rs"
  then have "list_all (\<lambda>r. \<forall>o'. r \<noteq> OrderReq o') rs"
    by (auto simp: orders_def map_filter_def list_all_iff filter_empty_conv split: Request.split_asm)
  ultimately show ?thesis .
qed

definition sample_report :: BankState where
  "sample_report = \<lparr>total_exposures = [], fiat_exposures = [(42, \<lparr>account_id = 42, balance = - 100, acc_currency = USD,
     account_type = Internal, account_class = Cash\<rparr>)], bs_insurance_fund_account = undefined\<rparr>"

lemma started_dealer_orders:
  "\<exists>d'. dealer_step denv96 started_dealer (BankMessage (MsgDealer (BankStateMsg sample_report))) d' \<and>
     orders (ws_client d') \<noteq> orders (ws_client started_dealer)"
proof -
  let ?d = "dl_bump (started_dealer\<lparr>last_bank_state_timestamp := Some (d_instant denv96 (dl_tick started_dealer)),
    last_bank_state := Some sample_report\<rparr>)"
  have low: "to_lowercase ''BTCUSD.PERP'' = ''btcusd.perp''" by code_simp
  have started: "ready denv96 (ws_client ?d)" "has_received_init_data ?d" "ws_client ?d = ws_client started_dealer"
    "report_ok ?d sample_report" "account_target ?d ''BTCUSD.PERP'' (snd (hd (fiat_exposures sample_report))) = - 100"
    by (simp_all add: started_dealer_def ready_def sample_client_def fresh_dealer dl_bump_def report_ok_def
        sample_report_def hedgeable_def position_qty_def held_def tolerance_def order_cap_def account_target_def
        hedge_target_def low)
  from risk_check_effect [OF denv96.dealer_env_axioms this(1,2,4)] this(3,5) obtain d' rs where
    d': "check_risk_from_bank_state denv96 sample_report ?d = Some d'"
      "ws_sent (ws_client d') = ws_sent (ws_client started_dealer) @ rs" "ordered ''BTCUSD.PERP'' rs = - 100"
    by (auto simp: sample_report_def)
  have "ordered ''BTCUSD.PERP'' rs = 0" if "orders (ws_client d') = orders (ws_client started_dealer)"
    using that d'(2) by (rule ordered_none)
  moreover have "dealer_step denv96 started_dealer (BankMessage (MsgDealer (BankStateMsg sample_report))) d'"
    using d'(1) by (intro bank_message) (simp add: dl_bank_state_def Let_def)
  ultimately show ?thesis using d'(3) by force
qed

theorem orders_only_when_ready_witness:
  "\<exists>d' h. orders (ws_client d') \<noteq> orders (ws_client started_dealer) \<and>
     dealer_step denv96 started_dealer (BankMessage (MsgDealer (BankStateMsg sample_report))) d' \<and>
     run (heard_step denv96) (fresh_dealer, []) start_events (started_dealer, h) \<and>
     (\<exists>m ps ss. auth_success m \<and> {KAuthenticate m, KPositions ps, KTradableSymbols ss} \<subseteq> set h)"
proof -
  obtain h where h: "run (heard_step denv96) (fresh_dealer, []) start_events (started_dealer, h)"
    using heard_run [OF start_run, of "[]"] by auto
  obtain d' where d': "dealer_step denv96 started_dealer (BankMessage (MsgDealer (BankStateMsg sample_report))) d'"
    "orders (ws_client d') \<noteq> orders (ws_client started_dealer)" using started_dealer_orders by blast
  from orders_only_when_ready [OF fresh_dealer(1) h d'] show ?thesis using h d' by fastforce
qed

end
