(* ===== verification/Zaps.thy ===== *)
theory Zaps
  imports Texts CoreTypes
begin

text \<open>
  Zap requests and zap notes (\<open>utils/src/nostr.rs\<close>). Events are those of the crate
  \<open>nostr_sdk\<close>: of their tags the sources distinguish public keys, event references and custom
  tags. Parsing with its check of the signature, hashing and signing are parameters.
\<close>

datatype Tag =
    TagPubKey string "string option"
  | TagEvent string "string option" "string option"
  | TagCustom string "string list" \<comment> \<open>\<open>Generic\<close> of a custom kind\<close>
  | TagOther string

record NostrEvent =
  ev_pubkey :: string
  ev_created_at :: u64
  ev_kind :: u64
  ev_tags :: "Tag list"
  ev_content :: string

datatype EventError = EvInvalidSignature | EvSecp256k1 | EvJson | EvHex

record nostr_crypto =
  event_from_json :: "string \<Rightarrow> EventError + NostrEvent"
  nostr_sha256 :: "string \<Rightarrow> string"
  to_event :: "u64 \<Rightarrow> string \<Rightarrow> Tag list \<Rightarrow> NostrEvent option"
  from_pk_str :: "string \<Rightarrow> string option" \<comment> \<open>the key in hexadecimal\<close>

definition ZAP_REQUEST_KIND :: u64 where
  "ZAP_REQUEST_KIND = 9734"

definition ZAP_NOTE_KIND :: u64 where
  "ZAP_NOTE_KIND = 9735"

definition METADATA_KIND :: u64 where
  "METADATA_KIND = 0"

datatype ZapError =
    InvalidJson | InvalidSignature | NotZapRequest | NoTags | NoPubkeyTag | InvalidEventTagCount
  | NoRelays | AmountMismatch | DescriptionHashMismatch | CouldNotCreateZapNote

text \<open>The local variables of the loop over the tags.\<close>

record tag_scan =
  pubkey_tags_count :: nat
  event_tags_count :: nat
  relays :: "string list"
  zap_amount :: "u64 option"

fun scan_tags :: "Tag list \<Rightarrow> tag_scan \<Rightarrow> tag_scan" where
  "scan_tags [] t = t"
| "scan_tags (TagPubKey _ _ # ts) t = scan_tags ts (t\<lparr>pubkey_tags_count := pubkey_tags_count t + 1\<rparr>)"
| "scan_tags (TagEvent _ _ _ # ts) t = scan_tags ts (t\<lparr>event_tags_count := event_tags_count t + 1\<rparr>)"
| "scan_tags (TagCustom tag values # ts) t = scan_tags ts
     (if tag = ''relays'' then t\<lparr>relays := values\<rparr>
      else if tag = ''amount''
      then t\<lparr>zap_amount := (case values of [] \<Rightarrow> None | v # _ \<Rightarrow> parse_u64 v)\<rparr>
      else t)"
| "scan_tags (TagOther _ # ts) t = scan_tags ts t"

definition scan_start :: tag_scan where
  "scan_start = \<lparr>pubkey_tags_count = 0, event_tags_count = 0, relays = [], zap_amount = None\<rparr>"

definition validate_zap_request :: "nostr_crypto \<Rightarrow> string \<Rightarrow> u64 \<Rightarrow> ZapError + NostrEvent" where
  "validate_zap_request N json invoice_amount =
     (case event_from_json N json of
        Inl err \<Rightarrow> Inl (if err = EvInvalidSignature \<or> err = EvSecp256k1 then InvalidSignature else InvalidJson)
      | Inr nostr_event \<Rightarrow>
          if ev_kind nostr_event \<noteq> ZAP_REQUEST_KIND then Inl NoTags
          else if ev_tags nostr_event = [] then Inl NoTags
          else let t = scan_tags (ev_tags nostr_event) scan_start in
          if pubkey_tags_count t < 1 then Inl NoPubkeyTag
          else if 1 < event_tags_count t then Inl InvalidEventTagCount
          else if relays t = [] then Inl NoRelays
          else (case zap_amount t of
                  Some value \<Rightarrow> if value \<noteq> invoice_amount then Inl AmountMismatch else Inr nostr_event
                | None \<Rightarrow> Inr nostr_event))"

fun relays_tag :: "Tag \<Rightarrow> string list option" where
  "relays_tag (TagCustom tag values) = (if tag = ''relays'' then Some values else None)"
| "relays_tag _ = None"

fun quoted_tag :: "Tag \<Rightarrow> bool" where
  "quoted_tag (TagPubKey _ _) = True"
| "quoted_tag (TagEvent _ _ _) = True"
| "quoted_tag _ = False"

text \<open>\<open>None\<close> is the panic of \<open>expect\<close>.\<close>

definition create_zap_note ::
  "nostr_crypto \<Rightarrow> u64 \<Rightarrow> string \<Rightarrow> string \<Rightarrow> string \<Rightarrow> string option \<Rightarrow> u64 \<Rightarrow> (ZapError + NostrEvent \<times> string list) option" where
  "create_zap_note N amount description description_hash bolt11 preimage settled_timestamp =
     (if description_hash \<noteq> nostr_sha256 N description then Some (Inl DescriptionHashMismatch)
      else (case validate_zap_request N description amount of
        Inl e \<Rightarrow> Some (Inl e)
      | Inr request \<Rightarrow>
          (case List.map_filter relays_tag (ev_tags request) of
             [] \<Rightarrow> None
           | note_relays # _ \<Rightarrow>
               let response_tags = [TagCustom ''bolt11'' [bolt11], TagCustom ''description'' [description]] @
                     (case preimage of Some pre_img \<Rightarrow> [TagCustom ''preimage'' [pre_img]] | None \<Rightarrow> []);
                   tags = filter quoted_tag (ev_tags request) @ response_tags
               in (case to_event N ZAP_NOTE_KIND '''' tags of
                     None \<Rightarrow> Some (Inl CouldNotCreateZapNote)
                   | Some event \<Rightarrow> Some (Inr (event\<lparr>ev_created_at := settled_timestamp\<rparr>, note_relays))))))"

definition get_pubkey_hex :: "nostr_crypto \<Rightarrow> string \<Rightarrow> string option" where
  "get_pubkey_hex N pubkey = from_pk_str N pubkey"

section \<open>What the loop over the tags finds\<close>

definition is_pubkey_tag :: "Tag \<Rightarrow> bool" where
  "is_pubkey_tag t = (\<exists>k r. t = TagPubKey k r)"

definition is_event_tag :: "Tag \<Rightarrow> bool" where
  "is_event_tag t = (\<exists>e r m. t = TagEvent e r m)"

fun amount_tag :: "Tag \<Rightarrow> u64 option option" where
  "amount_tag (TagCustom tag values) =
     (if tag = ''amount'' then Some (case values of [] \<Rightarrow> None | v # _ \<Rightarrow> parse_u64 v) else None)"
| "amount_tag _ = None"

definition last_or :: "'a \<Rightarrow> 'a list \<Rightarrow> 'a" where
  "last_or d xs = (if xs = [] then d else last xs)"

lemma last_or_simps [simp]: "last_or d [] = d" "last_or d (x # xs) = last_or x xs"
  by (simp_all add: last_or_def)

text \<open>Counts of the tags, and of a tag that occurs several times the last one.\<close>

lemma scan_tags_spec:
  "scan_tags ts t = \<lparr>pubkey_tags_count = pubkey_tags_count t + length (filter is_pubkey_tag ts),
     event_tags_count = event_tags_count t + length (filter is_event_tag ts),
     relays = last_or (relays t) (List.map_filter relays_tag ts),
     zap_amount = last_or (zap_amount t) (List.map_filter amount_tag ts)\<rparr>"
  by (induction ts t rule: scan_tags.induct) (auto simp: is_pubkey_tag_def is_event_tag_def)

text \<open>The declarative reading of a valid zap request.\<close>

definition zap_request_ok :: "NostrEvent \<Rightarrow> u64 \<Rightarrow> bool" where
  "zap_request_ok e amount \<longleftrightarrow> ev_kind e = ZAP_REQUEST_KIND \<and> (\<exists>t \<in> set (ev_tags e). is_pubkey_tag t) \<and>
     length (filter is_event_tag (ev_tags e)) \<le> 1 \<and>
     last_or [] (List.map_filter relays_tag (ev_tags e)) \<noteq> [] \<and>
     last_or None (List.map_filter amount_tag (ev_tags e)) \<in> {None, Some amount}"

lemma validate_iff:
  "validate_zap_request N json amount = Inr e \<longleftrightarrow> event_from_json N json = Inr e \<and> zap_request_ok e amount"
  by (auto simp: validate_zap_request_def scan_tags_spec scan_start_def zap_request_ok_def Let_def Suc_le_eq
      filter_empty_conv split: sum.split option.split if_split_asm)

definition note_tags :: "NostrEvent \<Rightarrow> string \<Rightarrow> string \<Rightarrow> string option \<Rightarrow> Tag list" where
  "note_tags req bolt11 description preimage = filter quoted_tag (ev_tags req) @
    [TagCustom ''bolt11'' [bolt11], TagCustom ''description'' [description]] @
    (case preimage of Some p \<Rightarrow> [TagCustom ''preimage'' [p]] | None \<Rightarrow> [])"

lemma relays_first:
  "last_or [] xs \<noteq> [] \<Longrightarrow> \<exists>r rs. xs = r # rs"
  by (cases xs) auto

text \<open>
  C39. A zap note vouches for a payment: it is made exactly for a description whose hash is the one
  of the invoice and that is a signed zap request for the paid amount (or without an amount), and
  signing succeeds; it then quotes the request's keys and event and carries invoice, request and
  preimage. In no case the \<open>expect\<close> on the relays panics.
\<close>

theorem zap_note_correct:
  shows "\<exists>res. create_zap_note N amount description h bolt11 preimage settled = Some res \<and>
    (\<forall>note rs. res = Inr (note, rs) \<longleftrightarrow>
      (\<exists>req ev. h = nostr_sha256 N description \<and> event_from_json N description = Inr req \<and> zap_request_ok req amount \<and>
        to_event N ZAP_NOTE_KIND '''' (note_tags req bolt11 description preimage) = Some ev \<and>
        note = ev\<lparr>ev_created_at := settled\<rparr> \<and> rs = hd (List.map_filter relays_tag (ev_tags req))))"
proof (cases "h = nostr_sha256 N description \<and> (\<exists>req. validate_zap_request N description amount = Inr req)")
  case False
  then show ?thesis
    using validate_iff [of N description amount]
    by (auto simp: create_zap_note_def split: sum.split)
next
  case True
  then obtain req where req: "validate_zap_request N description amount = Inr req" by blast
  then have ok: "event_from_json N description = Inr req" "zap_request_ok req amount" by (simp_all add: validate_iff)
  then obtain r rs where "List.map_filter relays_tag (ev_tags req) = r # rs"
    using relays_first unfolding zap_request_ok_def by blast
  with True req ok show ?thesis
    by (auto simp: create_zap_note_def note_tags_def Let_def split: option.split)
qed

end
