(* ===== verification/ApiAuth.thy ===== *)
theory ApiAuth
  imports Texts Models Zaps
begin

text \<open>
  Accounts and authentication in the API: errors and their HTTP status
  (\<open>xerror/src/api.rs\<close>), tokens and \<open>AuthData\<close> (\<open>api/src/jwt.rs\<close>), the limiter of
  new accounts (\<open>api/src/lib.rs\<close>), the password functions of \<open>models/src/users.rs\<close> and the
  routes of \<open>api/src/routes/auth.rs\<close> and \<open>admin.rs\<close>. Signing and checking of tokens, key
  derivation, clock and database server are parameters; where they may answer differently each time
  they are indexed by the number of external interactions so far.
\<close>

section \<open>Errors\<close>

datatype AuthError =
    UserExists | IncorrectPassword | RegistrationLimitExceeded | RegistrationsDisabled | InvalidUsername

datatype JWTError = JwtNotSupplied | JwtInvalid | JwtExpired | JwtEncodingFailed

datatype DbError =
    DbConnectionError | UserAlreadyExists | UserDoesNotExist | CouldNotFetchData | DbUnknown | UpdateFailed

datatype NostrEngineError = UnableToLoadProfile | UnableToSendPrivateMessage

datatype AdminError = NoPermission

datatype CommsError = FailedToSendMessage | ServerResponseTimeout

datatype RequestError = InvalidDataSupplied

datatype ExternalError = FailedToFetchExternalData

datatype ApiError =
    AuthE AuthError | DbE DbError | CommsE CommsError | JwtE JWTError | RequestE RequestError
  | ExternalE ExternalError | NostrE NostrEngineError | AdminE AdminError

fun status_code :: "ApiError \<Rightarrow> nat" where
  "status_code (AuthE UserExists) = 409"
| "status_code (AuthE _) = 401"
| "status_code (DbE UserAlreadyExists) = 409"
| "status_code (DbE _) = 500"
| "status_code (CommsE _) = 500"
| "status_code (JwtE _) = 401"
| "status_code (RequestE _) = 500"
| "status_code (ExternalE _) = 500"
| "status_code (NostrE _) = 500"
| "status_code (AdminE _) = 401"

section \<open>Tokens\<close>

datatype ApiRole = ViewOnly | Trade | Transfer

fun api_role_to_string :: "ApiRole \<Rightarrow> string" where
  "api_role_to_string ViewOnly = ''ViewOnly''"
| "api_role_to_string Trade = ''Trade''"
| "api_role_to_string Transfer = ''Transfer''"

definition api_role_try_from :: "string \<Rightarrow> string + ApiRole" where
  "api_role_try_from n =
     (if n = ''ViewOnly'' then Inr ViewOnly else if n = ''Trade'' then Inr Trade
      else if n = ''Transfer'' then Inr Transfer else Inl ''Couldn't convert role.'')"

datatype UserRoles = MasterToken | ApiToken "ApiRole set"

datatype AuthType = Hmac | Jwt

record UserRolesToken =
  tok_iat :: i64
  tok_exp :: i64
  tok_uid :: i32
  tok_tid :: "i32 option"
  tok_roles :: UserRoles

record RefreshToken =
  rft_iat :: i64
  rft_exp :: i64
  rft_uid :: i32
  rft_roles :: UserRoles

definition token_is_expired :: "i64 \<Rightarrow> UserRolesToken \<Rightarrow> bool" where
  "token_is_expired now t = (sint (tok_exp t) \<le> sint now)"

definition token_is_claimed_user :: "i32 \<Rightarrow> UserRolesToken \<Rightarrow> bool" where
  "token_is_claimed_user u t = (tok_uid t = u)"

definition token_is_master :: "UserRolesToken \<Rightarrow> bool" where
  "token_is_master t = (tok_roles t = MasterToken)"

definition token_has_role :: "ApiRole \<Rightarrow> UserRolesToken \<Rightarrow> bool" where
  "token_has_role r t = (case tok_roles t of ApiToken roles \<Rightarrow> r \<in> roles | MasterToken \<Rightarrow> True)"

definition token_has_roles :: "ApiRole set \<Rightarrow> UserRolesToken \<Rightarrow> bool" where
  "token_has_roles rs t = (case tok_roles t of ApiToken roles \<Rightarrow> rs \<subseteq> roles | MasterToken \<Rightarrow> True)"

datatype JwtErrorKind = ExpiredSignature | OtherJwtError

record aenv =
  a_dec :: dec_ops
  a_new_v4 :: "nat \<Rightarrow> uuid"
  a_uuid_show :: "uuid \<Rightarrow> string"
  a_clock :: "nat \<Rightarrow> u64" \<comment> \<open>milliseconds since the epoch\<close>
  a_seconds :: "nat \<Rightarrow> i64" \<comment> \<open>\<open>get_time().sec\<close>\<close>
  a_instant :: "nat \<Rightarrow> nat" \<comment> \<open>monotonic clock, in seconds\<close>
  a_pool :: "nat \<Rightarrow> bool"
  a_pg :: "nat \<Rightarrow> bool"
  a_channel :: "nat \<Rightarrow> bool" \<comment> \<open>the channel to the comms actor is open\<close>
  jwt_encode :: "UserRolesToken \<Rightarrow> string option"
  jwt_encode_refresh :: "RefreshToken \<Rightarrow> string option"
  jwt_decode :: "nat \<Rightarrow> string \<Rightarrow> JwtErrorKind + UserRolesToken"
  pbkdf2_derive :: "string \<Rightarrow> string \<Rightarrow> string"
  a_b64_encode :: "string \<Rightarrow> string"
  a_b64_decode :: "string \<Rightarrow> string option"
  a_crypto :: nostr_crypto

definition jwt_generate :: "aenv \<Rightarrow> nat \<Rightarrow> i32 \<Rightarrow> i32 option \<Rightarrow> UserRoles \<Rightarrow> i64 \<Rightarrow> JWTError + string" where
  "jwt_generate A n uid tid roles livetime =
     (let now = a_seconds A n in
      case jwt_encode A \<lparr>tok_iat = now, tok_exp = now + livetime, tok_uid = uid, tok_tid = tid, tok_roles = roles\<rparr> of
        Some s \<Rightarrow> Inr s | None \<Rightarrow> Inl JwtEncodingFailed)"

definition jwt_generate_refresh_token :: "aenv \<Rightarrow> nat \<Rightarrow> i32 \<Rightarrow> UserRoles \<Rightarrow> i64 \<Rightarrow> JWTError + string" where
  "jwt_generate_refresh_token A n uid roles lifetime =
     (let now = a_seconds A n in
      case jwt_encode_refresh A \<lparr>rft_iat = now, rft_exp = now + lifetime, rft_uid = uid, rft_roles = roles\<rparr> of
        Some s \<Rightarrow> Inr s | None \<Rightarrow> Inl JwtEncodingFailed)"

definition jwt_check :: "aenv \<Rightarrow> nat \<Rightarrow> string \<Rightarrow> ApiError + UserRolesToken" where
  "jwt_check A n token =
     (case jwt_decode A n token of
        Inr t \<Rightarrow> Inr t
      | Inl k \<Rightarrow> Inl (JwtE (if k = ExpiredSignature then JwtExpired else JwtInvalid)))"

record AuthData =
  auth_uid :: i32
  auth_expiry :: "i64 option"
  auth_user_roles :: "UserRoles option"
  auth_type :: AuthType
  auth_tid :: "i32 option"

definition auth_is_master :: "AuthData \<Rightarrow> bool" where
  "auth_is_master a = (case auth_user_roles a of Some roles \<Rightarrow> roles = MasterToken | None \<Rightarrow> False)"

definition auth_has_role :: "ApiRole \<Rightarrow> AuthData \<Rightarrow> bool" where
  "auth_has_role other a =
     (case auth_user_roles a of
        None \<Rightarrow> False
      | Some MasterToken \<Rightarrow> True
      | Some (ApiToken roles) \<Rightarrow> if Trade \<in> roles \<and> other = ViewOnly then True else other \<in> roles)"

text \<open>The header \<open>authorization\<close>: absent, not text, or a text.\<close>

definition auth_from_request :: "aenv \<Rightarrow> nat \<Rightarrow> string option option \<Rightarrow> ApiError + AuthData" where
  "auth_from_request A n header =
     (case header of
        None \<Rightarrow> Inl (JwtE JwtNotSupplied)
      | Some None \<Rightarrow> Inl (JwtE JwtInvalid)
      | Some (Some k) \<Rightarrow>
          (case jwt_check A n k of
             Inl e \<Rightarrow> Inl e
           | Inr t \<Rightarrow> Inr \<lparr>auth_uid = tok_uid t, auth_expiry = Some (tok_exp t), auth_user_roles = Some (tok_roles t),
               auth_type = Jwt, auth_tid = tok_tid t\<rparr>))"

section \<open>Passwords (\<open>models/src/users.rs\<close>)\<close>

definition pw_hash :: "aenv \<Rightarrow> string \<Rightarrow> string \<Rightarrow> string" where
  "pw_hash A salt s = a_b64_encode A (pbkdf2_derive A salt s)"

definition pw_verify :: "aenv \<Rightarrow> string \<Rightarrow> string \<Rightarrow> string \<Rightarrow> bool" where
  "pw_verify A salt password attempted_password =
     (case a_b64_decode A password of
        Some real_pwd \<Rightarrow> pbkdf2_derive A salt attempted_password = real_pwd
      | None \<Rightarrow> False)"

section \<open>The limiter of new accounts\<close>

record CreationLimiter =
  creation_enabled :: bool
  creation_quota :: u64
  creation_quota_interval_seconds :: u64
  created :: u64
  last_interval_start :: nat

definition limiter_new :: "nat \<Rightarrow> u64 \<Rightarrow> u64 \<Rightarrow> CreationLimiter" where
  "limiter_new now quota interval = \<lparr>creation_enabled = True, creation_quota = quota,
     creation_quota_interval_seconds = interval, created = 0, last_interval_start = now\<rparr>"

text \<open>
  The seconds left are computed with the arithmetic of a release build: with a quota of zero and an
  interval that has run out the subtraction wraps around (a debug build panics there).
\<close>

definition limiter_increase :: "nat \<Rightarrow> CreationLimiter \<Rightarrow> (u64 + u64) \<times> CreationLimiter" where
  "limiter_increase now l =
     (let elapsed_seconds = word_of_nat (now - last_interval_start l);
          l = (if creation_quota_interval_seconds l \<le> elapsed_seconds
               then l\<lparr>last_interval_start := now, created := 0\<rparr> else l)
      in if created l < creation_quota l
         then (Inr (created l + 1), l\<lparr>created := created l + 1\<rparr>)
         else (Inl (creation_quota_interval_seconds l - elapsed_seconds), l))"

definition limiter_decrease :: "CreationLimiter \<Rightarrow> CreationLimiter" where
  "limiter_decrease l = (if 0 < created l then l\<lparr>created := created l - 1\<rparr> else l)"

definition limiter_is_remaining_quota :: "nat \<Rightarrow> CreationLimiter \<Rightarrow> bool" where
  "limiter_is_remaining_quota now l =
     (creation_quota_interval_seconds l \<le> word_of_nat (now - last_interval_start l) \<or> created l < creation_quota l)"

section \<open>The routes \<open>/create\<close>, \<open>/auth\<close>, \<open>/whoami\<close> and of the administrator\<close>

record api_state =
  a_db :: Db
  a_limiter :: CreationLimiter
  a_tick :: nat

definition a_bump :: "api_state \<Rightarrow> api_state" where
  "a_bump s = s\<lparr>a_tick := Suc (a_tick s)\<rparr>"

record ApiSettings =
  domain :: string
  reserved_usernames :: "string list"
  admin_uids :: "user_id list"

record RegisterData =
  reg_username :: "string option"
  reg_password :: string
  reg_origin :: "string option"

text \<open>A column for which no value is given gets the default of its declaration.\<close>

definition or_false :: "bool option \<Rightarrow> bool option" where
  "or_false b = (case b of None \<Rightarrow> Some False | Some x \<Rightarrow> Some x)"

definition profile_insert :: "UserProfile \<Rightarrow> Db \<Rightarrow> Db option" where
  "profile_insert p d =
     (if list_ex (\<lambda>r. up_uid r = up_uid p) (db_profiles d) \<or> \<not> has_user d (up_uid p) then None
      else Some (d\<lparr>db_profiles := db_profiles d @ [p\<lparr>
        up_nostr_notifications := or_false (up_nostr_notifications p),
        up_email_notifications := or_false (up_email_notifications p),
        up_is_twitter_verified := or_false (up_is_twitter_verified p),
        up_is_email_verified := or_false (up_is_email_verified p)\<rparr>]\<rparr>))"

definition empty_profile :: "i32 \<Rightarrow> UserProfile" where
  "empty_profile u = \<lparr>up_uid = u, up_email = None, up_nostr_notifications = None, up_email_notifications = None,
     up_img_url = None, up_twitter_handle = None, up_is_twitter_verified = None, up_is_email_verified = None\<rparr>"

text \<open>A statement whose error is only logged: the database changes if the server answers and accepts it.\<close>

definition try_exec :: "aenv \<Rightarrow> (Db \<Rightarrow> Db option) \<Rightarrow> api_state \<Rightarrow> api_state" where
  "try_exec A f s =
     a_bump (if a_pg A (a_tick s) then (case f (a_db s) of Some d \<Rightarrow> s\<lparr>a_db := d\<rparr> | None \<Rightarrow> s) else s)"

text \<open>
  The origin is cut to its first 32 bytes; cutting through a character of more than one byte
  panics. The outer option of the answers below is the panic of a handler, which ends the
  request but not the server.
\<close>

definition short_origin :: "string option \<Rightarrow> string option option" where
  "short_origin origin =
     (case origin of
        None \<Rightarrow> Some None
      | Some o' \<Rightarrow> if 32 < length o' then map_option Some (slice 0 32 o') else Some (Some o'))"

definition register_user ::
  "aenv \<Rightarrow> ApiSettings \<Rightarrow> string \<Rightarrow> RegisterData \<Rightarrow> api_state \<Rightarrow> (ApiError + string) option \<times> api_state" where
  "register_user A st username data s =
     (let hashed_password = pw_hash A username (reg_password data);
          give_back = (\<lambda>s. s\<lparr>a_limiter := limiter_decrease (a_limiter s)\<rparr>) in
      case short_origin (reg_origin data) of
        None \<Rightarrow> (None, s)
      | Some origin \<Rightarrow>
          if \<not> a_pg A (a_tick s) then (Some (Inl (DbE DbUnknown)), give_back (a_bump s))
          else (case user_insert username hashed_password False origin (a_db s) of
                  None \<Rightarrow> (Some (Inl (DbE UserAlreadyExists)), give_back (a_bump s))
                | Some (uid, d) \<Rightarrow>
                    let s = a_bump (s\<lparr>a_db := d\<rparr>);
                        s = try_exec A (ln_address_insert (username @ ''@'' @ domain st) (domain st)) s;
                        s = try_exec A (profile_insert (empty_profile uid)) s
                    in (Some (Inr username), s)))"

definition create ::
  "aenv \<Rightarrow> ApiSettings \<Rightarrow> RegisterData \<Rightarrow> api_state \<Rightarrow> (ApiError + string) option \<times> api_state" where
  "create A st data s =
     (let (username, s) = (case reg_username data of
              Some un \<Rightarrow> (to_lowercase un, s)
            | None \<Rightarrow> (to_lowercase (a_uuid_show A (a_new_v4 A (a_tick s))), a_bump s)) in
      if \<not> check_username_valid username then (Some (Inl (AuthE InvalidUsername)), s)
      else if username \<in> set (map to_lowercase (reserved_usernames st)) then (Some (Inl (AuthE UserExists)), s)
      else if \<not> creation_enabled (a_limiter s) then (Some (Inl (AuthE RegistrationsDisabled)), s)
      else (case limiter_increase (a_instant A (a_tick s)) (a_limiter s) of
              (Inl _, l) \<Rightarrow> (Some (Inl (AuthE RegistrationLimitExceeded)), a_bump (s\<lparr>a_limiter := l\<rparr>))
            | (Inr _, l) \<Rightarrow>
                let s = a_bump (s\<lparr>a_limiter := l\<rparr>) in
                if \<not> a_pool A (a_tick s)
                then (Some (Inl (DbE DbConnectionError)), a_bump (s\<lparr>a_limiter := limiter_decrease (a_limiter s)\<rparr>))
                else register_user A st username data (a_bump s)))"

definition auth :: "aenv \<Rightarrow> string \<Rightarrow> string \<Rightarrow> api_state \<Rightarrow> ApiError + string \<times> string" where
  "auth A username password s =
     (let n = a_tick s in
      if \<not> a_pool A n then Inl (DbE DbConnectionError)
      else (case (if a_pg A (n + 1) then user_get_by_username username (a_db s) else None) of
              None \<Rightarrow> Inl (DbE UserDoesNotExist)
            | Some user \<Rightarrow>
                if \<not> pw_verify A (to_lowercase (usr_username user)) (usr_password user) password
                then Inl (AuthE IncorrectPassword)
                else (case jwt_generate A (n + 2) (usr_uid user) None MasterToken 10000000 of
                        Inl e \<Rightarrow> Inl (JwtE e)
                      | Inr token \<Rightarrow>
                          (case jwt_generate_refresh_token A (n + 3) (usr_uid user) MasterToken 1000000 of
                             Inl e \<Rightarrow> Inl (JwtE e)
                           | Inr refresh \<Rightarrow> Inr (token, refresh)))))"

definition whoami :: "aenv \<Rightarrow> AuthData \<Rightarrow> api_state \<Rightarrow> ApiError + string \<times> i32" where
  "whoami A a s =
     (if \<not> a_pool A (a_tick s) then Inl (DbE DbConnectionError)
      else (case (if a_pg A (Suc (a_tick s)) then user_get_by_id (as_i32 (as_u64 (auth_uid a))) (a_db s) else None) of
              None \<Rightarrow> Inl (DbE UserDoesNotExist)
            | Some user \<Rightarrow> Inr (usr_username user, usr_uid user)))"

definition set_creation :: "bool \<Rightarrow> ApiSettings \<Rightarrow> AuthData \<Rightarrow> api_state \<Rightarrow> (ApiError + bool) \<times> api_state" where
  "set_creation enabled st a s =
     (if as_u64 (auth_uid a) \<notin> set (admin_uids st) then (Inl (AdminE NoPermission), s)
      else (Inr True, s\<lparr>a_limiter := (a_limiter s)\<lparr>creation_enabled := enabled\<rparr>\<rparr>))"

definition disable_create :: "ApiSettings \<Rightarrow> AuthData \<Rightarrow> api_state \<Rightarrow> (ApiError + bool) \<times> api_state" where
  "disable_create st a s = set_creation False st a s"

definition enable_create :: "ApiSettings \<Rightarrow> AuthData \<Rightarrow> api_state \<Rightarrow> (ApiError + bool) \<times> api_state" where
  "enable_create st a s = set_creation True st a s"

end
