(* ===== verification/ApiRoutes.thy ===== *)
theory ApiRoutes
  imports ApiAuth
begin

text \<open>
  The routes of the API that ask the bank (\<open>api/src/routes/user.rs\<close>, \<open>lnurl.rs\<close>, \<open>nostr.rs\<close>).
  A route checks its input and either answers at once (\<open>Done\<close>) or hands a message, a filter for
  the reply and the continuation that turns the reply into the answer to the comms actor
  (\<open>AskBank\<close>). What the continuation does not recognise counts as a timeout. The JSON of an answer is
  represented by the values it is made from.
\<close>

datatype http_body =
    BodyBalances Balances
  | BodyPayment PaymentResponse
  | BodyInvoice InvoiceResponse
  | BodySwap SwapResponse
  | BodyQuote QuoteResponse
  | BodyCurrencies AvailableCurrenciesResponse
  | BodyNodeInfo GetNodeInfoResponse
  | BodyRoute QueryRouteResponse
  | BodyCreateLnurl CreateLnurlWithdrawalResponse
  | BodyWithdrawRequest string uuid u64 \<comment> \<open>callback, k1, maxWithdrawable\<close>
  | BodyPayLnurl PayLnurlWithdrawalResponse
  | BodyStatusOk
  | BodyError string
  | BodyPayAddress "string option" "string option"
  | BodyProfiles NostrProfileSearchResponse
  | BodyProfile uuid "NostrProfile option" "NostrResponseError option"

datatype outcome =
    Done "ApiError + http_body"
  | AskBank Message "Message \<Rightarrow> bool" "Message \<Rightarrow> http_body option"
  | Crash

definition invalid_data :: outcome where
  "invalid_data = Done (Inl (RequestE InvalidDataSupplied))"

definition uid_of :: "AuthData \<Rightarrow> user_id" where
  "uid_of a = as_u64 (auth_uid a)"

definition req_id_of :: "aenv \<Rightarrow> api_state \<Rightarrow> uuid" where
  "req_id_of A s = a_new_v4 A (a_tick s)"

section \<open>\<open>user.rs\<close>\<close>

text \<open>The filter of \<open>/balance\<close> compares the identifier of the request with itself.\<close>

definition balance_route :: "aenv \<Rightarrow> AuthData \<Rightarrow> api_state \<Rightarrow> outcome" where
  "balance_route A a s =
     (let req_id = req_id_of A s; get_balances = \<lparr>gb_req_id = req_id, gb_uid = uid_of a\<rparr> in
      AskBank (MsgApi (GetBalancesMsg get_balances))
        (\<lambda>m. case m of MsgApi (BalancesMsg b) \<Rightarrow> gb_req_id get_balances = req_id | _ \<Rightarrow> False)
        (\<lambda>m. case m of MsgApi (BalancesMsg b) \<Rightarrow> Some (BodyBalances b) | _ \<Rightarrow> None))"

record PayInvoiceData =
  pid_payment_request :: "string option"
  pid_currency :: "Currency option"
  pid_recipient :: "string option"
  pid_amount :: "rat option"

definition pay_invoice_route :: "aenv \<Rightarrow> AuthData \<Rightarrow> PayInvoiceData \<Rightarrow> api_state \<Rightarrow> outcome" where
  "pay_invoice_route A a d s =
     (let req_id = req_id_of A s in
      if (case pid_amount d of Some amount \<Rightarrow> amount \<le> 0 | None \<Rightarrow> False) then invalid_data
      else if (case pid_recipient d of Some r \<Rightarrow> 128 < length r | None \<Rightarrow> False) then invalid_data
      else if (case pid_payment_request d of Some p \<Rightarrow> 1024 < length p | None \<Rightarrow> False) then invalid_data
      else let currency = (case pid_currency d of Some c \<Rightarrow> c | None \<Rightarrow> BTC) in
      if pid_payment_request d = None \<and> pid_recipient d = None
      then Done (Inr (BodyError ''You have to specify either an invoice or a receipient''))
      else AskBank (MsgApi (PaymentRequestMsg \<lparr>prq_req_id = req_id, prq_uid = uid_of a,
            prq_payment_request = pid_payment_request d, prq_currency = currency, prq_recipient = pid_recipient d,
            prq_destination = None, prq_amount = map_option (money_new (a_dec A) currency) (pid_amount d),
            prq_invoice_amount = None, prq_rate = None, prq_fees = None\<rparr>))
        (\<lambda>m. case m of MsgApi (PaymentResponseMsg r) \<Rightarrow> prs_req_id r = req_id | _ \<Rightarrow> False)
        (\<lambda>m. case m of MsgApi (PaymentResponseMsg r) \<Rightarrow> Some (BodyPayment r) | _ \<Rightarrow> None))"

record CreateInvoiceParams =
  cip_amount :: rat
  cip_meta :: "string option"
  cip_metadata :: "string option"
  cip_account_id :: "uuid option"
  cip_currency :: "Currency option"
  cip_target_account_currency :: "Currency option"

definition add_invoice_route :: "aenv \<Rightarrow> AuthData \<Rightarrow> CreateInvoiceParams \<Rightarrow> api_state \<Rightarrow> outcome" where
  "add_invoice_route A a q s =
     (let req_id = req_id_of A s in
      if cip_amount q \<le> 0 then invalid_data
      else let meta = (case cip_meta q of Some m \<Rightarrow> m | None \<Rightarrow> ''Lndhubx Invoice'') in
      if 128 < length meta then invalid_data
      else let currency = (case cip_currency q of Some c \<Rightarrow> c | None \<Rightarrow> BTC) in
      AskBank (MsgApi (InvoiceRequestMsg \<lparr>irq_req_id = req_id, irq_uid = uid_of a,
          irq_amount = money_new (a_dec A) currency (cip_amount q), irq_meta = meta, irq_metadata = cip_metadata q,
          irq_currency = currency, irq_account_id = cip_account_id q,
          irq_target_account_currency = cip_target_account_currency q\<rparr>))
        (\<lambda>m. case m of MsgApi (InvoiceResponseMsg r) \<Rightarrow> irs_req_id r = req_id | _ \<Rightarrow> False)
        (\<lambda>m. case m of MsgApi (InvoiceResponseMsg r) \<Rightarrow> Some (BodyInvoice r) | _ \<Rightarrow> None))"

record SwapData =
  swd_from_currency :: Currency
  swd_to_currency :: Currency
  swd_amount :: rat
  swd_quote_id :: "nat option"

definition swap_route :: "aenv \<Rightarrow> AuthData \<Rightarrow> SwapData \<Rightarrow> api_state \<Rightarrow> outcome" where
  "swap_route A a d s =
     (let req_id = req_id_of A s in
      if swd_amount d \<le> 0 then invalid_data
      else AskBank (MsgApi (SwapRequestMsg \<lparr>srq_req_id = req_id, srq_uid = uid_of a,
            srq_amount = money_new (a_dec A) (swd_from_currency d) (swd_amount d), srq_from = swd_from_currency d,
            srq_to = swd_to_currency d, srq_quote_id = swd_quote_id d\<rparr>))
        (\<lambda>m. case m of MsgApi (SwapResponseMsg r) \<Rightarrow> srs_req_id r = req_id | _ \<Rightarrow> False)
        (\<lambda>m. case m of MsgApi (SwapResponseMsg r) \<Rightarrow> Some (BodySwap r) | _ \<Rightarrow> None))"

record QuoteParams =
  qup_from_currency :: Currency
  qup_to_currency :: Currency
  qup_amount :: rat

definition quote_route :: "aenv \<Rightarrow> AuthData \<Rightarrow> QuoteParams \<Rightarrow> api_state \<Rightarrow> outcome" where
  "quote_route A a q s =
     (let req_id = req_id_of A s in
      if qup_amount q \<le> 0 then invalid_data
      else AskBank (MsgApi (QuoteRequestMsg \<lparr>qrq_req_id = req_id, qrq_uid = uid_of a,
            qrq_amount = money_new (a_dec A) (qup_from_currency q) (qup_amount q), qrq_from = qup_from_currency q,
            qrq_to = qup_to_currency q\<rparr>))
        (\<lambda>m. case m of MsgApi (QuoteResponseMsg r) \<Rightarrow> qrs_req_id r = req_id | _ \<Rightarrow> False)
        (\<lambda>m. case m of MsgApi (QuoteResponseMsg r) \<Rightarrow> Some (BodyQuote r) | _ \<Rightarrow> None))"

definition available_currencies_route :: "aenv \<Rightarrow> api_state \<Rightarrow> outcome" where
  "available_currencies_route A s =
     (let req_id = req_id_of A s in
      AskBank (MsgApi (AvailableCurrenciesRequestMsg req_id))
        (\<lambda>m. case m of MsgApi (AvailableCurrenciesResponseMsg r) \<Rightarrow> acr_req_id r = req_id | _ \<Rightarrow> False)
        (\<lambda>m. case m of MsgApi (AvailableCurrenciesResponseMsg r) \<Rightarrow> Some (BodyCurrencies r) | _ \<Rightarrow> None))"

definition node_info_route :: "aenv \<Rightarrow> api_state \<Rightarrow> outcome" where
  "node_info_route A s =
     (let req_id = req_id_of A s in
      AskBank (MsgApi (GetNodeInfoRequestMsg req_id))
        (\<lambda>m. case m of MsgApi (GetNodeInfoResponseMsg r) \<Rightarrow> gni_req_id r = req_id | _ \<Rightarrow> False)
        (\<lambda>m. case m of MsgApi (GetNodeInfoResponseMsg r) \<Rightarrow> Some (BodyNodeInfo r) | _ \<Rightarrow> None))"

definition query_route_route :: "aenv \<Rightarrow> string \<Rightarrow> rat option \<Rightarrow> api_state \<Rightarrow> outcome" where
  "query_route_route A payment_request max_fee s =
     (let req_id = req_id_of A s in
      AskBank (MsgApi (QueryRouteRequestMsg \<lparr>qrt_req_id = req_id, qrt_payment_request = payment_request, qrt_max_fee = max_fee\<rparr>))
        (\<lambda>m. case m of MsgApi (QueryRouteResponseMsg r) \<Rightarrow> qrr_req_id r = req_id | _ \<Rightarrow> False)
        (\<lambda>m. case m of MsgApi (QueryRouteResponseMsg r) \<Rightarrow> Some (BodyRoute r) | _ \<Rightarrow> None))"

record KeySendData =
  ksd_amount :: u64
  ksd_destination :: string
  ksd_memo :: string

text \<open>\<open>/keysend\<close> lets payment responses through the filter and waits for a swap response. The server does not register it.\<close>

definition keysend_route :: "aenv \<Rightarrow> AuthData \<Rightarrow> KeySendData \<Rightarrow> api_state \<Rightarrow> outcome" where
  "keysend_route A a d s =
     (let req_id = req_id_of A s in
      if ksd_amount d = 0 then invalid_data
      else AskBank (MsgApi (PaymentRequestMsg \<lparr>prq_req_id = req_id, prq_uid = uid_of a, prq_payment_request = None,
            prq_currency = BTC, prq_recipient = None, prq_destination = Some (ksd_destination d),
            prq_amount = Some (money_new (a_dec A) BTC (of_int (sint (ksd_amount d)))),
            prq_invoice_amount = None, prq_rate = None, prq_fees = None\<rparr>))
        (\<lambda>m. case m of MsgApi (PaymentResponseMsg r) \<Rightarrow> prs_req_id r = req_id | _ \<Rightarrow> False)
        (\<lambda>m. case m of MsgApi (SwapResponseMsg r) \<Rightarrow> Some (BodySwap r) | _ \<Rightarrow> None))"

section \<open>\<open>lnurl.rs\<close>\<close>

definition create_lnurl_withdrawal_route :: "aenv \<Rightarrow> AuthData \<Rightarrow> rat \<Rightarrow> Currency \<Rightarrow> api_state \<Rightarrow> outcome" where
  "create_lnurl_withdrawal_route A a amount currency s =
     (let req_id = req_id_of A s in
      if amount \<le> 0 then invalid_data
      else AskBank (MsgApi (CreateLnurlWithdrawalRequestMsg \<lparr>clw_req_id = req_id, clw_uid = uid_of a,
            clw_amount = money_new (a_dec A) currency amount, clw_currency = currency, clw_rate = None, clw_fees = None\<rparr>))
        (\<lambda>m. case m of MsgApi (CreateLnurlWithdrawalResponseMsg r) \<Rightarrow> clr_req_id r = req_id | _ \<Rightarrow> False)
        (\<lambda>m. case m of MsgApi (CreateLnurlWithdrawalResponseMsg r) \<Rightarrow> Some (BodyCreateLnurl r) | _ \<Rightarrow> None))"

definition get_lnurl_withdrawal_route :: "uuid \<Rightarrow> outcome" where
  "get_lnurl_withdrawal_route q =
     AskBank (MsgApi (GetLnurlWithdrawalRequestMsg q))
       (\<lambda>m. case m of MsgApi (GetLnurlWithdrawalResponseMsg r) \<Rightarrow> glr_req_id r = q | _ \<Rightarrow> False)
       (\<lambda>m. case m of MsgApi (GetLnurlWithdrawalResponseMsg r) \<Rightarrow>
              Some (BodyWithdrawRequest (glr_callback r) (glr_req_id r) (glr_max_withdrawable r * 1000))
            | _ \<Rightarrow> None)"

definition pay_lnurl_withdrawal_route :: "uuid \<Rightarrow> string \<Rightarrow> outcome" where
  "pay_lnurl_withdrawal_route k1 pr =
     AskBank (MsgApi (PayLnurlWithdrawalRequestMsg \<lparr>plw_req_id = k1, plw_payment_request = pr\<rparr>))
       (\<lambda>m. case m of MsgApi (PayLnurlWithdrawalResponseMsg r) \<Rightarrow> plr_req_id r = k1
            | MsgApi (PaymentResponseMsg r) \<Rightarrow> prs_req_id r = k1 | _ \<Rightarrow> False)
       (\<lambda>m. case m of MsgApi (PayLnurlWithdrawalResponseMsg r) \<Rightarrow> Some (BodyPayLnurl r)
            | MsgApi (PaymentResponseMsg r) \<Rightarrow> Some BodyStatusOk | _ \<Rightarrow> None)"

definition pay_address_route ::
  "aenv \<Rightarrow> ApiSettings \<Rightarrow> string \<Rightarrow> u64 \<Rightarrow> string option \<Rightarrow> api_state \<Rightarrow> outcome" where
  "pay_address_route A st username amount nostr s =
     (let n = a_tick s in
      if \<not> a_pool A n then Done (Inl (DbE DbConnectionError))
      else (case dec_div (a_dec A) (of_int (sint amount)) 100000000000 of
              None \<Rightarrow> Crash
            | Some amount_btc \<Rightarrow>
                (case (if a_pg A (n + 1) then user_get_by_username username (a_db s) else None) of
                   None \<Rightarrow> Done (Inl (DbE UserDoesNotExist))
                 | Some user \<Rightarrow>
                     let req_id = a_new_v4 A (n + 2) in
                     if amount_btc \<le> 0 then invalid_data
                     else (case (case nostr of
                                   Some zap_request_json \<Rightarrow>
                                     (case validate_zap_request (a_crypto A) zap_request_json amount of
                                        Inl _ \<Rightarrow> None
                                      | Inr _ \<Rightarrow> Some (ZAP_REQUEST_MEMO, zap_request_json))
                                 | None \<Rightarrow> Some (''Lnurl Pay'',
                                     [CHR ''['', CHR ''['', CHR 0x22] @ ''text/plain'' @ [CHR 0x22, CHR '','', CHR 0x22] @
                                     ''Paid to '' @ username @ ''@'' @ domain st @ [CHR 0x22, CHR '']'', CHR '']''])) of
                             None \<Rightarrow> invalid_data
                           | Some (memo, metadata) \<Rightarrow>
                               if 128 < length memo then invalid_data
                               else AskBank (MsgApi (InvoiceRequestMsg \<lparr>irq_req_id = req_id, irq_uid = as_u64 (usr_uid user),
                                     irq_amount = money_new (a_dec A) BTC amount_btc, irq_meta = memo,
                                     irq_metadata = Some metadata, irq_currency = BTC, irq_account_id = None,
                                     irq_target_account_currency = None\<rparr>))
                                 (\<lambda>m. case m of MsgApi (InvoiceResponseMsg r) \<Rightarrow> irs_req_id r = req_id | _ \<Rightarrow> False)
                                 (\<lambda>m. case m of MsgApi (InvoiceResponseMsg r) \<Rightarrow>
                                        Some (BodyPayAddress (irs_payment_request r) (irs_payment_hash r))
                                      | _ \<Rightarrow> None)))))"

section \<open>\<open>nostr.rs\<close>\<close>

definition profile_filter :: "uuid \<Rightarrow> Message \<Rightarrow> bool" where
  "profile_filter req_id m = (case m of MsgApi (NostrProfileSearchResponseMsg r) \<Rightarrow> npsr_req_id r = req_id | _ \<Rightarrow> False)"

record GetNostrProfileParams =
  gnp_lightning_address :: "string option"
  gnp_pubkey :: "string option"
  gnp_wrapped :: "bool option"

definition get_nostr_profile_route :: "aenv \<Rightarrow> GetNostrProfileParams \<Rightarrow> api_state \<Rightarrow> outcome" where
  "get_nostr_profile_route A p s =
     (let req_id = req_id_of A s in
      if gnp_lightning_address p = None \<and> gnp_pubkey p = None then invalid_data
      else (case map_option (get_pubkey_hex (a_crypto A)) (gnp_pubkey p) of
              Some None \<Rightarrow> invalid_data
            | pubkey \<Rightarrow>
                AskBank (MsgApi (NostrProfileRequestMsg \<lparr>npr_req_id = req_id, npr_pubkey = Option.bind pubkey id,
                    npr_lightning_address = gnp_lightning_address p\<rparr>))
                  (profile_filter req_id)
                  (\<lambda>m. case m of
                         MsgApi (NostrProfileSearchResponseMsg r) \<Rightarrow>
                           Some (if (case gnp_wrapped p of Some w \<Rightarrow> w | None \<Rightarrow> False) then BodyProfiles r
                             else BodyProfile (npsr_req_id r)
                               (case npsr_data r of [] \<Rightarrow> None | x # _ \<Rightarrow> Some (snp_profile x)) (npsr_error r))
                       | _ \<Rightarrow> None)))"

definition search_nostr_profile_route :: "aenv \<Rightarrow> string \<Rightarrow> api_state \<Rightarrow> outcome" where
  "search_nostr_profile_route A text' s =
     (let req_id = req_id_of A s in
      AskBank (case get_pubkey_hex (a_crypto A) text' of
             Some pkey \<Rightarrow> MsgApi (NostrProfileRequestMsg \<lparr>npr_req_id = req_id, npr_pubkey = Some pkey, npr_lightning_address = None\<rparr>)
           | None \<Rightarrow> MsgApi (NostrProfileSearchRequestMsg \<lparr>nps_req_id = req_id, nps_text = Some text', nps_pubkey = None, nps_limit = Some 25\<rparr>))
        (profile_filter req_id)
        (\<lambda>m. case m of MsgApi (NostrProfileSearchResponseMsg r) \<Rightarrow> Some (BodyProfiles r) | _ \<Rightarrow> None))"

section \<open>Dispatch\<close>

text \<open>The requests that are answered through the bank; the first group needs authentication.\<close>

datatype api_request =
    ReqBalance | ReqPayInvoice PayInvoiceData | ReqAddInvoice CreateInvoiceParams | ReqSwap SwapData
  | ReqQuote QuoteParams | ReqCreateLnurl rat Currency
  | ReqAvailableCurrencies | ReqNodeInfo | ReqQueryRoute string "rat option" | ReqGetLnurl uuid | ReqPayLnurl uuid string
  | ReqPayAddress string u64 "string option" | ReqNostrProfile GetNostrProfileParams | ReqSearchNostr string

fun route_authenticated :: "aenv \<Rightarrow> AuthData \<Rightarrow> api_request \<Rightarrow> api_state \<Rightarrow> outcome option" where
  "route_authenticated A a ReqBalance s = Some (balance_route A a s)"
| "route_authenticated A a (ReqPayInvoice d) s = Some (pay_invoice_route A a d s)"
| "route_authenticated A a (ReqAddInvoice q) s = Some (add_invoice_route A a q s)"
| "route_authenticated A a (ReqSwap d) s = Some (swap_route A a d s)"
| "route_authenticated A a (ReqQuote q) s = Some (quote_route A a q s)"
| "route_authenticated A a (ReqCreateLnurl x c) s = Some (create_lnurl_withdrawal_route A a x c s)"
| "route_authenticated A a _ s = None"

fun route_public :: "aenv \<Rightarrow> ApiSettings \<Rightarrow> api_request \<Rightarrow> api_state \<Rightarrow> outcome option" where
  "route_public A st ReqAvailableCurrencies s = Some (available_currencies_route A s)"
| "route_public A st ReqNodeInfo s = Some (node_info_route A s)"
| "route_public A st (ReqQueryRoute p m) s = Some (query_route_route A p m s)"
| "route_public A st (ReqGetLnurl q) s = Some (get_lnurl_withdrawal_route q)"
| "route_public A st (ReqPayLnurl k pr) s = Some (pay_lnurl_withdrawal_route k pr)"
| "route_public A st (ReqPayAddress u x z) s = Some (pay_address_route A st u x z s)"
| "route_public A st (ReqNostrProfile p) s = Some (get_nostr_profile_route A p s)"
| "route_public A st (ReqSearchNostr t) s = Some (search_nostr_profile_route A t s)"
| "route_public A st _ s = None"

definition route :: "aenv \<Rightarrow> ApiSettings \<Rightarrow> string option option \<Rightarrow> api_request \<Rightarrow> api_state \<Rightarrow> outcome" where
  "route A st header req s =
     (case route_public A st req s of
        Some o' \<Rightarrow> o'
      | None \<Rightarrow>
          (case auth_from_request A (a_tick s) header of
             Inl e \<Rightarrow> Done (Inl e)
           | Inr a \<Rightarrow> (case route_authenticated A a req (a_bump s) of Some o' \<Rightarrow> o' | None \<Rightarrow> Crash)))"

end
