(* ===== verification/ApiLogin.thy ===== *)
theory ApiLogin
  imports ApiAuth "HOL-Library.Countable"
begin

text \<open>
  What registration and login guarantee: who registers can log in and is then recognised, a refused
  registration leaves no trace, and the quota of new accounts is kept.
\<close>

section \<open>Registration\<close>

lemma lower_char_idem [simp]: "lower_char (lower_char c) = lower_char c"
  by (auto simp: lower_char_def Let_def)

lemma to_lowercase_idem [simp]: "to_lowercase (to_lowercase s) = to_lowercase s"
  by (simp add: to_lowercase_def)

lemma as_i32_as_u64 [simp]: "as_i32 (as_u64 u) = u"
proof (rule bit_word_eqI)
  fix n :: nat
  assume "n < LENGTH(32)"
  then have "n < 31 \<or> n = 31" by auto
  then show "bit (as_i32 (as_u64 u)) n = bit u n" by (auto simp: bit_ucast_iff bit_signed_iff)
qed

lemma a_bump_simps [simp]: "a_db (a_bump s) = a_db s" "a_limiter (a_bump s) = a_limiter s"
  by (simp_all add: a_bump_def)

lemma try_exec_users:
  "(\<And>d d'. f d = Some d' \<Longrightarrow> db_users d' = db_users d) \<Longrightarrow> db_users (a_db (try_exec A f s)) = db_users (a_db s)"
  "a_limiter (try_exec A f s) = a_limiter s"
  by (auto simp: try_exec_def split: option.split)

lemma side_inserts_users:
  "ln_address_insert a b d = Some d' \<Longrightarrow> db_users d' = db_users d"
  "profile_insert p d = Some d' \<Longrightarrow> db_users d' = db_users d"
  by (auto simp: ln_address_insert_def profile_insert_def split: if_split_asm)

text \<open>The row of a new user.\<close>

definition new_user :: "aenv \<Rightarrow> string \<Rightarrow> RegisterData \<Rightarrow> i32 \<Rightarrow> User" where
  "new_user A name data uid = \<lparr>usr_uid = uid, usr_username = name, usr_password = pw_hash A name (reg_password data),
     usr_is_internal = False, usr_origin = map_option (take 32) (reg_origin data)\<rparr>"

lemma short_origin_Some: "short_origin origin = Some r \<Longrightarrow> r = map_option (take 32) origin"
  by (auto simp: short_origin_def slice_def split: option.split_asm if_split_asm)

lemma short_origin_None:
  "short_origin origin = None \<longleftrightarrow> (\<exists>t. origin = Some t \<and> 32 < length t \<and> \<not> char_boundary t 32)"
  by (auto simp: short_origin_def slice_def char_boundary_def [of _ 0] split: option.split)

lemma register_user_Inr:
  assumes "register_user A st name data s = (Some (Inr x), s')"
  shows "x = name \<and> list_all (\<lambda>r. usr_username r \<noteq> name) (db_users (a_db s)) \<and> \<not> has_user (a_db s) (db_serial (a_db s)) \<and>
    db_users (a_db s') = db_users (a_db s) @ [new_user A name data (db_serial (a_db s))] \<and> a_limiter s' = a_limiter s"
  using assms
  by (auto simp: register_user_def Let_def user_insert_def new_user_def try_exec_users side_inserts_users
      list_all_iff list_ex_iff dest!: short_origin_Some split: if_split_asm option.split_asm)

lemma register_user_Inl:
  assumes "register_user A st name data s = (Some (Inl e), s')"
  shows "a_db s' = a_db s \<and> a_limiter s' = limiter_decrease (a_limiter s)"
  using assms by (auto simp: register_user_def Let_def split: if_split_asm option.split_asm)

lemma register_user_errors:
  "register_user A st name data s = (Some (Inl e), s') \<Longrightarrow> e \<in> {DbE DbUnknown, DbE UserAlreadyExists}"
  by (auto simp: register_user_def Let_def split: if_split_asm option.split_asm)

lemma register_user_panic:
  assumes "register_user A st name data s = (None, s')"
  shows "s' = s \<and> short_origin (reg_origin data) = None"
  using assms by (auto simp: register_user_def Let_def split: if_split_asm option.split_asm)

lemma create_Inr:
  assumes "create A st data s = (Some (Inr name), s')"
  shows "check_username_valid name \<and> to_lowercase name = name \<and> name \<notin> set (map to_lowercase (reserved_usernames st)) \<and>
    creation_enabled (a_limiter s) \<and>
    (\<exists>i n. limiter_increase (a_instant A n) (a_limiter s) = (Inr i, a_limiter s')) \<and>
    list_all (\<lambda>r. usr_username r \<noteq> name) (db_users (a_db s)) \<and> \<not> has_user (a_db s) (db_serial (a_db s)) \<and>
    db_users (a_db s') = db_users (a_db s) @ [new_user A name data (db_serial (a_db s))]"
  using assms
  by (auto simp: create_def Let_def split: option.split_asm if_split_asm prod.split_asm sum.split_asm
      dest!: register_user_Inr)

lemma less_plus_1: "(a :: u64) < b \<Longrightarrow> 0 < a + 1 \<and> a + 1 \<le> b"
proof -
  assume "a < b"
  then have "unat (a + 1) = unat a + 1" using unsigned_less [of b, where ?'a = nat] by (simp add: word_less_nat_alt unat_word_ariths)
  with \<open>a < b\<close> show ?thesis by (simp add: word_less_nat_alt word_le_nat_alt)
qed

text \<open>The limiter as it stands at a time: a new interval begins when the last has run out.\<close>

definition limiter_at :: "nat \<Rightarrow> CreationLimiter \<Rightarrow> CreationLimiter" where
  "limiter_at now l =
     (if creation_quota_interval_seconds l \<le> word_of_nat (now - last_interval_start l)
      then l\<lparr>last_interval_start := now, created := 0\<rparr> else l)"

definition counted :: "CreationLimiter \<Rightarrow> CreationLimiter" where
  "counted l = l\<lparr>created := created l + 1\<rparr>"

lemma limiter_increase_eq:
  "limiter_increase now l = (Inr i, l') \<Longrightarrow>
     l' = counted (limiter_at now l) \<and> created (limiter_at now l) < creation_quota l \<and> limiter_decrease l' = limiter_at now l"
  "limiter_increase now l = (Inl i, l') \<Longrightarrow> l' = limiter_at now l"
proof -
  have given_back: "limiter_decrease (counted k) = k" if "created k < creation_quota k" for k
    using less_plus_1 [OF that] by (cases k) (simp add: limiter_decrease_def counted_def)
  show "l' = counted (limiter_at now l) \<and> created (limiter_at now l) < creation_quota l \<and> limiter_decrease l' = limiter_at now l"
    if "limiter_increase now l = (Inr i, l')"
    using that given_back [of "limiter_at now l"]
    by (auto simp: limiter_increase_def limiter_at_def counted_def Let_def split: if_split_asm)
  show "l' = limiter_at now l" if "limiter_increase now l = (Inl i, l')"
    using that by (auto simp: limiter_increase_def limiter_at_def Let_def split: if_split_asm)
qed

text \<open>The tick at which a registration reads the clock of the limiter: a name may have to be drawn before.\<close>

definition create_tick :: "RegisterData \<Rightarrow> api_state \<Rightarrow> nat" where
  "create_tick data s = (if reg_username data = None then Suc (a_tick s) else a_tick s)"

lemma create_cases:
  obtains (early) e n where "create A st data s = (Some (Inl e), s\<lparr>a_tick := n\<rparr>)"
      "e \<in> {AuthE InvalidUsername, AuthE UserExists, AuthE RegistrationsDisabled}"
  | (full) s1 where "create A st data s = (Some (Inl (AuthE RegistrationLimitExceeded)), s1)" "a_db s1 = a_db s"
      "a_limiter s1 = limiter_at (a_instant A (create_tick data s)) (a_limiter s)"
  | (no_connection) s1 where "create A st data s = (Some (Inl (DbE DbConnectionError)), s1)" "a_db s1 = a_db s"
      "a_limiter s1 = limiter_at (a_instant A (create_tick data s)) (a_limiter s)"
  | (registers) name s1 where "create A st data s = register_user A st name data s1" "a_db s1 = a_db s"
      "a_limiter s1 = counted (limiter_at (a_instant A (create_tick data s)) (a_limiter s))"
      "limiter_decrease (a_limiter s1) = limiter_at (a_instant A (create_tick data s)) (a_limiter s)"
      "created (limiter_at (a_instant A (create_tick data s)) (a_limiter s)) < creation_quota (a_limiter s)"
proof -
  let ?l = "limiter_increase (a_instant A (create_tick data s)) (a_limiter s)"
  obtain name where name: "(case reg_username data of Some un \<Rightarrow> (to_lowercase un, s)
      | None \<Rightarrow> (to_lowercase (a_uuid_show A (a_new_v4 A (a_tick s))), a_bump s)) = (name, s\<lparr>a_tick := create_tick data s\<rparr>)"
    by (cases "reg_username data") (auto simp: create_tick_def a_bump_def)
  note eq = create_def Let_def name case_prod_conv
  consider "\<not> check_username_valid name \<or> name \<in> set (map to_lowercase (reserved_usernames st)) \<or> \<not> creation_enabled (a_limiter s)"
    | "check_username_valid name" "name \<notin> set (map to_lowercase (reserved_usernames st))" "creation_enabled (a_limiter s)"
    by blast
  then show thesis
  proof cases
    case 1
    then show thesis
      by (intro early [of "if \<not> check_username_valid name then AuthE InvalidUsername else if name \<in> set (map to_lowercase (reserved_usernames st))
            then AuthE UserExists else AuthE RegistrationsDisabled" "create_tick data s"]) (auto simp: eq)
  next
    case 2
    show thesis
    proof (cases ?l)
      case (Pair r l)
      show thesis
      proof (cases r)
        case (Inl i)
        with Pair 2 limiter_increase_eq(2) [OF Pair [unfolded Inl]] show thesis
          by (intro full [of "a_bump (s\<lparr>a_tick := create_tick data s, a_limiter := l\<rparr>)"]) (simp_all add: eq a_bump_def)
      next
        case (Inr i)
        have l: "l = counted (limiter_at (a_instant A (create_tick data s)) (a_limiter s))"
          "created (limiter_at (a_instant A (create_tick data s)) (a_limiter s)) < creation_quota (a_limiter s)"
          "limiter_decrease l = limiter_at (a_instant A (create_tick data s)) (a_limiter s)"
          using limiter_increase_eq(1) [OF Pair [unfolded Inr]] by blast+
        show thesis
        proof (cases "a_pool A (Suc (create_tick data s))")
          case True
          with Pair Inr 2 l(1,2) show thesis
            by (intro registers [of name "a_bump (a_bump (s\<lparr>a_tick := create_tick data s, a_limiter := l\<rparr>))"])
              (simp_all add: eq a_bump_def l(3) [unfolded l(1)])
        next
          case False
          with Pair Inr 2 l show thesis
            by (intro no_connection [of "a_bump (a_bump (s\<lparr>a_tick := create_tick data s, a_limiter := limiter_decrease l\<rparr>))"])
              (simp_all add: eq a_bump_def)
        qed
      qed
    qed
  qed
qed

text \<open>
  C27. A refused registration leaves no trace: the database is unchanged and so is the quota of new
  accounts - the limiter is as it was when the name is refused or registrations are disabled, and for
  every other refusal it is what it was at that time, with a new interval begun if the last had run out
  and nothing counted. An accepted one registers exactly one new user, under a valid, lower-case name
  that is neither reserved nor taken, with the derived password, and counts one towards the quota, which
  was not exhausted. The handler panics only on an
  origin whose 32nd byte lies within a character, and then no user is registered, but the attempt has
  been counted. (One request at a time.)
\<close>

theorem create_effect:
  "let l = limiter_at (a_instant A (create_tick data s)) (a_limiter s) in
   case create A st data s of
     (None, s') \<Rightarrow> a_db s' = a_db s \<and> a_limiter s' = counted l \<and> (\<exists>t. reg_origin data = Some t \<and> 32 < length t \<and> \<not> char_boundary t 32)
   | (Some (Inl e), s') \<Rightarrow> a_db s' = a_db s \<and>
       a_limiter s' = (if e \<in> {AuthE InvalidUsername, AuthE UserExists, AuthE RegistrationsDisabled} then a_limiter s else l)
   | (Some (Inr name), s') \<Rightarrow> check_username_valid name \<and> to_lowercase name = name \<and>
       name \<notin> set (map to_lowercase (reserved_usernames st)) \<and> creation_enabled (a_limiter s) \<and>
       list_all (\<lambda>r. usr_username r \<noteq> name) (db_users (a_db s)) \<and>
       (\<exists>uid. db_users (a_db s') = db_users (a_db s) @ [new_user A name data uid] \<and> \<not> has_user (a_db s) uid) \<and>
       created l < creation_quota (a_limiter s) \<and> a_limiter s' = counted l"
proof (cases rule: create_cases [of A st data s])
  case (early e n)
  then show ?thesis by (auto simp: Let_def)
next
  case (full s1)
  then show ?thesis by (simp add: Let_def)
next
  case (no_connection s1)
  then show ?thesis by (simp add: Let_def)
next
  case (registers name s1)
  obtain r s' where r: "register_user A st name data s1 = (r, s')" by fastforce
  consider "r = None" | e where "r = Some (Inl e)" | x where "r = Some (Inr x)" by (metis option.exhaust sum.exhaust)
  then show ?thesis
  proof cases
    case 1
    with registers r show ?thesis by (auto simp: Let_def short_origin_None dest!: register_user_panic)
  next
    case (2 e)
    with registers r register_user_Inl [of A st name data s1 e s'] show ?thesis
      using register_user_errors [of A st name data s1 e s'] by (auto simp: Let_def)
  next
    case (3 x)
    with registers r have c: "create A st data s = (Some (Inr x), s')" "a_limiter s' = a_limiter s1"
      using register_user_Inr [of A st name data s1 x s'] by auto
    show ?thesis
      using registers(3,5) create_Inr [OF c(1)] c(2) unfolding Let_def c(1) by auto
  qed
qed

section \<open>Login\<close>

text \<open>
  What the crates promise: base 64 decodes what it encoded, and a token that the server has
  signed is accepted until it expires.
\<close>

locale api_ok =
  fixes A :: aenv
  assumes b64: "a_b64_decode A (a_b64_encode A x) = Some x"
    and jwt: "jwt_encode A t = Some s \<Longrightarrow> sint (a_seconds A n) < sint (tok_exp t) \<Longrightarrow> jwt_decode A n s = Inr t"
begin

lemma verify_hash: "pw_verify A salt (pw_hash A salt p) p"
  by (simp add: pw_verify_def pw_hash_def b64)

lemma fresh_token:
  assumes "jwt_generate A n uid tid roles live = Inr token" "sint (a_seconds A m) < sint (a_seconds A n + live)"
  shows "auth_from_request A m (Some (Some token)) = Inr \<lparr>auth_uid = uid, auth_expiry = Some (a_seconds A n + live),
    auth_user_roles = Some roles, auth_type = Jwt, auth_tid = tid\<rparr>"
  using assms jwt by (auto simp: jwt_generate_def Let_def auth_from_request_def jwt_check_def split: option.split_asm)

end

lemma registered_user:
  assumes "create A st data s = (Some (Inr name), s1)"
  shows "user_get_by_username name (a_db s1) = Some (new_user A name data (db_serial (a_db s)))"
    and "user_get_by_id (db_serial (a_db s)) (a_db s1) = Some (new_user A name data (db_serial (a_db s)))"
proof -
  have new: "usr_username (new_user A name data u) = name" "usr_uid (new_user A name data u) = u" for u
    by (simp_all add: new_user_def)
  note create_Inr [OF assms]
  then have "\<not> list_ex (\<lambda>r. usr_username r = usr_username (new_user A name data (db_serial (a_db s)))) (db_users (a_db s))"
    "\<not> list_ex (\<lambda>r. usr_uid r = usr_uid (new_user A name data (db_serial (a_db s)))) (db_users (a_db s))"
    by (auto simp: new list_all_iff list_ex_iff has_user_def)
  from find_key_snoc [OF this(1), of name] find_key_snoc [OF this(2), of "db_serial (a_db s)"] create_Inr [OF assms]
  show "user_get_by_username name (a_db s1) = Some (new_user A name data (db_serial (a_db s)))"
    and "user_get_by_id (db_serial (a_db s)) (a_db s1) = Some (new_user A name data (db_serial (a_db s)))"
    by (simp_all add: user_get_by_username_def user_get_by_id_def new)
qed

text \<open>
  C26. Who registers can log in and is recognised: after a successful registration, with the
  database answering, a login under the registered name and password succeeds, and until the token
  expires a request that carries it is attributed to the new user with all rights, so that
  \<open>/whoami\<close> answers the registered name.
\<close>

theorem register_login:
  assumes "api_ok A" "create A st data s = (Some (Inr name), s1)" "\<And>n. a_pool A n" "\<And>n. a_pg A n"
    and "\<And>t. tok_roles t = MasterToken \<Longrightarrow> tok_tid t = None \<Longrightarrow> jwt_encode A t \<noteq> None" "\<And>t. jwt_encode_refresh A t \<noteq> None"
    and "sint (a_seconds A m) < sint (a_seconds A (a_tick s1 + 2) + 10000000)"
  shows "\<exists>token refresh a. auth A name (reg_password data) s1 = Inr (token, refresh) \<and>
    auth_from_request A m (Some (Some token)) = Inr a \<and> auth_is_master a \<and>
    whoami A a s1 = Inr (name, auth_uid a)"
proof -
  let ?uid = "db_serial (a_db s)"
  note user = registered_user [OF assms(2)]
  have lower: "to_lowercase name = name" using create_Inr [OF assms(2)] by blast
  let ?t = "a_seconds A (a_tick s1 + 2)" and ?r = "a_seconds A (a_tick s1 + 3)"
  obtain token where token: "jwt_generate A (a_tick s1 + 2) ?uid None MasterToken 10000000 = Inr token"
    using assms(5) [of "\<lparr>tok_iat = ?t, tok_exp = ?t + 10000000, tok_uid = ?uid, tok_tid = None, tok_roles = MasterToken\<rparr>"]
    by (auto simp: jwt_generate_def Let_def)
  obtain refresh where "jwt_generate_refresh_token A (a_tick s1 + 3) ?uid MasterToken 1000000 = Inr refresh"
    using assms(6) [of "\<lparr>rft_iat = ?r, rft_exp = ?r + 1000000, rft_uid = ?uid, rft_roles = MasterToken\<rparr>"]
    by (auto simp: jwt_generate_refresh_token_def Let_def)
  then have "auth A name (reg_password data) s1 = Inr (token, refresh)"
    using user(1) token lower assms(3,4) api_ok.verify_hash [OF assms(1)] by (simp add: auth_def new_user_def)
  moreover note api_ok.fresh_token [OF assms(1) token assms(7)]
  ultimately show ?thesis using user(2) assms(3,4) by (auto simp: auth_is_master_def whoami_def new_user_def)
qed

section \<open>A concrete environment\<close>

text \<open>Tokens of the master role as strings of a length that determines them.\<close>

definition token_string :: "UserRolesToken \<Rightarrow> string option" where
  "token_string t =
     (if tok_roles t = MasterToken \<and> tok_tid t = None
      then Some (replicate (prod_encode (unat (tok_iat t), prod_encode (unat (tok_exp t), unat (tok_uid t)))) (CHR ''a''))
      else None)"

definition string_token :: "string \<Rightarrow> UserRolesToken" where
  "string_token s = (case prod_decode (length s) of (i, r) \<Rightarrow> case prod_decode r of (e, u) \<Rightarrow>
     \<lparr>tok_iat = word_of_nat i, tok_exp = word_of_nat e, tok_uid = word_of_nat u, tok_tid = None, tok_roles = MasterToken\<rparr>)"

lemma string_token: "token_string t = Some s \<Longrightarrow> string_token s = t"
  by (cases t) (auto simp: token_string_def string_token_def split: if_split_asm)

definition aenv96 :: aenv where
  "aenv96 = \<lparr>a_dec = undefined, a_new_v4 = id, a_uuid_show = (\<lambda>_. ''u''), a_clock = (\<lambda>n. word_of_nat n), a_seconds = (\<lambda>_. 0),
     a_instant = id, a_pool = (\<lambda>_. True), a_pg = (\<lambda>_. True), a_channel = (\<lambda>_. True), jwt_encode = token_string,
     jwt_encode_refresh = (\<lambda>_. Some ''r''), jwt_decode = (\<lambda>_ s. Inr (string_token s)),
     pbkdf2_derive = (\<lambda>salt p. salt @ '':'' @ p), a_b64_encode = id, a_b64_decode = Some,
     a_crypto = \<lparr>event_from_json = (\<lambda>_. Inl EvJson), nostr_sha256 = id, to_event = (\<lambda>_ _ _. None), from_pk_str = Some\<rparr>\<rparr>"

interpretation aenv96: api_ok aenv96
  by unfold_locales (simp_all add: aenv96_def string_token)

definition sample_api :: api_state where
  "sample_api = \<lparr>a_db = \<lparr>db_users = [], db_accounts = [], db_invoices = [], db_transactions = [], db_summaries = [],
     db_dca_settings = [], db_profiles = [], db_nostr_keys = [], db_ln_addresses = [], db_serial = 1\<rparr>,
     a_limiter = limiter_new 0 10 60, a_tick = 0\<rparr>"

definition sample_settings_api :: ApiSettings where
  "sample_settings_api = \<lparr>domain = ''kollider.me'', reserved_usernames = [''admin''], admin_uids = []\<rparr>"

definition sample_register :: RegisterData where
  "sample_register = \<lparr>reg_username = Some ''Alice'', reg_password = ''pw'', reg_origin = None\<rparr>"

lemma sample_create: "\<exists>s1. create aenv96 sample_settings_api sample_register sample_api = (Some (Inr ''alice''), s1)"
proof -
  have name: "to_lowercase ''Alice'' = ''alice''" "check_username_valid ''alice''"
    "''alice'' \<notin> set (map to_lowercase (reserved_usernames sample_settings_api))"
    by code_simp+
  have l: "limiter_increase 0 (limiter_new 0 10 60) = (Inr 1, (limiter_new 0 10 60)\<lparr>created := 1\<rparr>)"
    by (simp add: limiter_increase_def limiter_new_def)
  show ?thesis
    using name l
    by (simp add: create_def sample_register_def register_user_def sample_api_def aenv96_def a_bump_def Let_def
        short_origin_def user_insert_def has_user_def limiter_new_def)
qed

theorem register_login_witness:
  "\<exists>s1 token refresh a. create aenv96 sample_settings_api sample_register sample_api = (Some (Inr ''alice''), s1) \<and>
     auth aenv96 ''alice'' ''pw'' s1 = Inr (token, refresh) \<and> auth_from_request aenv96 5 (Some (Some token)) = Inr a \<and>
     whoami aenv96 a s1 = Inr (''alice'', auth_uid a)"
proof -
  obtain s1 where s1: "create aenv96 sample_settings_api sample_register sample_api = (Some (Inr ''alice''), s1)"
    using sample_create by blast
  have "sint (a_seconds aenv96 5) < sint (a_seconds aenv96 (a_tick s1 + 2) + 10000000)" by (simp add: aenv96_def)
  from register_login [OF aenv96.api_ok_axioms s1 _ _ _ _ this] obtain token refresh a where
    "auth aenv96 ''alice'' (reg_password sample_register) s1 = Inr (token, refresh)"
    "auth_from_request aenv96 5 (Some (Some token)) = Inr a" "whoami aenv96 a s1 = Inr (''alice'', auth_uid a)"
    by (auto simp: aenv96_def token_string_def)
  with s1 show ?thesis by (simp add: sample_register_def)
qed

end
