(* ===== verification/ApiComms.thy ===== *)
theory ApiComms
  imports ApiRoutes ApiLogin Machine
begin

text \<open>
  The comms actor (\<open>api/src/comms.rs\<close>), which forwards the messages of the routes to the bank and
  hands the bank's messages to the routes whose filters let them through; whose name the requests
  carry and who receives the replies. A call is identified by the position of its message in the
  sequence of messages sent to the bank.
\<close>

section \<open>The actor\<close>

definition filter_expiration_millis :: u64 where
  "filter_expiration_millis = 5000"

definition filter_size_limit :: nat where
  "filter_size_limit = 1000"

record comms =
  waiting :: "(nat \<times> (Message \<Rightarrow> bool) \<times> u64) list"
  c_replies :: "(nat \<times> Message) list" \<comment> \<open>handed to the calls\<close>
  c_to_bank :: "Message list"

definition comms_new :: comms where
  "comms_new = \<lparr>waiting = [], c_replies = [], c_to_bank = []\<rparr>"

definition comms_send :: "u64 \<Rightarrow> Message \<Rightarrow> (Message \<Rightarrow> bool) \<Rightarrow> comms \<Rightarrow> comms" where
  "comms_send now message response_filter c = c\<lparr>
     waiting := waiting c @ [(length (c_to_bank c), response_filter, now)], c_to_bank := c_to_bank c @ [message]\<rparr>"

definition comms_receive :: "u64 \<Rightarrow> Message \<Rightarrow> comms \<Rightarrow> comms" where
  "comms_receive now message c =
     (let matching = filter (\<lambda>(_, response_filter, _). response_filter message) (waiting c);
          others = filter (\<lambda>(_, response_filter, _). \<not> response_filter message) (waiting c)
      in c\<lparr>c_replies := c_replies c @ map (\<lambda>(i, _, _). (i, message)) matching,
           waiting := (if filter_size_limit < length others
             then filter (\<lambda>(_, _, created). \<not> created + filter_expiration_millis < now) others else others)\<rparr>)"

text \<open>What a call answers whose message was sent or not, and that got \<open>reply\<close> or nothing in time.\<close>

definition finish :: "bool \<Rightarrow> (Message \<Rightarrow> http_body option) \<Rightarrow> Message option \<Rightarrow> ApiError + http_body" where
  "finish sent k reply =
     (if \<not> sent then Inl (CommsE FailedToSendMessage)
      else (case Option.bind reply k of Some b \<Rightarrow> Inr b | None \<Rightarrow> Inl (CommsE ServerResponseTimeout)))"

datatype api_event =
    Call "string option option" api_request api_state u64 \<comment> \<open>header, request, state and time of the call\<close>
  | BankSays Message u64

inductive api_step :: "aenv \<Rightarrow> ApiSettings \<Rightarrow> comms \<Rightarrow> api_event \<Rightarrow> comms \<Rightarrow> bool" for A st where
  call: "route A st h req s = AskBank m f k \<Longrightarrow> a_channel A (a_tick s) \<Longrightarrow>
    api_step A st c (Call h req s now) (comms_send now m f c)"
| call_unsent: "route A st h req s = AskBank m f k \<Longrightarrow> \<not> a_channel A (a_tick s) \<Longrightarrow> api_step A st c (Call h req s now) c"
| call_done: "route A st h req s = Done r \<Longrightarrow> api_step A st c (Call h req s now) c"
| bank_says: "api_step A st c (BankSays m now) (comms_receive now m c)"

inductive_cases api_stepE: "api_step A st c e c'"

section \<open>Identifiers\<close>

fun request_id :: "Message \<Rightarrow> uuid option" where
  "request_id (MsgApi (InvoiceRequestMsg r)) = Some (irq_req_id r)"
| "request_id (MsgApi (PaymentRequestMsg r)) = Some (prq_req_id r)"
| "request_id (MsgApi (SwapRequestMsg r)) = Some (srq_req_id r)"
| "request_id (MsgApi (QuoteRequestMsg r)) = Some (qrq_req_id r)"
| "request_id (MsgApi (AvailableCurrenciesRequestMsg i)) = Some i"
| "request_id (MsgApi (GetNodeInfoRequestMsg i)) = Some i"
| "request_id (MsgApi (CreateLnurlWithdrawalRequestMsg r)) = Some (clw_req_id r)"
| "request_id (MsgApi (GetLnurlWithdrawalRequestMsg i)) = Some i"
| "request_id (MsgApi (PayLnurlWithdrawalRequestMsg r)) = Some (plw_req_id r)"
| "request_id (MsgApi (QueryRouteRequestMsg r)) = Some (qrt_req_id r)"
| "request_id (MsgApi (NostrProfileRequestMsg r)) = Some (npr_req_id r)"
| "request_id (MsgApi (NostrProfileSearchRequestMsg r)) = Some (nps_req_id r)"
| "request_id _ = None"

fun reply_id :: "Message \<Rightarrow> uuid option" where
  "reply_id (MsgApi (InvoiceResponseMsg r)) = Some (irs_req_id r)"
| "reply_id (MsgApi (PaymentResponseMsg r)) = Some (prs_req_id r)"
| "reply_id (MsgApi (SwapResponseMsg r)) = Some (srs_req_id r)"
| "reply_id (MsgApi (QuoteResponseMsg r)) = Some (qrs_req_id r)"
| "reply_id (MsgApi (AvailableCurrenciesResponseMsg r)) = Some (acr_req_id r)"
| "reply_id (MsgApi (GetNodeInfoResponseMsg r)) = Some (gni_req_id r)"
| "reply_id (MsgApi (CreateLnurlWithdrawalResponseMsg r)) = Some (clr_req_id r)"
| "reply_id (MsgApi (GetLnurlWithdrawalResponseMsg r)) = Some (glr_req_id r)"
| "reply_id (MsgApi (PayLnurlWithdrawalResponseMsg r)) = Some (plr_req_id r)"
| "reply_id (MsgApi (QueryRouteResponseMsg r)) = Some (qrr_req_id r)"
| "reply_id (MsgApi (NostrProfileSearchResponseMsg r)) = Some (npsr_req_id r)"
| "reply_id _ = None"

text \<open>A reply fits a request if it carries its identifier; any balances fit a request for balances.\<close>

definition fits :: "Message \<Rightarrow> Message \<Rightarrow> bool" where
  "fits m r \<longleftrightarrow> (\<exists>i. request_id m = Some i \<and> reply_id r = Some i) \<or>
     (\<exists>g b. m = MsgApi (GetBalancesMsg g) \<and> r = MsgApi (BalancesMsg b))"

lemmas route_defs = balance_route_def pay_invoice_route_def add_invoice_route_def swap_route_def quote_route_def
  available_currencies_route_def node_info_route_def query_route_route_def keysend_route_def
  create_lnurl_withdrawal_route_def get_lnurl_withdrawal_route_def pay_lnurl_withdrawal_route_def
  pay_address_route_def get_nostr_profile_route_def search_nostr_profile_route_def profile_filter_def
  invalid_data_def Let_def

lemma routeE:
  assumes "route A st h req s = AskBank m f k"
  obtains "route_public A st req s = Some (AskBank m f k)"
  | a where "auth_from_request A (a_tick s) h = Inr a" "route_authenticated A a req (a_bump s) = Some (AskBank m f k)"
  using assms by (auto simp: route_def split: option.split_asm sum.split_asm)

lemma public_fits: "route_public A st req s = Some (AskBank m f k) \<Longrightarrow> f r \<Longrightarrow> fits m r"
  by (cases "(A, st, req, s)" rule: route_public.cases)
    (auto simp: route_defs fits_def split: if_split_asm option.split_asm prod.split_asm Message.split_asm ApiMsg.split_asm)

lemma authenticated_fits: "route_authenticated A a req s = Some (AskBank m f k) \<Longrightarrow> f r \<Longrightarrow> fits m r"
  by (cases "(A, a, req, s)" rule: route_authenticated.cases)
    (auto simp: route_defs fits_def split: if_split_asm option.split_asm Message.split_asm ApiMsg.split_asm)

lemma route_fits: "route A st h req s = AskBank m f k \<Longrightarrow> f r \<Longrightarrow> fits m r"
  by (erule routeE) (auto intro: public_fits authenticated_fits)

section \<open>Replies\<close>

definition comms_inv :: "comms \<Rightarrow> bool" where
  "comms_inv c \<longleftrightarrow>
     (\<forall>(i, f, t) \<in> set (waiting c). i < length (c_to_bank c) \<and> (\<forall>r. f r \<longrightarrow> fits (c_to_bank c ! i) r)) \<and>
     (\<forall>(i, r) \<in> set (c_replies c). i < length (c_to_bank c) \<and> fits (c_to_bank c ! i) r) \<and>
     distinct (map fst (waiting c) @ map fst (c_replies c))"

lemma send_inv:
  assumes "comms_inv c" "\<And>r. f r \<Longrightarrow> fits m r"
  shows "comms_inv (comms_send now m f c)"
proof -
  have "i < length (c_to_bank c)" if "i \<in> fst ` set (waiting c) \<union> fst ` set (c_replies c)" for i
    using that assms(1) by (auto simp: comms_inv_def)
  then have "length (c_to_bank c) \<notin> fst ` set (waiting c) \<union> fst ` set (c_replies c)" by blast
  with assms show ?thesis
    by (auto simp: comms_inv_def comms_send_def nth_append)
qed

lemma distinct_partition:
  assumes "distinct (map fst xs @ ys)"
  shows "distinct (map fst (filter Q (filter (\<lambda>x. \<not> P x) xs)) @ ys @ map fst (filter P xs))"
proof -
  have "inj_on fst (set xs)" using assms by (simp add: distinct_map)
  then have "fst ` set (filter Q (filter (\<lambda>x. \<not> P x) xs)) \<inter> fst ` set (filter P xs) = {}"
    by (auto dest: inj_onD)
  with assms show ?thesis by (auto simp: distinct_map_filter)
qed

lemma receive_inv:
  assumes "comms_inv c"
  shows "comms_inv (comms_receive now r c)"
proof -
  define P where "P = (\<lambda>(i :: nat, f, t :: u64). f r :: bool)"
  have P: "filter (\<lambda>(_, f, _). f r) (waiting c) = filter P (waiting c)"
    "filter (\<lambda>(_, f, _). \<not> f r) (waiting c) = filter (\<lambda>x. \<not> P x) (waiting c)"
    by (auto simp: P_def intro: filter_cong)
  define Q where "Q = (\<lambda>x :: nat \<times> (Message \<Rightarrow> bool) \<times> u64.
    filter_size_limit < length (filter (\<lambda>x. \<not> P x) (waiting c)) \<longrightarrow> \<not> snd (snd x) + filter_expiration_millis < now)"
  have w: "waiting (comms_receive now r c) = filter Q (filter (\<lambda>x. \<not> P x) (waiting c))"
    unfolding comms_receive_def Let_def P
    by (cases "filter_size_limit < length (filter (\<lambda>x. \<not> P x) (waiting c))") (simp_all add: Q_def split_beta)
  have "map fst (c_replies (comms_receive now r c)) = map fst (c_replies c) @ map fst (filter P (waiting c))"
    unfolding comms_receive_def Let_def P by (auto simp: split_beta)
  with distinct_partition [of "waiting c" "map fst (c_replies c)" Q P] w assms
  have "distinct (map fst (waiting (comms_receive now r c)) @ map fst (c_replies (comms_receive now r c)))"
    by (simp add: comms_inv_def)
  moreover have "c_to_bank (comms_receive now r c) = c_to_bank c" by (simp add: comms_receive_def Let_def)
  moreover have "set (waiting (comms_receive now r c)) \<subseteq> set (waiting c)" using w by auto
  moreover have "(i, x) \<in> set (c_replies c) \<or> (x = r \<and> (\<exists>f t. (i, f, t) \<in> set (waiting c) \<and> f r))"
    if "(i, x) \<in> set (c_replies (comms_receive now r c))" for i x
    using that by (auto simp: comms_receive_def Let_def)
  ultimately show ?thesis using assms unfolding comms_inv_def by fastforce
qed

interpretation api: invariant "api_step A st" comms_inv
proof
  fix c e c'
  assume inv: "comms_inv c" and "api_step A st c e c'"
  from this(2) show "comms_inv c'"
  proof cases
    case (call h req s m f k now)
    show ?thesis unfolding call(2) by (rule send_inv [OF inv]) (rule route_fits [OF call(3)])
  next
    case (bank_says m now)
    with receive_inv [OF inv] show ?thesis by simp
  qed (use inv in simp_all)
qed

text \<open>
  C24. Replies reach who asked: in every run of the API, whatever the bank publishes, a call receives
  at most one message, and that message carries the identifier of the request that the call sent.
  The exception is the request for balances, which any message with balances answers.
\<close>

theorem replies_to_requests:
  assumes "run (api_step A st) comms_new es c" "(i, r) \<in> set (c_replies c)"
  shows "i < length (c_to_bank c) \<and> (\<forall>x. (i, x) \<in> set (c_replies c) \<longrightarrow> x = r) \<and>
    ((\<exists>n. request_id (c_to_bank c ! i) = Some n \<and> reply_id r = Some n) \<or>
     (\<exists>g b. c_to_bank c ! i = MsgApi (GetBalancesMsg g) \<and> r = MsgApi (BalancesMsg b)))"
proof -
  have "comms_inv comms_new" by (simp add: comms_inv_def comms_new_def)
  with assms(1) have inv: "comms_inv c" by (rule api.run_inv)
  then have "distinct (map fst (c_replies c))" by (simp add: comms_inv_def)
  then have "x = r" if "(i, x) \<in> set (c_replies c)" for x using that assms(2) by (metis map_of_is_SomeI option.inject)
  moreover have "i < length (c_to_bank c)" "fits (c_to_bank c ! i) r" using inv assms(2) by (auto simp: comms_inv_def)
  ultimately show ?thesis unfolding fits_def by blast
qed

section \<open>Requests\<close>

fun message_uid :: "Message \<Rightarrow> user_id option" where
  "message_uid (MsgApi (InvoiceRequestMsg r)) = Some (irq_uid r)"
| "message_uid (MsgApi (PaymentRequestMsg r)) = Some (prq_uid r)"
| "message_uid (MsgApi (SwapRequestMsg r)) = Some (srq_uid r)"
| "message_uid (MsgApi (GetBalancesMsg r)) = Some (gb_uid r)"
| "message_uid (MsgApi (QuoteRequestMsg r)) = Some (qrq_uid r)"
| "message_uid (MsgApi (CreateLnurlWithdrawalRequestMsg r)) = Some (clw_uid r)"
| "message_uid _ = None"

fun message_amount :: "Message \<Rightarrow> Money option" where
  "message_amount (MsgApi (InvoiceRequestMsg r)) = Some (irq_amount r)"
| "message_amount (MsgApi (PaymentRequestMsg r)) = prq_amount r"
| "message_amount (MsgApi (SwapRequestMsg r)) = Some (srq_amount r)"
| "message_amount (MsgApi (QuoteRequestMsg r)) = Some (qrq_amount r)"
| "message_amount (MsgApi (CreateLnurlWithdrawalRequestMsg r)) = Some (clw_amount r)"
| "message_amount _ = None"

lemma public_uid:
  "route_public A st req s = Some (AskBank m f k) \<Longrightarrow> message_uid m = Some u \<Longrightarrow>
     \<exists>name x z user. req = ReqPayAddress name x z \<and> user_get_by_username name (a_db s) = Some user \<and>
       u = as_u64 (usr_uid user) \<and> (\<exists>r. m = MsgApi (InvoiceRequestMsg r))"
  by (cases "(A, st, req, s)" rule: route_public.cases)
    (auto simp: route_defs split: if_split_asm option.split_asm prod.split_asm)

lemma authenticated_uid:
  "route_authenticated A a req s = Some (AskBank m f k) \<Longrightarrow> message_uid m = Some (uid_of a)"
  by (cases "(A, a, req, s)" rule: route_authenticated.cases)
    (auto simp: route_defs split: if_split_asm option.split_asm)

context decimal
begin

lemma money_new_nonneg: "0 \<le> x \<Longrightarrow> 0 \<le> mon_value (money_new D c x)"
  by (simp add: money_new_def round_to_zero trunc_dp_nonneg)

end

lemma route_amounts:
  assumes "decimal (a_dec A)" "route A st h req s = AskBank m f k" "message_amount m = Some x"
  shows "0 \<le> mon_value x"
proof -
  note nonneg = decimal.money_new_nonneg [OF assms(1)]
  have "0 \<le> mon_value x" if "route_public A st req s = Some (AskBank m f k)"
    using that assms(3)
    by (cases "(A, st, req, s)" rule: route_public.cases)
      (auto simp: route_defs intro!: nonneg split: if_split_asm option.split_asm prod.split_asm)
  moreover have "0 \<le> mon_value x" if "route_authenticated A a req (a_bump s) = Some (AskBank m f k)" for a
    using that assms(3)
    by (cases "(A, a, req, a_bump s)" rule: route_authenticated.cases)
      (auto simp: route_defs intro!: nonneg split: if_split_asm option.split_asm)
  ultimately show ?thesis using routeE [OF assms(2)] by blast
qed

text \<open>
  C23. Requests are made in the caller's name only: a message of the API that names a user and is sent
  on behalf of a request names the user of the request's token; the one exception is the public
  payment address, which asks for an invoice in favour of the user whose name is in the path. No
  message carries a negative amount.
\<close>

theorem requests_authentic:
  assumes "decimal (a_dec A)" "route A st h req s = AskBank m f k"
  shows "(\<forall>u. message_uid m = Some u \<longrightarrow>
      (\<exists>a. auth_from_request A (a_tick s) h = Inr a \<and> u = as_u64 (auth_uid a)) \<or>
      (\<exists>name x z user r. req = ReqPayAddress name x z \<and> user_get_by_username name (a_db s) = Some user \<and>
        u = as_u64 (usr_uid user) \<and> m = MsgApi (InvoiceRequestMsg r))) \<and>
    (\<forall>x. message_amount m = Some x \<longrightarrow> 0 \<le> mon_value x)"
proof (intro conjI allI impI)
  fix x assume "message_amount m = Some x"
  then show "0 \<le> mon_value x" using route_amounts [OF assms] by blast
next
  fix u assume u: "message_uid m = Some u"
  from assms(2) show "(\<exists>a. auth_from_request A (a_tick s) h = Inr a \<and> u = as_u64 (auth_uid a)) \<or>
      (\<exists>name x z user r. req = ReqPayAddress name x z \<and> user_get_by_username name (a_db s) = Some user \<and>
        u = as_u64 (usr_uid user) \<and> m = MsgApi (InvoiceRequestMsg r))"
  proof (rule routeE)
    assume "route_public A st req s = Some (AskBank m f k)"
    from public_uid [OF this u] show ?thesis by blast
  next
    fix a assume a: "auth_from_request A (a_tick s) h = Inr a" "route_authenticated A a req (a_bump s) = Some (AskBank m f k)"
    from authenticated_uid [OF a(2)] u a(1) show ?thesis by (auto simp: uid_of_def)
  qed
qed

text \<open>
  C25. The filter of \<open>/balance\<close> lets every message with balances through, since it compares the
  identifier of the request with itself: if two users ask for their balances at the same time, the
  first answer of the bank, whoever it is for, is handed to both and both show it.
\<close>

theorem balance_leaks:
  assumes "balance_route A a s = AskBank m f k" "balance_route A b t = AskBank m' f' k'"
    and "c' = comms_receive now'' (MsgApi (BalancesMsg bal)) (comms_send now' m' f' (comms_send now m f c))"
  shows "(length (c_to_bank c), MsgApi (BalancesMsg bal)) \<in> set (c_replies c') \<and>
    (Suc (length (c_to_bank c)), MsgApi (BalancesMsg bal)) \<in> set (c_replies c') \<and>
    finish True k (Some (MsgApi (BalancesMsg bal))) = Inr (BodyBalances bal) \<and>
    finish True k' (Some (MsgApi (BalancesMsg bal))) = Inr (BodyBalances bal)"
  using assms(1,2)
  by (auto simp: assms(3) comms_receive_def comms_send_def balance_route_def finish_def Let_def)

text \<open>A key send payment is never answered: what its filter lets through, the route does not recognise.\<close>

lemma keysend_never_answers:
  "keysend_route A a d s = AskBank m f k \<Longrightarrow> f r \<Longrightarrow> finish True k (Some r) = Inl (CommsE ServerResponseTimeout)"
  by (auto simp: keysend_route_def finish_def Let_def invalid_data_def split: if_split_asm Message.split_asm ApiMsg.split_asm)

section \<open>A concrete call\<close>

definition sample_token :: string where
  "sample_token = the (token_string \<lparr>tok_iat = 0, tok_exp = 10, tok_uid = 1, tok_tid = None, tok_roles = MasterToken\<rparr>)"

lemma sample_auth: "auth_from_request aenv96 n (Some (Some sample_token)) = Inr \<lparr>auth_uid = 1, auth_expiry = Some 10,
    auth_user_roles = Some MasterToken, auth_type = Jwt, auth_tid = None\<rparr>"
proof -
  let ?t = "\<lparr>tok_iat = 0, tok_exp = 10, tok_uid = 1, tok_tid = None, tok_roles = MasterToken\<rparr> :: UserRolesToken"
  have "token_string ?t = Some sample_token" by (simp add: sample_token_def token_string_def)
  then have "string_token sample_token = ?t" by (rule string_token)
  then show ?thesis by (simp add: auth_from_request_def jwt_check_def aenv96_def)
qed

definition sample_reply :: Message where
  "sample_reply = MsgApi (AvailableCurrenciesResponseMsg \<lparr>acr_req_id = 0, acr_currencies = [BTC], acr_error = None\<rparr>)"

theorem replies_to_requests_witness:
  "\<exists>c. run (api_step aenv96 sample_settings_api) comms_new
      [Call None ReqAvailableCurrencies sample_api 0, BankSays sample_reply 1] c \<and>
     (0, sample_reply) \<in> set (c_replies c) \<and> request_id (c_to_bank c ! 0) = reply_id sample_reply"
proof -
  obtain f k where r: "route aenv96 sample_settings_api None ReqAvailableCurrencies sample_api =
      AskBank (MsgApi (AvailableCurrenciesRequestMsg 0)) f k" and f: "f sample_reply"
    by (auto simp: route_def available_currencies_route_def req_id_of_def aenv96_def sample_api_def sample_reply_def Let_def)
  let ?c = "comms_receive 1 sample_reply (comms_send 0 (MsgApi (AvailableCurrenciesRequestMsg 0)) f comms_new)"
  have run: "run (api_step aenv96 sample_settings_api) comms_new
      [Call None ReqAvailableCurrencies sample_api 0, BankSays sample_reply 1] ?c"
    by (rule run_Cons [rotated], rule run_Cons [rotated], rule run_Nil, rule bank_says, rule call, rule r)
      (simp add: aenv96_def)
  moreover have in_c: "(0, sample_reply) \<in> set (c_replies ?c)"
    using f by (simp add: comms_receive_def comms_send_def comms_new_def Let_def)
  moreover have "request_id (c_to_bank ?c ! 0) = reply_id sample_reply"
    using replies_to_requests [OF run in_c] by (auto simp: sample_reply_def)
  ultimately show ?thesis by blast
qed

theorem requests_authentic_witness:
  "\<exists>m f k. route (aenv96\<lparr>a_dec := dec96\<rparr>) sample_settings_api (Some (Some sample_token)) ReqBalance sample_api = AskBank m f k \<and>
     message_uid m = Some 1"
proof -
  let ?A = "aenv96\<lparr>a_dec := dec96\<rparr>"
  have auth: "auth_from_request ?A n h = auth_from_request aenv96 n h" for n h
    by (auto simp: auth_from_request_def jwt_check_def split: option.split)
  obtain m f k where r: "route ?A sample_settings_api (Some (Some sample_token)) ReqBalance sample_api = AskBank m f k"
    and m: "message_uid m \<noteq> None"
    by (auto simp: route_def auth sample_auth balance_route_def Let_def)
  have "decimal (a_dec ?A)" by (simp add: dec96.decimal_axioms)
  from requests_authentic [OF this r] m have "message_uid m = Some (as_u64 1)" by (auto simp: auth sample_auth)
  with r show ?thesis by auto
qed

theorem balance_leaks_witness:
  "\<exists>m f k c3. balance_route aenv96 \<lparr>auth_uid = 1, auth_expiry = None, auth_user_roles = None, auth_type = Jwt, auth_tid = None\<rparr> sample_api = AskBank m f k \<and>
     c3 = comms_receive 2 (MsgApi (BalancesMsg \<lparr>bal_req_id = 7, bal_uid = 2, bal_accounts = []\<rparr>))
       (comms_send 1 m f (comms_send 0 m f comms_new)) \<and>
     {0, 1} \<subseteq> fst ` set (c_replies c3)"
proof -
  let ?a = "\<lparr>auth_uid = 1, auth_expiry = None, auth_user_roles = None, auth_type = Jwt, auth_tid = None\<rparr>"
  let ?b = "\<lparr>bal_req_id = 7, bal_uid = 2, bal_accounts = []\<rparr> :: Balances"
  obtain m f k where r: "balance_route aenv96 ?a sample_api = AskBank m f k" by (simp add: balance_route_def Let_def)
  from balance_leaks [OF r r refl, where c = comms_new and bal = ?b and now'' = 2 and now' = 1 and now = 0] r show ?thesis by (force simp: comms_new_def)
qed

end
