(* ===== verification/ApiTokens.thy ===== *)
theory ApiTokens
  imports ApiLogin
begin

text \<open>
  The claims inside the API's tokens (\<open>api/src/jwt.rs\<close>). The crate \<open>jsonwebtoken\<close> signs and
  checks a JSON object; which type it is read as is decided by the caller. \<open>claims\<close> is that object,
  \<open>jwt_lib\<close> the crate; both kinds of tokens are signed with one key, so one library serves both.
  The environment \<open>on_library\<close> has the token functions of \<open>aenv\<close> built from it.
\<close>

datatype claim = CInt int | CRoles UserRoles | CNull

type_synonym claims = "(string \<times> claim) list"

record jwt_lib =
  jl_encode :: "claims \<Rightarrow> string option"
  jl_decode :: "nat \<Rightarrow> string \<Rightarrow> JwtErrorKind + claims"

section \<open>Serialization\<close>

definition claims_of_token :: "UserRolesToken \<Rightarrow> claims" where
  "claims_of_token t = [(''iat'', CInt (sint (tok_iat t))), (''exp'', CInt (sint (tok_exp t))), (''uid'', CInt (sint (tok_uid t))),
     (''tid'', case tok_tid t of Some i \<Rightarrow> CInt (sint i) | None \<Rightarrow> CNull), (''roles'', CRoles (tok_roles t))]"

definition claims_of_refresh :: "RefreshToken \<Rightarrow> claims" where
  "claims_of_refresh t = [(''iat'', CInt (sint (rft_iat t))), (''exp'', CInt (sint (rft_exp t))), (''uid'', CInt (sint (rft_uid t))),
     (''roles'', CRoles (rft_roles t))]"

text \<open>A number that fits the type of the field.\<close>

fun claim_word :: "claim option \<Rightarrow> ('a::len) word option" where
  "claim_word (Some (CInt i)) = (if sint (word_of_int i :: 'a word) = i then Some (word_of_int i) else None)"
| "claim_word _ = None"

text \<open>A field of type \<open>Option\<close>: absent and null read as \<open>None\<close>.\<close>

definition claim_optional :: "claim option \<Rightarrow> ('a::len) word option option" where
  "claim_optional c = (if c \<in> {None, Some CNull} then Some None else map_option Some (claim_word c))"

fun claim_roles :: "claim option \<Rightarrow> UserRoles option" where
  "claim_roles (Some (CRoles r)) = Some r"
| "claim_roles _ = None"

definition token_of_claims :: "claims \<Rightarrow> UserRolesToken option" where
  "token_of_claims c = Option.bind (claim_word (map_of c ''iat'')) (\<lambda>i. Option.bind (claim_word (map_of c ''exp'')) (\<lambda>e.
     Option.bind (claim_word (map_of c ''uid'')) (\<lambda>u. Option.bind (claim_optional (map_of c ''tid'')) (\<lambda>t.
     map_option (\<lambda>r. \<lparr>tok_iat = i, tok_exp = e, tok_uid = u, tok_tid = t, tok_roles = r\<rparr>) (claim_roles (map_of c ''roles''))))))"

definition refresh_of_claims :: "claims \<Rightarrow> RefreshToken option" where
  "refresh_of_claims c = Option.bind (claim_word (map_of c ''iat'')) (\<lambda>i. Option.bind (claim_word (map_of c ''exp'')) (\<lambda>e.
     Option.bind (claim_word (map_of c ''uid'')) (\<lambda>u.
     map_option (\<lambda>r. \<lparr>rft_iat = i, rft_exp = e, rft_uid = u, rft_roles = r\<rparr>) (claim_roles (map_of c ''roles'')))))"

definition as_access :: "RefreshToken \<Rightarrow> UserRolesToken" where
  "as_access t = \<lparr>tok_iat = rft_iat t, tok_exp = rft_exp t, tok_uid = rft_uid t, tok_tid = None, tok_roles = rft_roles t\<rparr>"

definition as_refresh :: "UserRolesToken \<Rightarrow> RefreshToken" where
  "as_refresh t = \<lparr>rft_iat = tok_iat t, rft_exp = tok_exp t, rft_uid = tok_uid t, rft_roles = tok_roles t\<rparr>"

lemma claims_read [simp]:
  "token_of_claims (claims_of_token t) = Some t" "token_of_claims (claims_of_refresh r) = Some (as_access r)"
  "refresh_of_claims (claims_of_refresh r) = Some r" "refresh_of_claims (claims_of_token t) = Some (as_refresh t)"
  by (simp_all add: token_of_claims_def refresh_of_claims_def claims_of_token_def claims_of_refresh_def claim_optional_def
      as_access_def as_refresh_def split: option.split)

section \<open>The token functions on the library\<close>

definition on_library :: "jwt_lib \<Rightarrow> aenv \<Rightarrow> aenv" where
  "on_library L A = A\<lparr>jwt_encode := (\<lambda>t. jl_encode L (claims_of_token t)),
     jwt_encode_refresh := (\<lambda>t. jl_encode L (claims_of_refresh t)),
     jwt_decode := (\<lambda>n s. case jl_decode L n s of
        Inl k \<Rightarrow> Inl k
      | Inr c \<Rightarrow> (case token_of_claims c of Some t \<Rightarrow> Inr t | None \<Rightarrow> Inl OtherJwtError))\<rparr>"

definition jwt_check_refresh_token :: "jwt_lib \<Rightarrow> nat \<Rightarrow> string \<Rightarrow> ApiError + RefreshToken" where
  "jwt_check_refresh_token L n token =
     (case jl_decode L n token of
        Inl k \<Rightarrow> Inl (JwtE (if k = ExpiredSignature then JwtExpired else JwtInvalid))
      | Inr c \<Rightarrow> (case refresh_of_claims c of Some t \<Rightarrow> Inr t | None \<Rightarrow> Inl (JwtE JwtInvalid)))"

definition refresh_is_expired :: "i64 \<Rightarrow> RefreshToken \<Rightarrow> bool" where
  "refresh_is_expired now t = (sint (rft_exp t) \<le> sint now)"

definition refresh_is_claimed_user :: "i32 \<Rightarrow> RefreshToken \<Rightarrow> bool" where
  "refresh_is_claimed_user u t = (rft_uid t = u)"

definition refresh_is_master :: "RefreshToken \<Rightarrow> bool" where
  "refresh_is_master t = (rft_roles t = MasterToken)"

definition refresh_has_role :: "ApiRole \<Rightarrow> RefreshToken \<Rightarrow> bool" where
  "refresh_has_role r t = (case rft_roles t of ApiToken roles \<Rightarrow> r \<in> roles | MasterToken \<Rightarrow> True)"

definition refresh_has_roles :: "ApiRole set \<Rightarrow> RefreshToken \<Rightarrow> bool" where
  "refresh_has_roles rs t = (case rft_roles t of ApiToken roles \<Rightarrow> rs \<subseteq> roles | MasterToken \<Rightarrow> True)"

text \<open>The names of the roles, in the order in which the hash set is iterated.\<close>

definition token_roles_to_string :: "(ApiRole set \<Rightarrow> ApiRole list) \<Rightarrow> UserRolesToken \<Rightarrow> string list" where
  "token_roles_to_string iter t =
     (case tok_roles t of ApiToken roles \<Rightarrow> map api_role_to_string (iter roles) | MasterToken \<Rightarrow> [''Master''])"

definition refresh_roles_to_string :: "(ApiRole set \<Rightarrow> ApiRole list) \<Rightarrow> RefreshToken \<Rightarrow> string list" where
  "refresh_roles_to_string iter t =
     (case rft_roles t of ApiToken roles \<Rightarrow> map api_role_to_string (iter roles) | MasterToken \<Rightarrow> [''Master''])"

definition auth_roles_to_string :: "(ApiRole set \<Rightarrow> ApiRole list) \<Rightarrow> AuthData \<Rightarrow> string list" where
  "auth_roles_to_string iter a =
     (case auth_user_roles a of
        None \<Rightarrow> []
      | Some (ApiToken roles) \<Rightarrow> map api_role_to_string (iter roles)
      | Some MasterToken \<Rightarrow> [''Master''])"

lemma role_read: "api_role_try_from (api_role_to_string r) = Inr r"
  by (cases r) (simp_all add: api_role_try_from_def)

lemma roles_listed:
  assumes "tok_roles t = ApiToken rs" "set (iter rs) = rs"
  shows "api_role_try_from ` set (token_roles_to_string iter t) = Inr ` rs"
  using assms by (simp add: token_roles_to_string_def image_image role_read)

text \<open>An authenticated request has the roles of its token; with \<open>Trade\<close> it may also read.\<close>

lemma auth_role:
  assumes "auth_from_request A n (Some (Some k)) = Inr a" "jwt_check A n k = Inr t"
  shows "auth_has_role r a \<longleftrightarrow> token_has_role r t \<or> r = ViewOnly \<and> token_has_role Trade t"
  using assms by (auto simp: auth_from_request_def auth_has_role_def token_has_role_def split: UserRoles.split)

section \<open>Which token is which\<close>

text \<open>What the crate promises: an object that it has signed is returned until the time in its field \<open>exp\<close>.\<close>

locale jwt_library =
  fixes L :: jwt_lib and seconds :: "nat \<Rightarrow> i64"
  assumes accepts: "jl_encode L c = Some s \<Longrightarrow> map_of c ''exp'' = Some (CInt e) \<Longrightarrow> sint (seconds n) < e \<Longrightarrow> jl_decode L n s = Inr c"
begin

lemma token_opened:
  "jl_encode L (claims_of_token t) = Some s \<Longrightarrow> sint (seconds n) < sint (tok_exp t) \<Longrightarrow> jl_decode L n s = Inr (claims_of_token t)"
  by (erule accepts) (simp_all add: claims_of_token_def)

lemma refresh_opened:
  "jl_encode L (claims_of_refresh t) = Some s \<Longrightarrow> sint (seconds n) < sint (rft_exp t) \<Longrightarrow> jl_decode L n s = Inr (claims_of_refresh t)"
  by (erule accepts) (simp_all add: claims_of_refresh_def)

lemma refresh_recognised:
  assumes "jwt_generate_refresh_token (on_library L A) k uid roles live = Inr s" "a_seconds A = seconds"
    and "sint (seconds n) < sint (seconds k + live)"
  shows "auth_from_request (on_library L A) n (Some (Some s)) = Inr \<lparr>auth_uid = uid, auth_expiry = Some (seconds k + live),
    auth_user_roles = Some roles, auth_type = Jwt, auth_tid = None\<rparr>"
proof -
  have "jl_encode L (claims_of_refresh \<lparr>rft_iat = seconds k, rft_exp = seconds k + live, rft_uid = uid, rft_roles = roles\<rparr>) = Some s"
    using assms(1,2) by (simp add: jwt_generate_refresh_token_def on_library_def Let_def split: option.split_asm)
  from refresh_opened [OF this, of n] assms(3) show ?thesis
    by (simp add: auth_from_request_def jwt_check_def on_library_def as_access_def)
qed

lemma library_api_ok:
  assumes "\<And>x. a_b64_decode A (a_b64_encode A x) = Some x" "a_seconds A = seconds"
  shows "api_ok (on_library L A)"
  using assms token_opened by unfold_locales (simp_all add: on_library_def)

end

text \<open>
  C28. Refresh tokens are access tokens. The two kinds are signed with the same key and carry nothing
  that tells them apart: the refresh token that a login hands out is accepted, until it expires, by
  every route as an access token of that user with all rights; and the access token passes the check of
  refresh tokens.
\<close>

theorem refresh_is_access:
  assumes "jwt_library L (a_seconds A)" "auth (on_library L A) name password s = Inr (token, refresh)"
    and "sint (a_seconds A m) < sint (a_seconds A (a_tick s + 3) + 1000000)"
    and "sint (a_seconds A m) < sint (a_seconds A (a_tick s + 2) + 10000000)"
  shows "\<exists>user a r. user_get_by_username name (a_db s) = Some user \<and>
    auth_from_request (on_library L A) m (Some (Some refresh)) = Inr a \<and> auth_uid a = usr_uid user \<and> auth_is_master a \<and>
    jwt_check_refresh_token L m token = Inr r \<and> rft_uid r = usr_uid user \<and> refresh_is_master r"
proof -
  let ?A = "on_library L A"
  have clock: "a_seconds ?A = a_seconds A" by (simp add: on_library_def)
  obtain user where user: "user_get_by_username name (a_db s) = Some user"
    "jwt_generate ?A (a_tick s + 2) (usr_uid user) None MasterToken 10000000 = Inr token"
    "jwt_generate_refresh_token ?A (a_tick s + 3) (usr_uid user) MasterToken 1000000 = Inr refresh"
    using assms(2) by (auto simp: auth_def Let_def split: if_split_asm option.split_asm sum.split_asm)
  let ?t = "\<lparr>tok_iat = a_seconds A (a_tick s + 2), tok_exp = a_seconds A (a_tick s + 2) + 10000000, tok_uid = usr_uid user,
    tok_tid = None, tok_roles = MasterToken\<rparr>"
  have "jl_encode L (claims_of_token ?t) = Some token"
    using user(2) by (simp add: jwt_generate_def on_library_def Let_def split: option.split_asm)
  from jwt_library.token_opened [OF assms(1) this, of m] assms(4)
  have "jwt_check_refresh_token L m token = Inr (as_refresh ?t)" by (simp add: jwt_check_refresh_token_def)
  with jwt_library.refresh_recognised [OF assms(1) user(3) refl assms(3)] user(1) show ?thesis
    by (simp add: auth_is_master_def refresh_is_master_def as_refresh_def)
qed

section \<open>A concrete library\<close>

text \<open>Tokens of the master role; the first letter tells which fields there are.\<close>

definition lib_encode :: "claims \<Rightarrow> string option" where
  "lib_encode c =
     (case token_of_claims c of
        None \<Rightarrow> None
      | Some t \<Rightarrow>
          if c = claims_of_token t then map_option (\<lambda>s. CHR ''A'' # s) (token_string t)
          else if c = claims_of_refresh (as_refresh t) then map_option (\<lambda>s. CHR ''R'' # s) (token_string t)
          else None)"

definition lib_decode :: "nat \<Rightarrow> string \<Rightarrow> JwtErrorKind + claims" where
  "lib_decode n s =
     (case s of
        [] \<Rightarrow> Inl OtherJwtError
      | c # cs \<Rightarrow> if c = CHR ''A'' then Inr (claims_of_token (string_token cs))
                 else Inr (claims_of_refresh (as_refresh (string_token cs))))"

definition lib96 :: jwt_lib where
  "lib96 = \<lparr>jl_encode = lib_encode, jl_decode = lib_decode\<rparr>"

interpretation lib96: jwt_library lib96 "a_seconds aenv96"
  by unfold_locales
    (auto simp: lib96_def lib_encode_def lib_decode_def string_token split: option.split_asm if_split_asm)

lemma lib_encodes:
  assumes "tok_roles t = MasterToken" "tok_tid t = None"
  shows "\<exists>s. lib_encode (claims_of_token t) = Some s" "\<exists>s. lib_encode (claims_of_refresh (as_refresh t)) = Some s"
  using assms by (simp_all add: lib_encode_def token_string_def as_access_def as_refresh_def)

lemma library_login:
  assumes "create aenv96 sample_settings_api sample_register sample_api = (Some (Inr ''alice''), s1)"
  shows "\<exists>token refresh. auth (on_library lib96 aenv96) ''alice'' ''pw'' s1 = Inr (token, refresh)"
proof -
  let ?A = "on_library lib96 aenv96"
  have lower: "to_lowercase ''alice'' = ''alice''" by code_simp
  have user: "user_get_by_username ''alice'' (a_db s1) = Some (new_user aenv96 ''alice'' sample_register 1)"
    using registered_user(1) [OF assms] by (simp add: sample_api_def)
  have env: "a_pool ?A n" "a_pg ?A n" "a_seconds ?A n = 0" "pw_verify ?A = pw_verify aenv96"
    "jwt_encode ?A t = lib_encode (claims_of_token t)" "jwt_encode_refresh ?A r = lib_encode (claims_of_refresh r)" for n t r
    by (simp_all add: on_library_def aenv96_def lib96_def pw_verify_def fun_eq_iff)
  obtain token where "jwt_generate ?A (a_tick s1 + 2) 1 None MasterToken 10000000 = Inr token"
    using lib_encodes(1) [of "\<lparr>tok_iat = 0, tok_exp = 10000000, tok_uid = 1, tok_tid = None, tok_roles = MasterToken\<rparr>"]
    by (auto simp: jwt_generate_def env Let_def)
  moreover obtain refresh where "jwt_generate_refresh_token ?A (a_tick s1 + 3) 1 MasterToken 1000000 = Inr refresh"
    using lib_encodes(2) [of "\<lparr>tok_iat = 0, tok_exp = 1000000, tok_uid = 1, tok_tid = None, tok_roles = MasterToken\<rparr>"]
    by (auto simp: jwt_generate_refresh_token_def env Let_def as_refresh_def)
  ultimately show ?thesis
    using user lower aenv96.verify_hash [of "''alice''" "''pw''"]
    by (simp add: auth_def env new_user_def sample_register_def)
qed

theorem refresh_is_access_witness:
  "\<exists>s1 token refresh a. create aenv96 sample_settings_api sample_register sample_api = (Some (Inr ''alice''), s1) \<and>
     auth (on_library lib96 aenv96) ''alice'' ''pw'' s1 = Inr (token, refresh) \<and>
     auth_from_request (on_library lib96 aenv96) 9 (Some (Some refresh)) = Inr a \<and> auth_is_master a"
proof -
  obtain s1 where s1: "create aenv96 sample_settings_api sample_register sample_api = (Some (Inr ''alice''), s1)"
    using sample_create by blast
  obtain token refresh where login: "auth (on_library lib96 aenv96) ''alice'' ''pw'' s1 = Inr (token, refresh)"
    using library_login [OF s1] by blast
  have "sint (a_seconds aenv96 9) < sint (a_seconds aenv96 (a_tick s1 + 3) + 1000000)"
    "sint (a_seconds aenv96 9) < sint (a_seconds aenv96 (a_tick s1 + 2) + 10000000)" by (simp_all add: aenv96_def)
  from refresh_is_access [OF lib96.jwt_library_axioms login this] s1 login show ?thesis by blast
qed

end
