(* ===== verification/ApiPrices.thy ===== *)
theory ApiPrices
  imports ApiAuth Machine
begin

text \<open>
  The route \<open>/get_spot_prices\<close> (\<open>api/src/routes/external.rs\<close>) and its cache (\<open>PriceCache\<close>
  in \<open>api/src/lib.rs\<close>): prices of a public exchange are fetched when the cache is older than ten
  minutes. The cache is shared by all workers of the server behind a lock that a request holds only
  while it reads or writes, so requests are modelled section by section and interleaved. Times are
  milliseconds of the monotonic clock; what the exchange answers and the parsing of its JSON are
  parameters.
\<close>

section \<open>The route\<close>

record FtxSpotPrice =
  fsp_symbol :: string
  fsp_price :: "rat option"
  fsp_change_24h :: "rat option"

record PriceCache =
  pc_spot_prices :: "FtxSpotPrice list"
  pc_last_updated :: "nat option"

definition price_cache_default :: PriceCache where
  "price_cache_default = \<lparr>pc_spot_prices = [], pc_last_updated = None\<rparr>"

definition available_pairs :: "string list" where
  "available_pairs = [''BTCUSDT'', ''BTCEUR'', ''EURUSDT'']"

definition cache_expired :: "nat \<Rightarrow> nat option \<Rightarrow> bool" where
  "cache_expired now last_updated = (case last_updated of None \<Rightarrow> True | Some t \<Rightarrow> 600 < (now - t) div 1000)"

text \<open>\<open>symbol[..6]\<close> of every price; \<open>None\<close> is the panic of a slice.\<close>

fun cut_symbols :: "FtxSpotPrice list \<Rightarrow> FtxSpotPrice list option" where
  "cut_symbols [] = Some []"
| "cut_symbols (p # ps) = Option.bind (slice 0 6 (fsp_symbol p)) (\<lambda>x. map_option (Cons (p\<lparr>fsp_symbol := x\<rparr>)) (cut_symbols ps))"

definition spot_response :: "FtxSpotPrice list \<Rightarrow> FtxSpotPrice list option" where
  "spot_response ps = cut_symbols (filter (\<lambda>p. list_ex (\<lambda>x. x = fsp_symbol p) available_pairs) ps)"

text \<open>
  Where a request is between two accesses of the cache. The times are there for the properties only:
  in \<open>AgeRead\<close> when the age of the cache was read, in the others when it was judged.
\<close>

datatype spot_request =
    SpotArrived
  | AgeRead nat "nat option"
  | ReadPrices nat
  | Fetching nat
  | StorePrices nat "FtxSpotPrice list"
  | SpotAnswered nat "ApiError + FtxSpotPrice list"
  | SpotPanicked

definition spot_reply :: "nat \<Rightarrow> FtxSpotPrice list \<Rightarrow> spot_request" where
  "spot_reply t ps = (case spot_response ps of None \<Rightarrow> SpotPanicked | Some qs \<Rightarrow> SpotAnswered t (Inr qs))"

text \<open>
  The sections of the handler: the first read lock, the test of the age, the second read lock or the
  call to the exchange with its answer \<open>body\<close>, and the write lock. Nothing of the cache is locked
  between two sections.
\<close>

fun get_spot_prices ::
  "(string \<Rightarrow> FtxSpotPrice list option) \<Rightarrow> nat \<Rightarrow> string option \<Rightarrow> spot_request \<Rightarrow> PriceCache \<Rightarrow> spot_request \<times> PriceCache" where
  "get_spot_prices parse now body SpotArrived c = (AgeRead now (pc_last_updated c), c)"
| "get_spot_prices parse now body (AgeRead t0 last_updated) c =
     (if cache_expired now last_updated then Fetching now else ReadPrices now, c)"
| "get_spot_prices parse now body (ReadPrices t) c = (spot_reply t (pc_spot_prices c), c)"
| "get_spot_prices parse now body (Fetching t) c =
     (case Option.bind body parse of
        None \<Rightarrow> SpotAnswered t (Inl (ExternalE FailedToFetchExternalData))
      | Some ps \<Rightarrow> StorePrices t ps, c)"
| "get_spot_prices parse now body (StorePrices t ps) c =
     (spot_reply t ps, c\<lparr>pc_last_updated := Some now, pc_spot_prices := ps\<rparr>)"
| "get_spot_prices parse now body (SpotAnswered t r) c = (SpotAnswered t r, c)"
| "get_spot_prices parse now body SpotPanicked c = (SpotPanicked, c)"

section \<open>What is shown\<close>

definition shown :: "FtxSpotPrice list \<Rightarrow> FtxSpotPrice list" where
  "shown ps = map (\<lambda>p. p\<lparr>fsp_symbol := take 6 (fsp_symbol p)\<rparr>) (filter (\<lambda>p. fsp_symbol p \<in> set available_pairs) ps)"

lemma pair_sliced: "x \<in> set available_pairs \<Longrightarrow> slice 0 6 x = Some (take 6 x)"
  by (auto simp: available_pairs_def slice_def char_boundary_def of_char_def)

lemma spot_response_eq: "spot_response ps = Some (shown ps)"
proof -
  have "list_ex (\<lambda>x. x = y) available_pairs \<longleftrightarrow> y \<in> set available_pairs" for y by (auto simp: list_ex_iff)
  then show ?thesis by (induction ps) (auto simp: spot_response_def shown_def pair_sliced)
qed

lemma shown_symbols: "fsp_symbol ` set (shown ps) \<subseteq> {''BTCUSD'', ''BTCEUR'', ''EURUSD''}"
  by (auto simp: shown_def available_pairs_def)

lemma spot_reply_eq [simp]: "spot_reply t ps = SpotAnswered t (Inr (shown ps))"
  by (simp add: spot_reply_def spot_response_eq)

section \<open>Runs\<close>

text \<open>
  Any number of requests, interleaved section by section, with the clock, the prices that were stored
  and when, and the calls to the exchange: for each the time at which the request had read the age of
  the cache and the time at which it turned to the exchange, whatever came of it.
\<close>

record spot_state =
  sp_cache :: PriceCache
  sp_clock :: nat
  sp_requests :: "spot_request list"
  sp_stored :: "(nat \<times> FtxSpotPrice list) list"
  sp_fetches :: "(nat \<times> nat) list"

definition spot_new :: spot_state where
  "spot_new = \<lparr>sp_cache = price_cache_default, sp_clock = 0, sp_requests = [], sp_stored = [], sp_fetches = []\<rparr>"

fun prices_stored :: "nat \<Rightarrow> spot_request \<Rightarrow> (nat \<times> FtxSpotPrice list) list" where
  "prices_stored now (StorePrices t ps) = [(now, ps)]"
| "prices_stored now r = []"

fun fetch_begun :: "spot_request \<Rightarrow> spot_request \<Rightarrow> (nat \<times> nat) list" where
  "fetch_begun (AgeRead t0 l) (Fetching t) = [(t0, t)]"
| "fetch_begun r r' = []"

datatype spot_event = SpotArrives nat | SpotSection nat nat "string option" \<comment> \<open>index of the request, time, answer of the exchange\<close>

inductive spot_step :: "(string \<Rightarrow> FtxSpotPrice list option) \<Rightarrow> spot_state \<Rightarrow> spot_event \<Rightarrow> spot_state \<Rightarrow> bool"
  for parse where
  spot_arrives: "sp_clock s \<le> now \<Longrightarrow>
    spot_step parse s (SpotArrives now) (s\<lparr>sp_clock := now, sp_requests := sp_requests s @ [SpotArrived]\<rparr>)"
| spot_section: "sp_clock s \<le> now \<Longrightarrow> i < length (sp_requests s) \<Longrightarrow> sp_requests s ! i = r \<Longrightarrow>
    get_spot_prices parse now body r (sp_cache s) = (r', c) \<Longrightarrow>
    spot_step parse s (SpotSection i now body) \<lparr>sp_cache = c, sp_clock = now, sp_requests = (sp_requests s)[i := r'],
      sp_stored = sp_stored s @ prices_stored now r, sp_fetches = sp_fetches s @ fetch_begun r r'\<rparr>"

inductive_cases spot_stepE: "spot_step parse s e s'"

text \<open>
  What a request knows while others proceed: the cache never becomes older than what it has read, and
  prices that it holds or has answered are fresh.
\<close>

definition cached_after :: "nat \<Rightarrow> PriceCache \<Rightarrow> bool" where
  "cached_after t c \<longleftrightarrow> (\<exists>t'. pc_last_updated c = Some t' \<and> t \<le> t')"

definition stored_before :: "nat \<Rightarrow> nat \<Rightarrow> (nat \<times> FtxSpotPrice list) list \<Rightarrow> bool" where
  "stored_before t0 t stored \<longleftrightarrow> (\<forall>(t', ps) \<in> set stored. t' < t0 \<longrightarrow> t' \<le> t)"

definition fresh :: "(nat \<times> FtxSpotPrice list) list \<Rightarrow> nat \<Rightarrow> FtxSpotPrice list \<Rightarrow> bool" where
  "fresh stored t qs \<longleftrightarrow> (\<exists>(t', ps) \<in> set stored. t < t' + 601000 \<and> qs = shown ps)"

definition spot_known :: "PriceCache \<Rightarrow> nat \<Rightarrow> (nat \<times> FtxSpotPrice list) list \<Rightarrow> spot_request \<Rightarrow> bool" where
  "spot_known c clock stored r =
     (case r of
        AgeRead t0 (Some t) \<Rightarrow> t0 \<le> clock \<and> cached_after t c \<and> stored_before t0 t stored
      | AgeRead t0 None \<Rightarrow> t0 \<le> clock \<and> (\<forall>(t', ps) \<in> set stored. t0 \<le> t')
      | ReadPrices t \<Rightarrow> (\<exists>t'. cached_after t' c \<and> t < t' + 601000)
      | StorePrices t ps \<Rightarrow> t \<le> clock
      | Fetching t \<Rightarrow> t \<le> clock
      | SpotAnswered t (Inr qs) \<Rightarrow> fresh stored t qs
      | SpotPanicked \<Rightarrow> False
      | _ \<Rightarrow> True)"

definition cache_stored :: "PriceCache \<Rightarrow> nat \<Rightarrow> (nat \<times> FtxSpotPrice list) list \<Rightarrow> bool" where
  "cache_stored c clock stored =
     (case pc_last_updated c of
        None \<Rightarrow> stored = []
      | Some t \<Rightarrow> t \<le> clock \<and> (t, pc_spot_prices c) \<in> set stored \<and> (\<forall>(t', ps) \<in> set stored. t' \<le> t))"

definition fetch_due :: "nat \<Rightarrow> (nat \<times> FtxSpotPrice list) list \<Rightarrow> nat \<times> nat \<Rightarrow> bool" where
  "fetch_due clock stored f \<longleftrightarrow> fst f \<le> clock \<and> (\<forall>(t, ps) \<in> set stored. t < fst f \<longrightarrow> t + 601000 \<le> snd f)"

definition spot_inv :: "spot_state \<Rightarrow> bool" where
  "spot_inv s \<longleftrightarrow> cache_stored (sp_cache s) (sp_clock s) (sp_stored s) \<and>
     (\<forall>r \<in> set (sp_requests s). spot_known (sp_cache s) (sp_clock s) (sp_stored s) r) \<and>
     (\<forall>f \<in> set (sp_fetches s). fetch_due (sp_clock s) (sp_stored s) f)"

lemma expired_iff: "cache_expired now l \<longleftrightarrow> (\<forall>t. l = Some t \<longrightarrow> t + 601000 \<le> now)"
  unfolding cache_expired_def by (cases l) (simp, simp, linarith)

lemmas spot_inv_defs = spot_known_def cached_after_def stored_before_def fresh_def cache_stored_def fetch_due_def

text \<open>What a request knows is stable under the sections of the others.\<close>

lemma known_tick: "clock \<le> now \<Longrightarrow> spot_known c clock stored r \<Longrightarrow> spot_known c now stored r"
  by (fastforce simp: spot_known_def split: spot_request.splits option.splits sum.splits)

lemma known_store:
  assumes "clock \<le> now" "cache_stored c clock stored" "spot_known c clock stored r"
  shows "spot_known (c\<lparr>pc_last_updated := Some now, pc_spot_prices := ps\<rparr>) now (stored @ [(now, ps)]) r"
proof -
  let ?c = "c\<lparr>pc_last_updated := Some now, pc_spot_prices := ps\<rparr>"
  have "cached_after t ?c" if "cached_after t c" for t using that assms(1,2) by (auto simp: spot_inv_defs)
  with assms show ?thesis
    by (fastforce simp: spot_known_def stored_before_def fresh_def split: spot_request.splits option.splits sum.splits)
qed

lemma cache_store:
  "clock \<le> now \<Longrightarrow> cache_stored c clock stored \<Longrightarrow>
   cache_stored (c\<lparr>pc_last_updated := Some now, pc_spot_prices := ps\<rparr>) now (stored @ [(now, ps)])"
  by (fastforce simp: cache_stored_def split: option.splits)

lemma cache_tick: "clock \<le> now \<Longrightarrow> cache_stored c clock stored \<Longrightarrow> cache_stored c now stored"
  by (fastforce simp: cache_stored_def split: option.splits)

lemma due_tick: "clock \<le> now \<Longrightarrow> fetch_due clock stored f \<Longrightarrow> fetch_due now stored f"
  by (auto simp: fetch_due_def)

lemma due_store: "clock \<le> now \<Longrightarrow> fetch_due clock stored f \<Longrightarrow> fetch_due now (stored @ [(now, ps)]) f"
  by (auto simp: fetch_due_def)

lemma set_update_cases: "x \<in> set (xs[i := y]) \<Longrightarrow> x = y \<or> x \<in> set xs"
  using set_update_subset_insert by fastforce

text \<open>A section that stores nothing, and the one that does.\<close>

lemma section_reads:
  assumes "get_spot_prices parse now body r c = (r', c')" "prices_stored now r = []"
    and "cache_stored c clock stored" "clock \<le> now" "spot_known c clock stored r"
  shows "c' = c" "spot_known c now stored r'" "\<forall>f \<in> set (fetch_begun r r'). fetch_due now stored f"
proof -
  have "c' = c \<and> spot_known c now stored r' \<and> (\<forall>f \<in> set (fetch_begun r r'). fetch_due now stored f)"
  proof (cases r)
    case SpotArrived
    with assms show ?thesis by (fastforce simp: spot_inv_defs split: option.splits)
  next
    case (AgeRead t0 l)
    with assms show ?thesis
      by (cases l) (fastforce simp: spot_inv_defs expired_iff split: if_splits)+
  next
    case (ReadPrices t)
    then obtain t' where t': "pc_last_updated c = Some t'" "t < t' + 601000"
      using assms(5) by (fastforce simp: spot_known_def cached_after_def)
    then have "fresh stored t (shown (pc_spot_prices c))" using assms(3) by (fastforce simp: cache_stored_def fresh_def)
    with ReadPrices assms(1) show ?thesis by (auto simp: spot_known_def)
  next
    case (Fetching t)
    with assms show ?thesis by (auto simp: spot_known_def split: option.splits)
  qed (use assms in \<open>auto simp: spot_known_def split: sum.splits\<close>)
  then show "c' = c" "spot_known c now stored r'" "\<forall>f \<in> set (fetch_begun r r'). fetch_due now stored f" by simp_all
qed

lemma spot_inv_section:
  assumes inv: "spot_inv s" and now: "sp_clock s \<le> now" and i: "i < length (sp_requests s)" "sp_requests s ! i = r"
    and g: "get_spot_prices parse now body r (sp_cache s) = (r', c)"
  shows "spot_inv \<lparr>sp_cache = c, sp_clock = now, sp_requests = (sp_requests s)[i := r'],
      sp_stored = sp_stored s @ prices_stored now r, sp_fetches = sp_fetches s @ fetch_begun r r'\<rparr>"
proof -
  have r: "spot_known (sp_cache s) (sp_clock s) (sp_stored s) r" using inv i by (auto simp: spot_inv_def)
  show ?thesis
  proof (cases "prices_stored now r = []")
    case True
    with inv section_reads [OF g True _ now r] now show ?thesis
      by (auto simp: spot_inv_def dest!: set_update_cases intro: known_tick cache_tick due_tick)
  next
    case False
    then obtain t ps where r': "r = StorePrices t ps" by (cases r) auto
    have "spot_known c now (sp_stored s @ [(now, ps)]) r'"
      using g r now by (fastforce simp: r' spot_inv_defs)
    with inv g now show ?thesis
      by (auto simp: r' spot_inv_def dest!: set_update_cases intro: known_store cache_store due_store)
  qed
qed

lemma spot_inv_step: "spot_inv s \<Longrightarrow> spot_step parse s e s' \<Longrightarrow> spot_inv s'"
proof (elim spot_stepE)
  fix now
  assume "spot_inv s" "sp_clock s \<le> now" "s' = s\<lparr>sp_clock := now, sp_requests := sp_requests s @ [SpotArrived]\<rparr>"
  then show "spot_inv s'" by (auto simp: spot_inv_def spot_known_def [of _ _ _ SpotArrived] intro: known_tick cache_tick due_tick)
qed (simp add: spot_inv_section)

interpretation spot: invariant "spot_step parse" spot_inv for parse
  by unfold_locales (rule spot_inv_step)

lemma spot_new_inv: "spot_inv spot_new"
  by (simp add: spot_inv_def spot_new_def cache_stored_def price_cache_default_def)

text \<open>
  C30. The prices shown are fresh, the exchange is spared and no request panics. In every run of any
  number of requests for spot prices, interleaved between the locks of the cache: each list of prices
  that a request answered consists of the supported pairs, under their six letter symbols, among prices
  that were stored less than 601 seconds before that request judged the age of the cache, or later; a
  request turns to the exchange only when every list of prices that had been stored before it read the
  age of the cache was at least 601 seconds old; and no request has panicked.
\<close>

theorem spot_prices_fresh:
  assumes "run (spot_step parse) spot_new es s"
  shows "(\<forall>t qs. SpotAnswered t (Inr qs) \<in> set (sp_requests s) \<longrightarrow>
      (\<exists>(t', ps) \<in> set (sp_stored s). t < t' + 601000 \<and> qs = shown ps)) \<and>
    (\<forall>(read, begun) \<in> set (sp_fetches s). \<forall>(t, ps) \<in> set (sp_stored s). t < read \<longrightarrow> t + 601000 \<le> begun) \<and>
    SpotPanicked \<notin> set (sp_requests s)"
proof -
  have inv: "spot_inv s" by (rule spot.run_inv [OF assms spot_new_inv])
  then have known: "spot_known (sp_cache s) (sp_clock s) (sp_stored s) r" if "r \<in> set (sp_requests s)" for r
    using that by (simp add: spot_inv_def)
  have "\<exists>(t', ps) \<in> set (sp_stored s). t < t' + 601000 \<and> qs = shown ps" if "SpotAnswered t (Inr qs) \<in> set (sp_requests s)" for t qs
    using known [OF that] by (simp add: spot_known_def fresh_def)
  moreover have "SpotPanicked \<notin> set (sp_requests s)" using known by (fastforce simp: spot_known_def)
  moreover have "t + 601000 \<le> begun" if "(read, begun) \<in> set (sp_fetches s)" "(t, ps) \<in> set (sp_stored s)" "t < read"
    for read begun t ps using inv that by (fastforce simp: spot_inv_def fetch_due_def)
  ultimately show ?thesis by blast
qed

definition sample_prices :: "FtxSpotPrice list" where
  "sample_prices = [\<lparr>fsp_symbol = ''BTCUSDT'', fsp_price = Some 20000, fsp_change_24h = None\<rparr>,
     \<lparr>fsp_symbol = ''ETHBTC'', fsp_price = Some (1 / 16), fsp_change_24h = None\<rparr>]"

text \<open>
  Two requests that both find the cache empty and both turn to the exchange; a third is served from
  the cache.
\<close>

definition sample_spot_events :: "spot_event list" where
  "sample_spot_events = [SpotArrives 1, SpotArrives 1, SpotSection 0 2 None, SpotSection 1 2 None, SpotSection 0 3 None,
     SpotSection 1 3 None, SpotSection 1 4 None, SpotSection 0 5 (Some []), SpotSection 0 7 None, SpotArrives 600000,
     SpotSection 2 600000 None, SpotSection 2 601006 None, SpotSection 2 700000 None]"

fun spot_run :: "(string \<Rightarrow> FtxSpotPrice list option) \<Rightarrow> spot_state \<Rightarrow> spot_event list \<Rightarrow> spot_state option" where
  "spot_run parse s [] = Some s"
| "spot_run parse s (SpotArrives now # es) =
     (if sp_clock s \<le> now then spot_run parse (s\<lparr>sp_clock := now, sp_requests := sp_requests s @ [SpotArrived]\<rparr>) es else None)"
| "spot_run parse s (SpotSection i now body # es) =
     (if sp_clock s \<le> now \<and> i < length (sp_requests s) then
        (case get_spot_prices parse now body (sp_requests s ! i) (sp_cache s) of (r', c) \<Rightarrow>
          spot_run parse \<lparr>sp_cache = c, sp_clock = now, sp_requests = (sp_requests s)[i := r'],
            sp_stored = sp_stored s @ prices_stored now (sp_requests s ! i),
            sp_fetches = sp_fetches s @ fetch_begun (sp_requests s ! i) r'\<rparr> es)
      else None)"

lemma spot_run_run: "spot_run parse s es = Some t \<Longrightarrow> run (spot_step parse) s es t"
  by (induction parse s es rule: spot_run.induct)
    (auto intro: run.intros spot_step.intros split: if_splits prod.splits)

theorem spot_prices_fresh_witness:
  "\<exists>s. run (spot_step (\<lambda>_. Some sample_prices)) spot_new sample_spot_events s \<and>
     sp_fetches s = [(2, 3), (2, 3)] \<and> sp_stored s = [(7, sample_prices)] \<and>
     (\<exists>t. sp_requests s ! 2 = SpotAnswered t (Inr [\<lparr>fsp_symbol = ''BTCUSD'', fsp_price = Some 20000, fsp_change_24h = None\<rparr>]) \<and>
        t < 7 + 601000)"
proof -
  let ?qs = "shown sample_prices"
  let ?s = "\<lparr>sp_cache = \<lparr>pc_spot_prices = sample_prices, pc_last_updated = Some 7\<rparr>, sp_clock = 700000,
    sp_requests = [SpotAnswered 3 (Inr ?qs), SpotAnswered 3 (Inl (ExternalE FailedToFetchExternalData)), SpotAnswered 601006 (Inr ?qs)],
    sp_stored = [(7, sample_prices)], sp_fetches = [(2, 3), (2, 3)]\<rparr>"
  have "spot_run (\<lambda>_. Some sample_prices) spot_new sample_spot_events = Some ?s"
    by (simp add: sample_spot_events_def spot_new_def price_cache_default_def cache_expired_def)
  then have r: "run (spot_step (\<lambda>_. Some sample_prices)) spot_new sample_spot_events ?s" by (rule spot_run_run)
  from spot_prices_fresh [OF r] have "601006 < 7 + (601000 :: nat)" by auto
  with r show ?thesis by (intro exI [of _ ?s]) (simp add: shown_def sample_prices_def available_pairs_def)
qed

text \<open>
  Nothing keeps requests that meet an expired cache from asking the exchange all at once: any number of
  them do, when they read the age before the first has stored its prices.
\<close>

lemma spot_arrivals:
  "\<exists>es. run (spot_step parse) s es (s\<lparr>sp_requests := sp_requests s @ replicate n SpotArrived\<rparr>)"
proof (induction n arbitrary: s)
  case 0
  show ?case using run_Nil by force
next
  case (Suc n)
  let ?t = "s\<lparr>sp_requests := sp_requests s @ [SpotArrived]\<rparr>"
  have "spot_step parse s (SpotArrives (sp_clock s)) ?t" using spot_arrives [of s "sp_clock s" parse] by simp
  moreover obtain es where "run (spot_step parse) ?t es (?t\<lparr>sp_requests := sp_requests ?t @ replicate n SpotArrived\<rparr>)"
    using Suc.IH by blast
  ultimately show ?case by (auto intro!: exI run_Cons)
qed

lemma spot_sections:
  assumes "get_spot_prices parse (sp_clock s) None r (sp_cache s) = (r', sp_cache s)" "prices_stored (sp_clock s) r = []"
  shows "\<exists>es. run (spot_step parse) (s\<lparr>sp_requests := rs @ replicate n r\<rparr>) es
    (s\<lparr>sp_requests := rs @ replicate n r', sp_fetches := sp_fetches s @ concat (replicate n (fetch_begun r r'))\<rparr>)"
  using assms
proof (induction n arbitrary: s rs)
  case 0
  show ?case using run_Nil by force
next
  case (Suc n)
  let ?t = "s\<lparr>sp_fetches := sp_fetches s @ fetch_begun r r'\<rparr>"
  have "spot_step parse (s\<lparr>sp_requests := rs @ replicate (Suc n) r\<rparr>) (SpotSection (length rs) (sp_clock s) None)
      (?t\<lparr>sp_requests := (rs @ [r']) @ replicate n r\<rparr>)"
    using spot_section [of "s\<lparr>sp_requests := rs @ replicate (Suc n) r\<rparr>" "sp_clock s" "length rs" r parse None r' "sp_cache s"]
      Suc.prems by (cases s) simp
  moreover obtain es where "run (spot_step parse) (?t\<lparr>sp_requests := (rs @ [r']) @ replicate n r\<rparr>) es
      (?t\<lparr>sp_requests := (rs @ [r']) @ replicate n r', sp_fetches := sp_fetches ?t @ concat (replicate n (fetch_begun r r'))\<rparr>)"
    using Suc.IH [of ?t "rs @ [r']"] Suc.prems by auto
  ultimately show ?case by (auto intro!: exI run_Cons)
qed

lemma spot_stampede:
  assumes "cache_expired (sp_clock s) (pc_last_updated (sp_cache s))"
  shows "\<exists>es t. run (spot_step parse) s es t \<and> sp_fetches t = sp_fetches s @ replicate n (sp_clock s, sp_clock s)"
proof -
  let ?read = "AgeRead (sp_clock s) (pc_last_updated (sp_cache s))" and ?rs = "sp_requests s"
  obtain es where "run (spot_step parse) s es (s\<lparr>sp_requests := ?rs @ replicate n SpotArrived\<rparr>)"
    using spot_arrivals by blast
  moreover obtain fs where "run (spot_step parse) (s\<lparr>sp_requests := ?rs @ replicate n SpotArrived\<rparr>) fs (s\<lparr>sp_requests := ?rs @ replicate n ?read\<rparr>)"
    using spot_sections [of parse s SpotArrived ?read ?rs n] by auto
  moreover obtain gs where "run (spot_step parse) (s\<lparr>sp_requests := ?rs @ replicate n ?read\<rparr>) gs (s\<lparr>sp_requests := ?rs @ replicate n (Fetching (sp_clock s)),
      sp_fetches := sp_fetches s @ concat (replicate n [(sp_clock s, sp_clock s)])\<rparr>)"
    using spot_sections [of parse s ?read "Fetching (sp_clock s)" ?rs n] assms by auto
  ultimately have "run (spot_step parse) s (es @ fs @ gs) (s\<lparr>sp_requests := ?rs @ replicate n (Fetching (sp_clock s)),
      sp_fetches := sp_fetches s @ concat (replicate n [(sp_clock s, sp_clock s)])\<rparr>)" by (blast intro: run_append)
  moreover have "concat (replicate n [x]) = replicate n x" for x :: "nat \<times> nat" by (induction n) auto
  ultimately show ?thesis by fastforce
qed

end
