(* ===== verification/BankDca.thy ===== *)
theory BankDca
  imports Msgs
begin

text \<open>
  The timer of savings plans (\<open>bank/src/dca.rs\<close>): every minute it looks which of the intervals
  day, week and month (of 28 days) have ended and asks the bank to rebalance. Periods are counted
  from the epoch.
\<close>

record DcaInterval =
  dci_name :: string
  dci_next_time_stamp :: u64
  dci_duration_in_millis :: u64

definition get_next_timestamp :: "u64 \<Rightarrow> u64 \<Rightarrow> u64" where
  "get_next_timestamp now millis = (now div millis + 1) * millis"

definition dca_intervals :: "u64 \<Rightarrow> DcaInterval list" where
  "dca_intervals now = map (\<lambda>(name, millis).
     \<lparr>dci_name = name, dci_next_time_stamp = get_next_timestamp now millis, dci_duration_in_millis = millis\<rparr>)
     [(''1d'', 86400000), (''1w'', 604800000), (''1m'', 2419200000)]"

text \<open>
  One pass of the loop at the time \<open>now\<close>; the timestamp of an interval that has ended is computed
  from the time \<open>now'\<close> read then.
\<close>

definition dca_poll :: "u64 \<Rightarrow> u64 \<Rightarrow> DcaInterval \<Rightarrow> Message list \<times> DcaInterval" where
  "dca_poll now now' i =
     (if dci_next_time_stamp i < now
      then ([MsgBank (DcaRebalanceMsg (dci_name i))],
        i\<lparr>dci_next_time_stamp := get_next_timestamp now' (dci_duration_in_millis i)\<rparr>)
      else ([], i))"

fun dca_pass :: "u64 \<Rightarrow> u64 \<Rightarrow> DcaInterval list \<Rightarrow> Message list \<times> DcaInterval list" where
  "dca_pass now now' [] = ([], [])"
| "dca_pass now now' (i # is) =
     (case dca_poll now now' i of (ms, i) \<Rightarrow> case dca_pass now now' is of (ms', is) \<Rightarrow> (ms @ ms', i # is))"

text \<open>A timer is set if it fires at the end of a period; \<open>unat t div unat d\<close> is the period of \<open>t\<close>.\<close>

definition timer_at :: "nat \<Rightarrow> DcaInterval \<Rightarrow> bool" where
  "timer_at p i \<longleftrightarrow> unat (dci_next_time_stamp i) = p * unat (dci_duration_in_millis i) \<and> 0 < dci_duration_in_millis i"

lemma next_timestamp:
  assumes "0 < d" "unat now < 2 ^ 62" "unat d < 2 ^ 62"
  shows "unat (get_next_timestamp now d) = (unat now div unat d + 1) * unat d"
proof -
  have "unat now div unat d * unat d \<le> unat now" by (rule div_times_less_eq_dividend)
  moreover have "(unat now div unat d + 1) * unat d = unat now div unat d * unat d + unat d" by simp
  ultimately have "(unat now div unat d + 1) * unat d < 2 ^ 62 + 2 ^ 62" using assms(2,3) by linarith
  moreover have "(2 :: nat) ^ 62 + 2 ^ 62 < 2 ^ 64" by simp
  ultimately have "(unat now div unat d + 1) * unat d < 2 ^ 64" by (rule less_trans)
  moreover have "unat now div unat d + 1 < 2 ^ 62 + 1" using assms(2) div_le_dividend [of "unat now" "unat d"] by linarith
  then have "unat now div unat d + 1 < 2 ^ 64" by simp
  ultimately show ?thesis by (simp add: get_next_timestamp_def unat_word_ariths unat_div)
qed

text \<open>
  A timer that is polled fires at most once per period: when it fires in a period, it is set to a later one.
\<close>

lemma fires_once_per_period:
  assumes "timer_at p i" "dca_poll now now' i = (ms, i')" "ms \<noteq> []" "now \<le> now'"
    and "unat now' < 2 ^ 62" "unat (dci_duration_in_millis i) < 2 ^ 62"
  shows "timer_at (unat now' div unat (dci_duration_in_millis i) + 1) i' \<and>
    p \<le> unat now div unat (dci_duration_in_millis i) \<and>
    unat now div unat (dci_duration_in_millis i) < unat now' div unat (dci_duration_in_millis i) + 1"
proof -
  let ?d = "dci_duration_in_millis i"
  have d: "0 < unat ?d" using assms(1) by (simp add: timer_at_def word_less_nat_alt)
  have fired: "dci_next_time_stamp i < now" and i': "i' = i\<lparr>dci_next_time_stamp := get_next_timestamp now' ?d\<rparr>"
    using assms(2,3) by (auto simp: dca_poll_def split: if_split_asm)
  have "p * unat ?d \<le> unat now" using fired assms(1) by (simp add: timer_at_def word_less_nat_alt)
  then have "p \<le> unat now div unat ?d" using d by (simp add: less_eq_div_iff_mult_less_eq)
  moreover have "unat now div unat ?d \<le> unat now' div unat ?d" using assms(4) by (simp add: div_le_mono word_le_nat_alt)
  moreover have "timer_at (unat now' div unat ?d + 1) i'"
    using next_timestamp [of ?d now'] assms(1,5,6) by (simp add: timer_at_def i')
  ultimately show ?thesis by simp
qed

end
