(* ===== verification/BankBalances.thy ===== *)
theory BankBalances
  imports BankDispatch
begin

text \<open>
  What the bank answers to a request for balances: the accounts of the user as they are in the ledger,
  with an account of balance zero for every available currency in which the user had none.
\<close>

text \<open>The user's accounts are the same, except for new ones that are empty.\<close>

definition only_opens :: "user_id \<Rightarrow> bank \<Rightarrow> bank \<Rightarrow> bool" where
  "only_opens u s s' \<longleftrightarrow>
     (\<forall>i a. ledger_get (PUser u) i (ledger s) = Some a \<longrightarrow> ledger_get (PUser u) i (ledger s') = Some a) \<and>
     (\<forall>i a. ledger_get (PUser u) i (ledger s') = Some a \<longrightarrow>
        ledger_get (PUser u) i (ledger s) = Some a \<or> ledger_get (PUser u) i (ledger s) = None \<and> balance a = 0)"

lemma only_opens_refl: "only_opens u s s"
  by (simp add: only_opens_def)

lemma only_opens_trans: "only_opens u s t \<Longrightarrow> only_opens u t v \<Longrightarrow> only_opens u s v"
  unfolding only_opens_def by (metis not_Some_eq)

context env_ok
begin

lemma default_only_opens:
  assumes "bank_ok E s" "default_account E (PUser u) c aty s = Some (a, s')"
  shows "only_opens u s s'"
  using default_account_get [OF assms] unfolding only_opens_def
  by (auto split: if_split_asm)

lemma ensure_accounts_opens:
  assumes "bank_ok E s" "ledger_ua (PUser u) (ledger s) \<noteq> None"
  shows "\<exists>s'. ensure_accounts E u cs s = Some s' \<and> bank_ok E s' \<and> outbox s' = outbox s \<and>
    ledger_ua (PUser u) (ledger s') \<noteq> None \<and> only_opens u s s'"
  using assms
proof (induction cs arbitrary: s)
  case (Cons c cs)
  obtain a s1 where s1: "default_account E (PUser u) c (Some Internal) s = Some (a, s1)"
    using Cons.prems(2) default_account_exists by blast
  note spec = default_account_spec [OF Cons.prems(1) s1]
  have frame: "outbox s1 = outbox s" "ledger_ua (PUser u) (ledger s1) \<noteq> None"
    using spec(7) [of "PUser u"] spec(9) Cons.prems(2) by (simp_all del: ledger_ua.simps)
  obtain s' where "ensure_accounts E u cs s1 = Some s'" "bank_ok E s'" "outbox s' = outbox s1"
    "ledger_ua (PUser u) (ledger s') \<noteq> None" "only_opens u s1 s'"
    using Cons.IH [OF keeps_ok [OF spec(1)] frame(2)] by blast
  with s1 frame(1) only_opens_trans [OF default_only_opens [OF Cons.prems(1) s1]]
  show ?case by (intro exI [of _ s']) (simp del: ledger_ua.simps)
qed (simp add: only_opens_refl)

lemma balances_answer:
  assumes "bank_ok E s" "gb_uid r \<noteq> DEALER_UID"
  shows "\<exists>s' bal. process_msg E (MsgApi (GetBalancesMsg r)) s = Some s' \<and>
    outbox s' = outbox s @ [(MsgApi (BalancesMsg bal), Api)] \<and> bal_req_id bal = gb_req_id r \<and> bal_uid bal = gb_uid r \<and>
    only_opens (gb_uid r) s s' \<and>
    (\<forall>i a. map_of (bal_accounts bal) i = Some a \<longleftrightarrow>
      ledger_get (PUser (gb_uid r)) i (ledger s') = Some a \<and> acc_currency a \<noteq> KKP)"
proof -
  let ?u = "gb_uid r"
  let ?s = "ensure_user ?u s"
  have known: "ledger_ua (PUser ?u) (ledger ?s) \<noteq> None" by (simp add: ensure_user_def del: ledger_ua.simps)
  obtain s1 where s1: "ensure_accounts E ?u (available_currencies ?s) ?s = Some s1" "bank_ok E s1"
    "outbox s1 = outbox ?s" "ledger_ua (PUser ?u) (ledger s1) \<noteq> None" "only_opens ?u ?s s1"
    using ensure_accounts_opens [OF keeps_ok [OF ensure_user_keeps [OF assms(1)]] known] by blast
  obtain ua where ua: "ledger_ua (PUser ?u) (ledger s1) = Some ua" using s1(4) by blast
  from s1(2) have "accs_ok E (tick s1) (accounts ua)" unfolding bank_ok_def ledger_ok_def using ua by blast
  then have visible: "map_of (filter (\<lambda>(i, a). acc_currency a \<noteq> KKP) (accounts ua)) i = Some a \<longleftrightarrow>
      ledger_get (PUser ?u) i (ledger s1) = Some a \<and> acc_currency a \<noteq> KKP" for i a
    using ua by (simp add: ledger_get_def accs_ok_def distinct_keys_def distinct_map_filter del: ledger_ua.simps)
  have "only_opens ?u s ?s" by (simp add: only_opens_def ensure_user_def)
  from only_opens_trans [OF this s1(5)] have "only_opens ?u s s1" .
  moreover have "outbox ?s = outbox s" by (simp add: ensure_user_def)
  ultimately show ?thesis
    using s1(1,3) ua visible assms(2)
    by (simp add: process_get_balances_def only_opens_def del: ledger_ua.simps)
qed

end

end
