(* ===== verification/CliClient.thy ===== *)
theory CliClient
  imports BankRun
begin

text \<open>
  The operator's command line client (\<open>cli/src\<close>) and the socket between it and the bank
  (\<open>cli_listener\<close> and its uses in \<open>start\<close> of \<open>bank/src/lib.rs\<close>). The client sends one
  request and waits for the answer. On the bank's side the socket alternates strictly: it refuses to
  receive before the last request is answered and to send when there is nothing to answer.
\<close>

section \<open>The client\<close>

datatype Action =
    CreateInsuranceInvoice u64
  | GetBankState
  | MakeTxAction user_id uuid user_id uuid rat Currency
  | RefetchNostrProfiles "string option" "u64 option" "u64 option" "u64 option"

fun into_request :: "uuid \<Rightarrow> Action \<Rightarrow> Message" where
  "into_request req_id (CreateInsuranceInvoice amount) = MsgDealer (CreateInsuranceInvoiceRequestMsg
     \<lparr>cir_req_id = req_id, cir_amount = amount, cir_memo = ''ExternalDeposit''\<rparr>)"
| "into_request req_id GetBankState = MsgDealer (BankStateRequestMsg req_id)"
| "into_request req_id (MakeTxAction ou oa iu ia amount currency) = MsgCli (MakeTxMsg
     \<lparr>mk_outbound_uid = ou, mk_outbound_account_id = oa, mk_inbound_uid = iu, mk_inbound_account_id = ia,
       mk_amount = amount, mk_currency = currency\<rparr>)"
| "into_request req_id (RefetchNostrProfiles pubkey since until limit) = MsgNostr (NostrProfilesRefetchRequestMsg
     \<lparr>nprr_pubkey = pubkey, nprr_since_epoch_ms = since, nprr_until_epoch_ms = until, nprr_limit = limit\<rparr>)"

text \<open>What the client prints of an answer.\<close>

datatype printed =
    PrintInvoice CreateInvoiceResponse
  | PrintBankState BankState
  | PrintTx MakeTx string
  | PrintReceipt NostrProfilesRefetchRequest
  | PrintUnhandled Message

fun process_response :: "Message \<Rightarrow> printed" where
  "process_response (MsgDealer (CreateInvoiceResponseMsg r)) = PrintInvoice r"
| "process_response (MsgDealer (BankStateMsg s)) = PrintBankState s"
| "process_response (MsgCli (MakeTxResultMsg tx result)) = PrintTx tx result"
| "process_response (MsgNostr (NostrProfilesRefetchRequestMsg r)) = PrintReceipt r"
| "process_response m = PrintUnhandled m"

section \<open>The bank's side of the socket\<close>

text \<open>
  \<open>ol_owes\<close>: a request was received and is not answered yet. \<open>ol_replies\<close>: what was sent to
  clients.
\<close>

record operator_link =
  ol_bank :: bank
  ol_owes :: bool
  ol_replies :: "Message list"

text \<open>Sending panics when no answer is due.\<close>

fun send_reply :: "Message \<Rightarrow> operator_link \<Rightarrow> operator_link option" where
  "send_reply m s = (if ol_owes s then Some (s\<lparr>ol_owes := False, ol_replies := ol_replies s @ [m]\<rparr>) else None)"

text \<open>Messages for the nostr engine are passed on to it as well; other destinations are ignored.\<close>

definition cli_listener :: "Message \<Rightarrow> ServiceIdentity \<Rightarrow> operator_link \<Rightarrow> operator_link option" where
  "cli_listener m dest s =
     (case m of
        MsgNostr n \<Rightarrow> send_reply (MsgNostr n) (s\<lparr>ol_bank := listener (MsgNostr n) Nostr (ol_bank s)\<rparr>)
      | _ \<Rightarrow> send_reply m s)"

fun cli_listens :: "(Message \<times> ServiceIdentity) list \<Rightarrow> operator_link \<Rightarrow> operator_link option" where
  "cli_listens [] s = Some s"
| "cli_listens ((m, dest) # ms) s = Option.bind (cli_listener m dest s) (cli_listens ms)"

text \<open>
  One look at the socket: nothing has arrived (\<open>None\<close>), a frame that cannot be decoded
  (\<open>Some None\<close>), or a message. While an answer is due, receiving fails, which the loop ignores.
  The messages that \<open>process_msg\<close> emits go to \<open>cli_listener\<close> instead of the services.
\<close>

definition serve_cli :: "env \<Rightarrow> Message option option \<Rightarrow> operator_link \<Rightarrow> operator_link option" where
  "serve_cli E frame s =
     (if ol_owes s then Some s
      else (case frame of
              None \<Rightarrow> Some s
            | Some None \<Rightarrow> Some (s\<lparr>ol_owes := True\<rparr>)
            | Some (Some m) \<Rightarrow> do {
                b \<leftarrow> process_msg E m (ol_bank s);
                let sent = drop (length (outbox (ol_bank s))) (outbox b);
                cli_listens sent (s\<lparr>ol_owes := True, ol_bank := b\<lparr>outbox := outbox (ol_bank s)\<rparr>\<rparr>) }))"

section \<open>Requests and answers\<close>

text \<open>The answer that belongs to an action.\<close>

fun answers :: "uuid \<Rightarrow> Action \<Rightarrow> printed \<Rightarrow> bool" where
  "answers req_id (CreateInsuranceInvoice amount) (PrintInvoice r) \<longleftrightarrow> cis_req_id r = req_id \<and> cis_amount r = amount"
| "answers req_id GetBankState (PrintBankState s) = True"
| "answers req_id (MakeTxAction ou oa iu ia amount currency) (PrintTx tx result) \<longleftrightarrow>
     into_request req_id (MakeTxAction ou oa iu ia amount currency) = MsgCli (MakeTxMsg tx)"
| "answers req_id (RefetchNostrProfiles p since until limit) (PrintReceipt r) \<longleftrightarrow>
     into_request req_id (RefetchNostrProfiles p since until limit) = MsgNostr (NostrProfilesRefetchRequestMsg r)"
| "answers _ _ _ = False"

lemma default_account_box: "default_account E p c aty s = Some (a, s') \<Longrightarrow> outbox s' = outbox s"
  by (auto simp: default_account_def split: option.splits)

lemma store_account_box: "store_account ext ins u i a s = Some s' \<Longrightarrow> outbox s' = outbox s"
  by (auto simp: store_account_def put_account_conv insert_into_ledger_def split: if_splits option.splits)

abbreviation box_kept :: "bank \<Rightarrow> 'a \<times> bank \<Rightarrow> bool" where
  "box_kept s x \<equiv> outbox (snd x) = outbox s"

lemma lookup_account_box: "ens (box_kept s) (lookup_account E ext ins u i s)"
  unfolding lookup_account_def by (intro ens_intros) (auto dest: default_account_box)

lemma is_external_box: "ens (box_kept s) (is_external_account E u i s)"
  unfolding is_external_account_def by (intro ens_intros) (auto dest: default_account_box)

lemma book_make_tx_box: "ens (box_kept s) (book_make_tx E m oe oi ie ii a b s)"
  unfolding book_make_tx_def by (intro ens_intros) (auto dest!: make_tx_frame(3) store_account_box)

lemma locate_and_book_box: "ens (box_kept s) (locate_and_book E m oe oi ie ii s)"
  unfolding locate_and_book_def
  by (intro ens_intros) (auto dest!: ensD [OF lookup_account_box] intro: ens_mono [OF book_make_tx_box])

lemma process_make_tx_box: "ens (box_kept s) (process_make_tx E m s)"
  unfolding process_make_tx_def
  by (intro ens_intros) (auto dest!: ensD [OF is_external_box] intro: ens_mono [OF locate_and_book_box])

lemma create_invoice_request_box:
  "ens (\<lambda>s'. outbox s' = outbox s \<or> (\<exists>r. outbox s' = outbox s @ [(MsgDealer (CreateInvoiceResponseMsg r), Dealer)] \<and>
       cis_req_id r = cir_req_id req \<and> cis_amount r = cir_amount req)) (process_create_invoice_request E req u s)"
  unfolding process_create_invoice_request_def new_invoice_def
  by (intro ens_intros) (auto simp: bind_Some_conv dest!: default_account_box exec_frame get_conn_frame)

text \<open>Every request of the client makes the bank emit at most the one message that answers it.\<close>

lemma action_emits:
  assumes "process_msg E (into_request req_id a) b = Some b'"
  shows "\<exists>ms. outbox b' = outbox b @ ms \<and> length ms \<le> 1 \<and> (\<forall>(m, dest) \<in> set ms. answers req_id a (process_response m)) \<and>
    (ms = [] \<longrightarrow> (\<exists>n. a = CreateInsuranceInvoice n))"
proof (cases a)
  case (CreateInsuranceInvoice n)
  with assms have "process_create_invoice_request E \<lparr>cir_req_id = req_id, cir_amount = n, cir_memo = ''ExternalDeposit''\<rparr>
      DEALER_UID b = Some b'" by simp
  from ensD [OF create_invoice_request_box this] CreateInsuranceInvoice show ?thesis by auto
next
  case (MakeTxAction ou oa iu ia x c)
  with assms show ?thesis by (auto simp: process_cli_make_tx_def bind_Some_conv dest!: ensD [OF process_make_tx_box])
qed (use assms send_bank_state_frame in \<open>fastforce simp: listener_def\<close>)+

text \<open>
  The operator's requests and their answers fit. Unless the engine itself panics, the bank serves
  every request of the client without violating the protocol of the socket: it sends at most one
  answer, and that is one which the client recognises as belonging to its action - the transaction that
  was entered, the request that was made. Only a request for an insurance invoice may stay unanswered.
\<close>

theorem operator_answered:
  assumes "\<not> ol_owes s" "process_msg E (into_request req_id a) (ol_bank s) = Some b"
  shows "\<exists>s' rs. serve_cli E (Some (Some (into_request req_id a))) s = Some s' \<and>
    ledger (ol_bank s') = ledger b \<and> ol_replies s' = ol_replies s @ rs \<and>
    ((\<exists>m. rs = [m] \<and> answers req_id a (process_response m) \<and> \<not> ol_owes s') \<or>
     (\<exists>n. a = CreateInsuranceInvoice n \<and> rs = [] \<and> ol_owes s'))"
proof -
  obtain ms where ms: "outbox b = outbox (ol_bank s) @ ms" "length ms \<le> 1"
    "\<forall>(m, dest) \<in> set ms. answers req_id a (process_response m)" "ms = [] \<longrightarrow> (\<exists>n. a = CreateInsuranceInvoice n)"
    using action_emits [OF assms(2)] by blast
  then consider "ms = []" | m dest where "ms = [(m, dest)]" by (cases ms) auto
  then show ?thesis
  proof cases
    case (2 m dest)
    with assms ms show ?thesis by (auto simp: serve_cli_def cli_listener_def listener_def split: Message.split)
  qed (use assms ms in \<open>auto simp: serve_cli_def\<close>)
qed

section \<open>When a request stays unanswered\<close>

datatype link_event = CliFrame "Message option option" | Engine event

inductive link_step :: "env \<Rightarrow> operator_link \<Rightarrow> link_event \<Rightarrow> operator_link \<Rightarrow> bool" for E where
  link_cli: "serve_cli E frame s = Some s' \<Longrightarrow> link_step E s (CliFrame frame) s'"
| link_engine: "bank_step E (ol_bank s) e b \<Longrightarrow> link_step E s (Engine e) (s\<lparr>ol_bank := b\<rparr>)"

inductive_cases link_stepE: "link_step E s e s'"

inductive_simps link_step_cli [simp]: "link_step E s (CliFrame frame) s'"

interpretation owing: invariant "link_step E" "\<lambda>s. ol_owes s \<and> ol_replies s = rs" for E rs
  by unfold_locales (auto simp: serve_cli_def elim!: link_stepE)

lemma unanswered:
  assumes "\<not> (conn_pool (ol_bank s) \<and> pool_get E (tick (ol_bank s)))" "\<not> ol_owes s"
    and "serve_cli E (Some (Some (into_request req_id (CreateInsuranceInvoice n)))) s = Some s'"
  shows "ol_owes s'" "ol_replies s' = ol_replies s"
  using assms by (auto simp: serve_cli_def process_create_invoice_request_def get_conn_def)

text \<open>
  C34. One failure locks the operator out. If the bank gets no connection to its database while it handles
  a request for an insurance invoice, or receives a frame that it cannot decode, it answers nothing; and
  from then on, however long the event loop runs, it answers no request of any client, since the socket
  refuses to receive before the lost answer is sent.
\<close>

theorem operator_locked_out:
  assumes "\<not> ol_owes s" "run (link_step E) s (CliFrame frame # es) s'"
    and "frame = Some None \<or> frame = Some (Some (into_request req_id (CreateInsuranceInvoice n))) \<and>
      \<not> (conn_pool (ol_bank s) \<and> pool_get E (tick (ol_bank s)))"
  shows "ol_replies s' = ol_replies s \<and> (\<forall>frame'. serve_cli E frame' s' = Some s')"
proof -
  obtain s1 where s1: "serve_cli E frame s = Some s1" "run (link_step E) s1 es s'"
    using assms(2) by (auto elim: run_ConsE)
  have "ol_owes s1 \<and> ol_replies s1 = ol_replies s"
    using assms(3)
  proof
    assume "frame = Some None"
    with assms(1) s1(1) show ?thesis by (auto simp: serve_cli_def)
  next
    assume "frame = Some (Some (into_request req_id (CreateInsuranceInvoice n))) \<and>
      \<not> (conn_pool (ol_bank s) \<and> pool_get E (tick (ol_bank s)))"
    with unanswered assms(1) s1(1) show ?thesis by blast
  qed
  from owing.run_inv [OF s1(2) this] show ?thesis by (simp add: serve_cli_def)
qed

section \<open>Witnesses\<close>

definition sample_link :: operator_link where
  "sample_link = \<lparr>ol_bank = sample_bank, ol_owes = False, ol_replies = []\<rparr>"

theorem operator_answered_witness:
  "\<exists>s' m. serve_cli env96 (Some (Some (into_request 7 (MakeTxAction 1 11 2 21 (1 / 4) BTC)))) sample_link = Some s' \<and>
     ol_replies s' = [m] \<and> answers 7 (MakeTxAction 1 11 2 21 (1 / 4) BTC) (process_response m) \<and> \<not> ol_owes s'"
proof -
  have "process_msg env96 (into_request 7 (MakeTxAction 1 11 2 21 (1 / 4) BTC)) sample_bank \<noteq> None" by code_simp
  then obtain b where "process_msg env96 (into_request 7 (MakeTxAction 1 11 2 21 (1 / 4) BTC)) (ol_bank sample_link) = Some b"
    by (auto simp: sample_link_def)
  from operator_answered [OF _ this] show ?thesis by (fastforce simp: sample_link_def)
qed

definition poolless :: env where
  "poolless = env96\<lparr>pool_get := (\<lambda>_. False)\<rparr>"

theorem operator_locked_out_witness:
  "\<exists>s'. run (link_step poolless) sample_link [CliFrame (Some (Some (into_request 7 (CreateInsuranceInvoice 100)))),
       CliFrame (Some (Some (into_request 8 GetBankState)))] s' \<and> ol_replies s' = []"
proof -
  let ?s = "sample_link\<lparr>ol_owes := True, ol_bank := bump sample_bank\<rparr>"
  have "serve_cli poolless (Some (Some (into_request 7 (CreateInsuranceInvoice 100)))) sample_link = Some ?s"
    by (simp add: serve_cli_def sample_link_def process_create_invoice_request_def get_conn_def poolless_def bump_def)
  moreover have "serve_cli poolless (Some (Some (into_request 8 GetBankState))) ?s = Some ?s" by (simp add: serve_cli_def)
  ultimately have r: "run (link_step poolless) sample_link [CliFrame (Some (Some (into_request 7 (CreateInsuranceInvoice 100)))),
       CliFrame (Some (Some (into_request 8 GetBankState)))] ?s" by (auto intro!: run.intros)
  have "ol_replies ?s = ol_replies sample_link"
    using operator_locked_out [OF _ r, of 7 100] by (simp add: sample_link_def poolless_def)
  with r show ?thesis by (auto simp: sample_link_def)
qed

end
