(* ===== verification/KolliderThread.thy ===== *)
theory KolliderThread
  imports Dealer Machine
begin

text \<open>
  The socket thread of the exchange client (\<open>connect\<close> in \<open>kollider_hedging/src/lib.rs\<close>). It
  takes the requests that the operations of the client have put into its channel, writes them to
  the socket, hands the messages it reads to \<open>process_incoming_message\<close> and opens a new socket
  when the old one is broken. What the socket does in a round of the loop is the record
  \<open>socket_io\<close>. The thread and the operations of the client interleave.
\<close>

section \<open>The loop\<close>

datatype frame = NoFrame | OtherFrame | BadText | TextFrame KolliderApiResponse

record socket_io =
  can_read :: bool
  read_message :: frame \<comment> \<open>nothing to read, no text, text that is not a message, a message\<close>
  can_write :: bool
  opens :: bool \<comment> \<open>a new socket can be opened\<close>
  writes :: bool \<comment> \<open>\<open>write_message\<close> succeeds\<close>

record ws_thread =
  th_client :: client
  th_written :: nat \<comment> \<open>requests taken from the channel\<close>
  th_session :: nat \<comment> \<open>sockets opened so far\<close>
  th_wire :: "(nat \<times> Request) list" \<comment> \<open>requests written, with the socket\<close>

definition ws_new :: "string \<times> string \<times> string \<Rightarrow> client" where
  "ws_new credentials = \<lparr>ws_connected = False, ws_authenticated = False, ws_has_positions = False, ws_positions = [],
     ws_mark_prices = [], ws_balances = None, ws_symbols = [], ws_sent = [], ws_callback = [], ws_tick = 0,
     ws_credentials = credentials\<rparr>"

definition reopen :: "denv \<Rightarrow> bool \<Rightarrow> ws_thread \<Rightarrow> ws_thread" where
  "reopen E ok t =
     (let c = th_client t; c = (if ws_connected c then set_disconnected E c else c) in
      if ok then t\<lparr>th_client := set_reconnected E c, th_session := Suc (th_session t)\<rparr>
      else t\<lparr>th_client := c\<rparr>)"

text \<open>The second half of a round: \<open>None\<close> is the panic of a failed write.\<close>

definition write_pending :: "denv \<Rightarrow> socket_io \<Rightarrow> ws_thread \<Rightarrow> ws_thread option" where
  "write_pending E io t =
     (if \<not> can_write io then Some (reopen E (opens io) t)
      else if th_written t < length (ws_sent (th_client t))
      then if writes io
        then Some (t\<lparr>th_written := Suc (th_written t),
          th_wire := th_wire t @ [(th_session t, ws_sent (th_client t) ! th_written t)]\<rparr>)
        else None
      else Some t)"

definition ws_round :: "denv \<Rightarrow> socket_io \<Rightarrow> ws_thread \<Rightarrow> ws_thread option" where
  "ws_round E io t =
     (if \<not> can_read io then Some (reopen E (opens io) t)
      else case read_message io of
        BadText \<Rightarrow> Some t
      | TextFrame r \<Rightarrow> write_pending E io (t\<lparr>th_client := process_incoming_message r (th_client t)\<rparr>)
      | _ \<Rightarrow> write_pending E io t)"

definition ws_connect :: "denv \<Rightarrow> string \<times> string \<times> string \<Rightarrow> bool \<Rightarrow> KolliderClientError + ws_thread" where
  "ws_connect E credentials opened =
     (if \<not> opened then Inl CouldNotConnect
      else case initialise E ((ws_new credentials)\<lparr>ws_connected := True\<rparr>) of
        (Inl e, _) \<Rightarrow> Inl e
      | (Inr _, c) \<Rightarrow> Inr \<lparr>th_client = c, th_written = 0, th_session = 0, th_wire = []\<rparr>)"

text \<open>The loop, and an operation of the client called by the dealer.\<close>

datatype ws_event = Round socket_io | Operation

inductive ws_step :: "denv \<Rightarrow> ws_thread \<Rightarrow> ws_event \<Rightarrow> ws_thread \<Rightarrow> bool" for E where
  ws_rounds: "ws_round E io t = Some t' \<Longrightarrow> ws_step E t (Round io) t'"
| ws_operates: "ws_op E op \<Longrightarrow> op (th_client t) = (x, c) \<Longrightarrow> ws_step E t Operation (t\<lparr>th_client := c\<rparr>)"

inductive_cases ws_stepE: "ws_step E t e t'"

section \<open>Notices of the connection\<close>

fun notice :: "KolliderApiResponse \<Rightarrow> bool option" where
  "notice (KDisconnected _) = Some False"
| "notice (KReconnected _) = Some True"
| "notice _ = None"

definition notices :: "client \<Rightarrow> bool list" where
  "notices c = List.map_filter notice (ws_callback c)"

text \<open>Notices begin with a loss of the connection, and loss and recovery alternate.\<close>

fun alternates :: "bool \<Rightarrow> bool list \<Rightarrow> bool" where
  "alternates up [] = True"
| "alternates up (b # bs) \<longleftrightarrow> b = (\<not> up) \<and> alternates b bs"

lemma alternates_snoc:
  "alternates up (bs @ [b]) \<longleftrightarrow> alternates up bs \<and> b = (\<not> last (up # bs))"
  by (induction bs arbitrary: up) auto

lemma map_filter_snoc: "List.map_filter f (xs @ [x]) = List.map_filter f xs @ (case f x of Some y \<Rightarrow> [y] | None \<Rightarrow> [])"
  by (simp add: List.map_filter_def split: option.split)

lemma notices_send: "notices (send_to_callback r c) = notices c @ (case notice r of Some b \<Rightarrow> [b] | None \<Rightarrow> [])"
  by (simp add: notices_def send_to_callback_def map_filter_snoc)

lemma notices_eq: "ws_callback c = ws_callback d \<Longrightarrow> notices c = notices d"
  by (simp add: notices_def)

lemma incoming_frame:
  "notices (process_incoming_message r c) = notices c \<and> ws_connected (process_incoming_message r c) = ws_connected c \<and>
   ws_sent (process_incoming_message r c) = ws_sent c"
  by (cases r) (auto simp: notices_def send_to_callback_def map_filter_snoc)

lemma send_request_notices: "notices (snd (send_request E r c)) = notices c"
  by (simp add: send_request_def notices_def ws_bump_def)

lemma authenticate_notices: "notices (snd (authenticate E c)) = notices c"
proof -
  have bump: "notices (ws_bump c) = notices c" for c by (simp add: notices_def ws_bump_def)
  have "notices d = notices c" if "send_request E r c = (x, d)" for r c x d
    using send_request_notices [of E r c] that by simp
  then show ?thesis
    by (auto simp: authenticate_def bump incoming_frame simp del: process_incoming_message.simps
        split: prod.split option.split sum.split)
qed

lemma initialise_notices: "notices (snd (initialise E c)) = notices c"
proof -
  have s: "notices d = notices c" if "send_request E r c = (x, d)" for r c x d
    using send_request_notices [of E r c] that by simp
  have a: "notices d = notices c" if "authenticate E c = (x, d)" for x d
    using authenticate_notices [of E c] that by simp
  show ?thesis
    by (auto simp: initialise_def send_seq_def send_request_notices split: prod.split sum.split dest!: s a)
qed

lemma checked_send_notices: "notices (snd (checked_send_request E r c)) = notices c"
proof -
  have "notices d = notices c" if "initialise E c = (x, d)" for x d using initialise_notices [of E c] that by simp
  then show ?thesis
    by (auto simp: checked_send_request_def send_request_notices split: prod.split sum.split)
qed

context ws_op
begin

lemma operation_notices: "notices (snd (op c)) = notices c"
proof -
  have "notices (ws_bump c) = notices c" by (simp add: notices_def ws_bump_def)
  with via_checked [of c] checked_send_notices show ?thesis by fastforce
qed

end

section \<open>The invariant\<close>

definition ws_inv :: "ws_thread \<Rightarrow> bool" where
  "ws_inv t \<longleftrightarrow> th_written t \<le> length (ws_sent (th_client t)) \<and>
     map snd (th_wire t) = take (th_written t) (ws_sent (th_client t)) \<and>
     alternates True (notices (th_client t)) \<and> ws_connected (th_client t) = last (True # notices (th_client t))"

lemma reopen_inv: "ws_inv t \<Longrightarrow> ws_inv (reopen E ok t)"
proof -
  have d: "ws_sent (set_disconnected E c) = ws_sent c" "ws_connected (set_disconnected E c) = False"
    "notices (set_disconnected E c) = notices c @ [False]" for c
    using notices_send [of "KDisconnected (ws_time_now E (ws_clear c))" "ws_clear c"]
    by (simp_all add: set_disconnected_def Let_def send_to_callback_def ws_clear_def notices_def ws_bump_def)
  have r: "ws_sent (set_reconnected E c) = ws_sent c" "ws_connected (set_reconnected E c) = True"
    "notices (set_reconnected E c) = notices c @ [True]" for c
    by (simp_all add: set_reconnected_def Let_def send_to_callback_def notices_def ws_bump_def map_filter_snoc)
  assume "ws_inv t"
  then show ?thesis by (auto simp: ws_inv_def reopen_def Let_def d r alternates_snoc)
qed

lemma write_inv: "ws_inv t \<Longrightarrow> write_pending E io t = Some t' \<Longrightarrow> ws_inv t'"
  by (auto simp: write_pending_def reopen_inv split: if_split_asm) (auto simp: ws_inv_def take_Suc_conv_app_nth)

lemma round_inv:
  assumes "ws_inv t" "ws_round E io t = Some t'"
  shows "ws_inv t'"
proof -
  have "ws_inv (t\<lparr>th_client := process_incoming_message r (th_client t)\<rparr>)" for r
    using assms(1) incoming_frame [of r "th_client t"] by (simp add: ws_inv_def)
  with assms show ?thesis
    by (auto simp: ws_round_def reopen_inv split: if_split_asm frame.split_asm intro: write_inv)
qed

lemma operation_inv:
  assumes "ws_inv t" "ws_op E op" "op (th_client t) = (x, c)"
  shows "ws_inv (t\<lparr>th_client := c\<rparr>)"
proof -
  have "notices c = notices (th_client t)" using ws_op.operation_notices [OF assms(2), of "th_client t"] assms(3) by simp
  with ws_ext_fields(1,8) [OF ws_op.ext [OF assms(2,3)]] assms(1) show ?thesis by (auto simp: ws_inv_def)
qed

interpretation ws: invariant "ws_step E" ws_inv
  by unfold_locales (auto elim!: ws_stepE intro: round_inv operation_inv)

lemma connect_inv:
  assumes "ws_connect E credentials opened = Inr t"
  shows "ws_inv t"
proof -
  let ?c = "(ws_new credentials)\<lparr>ws_connected := True\<rparr>"
  obtain x c where c: "initialise E ?c = (x, c)" by (cases "initialise E ?c")
  with initialise_notices [of E ?c] have "notices c = []" by (simp add: notices_def ws_new_def List.map_filter_def)
  with ws_ext_fields(1) [OF initialise_ext [OF c]] assms c show ?thesis
    by (auto simp: ws_connect_def ws_inv_def split: if_split_asm sum.split_asm)
qed

text \<open>
  C33. The exchange sees what the client sent. In every interleaving of the socket thread with the
  operations of the client, across losses of the connection, the requests on the wire are the
  first ones of those sent, in their order and each once; and the dealer is told of every loss and
  every recovery of the connection alternately, so that the last notice tells whether the client
  is connected.
\<close>

theorem wire_in_order:
  assumes "ws_connect E credentials opened = Inr t" "run (ws_step E) t es t'"
  shows "map snd (th_wire t') = take (th_written t') (ws_sent (th_client t')) \<and>
    alternates True (notices (th_client t')) \<and> ws_connected (th_client t') = last (True # notices (th_client t'))"
  using ws.run_inv [OF assms(2) connect_inv [OF assms(1)]] by (simp add: ws_inv_def)

section \<open>Requests that outlive their connection\<close>

text \<open>
  The channel to the socket thread is not emptied when the connection is lost: a request that was
  sent before, an order for instance, is written to the next socket, where the client has not
  authenticated, even though the client has meanwhile forgotten its positions.
\<close>

theorem stale_requests_sent:
  assumes "ws_connected (th_client t)" "th_written t < length (ws_sent (th_client t))"
  shows "\<exists>t'. run (ws_step E) t
      [Round \<lparr>can_read = False, read_message = NoFrame, can_write = False, opens = True, writes = True\<rparr>,
       Round \<lparr>can_read = True, read_message = NoFrame, can_write = True, opens = True, writes = True\<rparr>] t' \<and>
    th_wire t' = th_wire t @ [(Suc (th_session t), ws_sent (th_client t) ! th_written t)] \<and>
    \<not> ws_authenticated (th_client t') \<and> ws_positions (th_client t') = [] \<and> \<not> ws_has_positions (th_client t')"
proof -
  let ?io = "\<lparr>can_read = False, read_message = NoFrame, can_write = False, opens = True, writes = True\<rparr>"
  let ?io' = "\<lparr>can_read = True, read_message = NoFrame, can_write = True, opens = True, writes = True\<rparr>"
  let ?t = "reopen E True t"
  have t: "ws_sent (th_client ?t) = ws_sent (th_client t)" "th_written ?t = th_written t" "th_wire ?t = th_wire t"
    "th_session ?t = Suc (th_session t)" "\<not> ws_authenticated (th_client ?t)" "ws_positions (th_client ?t) = []"
    "\<not> ws_has_positions (th_client ?t)"
    using assms(1) by (simp_all add: reopen_def Let_def set_reconnected_def set_disconnected_def ws_clear_def
        send_to_callback_def ws_bump_def)
  have "ws_round E ?io t = Some ?t" by (simp add: ws_round_def)
  moreover obtain t' where t': "ws_round E ?io' ?t = Some t'"
    "t' = ?t\<lparr>th_written := Suc (th_written t), th_wire := th_wire t @ [(Suc (th_session t), ws_sent (th_client t) ! th_written t)]\<rparr>"
    using assms(2) by (simp add: ws_round_def write_pending_def t)
  ultimately have "run (ws_step E) t [Round ?io, Round ?io'] t'" by (blast intro: run.intros ws_rounds)
  with t t'(2) show ?thesis by (intro exI [of _ t'] conjI) simp_all
qed

section \<open>A concrete connection\<close>

text \<open>Connected and initialised, with the first of the four requests written.\<close>

definition sample_thread :: ws_thread where
  "sample_thread = projr (ws_connect denv96 (''key'', ''pass'', ''secret'') True)"

lemma sample_connect:
  "ws_connect denv96 (''key'', ''pass'', ''secret'') True = Inr sample_thread"
  "length (ws_sent (th_client sample_thread)) = 4" "th_written sample_thread = 0" "th_session sample_thread = 0"
  "ws_connected (th_client sample_thread)"
proof -
  let ?c = "ws_connect denv96 (''key'', ''pass'', ''secret'') True"
  have "b64_decode denv96 = Some" "b64_encode denv96 = (\<lambda>s. s)" "hmac_sha256 denv96 = (\<lambda>k m. Some (k @ m))"
    by (simp_all add: denv96_def)
  then have "\<exists>t. ?c = Inr t \<and> length (ws_sent (th_client t)) = 4 \<and> th_written t = 0 \<and> th_session t = 0 \<and> ws_connected (th_client t)"
    by (simp add: ws_connect_def ws_new_def initialise_def authenticate_def generate_authentication_signature_def
        hmac_encrypt_message_def send_request_def send_seq_def ws_bump_def auth_success_def send_to_callback_def Let_def)
  then show "?c = Inr sample_thread" "length (ws_sent (th_client sample_thread)) = 4" "th_written sample_thread = 0"
    "th_session sample_thread = 0" "ws_connected (th_client sample_thread)"
    by (auto simp: sample_thread_def)
qed

theorem wire_in_order_witness:
  "\<exists>t. run (ws_step denv96) sample_thread
      [Round \<lparr>can_read = True, read_message = NoFrame, can_write = True, opens = True, writes = True\<rparr>] t \<and>
     map snd (th_wire t) = take 1 (ws_sent (th_client sample_thread))"
proof -
  let ?io = "\<lparr>can_read = True, read_message = NoFrame, can_write = True, opens = True, writes = True\<rparr>"
  obtain t where t: "ws_round denv96 ?io sample_thread = Some t" "th_written t = 1" "th_client t = th_client sample_thread"
    using sample_connect(2,3) by (simp add: ws_round_def write_pending_def)
  then have run: "run (ws_step denv96) sample_thread [Round ?io] t" by (blast intro: run.intros ws_rounds)
  from wire_in_order [OF sample_connect(1) run] t have "map snd (th_wire t) = take 1 (ws_sent (th_client sample_thread))"
    by simp
  with run show ?thesis by blast
qed

theorem stale_requests_sent_witness:
  "\<exists>t es. run (ws_step denv96) sample_thread es t \<and> fst (last (th_wire t)) = 1 \<and> \<not> ws_authenticated (th_client t)"
proof -
  obtain t es where "run (ws_step denv96) sample_thread es t"
    "th_wire t = th_wire sample_thread @ [(Suc (th_session sample_thread), ws_sent (th_client sample_thread) ! th_written sample_thread)]"
    "\<not> ws_authenticated (th_client t)"
    using stale_requests_sent [of sample_thread denv96] sample_connect(2,3,5) by auto
  then show ?thesis by (intro exI conjI) (auto simp: sample_connect(4))
qed

end
