(* ===== verification/Metrics.thy ===== *)
theory Metrics
  imports BankRun DealerRun
begin

text \<open>
  The measurements that bank and dealer write to InfluxDB (\<open>insert_bank_state\<close> and
  \<open>insert_transaction\<close> of \<open>bank/src/lib.rs\<close>; \<open>insert_dealer_state\<close>, \<open>store_quotes\<close>,
  \<open>store_pnl\<close> and \<open>retrieve_funding_profit\<close> of \<open>dealer/src/lib.rs\<close>). The last of them is read
  back: it is where the dealer's funding profit survives a restart. A float is the number it denotes;
  the conversions between floats and decimals are parameters, and so is whether the server answers.
\<close>

section \<open>Points\<close>

record point =
  pt_measurement :: string
  pt_tags :: "(string \<times> string) list"
  pt_fields :: "(string \<times> rat) list"
  pt_time :: nat

type_synonym to_f64 = "rat \<Rightarrow> rat option"

text \<open>The builder: a value that has no float is left out; a point needs a field.\<close>

definition add_field :: "to_f64 \<Rightarrow> string \<times> rat \<Rightarrow> (string \<times> rat) list \<Rightarrow> (string \<times> rat) list" where
  "add_field f64 x fs = (case f64 (snd x) of Some v \<Rightarrow> AList.update (fst x) v fs | None \<Rightarrow> fs)"

definition build :: "to_f64 \<Rightarrow> string \<Rightarrow> (string \<times> rat) list \<Rightarrow> nat \<Rightarrow> point option" where
  "build f64 measurement xs now =
     (let fs = fold (add_field f64) xs [] in
      if fs = [] then None else Some \<lparr>pt_measurement = measurement, pt_tags = [], pt_fields = fs, pt_time = now\<rparr>)"

text \<open>A write that fails is logged.\<close>

definition write_point :: "bool \<Rightarrow> point option \<Rightarrow> point list \<Rightarrow> point list" where
  "write_point up p ps = (case p of Some x \<Rightarrow> if up then ps @ [x] else ps | None \<Rightarrow> ps)"

section \<open>The bank's measurements\<close>

fun add_user_balance :: "dec_ops \<Rightarrow> Account \<Rightarrow> rat \<times> rat \<times> rat \<Rightarrow> (rat \<times> rat \<times> rat) option" where
  "add_user_balance D a (btc, eur, usd) =
     (if acc_currency a = BTC then map_option (\<lambda>x. (x, eur, usd)) (dec_add D btc (balance a))
      else if acc_currency a = EUR then map_option (\<lambda>x. (btc, x, usd)) (dec_add D eur (balance a))
      else if acc_currency a = USD then map_option (\<lambda>x. (btc, eur, x)) (dec_add D usd (balance a))
      else Some (btc, eur, usd))"

fun add_account_balances :: "dec_ops \<Rightarrow> accounts \<Rightarrow> rat \<times> rat \<times> rat \<Rightarrow> (rat \<times> rat \<times> rat) option" where
  "add_account_balances D [] t = Some t"
| "add_account_balances D ((_, a) # as) t = Option.bind (add_user_balance D a t) (add_account_balances D as)"

fun add_user_balances :: "dec_ops \<Rightarrow> (user_id \<times> UserAccount) list \<Rightarrow> rat \<times> rat \<times> rat \<Rightarrow> (rat \<times> rat \<times> rat) option" where
  "add_user_balances D [] t = Some t"
| "add_user_balances D ((_, ua) # us) t = Option.bind (add_account_balances D (accounts ua) t) (add_user_balances D us)"

definition bank_fields :: "bank \<Rightarrow> rat \<times> rat \<times> rat \<Rightarrow> (string \<times> rat) list" where
  "bank_fields s = (\<lambda>(btc_balance, eur_balance, usd_balance).
     [(''btc_user_balance'', btc_balance), (''eur_user_balance'', eur_balance), (''usd_user_balance'', usd_balance),
      (''fee_balance'', 0), (''insurance_fund_balance'', balance (insurance_fund_account (ledger s))),
      (''ln_network_max_fee'', ln_network_max_fee s), (''ln_network_fee_margin'', ln_network_fee_margin s),
      (''internal_tx_fee'', internal_tx_fee s), (''external_tx_fee'', external_tx_fee s),
      (''external_tx_fee'', external_tx_fee s)])"

definition bank_state_point :: "env \<Rightarrow> to_f64 \<Rightarrow> nat \<Rightarrow> bank \<Rightarrow> point option option" where
  "bank_state_point E f64 now s =
     map_option (\<lambda>balances. build f64 ''bank_states'' (bank_fields s balances) now)
       (add_user_balances (dec E) (user_accounts (ledger s)) (0, 0, 0))"

text \<open>The tags are added to a builder of their own, which is dropped.\<close>

definition transaction_point :: "nat \<Rightarrow> JournalTransaction \<Rightarrow> point option" where
  "transaction_point now tx = build Some ''summary_transactions''
     [(''outbound_amount'', jt_outbound_amount tx), (''inbound_amount'', jt_inbound_amount tx), (''fees'', jt_fees tx),
      (''exchange_rate'', jt_exchange_rate tx)] now"

section \<open>The dealer's measurements\<close>

definition dealer_state_point :: "to_f64 \<Rightarrow> nat \<Rightarrow> dealer \<Rightarrow> point option" where
  "dealer_state_point f64 now d = build f64 ''dealer_states''
     (concat (map (\<lambda>(name, symbol). case get_hedged_quantity symbol d of Inr q \<Rightarrow> [(name, q)] | Inl _ \<Rightarrow> [])
       [(''usd_hedged_quantity'', ''BTCUSD.PERP''), (''eur_hedged_quantity'', ''BTCEUR.PERP'')])) now"

fun rate_fields :: "denv \<Rightarrow> (string \<times> Money \<times> Currency) list \<Rightarrow> dealer \<Rightarrow> (string \<times> rat) list option" where
  "rate_fields E [] d = Some []"
| "rate_fields E ((name, amount, dest) # xs) d = do {
     (rate, _) \<leftarrow> get_rate E amount dest d;
     fs \<leftarrow> rate_fields E xs d;
     Some ((case rate of Some r \<Rightarrow> [(name, rate_value r)] | None \<Rightarrow> []) @ fs) }"

definition quotes_point :: "denv \<Rightarrow> to_f64 \<Rightarrow> nat \<Rightarrow> dealer \<Rightarrow> point option option" where
  "quotes_point E f64 now d =
     (let some_sats = money_new (d_dec E) BTC (5 / 1000000); one_usd = money_new (d_dec E) USD 1;
          one_eur = money_new (d_dec E) EUR 1 in
      map_option (\<lambda>fs. build f64 ''swap_rates'' fs now)
        (rate_fields E [(''btc_usd'', some_sats, USD), (''btc_eur'', some_sats, EUR), (''usd_btc'', one_usd, BTC),
          (''usd_eur'', one_usd, EUR), (''eur_btc'', one_eur, BTC), (''eur_usd'', one_eur, USD)] d))"

definition pnl_point :: "to_f64 \<Rightarrow> nat \<Rightarrow> dealer \<Rightarrow> point option" where
  "pnl_point f64 now d =
     (let pnl = get_pnl d in
      build f64 ''dealer_pnl'' (concat (map (\<lambda>(name, v). case v of Some x \<Rightarrow> [(name, x)] | None \<Rightarrow> [])
        [(''total_pnl'', total_pnl pnl), (''funding_pnl'', funding_pnl pnl)])) now)"

text \<open>
  \<open>last()\<close> over the last 52 weeks (in seconds) of the field; \<open>None\<close> is a failed query, and a
  value without decimal counts as zero like a missing one. The points are written without a time of their
  own and get that of their arrival, so that the last of the list is the latest.
\<close>

definition query_funding :: "nat \<Rightarrow> point list \<Rightarrow> rat list" where
  "query_funding now ps =
     (case rev (filter (\<lambda>p. pt_measurement p = ''dealer_pnl'' \<and> map_of (pt_fields p) ''funding_pnl'' \<noteq> None \<and>
         now \<le> pt_time p + 52 * 7 * 24 * 3600) ps) of
        [] \<Rightarrow> []
      | p # _ \<Rightarrow> [the (map_of (pt_fields p) ''funding_pnl'')])"

definition retrieve_funding_profit :: "(rat \<Rightarrow> rat option) \<Rightarrow> rat list option \<Rightarrow> rat" where
  "retrieve_funding_profit from_f64 result =
     (let rows = (case result of Some rs \<Rightarrow> rs | None \<Rightarrow> []);
          v = (case rows of [] \<Rightarrow> 0 | x # _ \<Rightarrow> x) in
      case from_f64 v of Some x \<Rightarrow> x | None \<Rightarrow> 0)"

section \<open>What the points hold\<close>

lemma fields_fold:
  assumes "\<And>x. f64 x \<noteq> None"
  shows "map_of (fold (add_field f64) xs fs) k = (case map_of (rev xs) k of Some x \<Rightarrow> f64 x | None \<Rightarrow> map_of fs k)"
proof (induction xs arbitrary: fs)
  case (Cons x xs)
  obtain v where "f64 (snd x) = Some v" using assms by blast
  then have "add_field f64 x fs = AList.update (fst x) v fs" by (simp add: add_field_def)
  with \<open>f64 (snd x) = Some v\<close> show ?case by (simp add: Cons map_add_def update_conv' split: option.split)
qed simp

lemma build_fields:
  assumes "\<And>x. f64 x \<noteq> None" "xs \<noteq> []"
  shows "\<exists>p. build f64 m xs now = Some p \<and> pt_measurement p = m \<and> pt_time p = now \<and>
    (\<forall>k. map_of (pt_fields p) k = Option.bind (map_of (rev xs) k) f64)"
proof -
  obtain x ys where xs: "rev xs = x # ys" using assms(2) by (cases "rev xs") auto
  have "map_of (fold (add_field f64) xs []) (fst x) \<noteq> None"
    using assms(1) [of "snd x"] unfolding fields_fold [OF assms(1)] xs by simp
  then have "fold (add_field f64) xs [] \<noteq> []" by auto
  then show ?thesis by (simp add: build_def fields_fold [OF assms(1)] split: option.split)
qed

definition near :: "rat \<Rightarrow> rat \<times> rat \<times> rat \<Rightarrow> bool" where
  "near B t \<longleftrightarrow> (case t of (b, e, u) \<Rightarrow> \<forall>x \<in> {b, e, u}. grid 12 x \<and> \<bar>x\<bar> \<le> B)"

definition plus3 :: "rat \<times> rat \<times> rat \<Rightarrow> (Currency \<Rightarrow> rat) \<Rightarrow> rat \<times> rat \<times> rat" where
  "plus3 t f = (case t of (b, e, u) \<Rightarrow> (b + f BTC, e + f EUR, u + f USD))"

lemma plus3_simps [simp]: "plus3 t (\<lambda>_. 0) = t" "plus3 (plus3 t f) g = plus3 t (\<lambda>c. f c + g c)"
  by (simp_all add: plus3_def add.assoc split: prod.split)

context decimal
begin

lemma add_balance_exact:
  assumes "grid 12 x" "grid 12 y" "\<bar>x\<bar> \<le> B" "B + \<bar>y\<bar> \<le> 4 * 10 ^ 16"
  shows "dec_add D x y = Some (x + y)" "grid 12 (x + y)" "\<bar>x + y\<bar> \<le> B + \<bar>y\<bar>"
proof -
  show "grid 12 (x + y)" "\<bar>x + y\<bar> \<le> B + \<bar>y\<bar>"
    using assms abs_triangle_ineq [of x y] by (auto intro: grid_add)
  with assms show "dec_add D x y = Some (x + y)" by (intro add_exact) (auto intro!: dec_repr_12)
qed

lemma add_user_balance_spec:
  assumes "near B t" "grid 12 (balance a)" "B + \<bar>balance a\<bar> \<le> 4 * 10 ^ 16"
  shows "add_user_balance D a t = Some (plus3 t (\<lambda>c. if acc_currency a = c then balance a else 0)) \<and>
    near (B + \<bar>balance a\<bar>) (plus3 t (\<lambda>c. if acc_currency a = c then balance a else 0))"
proof -
  obtain b e u where t: "t = (b, e, u)" by (cases t)
  have le: "\<bar>x\<bar> \<le> B + \<bar>balance a\<bar>" if "\<bar>x\<bar> \<le> B" for x using that by simp
  show ?thesis
    using assms(1) add_balance_exact [OF _ assms(2) _ assms(3)] le by (auto simp: t near_def plus3_def)
qed

lemma add_account_balances_spec:
  assumes "near B t" "all_grid xs" "B + abs_total xs \<le> 4 * 10 ^ 16"
  shows "add_account_balances D xs t = Some (plus3 t (\<lambda>c. acct_total c xs)) \<and>
    near (B + abs_total xs) (plus3 t (\<lambda>c. acct_total c xs))"
  using assms
proof (induction xs arbitrary: t B)
  case Nil
  then show ?case by (simp add: abs_total_def acct_total_def)
next
  case (Cons x xs)
  obtain i a where x: "x = (i, a)" by (cases x)
  have sums: "abs_total ((i, a) # xs) = \<bar>balance a\<bar> + abs_total xs"
    "acct_total c ((i, a) # xs) = (if acc_currency a = c then balance a else 0) + acct_total c xs" for c
    by (simp_all add: abs_total_def acct_total_def)
  have g: "grid 12 (balance a)" "all_grid xs" using Cons.prems(2) by (auto simp: x all_grid_def)
  have "B + \<bar>balance a\<bar> \<le> 4 * 10 ^ 16" using Cons.prems(3) abs_total_nonneg [of xs] by (simp add: x sums)
  note step = add_user_balance_spec [OF Cons.prems(1) g(1) this]
  show ?case
    using Cons.IH [OF conjunct2 [OF step] g(2)] Cons.prems(3) conjunct1 [OF step] by (simp add: x sums add.assoc)
qed

lemma add_user_balances_spec:
  assumes "near B t" "\<forall>(u, ua) \<in> set us. all_grid (accounts ua)"
    and "B + alist_sum (\<lambda>ua. abs_total (accounts ua)) us \<le> 4 * 10 ^ 16"
  shows "add_user_balances D us t = Some (plus3 t (\<lambda>c. alist_sum (\<lambda>ua. acct_total c (accounts ua)) us))"
  using assms
proof (induction us arbitrary: t B)
  case (Cons x us)
  obtain u ua where x: "x = (u, ua)" by (cases x)
  have nonneg: "0 \<le> alist_sum (\<lambda>ua. abs_total (accounts ua)) us"
    by (induction us) (auto simp: abs_total_nonneg add_nonneg_nonneg)
  have "B + abs_total (accounts ua) \<le> 4 * 10 ^ 16" using Cons.prems(3) nonneg by (simp add: x)
  then have step: "add_account_balances D (accounts ua) t = Some (plus3 t (\<lambda>c. acct_total c (accounts ua))) \<and>
      near (B + abs_total (accounts ua)) (plus3 t (\<lambda>c. acct_total c (accounts ua)))"
    using Cons.prems(2) by (intro add_account_balances_spec [OF Cons.prems(1)]) (auto simp: x)
  show ?case
    using Cons.IH [OF conjunct2 [OF step]] Cons.prems(2,3) conjunct1 [OF step] by (simp add: x add.assoc)
qed simp

end

text \<open>
  The measured balances are the users'. On a well-formed ledger in the range of exact decimal
  addition the bank's measurement does not panic, and the three balances in the point are the sums
  of what all users hold in the currency, as floats: the very sums that the reconciliation compares.
\<close>

theorem balances_measured:
  assumes "env_ok E" "ledger_ok E n (ledger s)" "ledger_volume (ledger s) \<le> 4 * 10 ^ 16" "\<And>x. f64 x \<noteq> None"
  shows "\<exists>p. bank_state_point E f64 now s = Some (Some p) \<and>
    map_of (pt_fields p) ''btc_user_balance'' = f64 (users_total BTC (ledger s)) \<and>
    map_of (pt_fields p) ''eur_user_balance'' = f64 (users_total EUR (ledger s)) \<and>
    map_of (pt_fields p) ''usd_user_balance'' = f64 (users_total USD (ledger s))"
proof -
  have dec: "decimal (dec E)" using assms(1) by (simp add: env_ok_def)
  have "alist_sum (\<lambda>ua. abs_total (accounts ua)) (user_accounts (ledger s)) \<le> 4 * 10 ^ 16"
    using assms(3) abs_total_nonneg [of "accounts (bank_liabilities (ledger s))"]
      abs_total_nonneg [of "accounts (dealer_accounts (ledger s))"] by (simp add: ledger_volume_def)
  then have "add_user_balances (dec E) (user_accounts (ledger s)) (0, 0, 0) =
      Some (plus3 (0, 0, 0) (\<lambda>c. users_total c (ledger s)))"
    using decimal.add_user_balances_spec [OF dec, of 0 "(0, 0, 0)"] ledger_ok_grids(1) [OF assms(2)]
    by (simp add: near_def users_total_def)
  then show ?thesis
    using assms(4) build_fields [of f64 "bank_fields s (plus3 (0, 0, 0) (\<lambda>c. users_total c (ledger s)))" "''bank_states''" now]
    by (auto simp: bank_state_point_def bank_fields_def plus3_def)
qed

theorem balances_measured_witness:
  "\<exists>p. bank_state_point env96 Some 5 sample_bank = Some (Some p) \<and> map_of (pt_fields p) ''usd_user_balance'' = Some 100"
proof -
  have "users_total USD (ledger sample_bank) = 100" by (simp add: users_total_def acct_total_def sample_defs)
  then show ?thesis
    using balances_measured [OF env96.env_ok_axioms sample_bank_ok [unfolded bank_ok_def], of Some 5] sample_paid_balances
    by auto
qed

section \<open>The funding profit over a restart\<close>

lemma pnl_point_funding:
  assumes "f64 (funding_profit d) = Some v"
  shows "\<exists>p. pnl_point f64 now d = Some p \<and> pt_measurement p = ''dealer_pnl'' \<and> pt_time p = now \<and>
    map_of (pt_fields p) ''funding_pnl'' = Some v"
  using assms by (cases "total_pnl (get_pnl d)")
    (auto simp: pnl_point_def build_def add_field_def get_pnl_def Let_def update_conv' split: option.split)

lemma query_last:
  assumes "pt_measurement p = ''dealer_pnl''" "map_of (pt_fields p) ''funding_pnl'' = Some v"
    and "now \<le> pt_time p + 52 * 7 * 24 * 3600" "list_all (\<lambda>q. pt_measurement q \<noteq> ''dealer_pnl'') qs"
  shows "query_funding now ((ps @ [p]) @ qs) = [v]"
proof -
  have "filter (\<lambda>q. pt_measurement q = ''dealer_pnl'' \<and> map_of (pt_fields q) ''funding_pnl'' \<noteq> None \<and>
      now \<le> pt_time q + 52 * 7 * 24 * 3600) qs = []"
    using assms(4) by (auto simp: list_all_iff filter_empty_conv)
  then show ?thesis using assms(1-3) unfolding query_funding_def filter_append by simp
qed

text \<open>
  C35. The funding profit survives a restart, if the server answers. When the profit and loss of a dealer
  has been written and no other was written since, a dealer that starts within 52 weeks and whose query
  succeeds begins with the same funding profit (as far as a float holds it exactly). But if that one query
  fails, the new dealer begins at zero without a word, and its own next measurement overwrites the old
  value for every later start.
\<close>

theorem funding_profit_restart:
  assumes "f64 (funding_profit d) = Some v" "from_f64 v = Some (funding_profit d)"
    and "list_all (\<lambda>q. pt_measurement q \<noteq> ''dealer_pnl'') qs" "now \<le> t + 52 * 7 * 24 * 3600"
    and "dbs = write_point True (pnl_point f64 t d) ps @ qs"
    and "f64 0 = Some 0" "from_f64 0 = Some 0"
  shows "(dealer_new E st c (retrieve_funding_profit from_f64 (Some (query_funding now dbs))) = Some d1 \<longrightarrow>
      funding_profit d1 = funding_profit d) \<and>
    (dealer_new E st c (retrieve_funding_profit from_f64 None) = Some d2 \<longrightarrow>
      retrieve_funding_profit from_f64 (Some (query_funding now' (write_point True (pnl_point f64 now' d2) dbs))) = 0)"
proof -
  obtain p where p: "pnl_point f64 t d = Some p" "pt_measurement p = ''dealer_pnl''" "pt_time p = t"
    "map_of (pt_fields p) ''funding_pnl'' = Some v"
    using pnl_point_funding [of f64 d v t, OF assms(1)] by blast
  have "query_funding now dbs = [v]"
    using query_last [OF p(2,4) _ assms(3), of now ps] assms(4) p(1,3) by (simp add: assms(5) write_point_def)
  then have same: "retrieve_funding_profit from_f64 (Some (query_funding now dbs)) = funding_profit d"
    using assms(2) by (simp add: retrieve_funding_profit_def)
  have start: "funding_profit x = y" if "dealer_new E st c y = Some x" for x y
    using that by (auto simp: dealer_new_def bind_Some_conv)
  have "retrieve_funding_profit from_f64 (Some (query_funding now' (write_point True (pnl_point f64 now' d2) dbs))) = 0"
    if "dealer_new E st c (retrieve_funding_profit from_f64 None) = Some d2"
  proof -
    have "funding_profit d2 = 0" using start [OF that] assms(7) by (simp add: retrieve_funding_profit_def)
    then obtain q where "pnl_point f64 now' d2 = Some q" "pt_measurement q = ''dealer_pnl''" "pt_time q = now'"
      "map_of (pt_fields q) ''funding_pnl'' = Some 0"
      using pnl_point_funding [of f64 d2 0 now'] assms(6) by auto
    then have "query_funding now' (write_point True (pnl_point f64 now' d2) dbs) = [0]"
      using query_last [of q 0 now' "[]" dbs] by (simp add: write_point_def)
    then show ?thesis using assms(7) by (simp add: retrieve_funding_profit_def)
  qed
  with same start show ?thesis by auto
qed

theorem funding_profit_restart_witness:
  "\<exists>d dbs d1 d2. funding_profit d = 5 \<and> dbs = write_point True (pnl_point Some 9 d) [] \<and>
     dealer_new denv96 sample_dealer_settings sample_client (retrieve_funding_profit Some (Some (query_funding 10 dbs))) = Some d1 \<and>
     funding_profit d1 = 5 \<and>
     dealer_new denv96 sample_dealer_settings sample_client (retrieve_funding_profit Some None) = Some d2 \<and>
     retrieve_funding_profit Some (Some (query_funding 11 (write_point True (pnl_point Some 11 d2) dbs))) = 0"
proof -
  define d where "d = fresh_dealer\<lparr>funding_profit := 5\<rparr>"
  define dbs where "dbs = write_point True (pnl_point Some 9 d) []"
  have profit: "funding_profit d = 5" by (simp add: d_def)
  have new: "\<exists>x. dealer_new denv96 sample_dealer_settings sample_client y = Some x" for y
    by (simp add: dealer_new_def sample_dealer_settings_def)
  obtain d1 where d1:
    "dealer_new denv96 sample_dealer_settings sample_client (retrieve_funding_profit Some (Some (query_funding 10 dbs))) = Some d1"
    using new by blast
  obtain d2 where d2: "dealer_new denv96 sample_dealer_settings sample_client (retrieve_funding_profit Some None) = Some d2"
    using new by blast
  have "dbs = write_point True (pnl_point Some 9 d) [] @ []" by (simp add: dbs_def)
  note r = funding_profit_restart [OF _ _ _ _ this, of 5 Some 10 denv96 sample_dealer_settings sample_client d1 d2 11]
  have "funding_profit d1 = 5" by (rule r [THEN conjunct1, THEN mp, unfolded profit]) (simp_all add: profit d1)
  moreover have "retrieve_funding_profit Some (Some (query_funding 11 (write_point True (pnl_point Some 11 d2) dbs))) = 0"
    by (rule r [THEN conjunct2, THEN mp]) (simp_all add: profit d2)
  ultimately show ?thesis using profit dbs_def d1 d2 by blast
qed

end
