(* ===== verification/NostrEngine.thy ===== *)
theory NostrEngine
  imports Zaps Models Machine
begin

text \<open>
  The nostr engine (\<open>nostr_engine/src\<close>) and its table of profiles
  (\<open>models/src/nostr_profiles.rs\<close>). HTTP, JSON, the relays and the database server are
  parameters, indexed by the number of external interactions so far where they may answer
  differently each time. \<open>None\<close> is a panic; \<open>u64\<close> arithmetic wraps.
\<close>

section \<open>Data\<close>

record NostrProfileUpdate =
  npu_pubkey :: string
  npu_content :: string
  npu_created_at_epoch_ms :: u64
  npu_received_at_epoch_ms :: u64
  npu_nostr_profile :: NostrProfile
  npu_validated_lnurl_pay_req :: "string option"

record InternalNostrProfileRequest =
  inr_pubkey :: "string option"
  inr_since :: "u64 option"
  inr_until :: "u64 option"
  inr_limit :: "u64 option"

datatype NostrEngineEvent =
    NostrProfileUpdateEv NostrProfileUpdate
  | LndhubxMessage Message
  | InternalNostrProfileRequestEv InternalNostrProfileRequest

record LnUrlPayResponse =
  lup_callback :: string
  lup_max_sendable :: u64
  lup_min_sendable :: u64
  lup_metadata :: string
  lup_tag :: string

record NostrProfileRecord =
  rec_pubkey :: string
  rec_created_at :: i64
  rec_received_at :: i64
  rec_name :: "string option"
  rec_display_name :: "string option"
  rec_nip05 :: "string option"
  rec_lud16 :: "string option"
  rec_nip05_verified :: "bool option"
  rec_content :: string
  rec_lnurl_pay_req :: "string option"

text \<open>A filter for the relays: only events of the kind metadata, and the conditions given.\<close>

record SubscriptionFilter =
  sf_kind :: u64
  sf_author :: "string option"
  sf_since :: "u64 option"
  sf_until :: "u64 option"
  sf_limit :: "u64 option"

record nenv =
  n_crypto :: nostr_crypto
  n_clock :: "nat \<Rightarrow> u64" \<comment> \<open>milliseconds since the epoch\<close>
  n_pool :: "nat \<Rightarrow> bool"
  n_pg :: "nat \<Rightarrow> bool"
  n_send :: "nat \<Rightarrow> bool" \<comment> \<open>a relay accepts\<close>
  http_get :: "nat \<Rightarrow> string \<Rightarrow> string option"
  json_nip05 :: "string \<Rightarrow> (string \<times> string) list option"
  json_pay_response :: "string \<Rightarrow> LnUrlPayResponse option"
  json_metadata :: "string \<Rightarrow> bool"
  json_profile :: "string \<Rightarrow> NostrProfile option"
  n_url_parse :: "string \<Rightarrow> string option"
  lnurl_bech32 :: "string \<Rightarrow> string option"
  lnurl_unbech32 :: "string \<Rightarrow> string option" \<comment> \<open>bech32, base 32 and UTF-8\<close>
  ilike :: "string \<Rightarrow> string \<Rightarrow> bool" \<comment> \<open>text and pattern\<close>
  client_relays :: "string list"

definition REQUEST_USER_PROFILE_TIMEOUT :: u64 where
  "REQUEST_USER_PROFILE_TIMEOUT = 30000"

definition API_PROFILE_TIMEOUT :: u64 where
  "API_PROFILE_TIMEOUT = 5000"

definition i64_div_1000 :: "i64 \<Rightarrow> i64" where
  "i64_div_1000 x = word_of_int (if 0 \<le> sint x then sint x div 1000 else - ((- sint x) div 1000))"

definition shareable :: "NostrProfileUpdate \<Rightarrow> ShareableNostrProfile" where
  "shareable u = \<lparr>snp_pubkey = npu_pubkey u, snp_created_at = i64_div_1000 (npu_created_at_epoch_ms u),
     snp_profile = npu_nostr_profile u, snp_validated_lnurl_pay_req = npu_validated_lnurl_pay_req u\<rparr>"

section \<open>Profiles from events\<close>

definition verify_nip05 :: "nenv \<Rightarrow> nat \<Rightarrow> string \<Rightarrow> string \<Rightarrow> bool option" where
  "verify_nip05 N n pubkey nip05 =
     (case split_once (CHR ''@'') nip05 of
        None \<Rightarrow> None
      | Some (local_part, domain) \<Rightarrow>
          if \<not> nip05_local_part_valid local_part \<or> \<not> domain_valid domain then None
          else do {
            body \<leftarrow> http_get N n (''https://'' @ domain @ ''/.well-known/nostr.json?name='' @ local_part);
            names \<leftarrow> json_nip05 N body;
            map_option (\<lambda>response_pubkey. response_pubkey = pubkey) (map_of names local_part) })"

definition verify_lnurl :: "nenv \<Rightarrow> nat \<Rightarrow> string \<Rightarrow> bool" where
  "verify_lnurl N n url =
     (case Option.bind (http_get N n url) (json_pay_response N) of
        None \<Rightarrow> False
      | Some r \<Rightarrow>
          if n_url_parse N (lup_callback r) = None then False
          else if lup_min_sendable r < 1 \<or> lup_max_sendable r < lup_min_sendable r then False
          else if lup_tag r \<noteq> ''payRequest'' then False
          else json_metadata N (lup_metadata r))"

definition lnurl_encode_url :: "nenv \<Rightarrow> string \<Rightarrow> string option" where
  "lnurl_encode_url N url = Option.bind (n_url_parse N url) (lnurl_bech32 N)"

definition lnurl_decode :: "nenv \<Rightarrow> string \<Rightarrow> string option" where
  "lnurl_decode N encoded = Option.bind (lnurl_unbech32 N encoded) (n_url_parse N)"

text \<open>
  The outer \<open>Some\<close> of the two steps is the early \<open>return\<close> of \<open>get_lnurl_pay_request\<close>. The
  first query is made at tick \<open>n\<close>, the second after it.
\<close>

definition lud16_pay_request :: "nenv \<Rightarrow> nat \<Rightarrow> string \<Rightarrow> string option option" where
  "lud16_pay_request N n v =
     (case lnurl_from_address v of
        Some lnurl \<Rightarrow> if verify_lnurl N n lnurl then Some (lnurl_encode_url N lnurl) else None
      | None \<Rightarrow>
          (case lnurl_decode N v of
             Some lnurl \<Rightarrow> if verify_lnurl N n lnurl then Some (Some v) else None
           | None \<Rightarrow> None))"

definition lud06_pay_request :: "nenv \<Rightarrow> nat \<Rightarrow> string \<Rightarrow> string option" where
  "lud06_pay_request N n v =
     (case lnurl_decode N v of
        Some lnurl \<Rightarrow> if verify_lnurl N n lnurl then Some v else None
      | None \<Rightarrow> None)"

definition get_lnurl_pay_request :: "nenv \<Rightarrow> nat \<Rightarrow> NostrProfile \<Rightarrow> string option" where
  "get_lnurl_pay_request N n profile =
     (case Option.bind (np_lud16 profile) (lud16_pay_request N n) of
        Some result \<Rightarrow> result
      | None \<Rightarrow> Option.bind (np_lud06 profile) (lud06_pay_request N (Suc n)))"

definition get_caps_lnurl_pay_request :: "nenv \<Rightarrow> nat \<Rightarrow> NostrProfile \<Rightarrow> string option" where
  "get_caps_lnurl_pay_request N n profile = map_option to_uppercase (get_lnurl_pay_request N n profile)"

definition try_profile_update_from_event :: "nenv \<Rightarrow> nat \<Rightarrow> NostrEvent \<Rightarrow> NostrProfileUpdate option" where
  "try_profile_update_from_event N n event =
     (if ev_kind event = METADATA_KIND
      then do {
        nostr_profile \<leftarrow> json_profile N (ev_content event);
        let verified = (case np_nip05 nostr_profile of
              Some nip05 \<Rightarrow> if nip05 \<noteq> [] then verify_nip05 N (Suc n) (ev_pubkey event) nip05 else None
            | None \<Rightarrow> None);
        let nostr_profile = nostr_profile\<lparr>np_nip05_verified := verified\<rparr>;
        Some \<lparr>npu_pubkey = ev_pubkey event, npu_content = ev_content event,
          npu_created_at_epoch_ms = 1000 * ev_created_at event, npu_received_at_epoch_ms = n_clock N n,
          npu_nostr_profile = nostr_profile,
          npu_validated_lnurl_pay_req = get_caps_lnurl_pay_request N (Suc (Suc n)) nostr_profile\<rparr> }
      else None)"

section \<open>The table of profiles (\<open>models/src/nostr_profiles.rs\<close>)\<close>

definition record_get :: "string \<Rightarrow> NostrProfileRecord list \<Rightarrow> NostrProfileRecord option" where
  "record_get k rs = List.find (\<lambda>r. rec_pubkey r = k) rs"

definition coalesce_false :: "bool option \<Rightarrow> bool" where
  "coalesce_false b = (case b of Some v \<Rightarrow> v | None \<Rightarrow> False)"

text \<open>The condition of \<open>ON CONFLICT ... DO UPDATE ... WHERE\<close>.\<close>

definition supersedes :: "NostrProfileRecord \<Rightarrow> NostrProfileRecord \<Rightarrow> bool" where
  "supersedes r old \<longleftrightarrow> sint (rec_created_at old) < sint (rec_created_at r) \<or>
     (rec_created_at old = rec_created_at r \<and>
      coalesce_false (rec_nip05_verified old) \<noteq> coalesce_false (rec_nip05_verified r))"

definition record_upsert :: "NostrProfileRecord \<Rightarrow> NostrProfileRecord list \<Rightarrow> NostrProfileRecord list" where
  "record_upsert r rs =
     (if record_get (rec_pubkey r) rs = None then rs @ [r]
      else map (\<lambda>old. if rec_pubkey old = rec_pubkey r \<and> supersedes r old then r else old) rs)"

fun verified_rank :: "bool option \<Rightarrow> nat" where
  "verified_rank (Some True) = 0"
| "verified_rank (Some False) = 1"
| "verified_rank None = 2"

definition matches_text :: "nenv \<Rightarrow> string \<Rightarrow> NostrProfileRecord \<Rightarrow> bool" where
  "matches_text N txt r =
     (let escaped_lowered = to_lowercase (replace_char (CHR ''_'') [CHR 0x5C, CHR ''_''] (replace_char (CHR ''%'') [CHR 0x5C, CHR ''%''] txt));
          name_pattern = ''%'' @ escaped_lowered @ ''%'';
          internet_identifier = (case split_once (CHR ''@'') escaped_lowered of
              Some (local_part, domain) \<Rightarrow> ''%'' @ local_part @ ''@'' @ domain @ ''%''
            | None \<Rightarrow> name_pattern @ ''@%'');
          like = (\<lambda>v pat. case v of Some t \<Rightarrow> ilike N t pat | None \<Rightarrow> False)
      in like (rec_name r) name_pattern \<or> like (rec_display_name r) name_pattern \<or>
         like (rec_nip05 r) internet_identifier \<or> like (rec_lud16 r) internet_identifier)"

definition record_search_by_text ::
  "nenv \<Rightarrow> string option \<Rightarrow> string option \<Rightarrow> u64 option \<Rightarrow> NostrProfileRecord list \<Rightarrow> NostrProfileRecord list" where
  "record_search_by_text N pubkey text' limit rs =
     (if pubkey = None \<and> text' = None then []
      else let found = filter (\<lambda>r. (case pubkey of Some k \<Rightarrow> rec_pubkey r = k | None \<Rightarrow> True) \<and>
               (case text' of Some t \<Rightarrow> matches_text N t r | None \<Rightarrow> True)) rs;
             ordered = sort_key (\<lambda>r. verified_rank (rec_nip05_verified r)) found
           in case limit of Some n \<Rightarrow> take (unat n) ordered | None \<Rightarrow> ordered)"

section \<open>The engine\<close>

record nostr_engine =
  nostr_profile_cache :: "(string \<times> NostrProfileUpdate) list"
  nostr_profile_pending :: "(string \<times> u64 \<times> uuid) list"
  n_to_bank :: "Message list"
  n_filters :: "SubscriptionFilter list" \<comment> \<open>queries to the relays\<close>
  n_direct :: "(string \<times> string) list" \<comment> \<open>private messages\<close>
  n_notes :: "(string \<times> NostrEvent) list" \<comment> \<open>events for relays of the pool\<close>
  n_tasks :: "(string list \<times> NostrEvent) list" \<comment> \<open>tasks for other relays\<close>
  n_records :: "NostrProfileRecord list"
  n_tick :: nat

definition nostr_engine_new :: "NostrProfileRecord list \<Rightarrow> nostr_engine" where
  "nostr_engine_new rs = \<lparr>nostr_profile_cache = [], nostr_profile_pending = [], n_to_bank = [], n_filters = [],
     n_direct = [], n_notes = [], n_tasks = [], n_records = rs, n_tick = 0\<rparr>"

definition n_bump :: "nostr_engine \<Rightarrow> nostr_engine" where
  "n_bump s = s\<lparr>n_tick := Suc (n_tick s)\<rparr>"

definition send_to_bank :: "Message \<Rightarrow> nostr_engine \<Rightarrow> nostr_engine" where
  "send_to_bank m s = s\<lparr>n_to_bank := n_to_bank s @ [m]\<rparr>"

definition create_profile_filter :: "nenv \<Rightarrow> InternalNostrProfileRequest \<Rightarrow> SubscriptionFilter option" where
  "create_profile_filter N r =
     (case inr_pubkey r of
        Some pubkey \<Rightarrow> map_option (\<lambda>k. \<lparr>sf_kind = METADATA_KIND, sf_author = Some k, sf_since = inr_since r,
          sf_until = inr_until r, sf_limit = inr_limit r\<rparr>) (from_pk_str (n_crypto N) pubkey)
      | None \<Rightarrow> Some \<lparr>sf_kind = METADATA_KIND, sf_author = None, sf_since = inr_since r, sf_until = inr_until r,
          sf_limit = inr_limit r\<rparr>)"

definition request_user_profile :: "nenv \<Rightarrow> InternalNostrProfileRequest \<Rightarrow> nostr_engine \<Rightarrow> nostr_engine" where
  "request_user_profile N r s =
     (case create_profile_filter N r of Some f \<Rightarrow> s\<lparr>n_filters := n_filters s @ [f]\<rparr> | None \<Rightarrow> s)"

definition send_nostr_private_msg :: "nenv \<Rightarrow> string \<Rightarrow> string \<Rightarrow> nostr_engine \<Rightarrow> nostr_engine option" where
  "send_nostr_private_msg N pubkey text' s = do {
     k \<leftarrow> from_pk_str (n_crypto N) pubkey;
     (if n_send N (n_tick s) then Some (n_bump (s\<lparr>n_direct := n_direct s @ [(k, text')]\<rparr>)) else None) }"

definition reply_if_pending :: "nenv \<Rightarrow> NostrProfileUpdate \<Rightarrow> nostr_engine \<Rightarrow> nostr_engine" where
  "reply_if_pending N u s =
     (case map_of (nostr_profile_pending s) (npu_pubkey u) of
        None \<Rightarrow> s
      | Some (pending_request_time_ms, req_id) \<Rightarrow>
          let elapsed = n_clock N (n_tick s) - pending_request_time_ms; s = n_bump s in
          if elapsed < API_PROFILE_TIMEOUT
          then send_to_bank (MsgApi (NostrProfileSearchResponseMsg
            \<lparr>npsr_req_id = req_id, npsr_data = [shareable u], npsr_error = None\<rparr>)) s
          else s)"

definition profile_record :: "NostrProfileUpdate \<Rightarrow> NostrProfileRecord" where
  "profile_record u = (let p = npu_nostr_profile u in
     \<lparr>rec_pubkey = npu_pubkey u, rec_created_at = npu_created_at_epoch_ms u,
      rec_received_at = npu_received_at_epoch_ms u, rec_name = np_name p, rec_display_name = np_display_name p,
      rec_nip05 = np_nip05 p, rec_lud16 = np_lud16 p, rec_nip05_verified = np_nip05_verified p,
      rec_content = npu_content u, rec_lnurl_pay_req = npu_validated_lnurl_pay_req u\<rparr>)"

definition insert_profile_update :: "nenv \<Rightarrow> NostrProfileUpdate \<Rightarrow> nostr_engine \<Rightarrow> nostr_engine" where
  "insert_profile_update N u s =
     (if n_pg N (n_tick s) then n_bump (s\<lparr>n_records := record_upsert (profile_record u) (n_records s)\<rparr>) else n_bump s)"

definition cache_replaces :: "NostrProfileUpdate \<Rightarrow> NostrProfileUpdate \<Rightarrow> bool" where
  "cache_replaces u old \<longleftrightarrow> npu_created_at_epoch_ms old < npu_created_at_epoch_ms u \<or>
     (npu_created_at_epoch_ms old = npu_created_at_epoch_ms u \<and>
      np_nip05_verified (npu_nostr_profile old) \<noteq> np_nip05_verified (npu_nostr_profile u))"

definition store_profile :: "nenv \<Rightarrow> NostrProfileUpdate \<Rightarrow> nostr_engine \<Rightarrow> nostr_engine" where
  "store_profile N u s =
     (let inserted = (case map_of (nostr_profile_cache s) (npu_pubkey u) of
              Some old \<Rightarrow> cache_replaces u old | None \<Rightarrow> True);
          s = (if inserted then s\<lparr>nostr_profile_cache := AList.update (npu_pubkey u) u (nostr_profile_cache s)\<rparr> else s);
          s = (if inserted then reply_if_pending N u s else s);
          s = (if n_pool N (n_tick s) then insert_profile_update N u (n_bump s) else n_bump s);
          time_now_ms = n_clock N (n_tick s);
          s = n_bump s
      in s\<lparr>nostr_profile_pending := filter (\<lambda>(pubkey, request_time_ms, request_id).
            2 * API_PROFILE_TIMEOUT \<le> time_now_ms - request_time_ms) (nostr_profile_pending s)\<rparr>)"

definition shareable_record :: "nenv \<Rightarrow> NostrProfileRecord \<Rightarrow> ShareableNostrProfile option" where
  "shareable_record N r = map_option (\<lambda>profile. \<lparr>snp_pubkey = rec_pubkey r,
     snp_created_at = i64_div_1000 (rec_created_at r),
     snp_profile = profile\<lparr>np_nip05_verified := rec_nip05_verified r\<rparr>,
     snp_validated_lnurl_pay_req = rec_lnurl_pay_req r\<rparr>) (json_profile N (rec_content r))"

definition search_profile_by_text ::
  "nenv \<Rightarrow> string option \<Rightarrow> string option \<Rightarrow> u64 option \<Rightarrow> nostr_engine \<Rightarrow> ShareableNostrProfile list option" where
  "search_profile_by_text N pubkey text' limit s =
     (if n_pool N (n_tick s) \<and> n_pg N (Suc (n_tick s))
      then Some (List.map_filter (shareable_record N) (record_search_by_text N pubkey text' limit (n_records s)))
      else None)"

definition cached_update :: "nenv \<Rightarrow> NostrProfileRecord \<Rightarrow> (string \<times> NostrProfileUpdate) option" where
  "cached_update N r =
     (if rec_content r = [] then None
      else map_option (\<lambda>profile. (rec_pubkey r, \<lparr>npu_pubkey = rec_pubkey r, npu_content = rec_content r,
        npu_created_at_epoch_ms = rec_created_at r, npu_received_at_epoch_ms = rec_received_at r,
        npu_nostr_profile = profile\<lparr>np_nip05_verified := rec_nip05_verified r\<rparr>,
        npu_validated_lnurl_pay_req = rec_lnurl_pay_req r\<rparr>)) (json_profile N (rec_content r)))"

text \<open>Collecting into a hash map: a later pair replaces an earlier one.\<close>

definition initialize_profile_cache :: "nenv \<Rightarrow> nostr_engine \<Rightarrow> nostr_engine" where
  "initialize_profile_cache N s =
     (if n_pool N (n_tick s) \<and> n_pg N (Suc (n_tick s))
      then s\<lparr>nostr_profile_cache := foldl (\<lambda>m (k, u). AList.update k u m) []
          (List.map_filter (cached_update N) (n_records s)), n_tick := n_tick s + 2\<rparr>
      else s\<lparr>n_tick := n_tick s + 2\<rparr>)"

definition send_zap_note :: "nenv \<Rightarrow> NostrZapNote \<Rightarrow> nostr_engine \<Rightarrow> nostr_engine option" where
  "send_zap_note N zap s = do {
     note \<leftarrow> create_zap_note (n_crypto N) (nzn_amount zap) (nzn_description zap) (nzn_description_hash zap)
       (nzn_bolt11 zap) (nzn_preimage zap) (nzn_settled_timestamp zap);
     Some (case note of
             Inl _ \<Rightarrow> s
           | Inr (zap_note, zap_note_relays) \<Rightarrow>
               let urls = List.map_filter (n_url_parse N) zap_note_relays;
                   existing_pool_relays = filter (\<lambda>url. url \<in> set (client_relays N)) urls;
                   unknown_relays = filter (\<lambda>url. url \<notin> set (client_relays N)) urls
               in s\<lparr>n_notes := n_notes s @ map (\<lambda>url. (url, zap_note)) existing_pool_relays,
                    n_tasks := n_tasks s @ [(unknown_relays, zap_note)]\<rparr>) }"

definition nostr_profile_request :: "nenv \<Rightarrow> NostrProfileRequest \<Rightarrow> nostr_engine \<Rightarrow> nostr_engine" where
  "nostr_profile_request N req s =
     (case npr_pubkey req of
        None \<Rightarrow> s
      | Some pubkey \<Rightarrow>
          (case map_of (nostr_profile_cache s) pubkey of
             Some cached_profile_update \<Rightarrow> send_to_bank (MsgApi (NostrProfileSearchResponseMsg
               \<lparr>npsr_req_id = npr_req_id req, npsr_data = [shareable cached_profile_update], npsr_error = None\<rparr>)) s
           | None \<Rightarrow> request_user_profile N \<lparr>inr_pubkey = Some pubkey, inr_since = None, inr_until = None, inr_limit = Some 1\<rparr>
               (n_bump (s\<lparr>nostr_profile_pending :=
                 AList.update pubkey (n_clock N (n_tick s), npr_req_id req) (nostr_profile_pending s)\<rparr>))))"

fun nostr_process_message :: "nenv \<Rightarrow> Message \<Rightarrow> nostr_engine \<Rightarrow> nostr_engine option" where
  "nostr_process_message N (MsgApi (NostrProfileRequestMsg req)) s = Some (nostr_profile_request N req s)"
| "nostr_process_message N (MsgApi (NostrProfileSearchRequestMsg req)) s =
     (let (data, error) = (case search_profile_by_text N (nps_pubkey req) (nps_text req) (nps_limit req) s of
            Some profiles \<Rightarrow> (profiles, None) | None \<Rightarrow> ([], Some ProfileNotFound))
      in Some (send_to_bank (MsgApi (NostrProfileSearchResponseMsg
           \<lparr>npsr_req_id = nps_req_id req, npsr_data = data, npsr_error = error\<rparr>)) (n_bump (n_bump s))))"
| "nostr_process_message N (MsgNostr (NostrProfilesRefetchRequestMsg req)) s =
     Some (request_user_profile N \<lparr>inr_pubkey = nprr_pubkey req, inr_since = map_option (\<lambda>ms. ms div 1000) (nprr_since_epoch_ms req),
       inr_until = map_option (\<lambda>ms. ms div 1000) (nprr_until_epoch_ms req), inr_limit = nprr_limit req\<rparr> s)"
| "nostr_process_message N (MsgNostr (NostrPrivateMessageMsg req)) s =
     send_nostr_private_msg N (npm_pubkey req) (npm_text req) s"
| "nostr_process_message N (MsgNostr (NostrZapNoteMsg zap)) s = send_zap_note N zap s"
| "nostr_process_message N _ s = Some s"

fun nostr_process_event :: "nenv \<Rightarrow> NostrEngineEvent \<Rightarrow> nostr_engine \<Rightarrow> nostr_engine option" where
  "nostr_process_event N (NostrProfileUpdateEv u) s = Some (store_profile N u s)"
| "nostr_process_event N (LndhubxMessage m) s = nostr_process_message N m s"
| "nostr_process_event N (InternalNostrProfileRequestEv r) s = Some (request_user_profile N r s)"

text \<open>The events handler takes the events of its channel in order; a panic ends its task.\<close>

definition nostr_step :: "nenv \<Rightarrow> nostr_engine \<Rightarrow> NostrEngineEvent \<Rightarrow> nostr_engine \<Rightarrow> bool" where
  "nostr_step N s e s' \<longleftrightarrow> nostr_process_event N e s = Some s'"

end
