(* ===== verification/NostrRun.thy ===== *)
theory NostrRun
  imports NostrEngine
begin

text \<open>
  What the nostr engine guarantees over runs: the newest profile wins, the table in the database
  follows the cache, and what becomes of requests for profiles that are not known yet.
\<close>

section \<open>Cache and table\<close>

text \<open>Times that do not become negative when they are stored as \<open>i64\<close>.\<close>

definition dated :: "u64 \<Rightarrow> bool" where
  "dated w \<longleftrightarrow> uint w < 2 ^ 63"

lemma sint_dated: "dated w \<Longrightarrow> sint w = uint w"
proof -
  assume "dated w"
  moreover have "- (2 ^ 63) \<le> uint w" by (rule order_trans [of _ 0]) auto
  ultimately show ?thesis by (simp add: dated_def sint_uint signed_take_bit_int_eq_self)
qed

text \<open>The table follows the cache.\<close>

definition mirrors :: "nostr_engine \<Rightarrow> bool" where
  "mirrors s \<longleftrightarrow> (\<forall>k. rel_option (\<lambda>u r. rec_created_at r = npu_created_at_epoch_ms u \<and>
     coalesce_false (rec_nip05_verified r) = coalesce_false (np_nip05_verified (npu_nostr_profile u)) \<and>
     dated (npu_created_at_epoch_ms u)) (map_of (nostr_profile_cache s) k) (record_get k (n_records s)))"

lemma mirrorsD:
  assumes "mirrors s" "map_of (nostr_profile_cache s) k = Some v"
  shows "\<exists>r. record_get k (n_records s) = Some r \<and> rec_created_at r = npu_created_at_epoch_ms v \<and>
    coalesce_false (rec_nip05_verified r) = coalesce_false (np_nip05_verified (npu_nostr_profile v))"
  using assms(1) [unfolded mirrors_def, rule_format, of k] assms(2) by (auto simp: option_rel_Some1)

fun event_dated :: "NostrEngineEvent \<Rightarrow> bool" where
  "event_dated (NostrProfileUpdateEv u) = (dated (npu_created_at_epoch_ms u))"
| "event_dated _ = True"

lemma find_map_other:
  "(\<And>x. key (f x) = key x) \<Longrightarrow> List.find (\<lambda>x. key x = k) (map f xs) = map_option f (List.find (\<lambda>x. key x = k) xs)"
  by (induction xs) auto

lemma record_get_upsert:
  "record_get k (record_upsert r rs) =
     (if k = rec_pubkey r
      then Some (case record_get k rs of None \<Rightarrow> r | Some old \<Rightarrow> if supersedes r old then r else old)
      else record_get k rs)"
proof (cases "record_get (rec_pubkey r) rs")
  case None
  then show ?thesis
  proof -
    have "\<not> list_ex (\<lambda>x. rec_pubkey x = rec_pubkey r) rs"
      using None by (auto simp: record_get_def find_None_iff list_ex_iff)
    from find_key_snoc [OF this, of k] None show ?thesis by (simp add: record_upsert_def record_get_def)
  qed
next
  case (Some old)
  let ?f = "\<lambda>old. if rec_pubkey old = rec_pubkey r \<and> supersedes r old then r else old"
  have "record_get k (map ?f rs) = map_option ?f (record_get k rs)"
    unfolding record_get_def by (rule find_map_other) simp
  then have upd: "record_get k (record_upsert r rs) = map_option ?f (record_get k rs)"
    using Some by (simp add: record_upsert_def)
  show ?thesis
  proof (cases "record_get k rs")
    case None
    with upd Some show ?thesis by auto
  next
    case (Some x)
    then have "rec_pubkey x = k" by (auto simp: record_get_def find_Some_iff)
    with upd Some show ?thesis by auto
  qed
qed

definition cache_after :: "NostrProfileUpdate \<Rightarrow> NostrProfileUpdate option \<Rightarrow> NostrProfileUpdate" where
  "cache_after u c = (case c of None \<Rightarrow> u | Some old \<Rightarrow> if cache_replaces u old then u else old)"

lemma reply_frame [simp]:
  "nostr_profile_cache (reply_if_pending N u s) = nostr_profile_cache s"
  "n_records (reply_if_pending N u s) = n_records s"
  "nostr_profile_pending (reply_if_pending N u s) = nostr_profile_pending s"
  by (simp_all add: reply_if_pending_def n_bump_def send_to_bank_def Let_def split: option.split)

lemma insert_frame [simp]:
  "nostr_profile_cache (insert_profile_update N u s) = nostr_profile_cache s"
  "n_to_bank (insert_profile_update N u s) = n_to_bank s"
  "nostr_profile_pending (insert_profile_update N u s) = nostr_profile_pending s"
  by (simp_all add: insert_profile_update_def n_bump_def)

lemma n_bump_simps [simp]:
  "nostr_profile_cache (n_bump s) = nostr_profile_cache s" "n_records (n_bump s) = n_records s"
  "nostr_profile_pending (n_bump s) = nostr_profile_pending s" "n_to_bank (n_bump s) = n_to_bank s"
  "n_tick (n_bump s) = Suc (n_tick s)"
  by (simp_all add: n_bump_def)

lemma store_cache:
  "map_of (nostr_profile_cache (store_profile N u s)) =
     (map_of (nostr_profile_cache s))(npu_pubkey u \<mapsto> cache_after u (map_of (nostr_profile_cache s) (npu_pubkey u)))"
  by (auto simp: store_profile_def cache_after_def Let_def fun_eq_iff split: option.split)

lemma store_records:
  assumes "\<And>n. n_pool N n" "\<And>n. n_pg N n"
  shows "n_records (store_profile N u s) = record_upsert (profile_record u) (n_records s)"
  using assms by (simp add: store_profile_def insert_profile_update_def Let_def)

lemma request_frame [simp]:
  "nostr_profile_cache (request_user_profile N r s) = nostr_profile_cache s"
  "n_records (request_user_profile N r s) = n_records s"
  "n_to_bank (request_user_profile N r s) = n_to_bank s"
  "nostr_profile_pending (request_user_profile N r s) = nostr_profile_pending s"
  by (simp_all add: request_user_profile_def split: option.split)

lemma message_frame:
  "nostr_process_message N m s = Some s' \<Longrightarrow> nostr_profile_cache s' = nostr_profile_cache s \<and> n_records s' = n_records s"
  by (cases "(N, m, s)" rule: nostr_process_message.cases)
    (auto simp: nostr_profile_request_def send_to_bank_def send_nostr_private_msg_def send_zap_note_def
      Let_def elim!: bind_SomeE split: option.split_asm prod.split_asm sum.split_asm if_split_asm)

lemma other_events:
  assumes "nostr_step N s e s'" "\<forall>u. e \<noteq> NostrProfileUpdateEv u"
  shows "nostr_profile_cache s' = nostr_profile_cache s \<and> n_records s' = n_records s"
  using assms message_frame by (cases e) (auto simp: nostr_step_def)

locale nostr_db =
  fixes N :: nenv
  assumes pool_up: "n_pool N n" and pg_up: "n_pg N n"
begin

lemma supersedes_cache:
  assumes "rec_created_at r = npu_created_at_epoch_ms old" "dated (npu_created_at_epoch_ms old)"
    and "coalesce_false (rec_nip05_verified r) = coalesce_false (np_nip05_verified (npu_nostr_profile old))"
    and "dated (npu_created_at_epoch_ms u)"
  shows "supersedes (profile_record u) r \<Longrightarrow> cache_replaces u old"
    and "cache_replaces u old \<Longrightarrow> \<not> supersedes (profile_record u) r \<Longrightarrow>
      npu_created_at_epoch_ms old = npu_created_at_epoch_ms u \<and>
      coalesce_false (np_nip05_verified (npu_nostr_profile old)) = coalesce_false (np_nip05_verified (npu_nostr_profile u))"
proof -
  have "sint (npu_created_at_epoch_ms old) < sint (npu_created_at_epoch_ms u) \<longleftrightarrow>
    npu_created_at_epoch_ms old < npu_created_at_epoch_ms u"
    using sint_dated [OF assms(2)] sint_dated [OF assms(4)] by (simp add: word_less_def)
  then show "supersedes (profile_record u) r \<Longrightarrow> cache_replaces u old"
    and "cache_replaces u old \<Longrightarrow> \<not> supersedes (profile_record u) r \<Longrightarrow>
      npu_created_at_epoch_ms old = npu_created_at_epoch_ms u \<and>
      coalesce_false (np_nip05_verified (npu_nostr_profile old)) = coalesce_false (np_nip05_verified (npu_nostr_profile u))"
    using assms(1,3) by (auto simp: supersedes_def cache_replaces_def profile_record_def Let_def)
qed

lemma store_mirrors:
  assumes "mirrors s" "dated (npu_created_at_epoch_ms u)"
  shows "mirrors (store_profile N u s)"
  unfolding mirrors_def
proof
  fix k
  have s: "rel_option (\<lambda>u r. rec_created_at r = npu_created_at_epoch_ms u \<and>
     coalesce_false (rec_nip05_verified r) = coalesce_false (np_nip05_verified (npu_nostr_profile u)) \<and>
     dated (npu_created_at_epoch_ms u)) (map_of (nostr_profile_cache s) k) (record_get k (n_records s))"
    using assms(1) by (simp add: mirrors_def)
  have rec: "n_records (store_profile N u s) = record_upsert (profile_record u) (n_records s)"
    using pool_up pg_up by (rule store_records)
  show "rel_option (\<lambda>u r. rec_created_at r = npu_created_at_epoch_ms u \<and>
     coalesce_false (rec_nip05_verified r) = coalesce_false (np_nip05_verified (npu_nostr_profile u)) \<and>
     dated (npu_created_at_epoch_ms u)) (map_of (nostr_profile_cache (store_profile N u s)) k)
       (record_get k (n_records (store_profile N u s)))"
  proof (cases "k = npu_pubkey u")
    case False
    with s show ?thesis by (simp add: rec store_cache record_get_upsert profile_record_def Let_def)
  next
    case True
    have new: "rec_pubkey (profile_record u) = npu_pubkey u" "rec_created_at (profile_record u) = npu_created_at_epoch_ms u"
      "rec_nip05_verified (profile_record u) = np_nip05_verified (npu_nostr_profile u)"
      by (simp_all add: profile_record_def Let_def)
    from s show ?thesis
    proof (cases rule: option.rel_cases)
      case None
      with True assms(2) new show ?thesis by (simp add: rec store_cache record_get_upsert cache_after_def)
    next
      case (Some old r)
      with supersedes_cache [of r old u] assms(2) True new show ?thesis
        by (auto simp: rec store_cache record_get_upsert cache_after_def)
    qed
  qed
qed

lemma step_mirrors:
  assumes "mirrors s" "event_dated e \<and> nostr_step N s e t"
  shows "mirrors t"
proof (cases "\<exists>u. e = NostrProfileUpdateEv u")
  case True
  with assms show ?thesis by (auto simp: nostr_step_def intro: store_mirrors)
next
  case False
  with assms other_events [of N s e t] show ?thesis by (auto simp: mirrors_def)
qed

end

sublocale nostr_db \<subseteq> mirror: invariant "\<lambda>s e t. event_dated e \<and> nostr_step N s e t" mirrors
  by unfold_locales (rule step_mirrors)

context nostr_db
begin

lemma run_mirrors:
  "run (\<lambda>s e t. event_dated e \<and> nostr_step N s e t) s es t \<Longrightarrow> mirrors s \<Longrightarrow> mirrors t"
  by (rule mirror.run_inv)

end

section \<open>The newest profile\<close>

definition cache_grows :: "nostr_engine \<Rightarrow> nostr_engine \<Rightarrow> bool" where
  "cache_grows s t \<longleftrightarrow> (\<forall>k u. map_of (nostr_profile_cache s) k = Some u \<longrightarrow>
     (\<exists>v. map_of (nostr_profile_cache t) k = Some v \<and> npu_created_at_epoch_ms u \<le> npu_created_at_epoch_ms v))"

lemma cache_after_ge:
  "npu_created_at_epoch_ms u \<le> npu_created_at_epoch_ms (cache_after u c)"
  "c = Some old \<Longrightarrow> npu_created_at_epoch_ms old \<le> npu_created_at_epoch_ms (cache_after u c)"
  by (auto simp: cache_after_def cache_replaces_def split: option.split)

lemma step_grows: "nostr_step N s e t \<Longrightarrow> cache_grows s t"
proof (cases "\<exists>u. e = NostrProfileUpdateEv u")
  case True
  moreover assume "nostr_step N s e t"
  ultimately show ?thesis
    using cache_after_ge(2) by (fastforce simp: nostr_step_def cache_grows_def store_cache)
next
  case False
  moreover assume "nostr_step N s e t"
  ultimately show ?thesis using other_events [of N s e t] by (auto simp: cache_grows_def)
qed

interpretation newest: machine "nostr_step N" "\<lambda>_. True" cache_grows
proof
  show "cache_grows s t \<Longrightarrow> cache_grows t u \<Longrightarrow> cache_grows s u" for s t u
    unfolding cache_grows_def by (meson order_trans)
  show "cache_grows s s" for s by (simp add: cache_grows_def)
qed (auto intro: step_grows)

lemma run_cache_from:
  "run (nostr_step N) s es t \<Longrightarrow> map_of (nostr_profile_cache t) k = Some v \<Longrightarrow>
     map_of (nostr_profile_cache s) k = Some v \<or> NostrProfileUpdateEv v \<in> set es"
proof (induction rule: run.induct)
  case (run_Cons s e s1 es t)
  have "map_of (nostr_profile_cache s) k = Some v \<or> e = NostrProfileUpdateEv v" if "map_of (nostr_profile_cache s1) k = Some v"
  proof (cases "\<exists>u. e = NostrProfileUpdateEv u")
    case True
    with run_Cons.hyps(1) that show ?thesis
      by (auto simp: nostr_step_def store_cache cache_after_def split: if_split_asm option.split_asm)
  next
    case False
    with other_events [OF run_Cons.hyps(1)] that show ?thesis by auto
  qed
  with run_Cons show ?case by auto
qed simp

lemma run_newest:
  assumes "run (nostr_step N) s es t" "NostrProfileUpdateEv u \<in> set es"
  shows "\<exists>v. map_of (nostr_profile_cache t) (npu_pubkey u) = Some v \<and>
    npu_created_at_epoch_ms u \<le> npu_created_at_epoch_ms v \<and>
    (map_of (nostr_profile_cache s) (npu_pubkey u) = Some v \<or> NostrProfileUpdateEv v \<in> set es)"
proof -
  obtain s1 s2 fs where step: "nostr_step N s1 (NostrProfileUpdateEv u) s2" and run: "run (nostr_step N) s2 fs t"
    using run_member [OF assms] by blast
  let ?c = "cache_after u (map_of (nostr_profile_cache s1) (npu_pubkey u))"
  have "map_of (nostr_profile_cache s2) (npu_pubkey u) = Some ?c"
    using step by (auto simp: nostr_step_def store_cache)
  with newest.run_rel [OF run] obtain v where "map_of (nostr_profile_cache t) (npu_pubkey u) = Some v"
    "npu_created_at_epoch_ms ?c \<le> npu_created_at_epoch_ms v"
    unfolding cache_grows_def by blast
  with run_cache_from [OF assms(1)] cache_after_ge(1) order_trans show ?thesis by blast
qed

text \<open>
  C36. The newest profile wins, in the cache and in the database: after a run in which an update of
  a key was processed, the cache holds an update of that key that is at least as new and that was
  itself received (or cached before), and the row of the key in the database has the same time
  and the same verification status, a missing status counting as not verified. The database must
  answer, and times must be below \<open>2\<^sup>6\<^sup>3\<close> milliseconds.
\<close>

theorem newest_profile_kept:
  assumes "nostr_db N" "mirrors s" "run (\<lambda>s e t. event_dated e \<and> nostr_step N s e t) s es t"
    and "NostrProfileUpdateEv u \<in> set es"
  shows "\<exists>v r. map_of (nostr_profile_cache t) (npu_pubkey u) = Some v \<and>
    npu_created_at_epoch_ms u \<le> npu_created_at_epoch_ms v \<and>
    (map_of (nostr_profile_cache s) (npu_pubkey u) = Some v \<or> NostrProfileUpdateEv v \<in> set es) \<and>
    record_get (npu_pubkey u) (n_records t) = Some r \<and> rec_created_at r = npu_created_at_epoch_ms v \<and>
    coalesce_false (rec_nip05_verified r) = coalesce_false (np_nip05_verified (npu_nostr_profile v))"
proof -
  have run: "run (nostr_step N) s es t" using assms(3) by (rule run_mono) simp
  obtain v where v: "map_of (nostr_profile_cache t) (npu_pubkey u) = Some v"
    "npu_created_at_epoch_ms u \<le> npu_created_at_epoch_ms v"
    "map_of (nostr_profile_cache s) (npu_pubkey u) = Some v \<or> NostrProfileUpdateEv v \<in> set es"
    using run_newest [OF run assms(4)] by blast
  have "mirrors t" by (rule nostr_db.run_mirrors [OF assms(1,3,2)])
  from mirrorsD [OF this v(1)] obtain r where "record_get (npu_pubkey u) (n_records t) = Some r"
    "rec_created_at r = npu_created_at_epoch_ms v"
    "coalesce_false (rec_nip05_verified r) = coalesce_false (np_nip05_verified (npu_nostr_profile v))" by blast
  with v show ?thesis by blast
qed

text \<open>A restart: the cache is rebuilt from the table.\<close>

lemma fold_updates: "map_of (foldl (\<lambda>m (k, u). AList.update k u m) m xs) = map_of m ++ map_of (rev xs)"
proof (induction xs arbitrary: m)
  case (Cons x xs)
  obtain k u where x: "x = (k, u)" by fastforce
  show ?case by (rule ext) (simp add: x Cons.IH map_add_def split: option.split)
qed simp

lemma collect_distinct:
  assumes "distinct (map fst xs)"
  shows "map_of (foldl (\<lambda>m (k, u). AList.update k u m) [] xs) = map_of xs"
proof -
  have "map_of (rev xs) = map_of xs" using assms by (subst map_of_inject_set) (auto simp: rev_map [symmetric])
  then show ?thesis by (simp add: fold_updates)
qed

lemma cached_update_Some:
  assumes "rec_content r \<noteq> []" "json_profile N (rec_content r) \<noteq> None"
  shows "\<exists>u. cached_update N r = Some (rec_pubkey r, u) \<and> npu_created_at_epoch_ms u = rec_created_at r \<and>
    np_nip05_verified (npu_nostr_profile u) = rec_nip05_verified r"
  using assms by (auto simp: cached_update_def)

lemma restart_mirrors:
  assumes "nostr_db N" "distinct (map rec_pubkey (n_records s))"
    and ok: "\<And>r. r \<in> set (n_records s) \<Longrightarrow>
      rec_content r \<noteq> [] \<and> json_profile N (rec_content r) \<noteq> None \<and> dated (rec_created_at r)"
  shows "mirrors (initialize_profile_cache N s)"
proof -
  let ?R = "\<lambda>u r. rec_created_at r = npu_created_at_epoch_ms u \<and>
     coalesce_false (rec_nip05_verified r) = coalesce_false (np_nip05_verified (npu_nostr_profile u)) \<and>
     dated (npu_created_at_epoch_ms u)"
  have found: "map fst (List.map_filter (cached_update N) rs) = map rec_pubkey rs \<and>
    rel_option ?R (map_of (List.map_filter (cached_update N) rs) k) (record_get k rs)"
    if "set rs \<subseteq> set (n_records s)" for rs k
    using that
  proof (induction rs)
    case (Cons r rs)
    then obtain u where "cached_update N r = Some (rec_pubkey r, u)" "npu_created_at_epoch_ms u = rec_created_at r"
      "np_nip05_verified (npu_nostr_profile u) = rec_nip05_verified r" "dated (rec_created_at r)"
      using cached_update_Some [of r N] ok [of r] by auto
    with Cons show ?case by (auto simp: record_get_def)
  qed (simp add: record_get_def)
  have "n_pool N n" "n_pg N n" for n using assms(1) by (simp_all add: nostr_db_def)
  then show ?thesis
    using found [of "n_records s"] assms(2)
    by (auto simp: mirrors_def initialize_profile_cache_def collect_distinct)
qed

section \<open>Pending requests\<close>

definition nostr_reply :: "uuid \<Rightarrow> NostrProfileUpdate \<Rightarrow> Message" where
  "nostr_reply i u = MsgApi (NostrProfileSearchResponseMsg \<lparr>npsr_req_id = i, npsr_data = [shareable u], npsr_error = None\<rparr>)"

lemma store_to_bank:
  "n_to_bank (store_profile N u s) = n_to_bank s @
     (if (case map_of (nostr_profile_cache s) (npu_pubkey u) of Some old \<Rightarrow> cache_replaces u old | None \<Rightarrow> True)
      then (case map_of (nostr_profile_pending s) (npu_pubkey u) of
              Some (t, i) \<Rightarrow> if n_clock N (n_tick s) - t < API_PROFILE_TIMEOUT then [nostr_reply i u] else []
            | None \<Rightarrow> [])
      else [])"
  by (auto simp: store_profile_def reply_if_pending_def send_to_bank_def nostr_reply_def Let_def split: option.split)

lemma store_pending:
  "nostr_profile_pending (store_profile N u s) =
     filter (\<lambda>(k, t, i). 2 * API_PROFILE_TIMEOUT \<le> n_clock N (n_tick (store_profile N u s) - 1) - t)
       (nostr_profile_pending s)"
  by (simp add: store_profile_def Let_def)

lemma pending_after_request:
  assumes "npr_pubkey req = Some k" "map_of (nostr_profile_cache s) k = None"
  shows "nostr_profile_pending (nostr_profile_request N req s) =
      AList.update k (n_clock N (n_tick s), npr_req_id req) (nostr_profile_pending s)"
    and "nostr_profile_cache (nostr_profile_request N req s) = nostr_profile_cache s"
    and "n_to_bank (nostr_profile_request N req s) = n_to_bank s"
  using assms by (simp_all add: nostr_profile_request_def)

lemma map_of_filter_dropped:
  assumes "distinct_keys m" "map_of m k = Some v" "\<not> P (k, v)"
  shows "map_of (filter P m) k = None"
proof -
  have "w = v" if "(k, w) \<in> set m" for w using that assms(1,2) by (simp add: distinct_keys_def)
  with assms(3) show ?thesis by (auto simp: map_of_eq_None_iff)
qed

text \<open>
  C37. What becomes of a request for a profile that is not cached. If the next update that arrives is
  one of that key within five seconds, the request is answered with it. But any update drops the
  requests younger than ten seconds (and keeps the older ones): if an update of another key comes
  first, the request is forgotten, and the update of its key is not sent to whoever asked.
\<close>

theorem pending_request_fate:
  assumes "npr_pubkey req = Some k" "map_of (nostr_profile_cache s) k = None" "npu_pubkey u = k" "npu_pubkey v \<noteq> k"
    and "distinct_keys (nostr_profile_pending s)" "s1 = nostr_profile_request N req s" "s2 = store_profile N v s1"
  shows "(n_clock N (n_tick s1) - n_clock N (n_tick s) < API_PROFILE_TIMEOUT \<longrightarrow>
      n_to_bank (store_profile N u s1) = n_to_bank s @ [nostr_reply (npr_req_id req) u]) \<and>
    (n_clock N (n_tick s2 - 1) - n_clock N (n_tick s) < 2 * API_PROFILE_TIMEOUT \<longrightarrow>
      n_to_bank (store_profile N u s2) = n_to_bank s2)"
proof (intro conjI impI)
  note s1 = pending_after_request [OF assms(1,2), of N, folded assms(6)]
  show "n_to_bank (store_profile N u s1) = n_to_bank s @ [nostr_reply (npr_req_id req) u]"
    if "n_clock N (n_tick s1) - n_clock N (n_tick s) < API_PROFILE_TIMEOUT"
    using that assms(2,3) by (simp add: store_to_bank s1)
  assume "n_clock N (n_tick s2 - 1) - n_clock N (n_tick s) < 2 * API_PROFILE_TIMEOUT"
  then have "map_of (nostr_profile_pending s2) k = None"
    unfolding assms(7) store_pending using assms(5)
    by (intro map_of_filter_dropped [of _ _ "(n_clock N (n_tick s), npr_req_id req)"]) (auto simp: s1 not_le)
  then show "n_to_bank (store_profile N u s2) = n_to_bank s2"
    using assms(3) by (simp add: store_to_bank split: option.split)
qed

section \<open>A concrete engine\<close>

definition nenv96 :: nenv where
  "nenv96 = \<lparr>n_crypto = \<lparr>event_from_json = (\<lambda>_. Inl EvJson), nostr_sha256 = id, to_event = (\<lambda>_ _ _. None), from_pk_str = Some\<rparr>,
     n_clock = (\<lambda>n. 1000000 + word_of_nat n), n_pool = (\<lambda>_. True), n_pg = (\<lambda>_. True), n_send = (\<lambda>_. True),
     http_get = (\<lambda>_ _. None), json_nip05 = (\<lambda>_. None), json_pay_response = (\<lambda>_. None), json_metadata = (\<lambda>_. False),
     json_profile = (\<lambda>_. None), n_url_parse = Some, lnurl_bech32 = Some, lnurl_unbech32 = (\<lambda>_. None),
     ilike = (=), client_relays = []\<rparr>"

interpretation nenv96: nostr_db nenv96
  by unfold_locales (simp_all add: nenv96_def)

definition sample_update :: "string \<Rightarrow> u64 \<Rightarrow> NostrProfileUpdate" where
  "sample_update k t = \<lparr>npu_pubkey = k, npu_content = ''{}'', npu_created_at_epoch_ms = t, npu_received_at_epoch_ms = t,
     npu_nostr_profile = \<lparr>np_banner = None, np_website = None, np_lud06 = None, np_nip05 = None, np_picture = None,
       np_display_name = None, np_about = None, np_name = None, np_lud16 = None, np_nip05_verified = None\<rparr>,
     npu_validated_lnurl_pay_req = None\<rparr>"

theorem newest_profile_kept_witness:
  "\<exists>t r. run (\<lambda>s e t. event_dated e \<and> nostr_step nenv96 s e t) (nostr_engine_new [])
      [NostrProfileUpdateEv (sample_update ''a'' 2000), NostrProfileUpdateEv (sample_update ''a'' 1000)] t \<and>
    record_get ''a'' (n_records t) = Some r \<and> rec_created_at r = 2000"
proof -
  let ?u = "sample_update ''a'' 2000" and ?v = "sample_update ''a'' 1000"
  let ?t = "store_profile nenv96 ?v (store_profile nenv96 ?u (nostr_engine_new []))"
  have run: "run (\<lambda>s e t. event_dated e \<and> nostr_step nenv96 s e t) (nostr_engine_new [])
      [NostrProfileUpdateEv ?u, NostrProfileUpdateEv ?v] ?t"
    by (rule run_Cons [rotated], rule run_Cons [rotated], rule run_Nil)
      (simp_all add: nostr_step_def dated_def, simp_all add: sample_update_def)
  have start: "mirrors (nostr_engine_new [])" by (simp add: mirrors_def nostr_engine_new_def record_get_def)
  from newest_profile_kept [OF nenv96.nostr_db_axioms start run, of ?u] obtain v r where
    v: "2000 \<le> npu_created_at_epoch_ms v" "v = ?u \<or> v = ?v"
    and r: "record_get ''a'' (n_records ?t) = Some r" "rec_created_at r = npu_created_at_epoch_ms v"
    by (auto simp: sample_update_def nostr_engine_new_def)
  from v have "npu_created_at_epoch_ms v = 2000" by (auto simp: sample_update_def)
  with r(2) have "rec_created_at r = 2000" by simp
  with run r(1) show ?thesis by blast
qed

theorem pending_request_fate_witness:
  "\<exists>s1 s2. s1 = nostr_profile_request nenv96 \<lparr>npr_req_id = 7, npr_pubkey = Some ''a'', npr_lightning_address = None\<rparr> (nostr_engine_new []) \<and>
     s2 = store_profile nenv96 (sample_update ''b'' 1000) s1 \<and>
     n_to_bank (store_profile nenv96 (sample_update ''a'' 1000) s1) = [nostr_reply 7 (sample_update ''a'' 1000)] \<and>
     n_to_bank (store_profile nenv96 (sample_update ''a'' 1000) s2) = n_to_bank s2"
proof -
  let ?r = "\<lparr>npr_req_id = 7, npr_pubkey = Some ''a'', npr_lightning_address = None\<rparr>"
  let ?s1 = "nostr_profile_request nenv96 ?r (nostr_engine_new [])"
  let ?s2 = "store_profile nenv96 (sample_update ''b'' 1000) ?s1"
  have "n_tick ?s1 = 1" "n_tick ?s2 = 4"
    by (simp_all add: nostr_profile_request_def nostr_engine_new_def request_user_profile_def create_profile_filter_def
        store_profile_def reply_if_pending_def insert_profile_update_def sample_update_def nenv96_def n_bump_def Let_def)
  then show ?thesis
    using pending_request_fate [of ?r "''a''" "nostr_engine_new []" "sample_update ''a'' 1000" "sample_update ''b'' 1000" ?s1 nenv96 ?s2]
    by (simp add: sample_update_def nostr_engine_new_def nenv96_def API_PROFILE_TIMEOUT_def)
qed

end
