(* ===== verification/NostrIndexer.thy ===== *)
theory NostrIndexer
  imports NostrRun
begin

text \<open>
  The indexer of profiles (\<open>spawn_profile_indexer\<close>, \<open>spawn_profile_subscriber\<close> and
  \<open>store_last_check\<close> in \<open>nostr_engine/src/lib.rs\<close>; \<open>models/src/nostr_profile_indexer_times.rs\<close>). It asks
  the relays for the profiles of one hour after the other until it has caught up with the clock. The
  loop is a partial function: \<open>None\<close> is a panic or that it never ends.
\<close>

definition SECONDS_IN_HOUR :: u64 where
  "SECONDS_IN_HOUR = 3600"

text \<open>The requests sent to the engine, and the column \<open>last_check\<close>.\<close>

record indexer =
  ix_requests :: "InternalNostrProfileRequest list"
  ix_last_check :: "i64 option"

definition indexer_start :: "indexer \<Rightarrow> u64" where
  "indexer_start ix = (case ix_last_check ix of Some last' \<Rightarrow> last' | None \<Rightarrow> 1609459200)"

definition store_last_check :: "nenv \<Rightarrow> nat \<Rightarrow> u64 \<Rightarrow> indexer \<Rightarrow> indexer" where
  "store_last_check N n t ix = (if n_pool N n \<and> n_pg N n then ix\<lparr>ix_last_check := Some t\<rparr> else ix)"

definition range_request :: "u64 \<Rightarrow> u64 \<Rightarrow> InternalNostrProfileRequest" where
  "range_request since until = \<lparr>inr_pubkey = None, inr_since = Some since, inr_until = Some until, inr_limit = None\<rparr>"

definition now_seconds :: "nenv \<Rightarrow> nat \<Rightarrow> u64" where
  "now_seconds N n = n_clock N n div 1000"

text \<open>
  One round per tick: \<open>room n\<close> says whether the channel to the engine has room (a request that
  finds none is dropped). The percentage for the log is computed only after a request was sent, and
  divides by the length of the whole range.
\<close>

partial_function (option) index_loop ::
  "nenv \<Rightarrow> (nat \<Rightarrow> bool) \<Rightarrow> u64 \<Rightarrow> u64 \<Rightarrow> nat \<Rightarrow> indexer \<Rightarrow> (indexer \<times> nat) option" where
  "index_loop N room since_epoch_seconds range_since n ix =
     (let time_now = now_seconds N n in
      if time_now \<le> range_since then Some (ix, n)
      else if room n \<and> time_now - since_epoch_seconds = 0 then None
      else let range_until = range_since + SECONDS_IN_HOUR;
               range_until_capped = min range_until time_now;
               ix = (if room n then ix\<lparr>ix_requests := ix_requests ix @ [range_request range_since range_until_capped]\<rparr> else ix)
           in index_loop N room since_epoch_seconds range_until (Suc n) (store_last_check N n range_since ix))"

declare index_loop.simps [code]

text \<open>The seconds that a request asks for.\<close>

definition asked :: "InternalNostrProfileRequest \<Rightarrow> nat set" where
  "asked r = (case (inr_since r, inr_until r) of (Some a, Some b) \<Rightarrow> {unat a..unat b} | _ \<Rightarrow> {})"

lemma asked_range [simp]: "asked (range_request a b) = {unat a..unat b}"
  by (simp add: asked_def range_request_def)

lemma now_seconds_small: "unat (now_seconds N n) < 2 ^ 63"
proof -
  have "unat (now_seconds N n) = unat (n_clock N n) div 1000" by (simp add: now_seconds_def unat_div)
  moreover have "unat (n_clock N n) < 2 ^ 64" using unsigned_less [of "n_clock N n"] by simp
  ultimately show ?thesis by simp
qed

lemma hour_later: "unat w < 2 ^ 63 \<Longrightarrow> unat (w + SECONDS_IN_HOUR) = unat w + 3600"
  by (simp add: SECONDS_IN_HOUR_def unat_word_ariths)

text \<open>One round of the loop.\<close>

lemma index_loop_round:
  assumes "since < now_seconds N n" "unat start \<le> unat since" "room n"
  shows "index_loop N room start since n ix = index_loop N room start (since + SECONDS_IN_HOUR) (Suc n)
    (store_last_check N n since
      (ix\<lparr>ix_requests := ix_requests ix @ [range_request since (min (since + SECONDS_IN_HOUR) (now_seconds N n))]\<rparr>))"
proof -
  have "now_seconds N n \<noteq> start" using assms(1,2) by (auto simp: word_less_nat_alt)
  moreover have "\<not> now_seconds N n \<le> since" using assms(1) by simp
  ultimately show ?thesis using assms(3) by (subst index_loop.simps) (simp add: Let_def)
qed

lemma store_last_check_requests [simp]: "ix_requests (store_last_check N n t ix) = ix_requests ix"
  by (simp add: store_last_check_def)

lemma index_loop_covers:
  assumes "\<And>n. unat (now_seconds N (Suc n)) \<le> unat (now_seconds N n) + 3000" "\<And>n. room n"
    and "unat start \<le> unat since" "\<And>k. n \<le> k \<Longrightarrow> past \<le> unat (now_seconds N k)"
  shows "\<exists>ix' m rs. index_loop N room start since n ix = Some (ix', m) \<and> n \<le> m \<and>
    ix_requests ix' = ix_requests ix @ rs \<and> {unat since..<past} \<subseteq> \<Union> (asked ` set rs)"
  using assms(3,4)
proof (induction "unat (now_seconds N n) - unat since" arbitrary: n since ix rule: less_induct)
  case less
  show ?case
  proof (cases "now_seconds N n \<le> since")
    case True
    moreover have "index_loop N room start since n ix = Some (ix, n)"
      using True by (subst index_loop.simps) (simp add: Let_def)
    moreover have "{unat since..<past} = {}" using True less.prems(2) [of n] by (simp add: word_le_nat_alt)
    ultimately show ?thesis by auto
  next
    case False
    let ?c = "now_seconds N n" and ?s = "since + SECONDS_IN_HOUR"
    let ?r = "range_request since (min ?s ?c)"
    let ?ix = "store_last_check N n since (ix\<lparr>ix_requests := ix_requests ix @ [?r]\<rparr>)"
    have c: "unat since < unat ?c" using False by (simp add: word_le_nat_alt)
    then have s: "unat ?s = unat since + 3600" using now_seconds_small [of N n] by (simp add: hour_later)
    have "unat (now_seconds N (Suc n)) - unat ?s < unat ?c - unat since" using assms(1) [of n] c s by linarith
    moreover have "past \<le> unat (now_seconds N k)" if "Suc n \<le> k" for k using less.prems(2) [of k] that by simp
    ultimately obtain ix' m rs where ih: "index_loop N room start ?s (Suc n) ?ix = Some (ix', m)" "Suc n \<le> m"
      "ix_requests ix' = ix_requests ?ix @ rs" "{unat ?s..<past} \<subseteq> \<Union> (asked ` set rs)"
      using less.hyps [of "Suc n" ?s ?ix] less.prems(1) s by auto
    have "index_loop N room start since n ix = Some (ix', m)"
      using index_loop_round [of since N n start room ix] False less.prems(1) assms(2) ih(1) by (simp add: not_le)
    moreover have "{unat since..<past} \<subseteq> asked ?r \<union> {unat ?s..<past}"
      using less.prems(2) [of n] s by (auto simp: min_def word_le_nat_alt)
    then have "{unat since..<past} \<subseteq> \<Union> (asked ` set (?r # rs))" using ih(4) by auto
    moreover have "ix_requests ix' = ix_requests ix @ ?r # rs" using ih(3) by simp
    ultimately show ?thesis using ih(2) by (meson Suc_leD)
  qed
qed

text \<open>
  C38. The indexer catches up. If no round takes longer than fifty minutes and the channel to the
  engine has room, the loop ends without a panic, and the requests it has sent ask for every second
  from the stored start up to the moment it was started.
\<close>

theorem indexer_catches_up:
  assumes "\<And>n. now_seconds N n \<le> now_seconds N (Suc n)"
    and "\<And>n. unat (now_seconds N (Suc n)) \<le> unat (now_seconds N n) + 3000" "\<And>n. room n"
  shows "\<exists>ix' m rs. index_loop N room (indexer_start ix) (indexer_start ix) n ix = Some (ix', m) \<and>
    ix_requests ix' = ix_requests ix @ rs \<and>
    {unat (indexer_start ix)..<unat (now_seconds N n)} \<subseteq> \<Union> (asked ` set rs)"
proof -
  have "unat (now_seconds N n) \<le> unat (now_seconds N k)" if "n \<le> k" for k
    using lift_Suc_mono_le [of "now_seconds N", OF assms(1) that] by (simp add: word_le_nat_alt)
  then have "\<exists>ix' m rs. index_loop N room (indexer_start ix) (indexer_start ix) n ix = Some (ix', m) \<and> n \<le> m \<and>
    ix_requests ix' = ix_requests ix @ rs \<and>
    {unat (indexer_start ix)..<unat (now_seconds N n)} \<subseteq> \<Union> (asked ` set rs)"
    by (intro index_loop_covers assms(2,3) order_refl)
  then show ?thesis by (elim exE conjE) (intro exI conjI)
qed

theorem indexer_catches_up_witness:
  "\<exists>ix' m rs. index_loop (nenv96\<lparr>n_clock := (\<lambda>_. 8000)\<rparr>) (\<lambda>_. True) 3 3 0
       \<lparr>ix_requests = [], ix_last_check = Some 3\<rparr> = Some (ix', m) \<and> ix_requests ix' = rs \<and>
     {3..<8} \<subseteq> \<Union> (asked ` set rs)"
proof -
  let ?N = "nenv96\<lparr>n_clock := (\<lambda>_. 8000)\<rparr>" and ?ix = "\<lparr>ix_requests = [], ix_last_check = Some 3\<rparr>"
  have "(8000 :: u64) div 1000 = 8" by code_simp
  then have now: "now_seconds ?N n = 8" for n by (simp add: now_seconds_def)
  have start: "indexer_start ?ix = 3" by (simp add: indexer_start_def)
  have "now_seconds ?N n \<le> now_seconds ?N (Suc n)" "unat (now_seconds ?N (Suc n)) \<le> unat (now_seconds ?N n) + 3000" for n
    by (simp_all only: now order_refl le_add1)
  from indexer_catches_up [of ?N "\<lambda>_. True" ?ix 0, OF this TrueI] show ?thesis
    unfolding start now by simp
qed

end
