(* ===== verification/ApiData.thy ===== *)
theory ApiData
  imports ApiLogin
begin

text \<open>
  The routes of the API that only read and write the database: invoices, transactions, payments,
  user names, savings plans, nostr keys and profiles (\<open>api/src/routes/user.rs\<close>, \<open>nostr.rs\<close>,
  \<open>user_profile.rs\<close>) with the queries that only they use (\<open>models/src\<close>).
\<close>

text \<open>A connection of the pool and then a statement; a failed statement answers \<open>e\<close>.\<close>

definition query_db :: "aenv \<Rightarrow> DbError \<Rightarrow> (Db \<Rightarrow> 'a option) \<Rightarrow> api_state \<Rightarrow> ApiError + 'a" where
  "query_db A e q s =
     (if \<not> a_pool A (a_tick s) then Inl (DbE DbConnectionError)
      else (case (if a_pg A (Suc (a_tick s)) then q (a_db s) else None) of
              None \<Rightarrow> Inl (DbE e) | Some x \<Rightarrow> Inr x))"

section \<open>Reading\<close>

definition get_user_invoices :: "aenv \<Rightarrow> AuthData \<Rightarrow> api_state \<Rightarrow> ApiError + Invoice list" where
  "get_user_invoices A a s =
     query_db A CouldNotFetchData (\<lambda>d. Some (invoice_get_invoices_by_uid (as_i32 (as_u64 (auth_uid a))) d)) s"

definition summary_get_historical_by_uid_and_currency ::
  "i32 \<Rightarrow> string \<Rightarrow> i64 option \<Rightarrow> i64 option \<Rightarrow> i64 \<Rightarrow> Db \<Rightarrow> SummaryTransaction list" where
  "summary_get_historical_by_uid_and_currency u currency frm to' now d =
     filter (\<lambda>r. (stx_outbound_uid r = u \<or> stx_inbound_uid r = u) \<and>
       (stx_outbound_currency r = currency \<or> stx_inbound_currency r = currency) \<and>
       in_period frm to' now (stx_created_at r)) (db_summaries d)"

definition get_txs ::
  "aenv \<Rightarrow> AuthData \<Rightarrow> i64 option \<Rightarrow> i64 option \<Rightarrow> Currency option \<Rightarrow> api_state \<Rightarrow> ApiError + SummaryTransaction list" where
  "get_txs A a frm to' currency s =
     (let u = as_i32 (as_u64 (auth_uid a)); now = a_clock A (a_tick s + 2) in
      query_db A CouldNotFetchData (\<lambda>d. Some (case currency of
          Some c \<Rightarrow> summary_get_historical_by_uid_and_currency u (currency_to_string c) frm to' now d
        | None \<Rightarrow> summary_get_historical_by_uid u frm to' now d)) s)"

definition check_payment :: "aenv \<Rightarrow> string option \<Rightarrow> string option \<Rightarrow> api_state \<Rightarrow> ApiError + bool" where
  "check_payment A payment_hash payment_request s =
     (if \<not> a_pool A (a_tick s) then Inl (DbE DbConnectionError)
      else if payment_hash = None \<and> payment_request = None then Inl (RequestE InvalidDataSupplied)
      else query_db A CouldNotFetchData (\<lambda>d. map_option inv_settled
        (case payment_hash of
           Some ph \<Rightarrow> invoice_get_by_payment_hash ph d
         | None \<Rightarrow> (case payment_request of Some pr \<Rightarrow> invoice_get_by_payment_request pr d | None \<Rightarrow> None))) s)"

definition check_username_available :: "aenv \<Rightarrow> string \<Rightarrow> api_state \<Rightarrow> ApiError + bool" where
  "check_username_available A name s =
     (if \<not> a_pool A (a_tick s) then Inl (DbE DbConnectionError)
      else Inr (\<not> a_pg A (Suc (a_tick s)) \<or> user_get_by_username (to_lowercase name) (a_db s) = None))"

definition search_ln_addresses ::
  "aenv \<Rightarrow> (string \<Rightarrow> string \<Rightarrow> bool) \<Rightarrow> string \<Rightarrow> api_state \<Rightarrow> ApiError + LnAddress list" where
  "search_ln_addresses A like text' s =
     (if length text' < 1 then Inl (RequestE InvalidDataSupplied)
      else let bs = CHR 0x5C;
             escaped = replace_char (CHR ''@'') [bs, CHR ''@''] (replace_char (CHR ''_'') [bs, CHR ''_'']
               (replace_char (CHR ''%'') [bs, CHR ''%''] text'))
           in query_db A UserDoesNotExist
                (\<lambda>d. Some (filter (\<lambda>r. like (la_username r) (''%'' @ escaped @ ''%'')) (db_ln_addresses d))) s)"

definition nostr_key_get_by_username :: "string \<Rightarrow> Db \<Rightarrow> NostrPublicKey option" where
  "nostr_key_get_by_username name d =
     List.find (\<lambda>k. list_ex (\<lambda>u. usr_uid u = npk_uid k \<and> usr_username u = name) (db_users d)) (db_nostr_keys d)"

definition nostr_nip05 :: "aenv \<Rightarrow> string \<Rightarrow> api_state \<Rightarrow> ApiError + string \<times> string" where
  "nostr_nip05 A name s =
     query_db A UserDoesNotExist (\<lambda>d. map_option (\<lambda>k. (name, npk_pubkey k)) (nostr_key_get_by_username name d)) s"

definition lnurl_pay_address :: "aenv \<Rightarrow> ApiSettings \<Rightarrow> string \<Rightarrow> api_state \<Rightarrow> ApiError + string \<times> string option" where
  "lnurl_pay_address A st name s =
     query_db A UserDoesNotExist (\<lambda>d. map_option (\<lambda>_. (''https://'' @ domain st @ ''/api/pay/'' @ name,
       if a_pg A (a_tick s + 2) then map_option npk_pubkey (nostr_key_get_by_username ''kollider'' d) else None))
       (user_get_by_username name d)) s"

section \<open>Savings plans\<close>

record DcaSettingData =
  dsd_interval :: string
  dsd_amount :: rat
  dsd_from_currency :: string
  dsd_to_currency :: string

definition dca_insert :: "i32 \<Rightarrow> DcaSettingData \<Rightarrow> Db \<Rightarrow> Db option" where
  "dca_insert u x d =
     (if list_ex (\<lambda>r. dca_uid r = u \<or> dca_id r = db_serial d) (db_dca_settings d) \<or> \<not> has_user d u then None
      else Some (d\<lparr>db_dca_settings := db_dca_settings d @ [\<lparr>dca_id = db_serial d, dca_uid = u, dca_interval = dsd_interval x,
          dca_amount = dsd_amount x, dca_from_currency = dsd_from_currency x, dca_to_currency = dsd_to_currency x\<rparr>],
        db_serial := db_serial d + 1\<rparr>))"

definition get_dca_settings :: "aenv \<Rightarrow> AuthData \<Rightarrow> api_state \<Rightarrow> ApiError + DcaSetting" where
  "get_dca_settings A a s = query_db A UserDoesNotExist (dca_get_by_uid (as_i32 (as_u64 (auth_uid a)))) s"

definition delete_dca_settings :: "aenv \<Rightarrow> AuthData \<Rightarrow> api_state \<Rightarrow> (ApiError + unit) \<times> api_state" where
  "delete_dca_settings A a s =
     (case query_db A UserDoesNotExist (\<lambda>d. Some (snd (dca_delete (as_i32 (as_u64 (auth_uid a))) d))) s of
        Inl e \<Rightarrow> (Inl e, s) | Inr d \<Rightarrow> (Inr (), s\<lparr>a_db := d\<rparr>))"

definition set_dca_settings :: "aenv \<Rightarrow> AuthData \<Rightarrow> DcaSettingData \<Rightarrow> api_state \<Rightarrow> (ApiError + unit) \<times> api_state" where
  "set_dca_settings A a x s =
     (let u = as_i32 (as_u64 (auth_uid a)); invalid = (Inl (RequestE InvalidDataSupplied), s) in
      if dsd_interval x \<notin> {''1d'', ''1w'', ''1m''} then invalid
      else if isl (currency_from_str (dsd_from_currency x)) then invalid
      else if isl (currency_from_str (dsd_to_currency x)) then invalid
      else if \<not> a_pool A (a_tick s) then (Inl (DbE DbConnectionError), s)
      else let s = try_exec A (\<lambda>d. Some (snd (dca_delete u d))) s in
      (case (if a_pg A (a_tick s) then dca_insert u x (a_db s) else None) of
         None \<Rightarrow> (Inl (DbE UserDoesNotExist), a_bump s)
       | Some d \<Rightarrow> (Inr (), a_bump (s\<lparr>a_db := d\<rparr>))))"

section \<open>Nostr keys\<close>

datatype key_status = KeyOk | KeyAlreadySet | KeyError | NoKey

definition nostr_key_insert :: "NostrPublicKey \<Rightarrow> Db \<Rightarrow> Db option" where
  "nostr_key_insert k d =
     (if list_ex (\<lambda>r. npk_pubkey r = npk_pubkey k \<or> npk_uid r = npk_uid k) (db_nostr_keys d) \<or> \<not> has_user d (npk_uid k)
      then None else Some (d\<lparr>db_nostr_keys := db_nostr_keys d @ [k]\<rparr>))"

definition nostr_key_update :: "i32 \<Rightarrow> string \<Rightarrow> Db \<Rightarrow> Db option" where
  "nostr_key_update u pubkey d =
     (if list_ex (\<lambda>r. npk_pubkey r = pubkey \<and> npk_uid r \<noteq> u) (db_nostr_keys d) then None
      else Some (d\<lparr>db_nostr_keys := map (\<lambda>r. if npk_uid r = u then r\<lparr>npk_pubkey := pubkey\<rparr> else r) (db_nostr_keys d)\<rparr>))"

definition set_nostr_pubkey :: "aenv \<Rightarrow> AuthData \<Rightarrow> string \<Rightarrow> api_state \<Rightarrow> (ApiError + key_status) \<times> api_state" where
  "set_nostr_pubkey A a pubkey s =
     (let u = as_i32 (as_u64 (auth_uid a)) in
      case query_db A UserDoesNotExist (user_get_by_id u) s of
        Inl e \<Rightarrow> (Inl e, s)
      | Inr _ \<Rightarrow>
          if \<not> a_pg A (a_tick s + 2) then (Inr KeyError, s)
          else (case nostr_key_insert \<lparr>npk_pubkey = pubkey, npk_uid = u\<rparr> (a_db s) of
                  None \<Rightarrow> (Inr KeyAlreadySet, s)
                | Some d \<Rightarrow> (Inr KeyOk, s\<lparr>a_db := d\<rparr>)))"

definition update_nostr_pubkey :: "aenv \<Rightarrow> AuthData \<Rightarrow> string \<Rightarrow> api_state \<Rightarrow> (ApiError + key_status) \<times> api_state" where
  "update_nostr_pubkey A a pubkey s =
     (let u = as_i32 (as_u64 (auth_uid a)) in
      if \<not> a_pool A (a_tick s) then (Inl (DbE DbConnectionError), s)
      else if \<not> (a_pg A (a_tick s + 1) \<and> nostr_key_get_by_uid u (a_db s) \<noteq> None) then (Inr NoKey, s)
      else (case (if a_pg A (a_tick s + 2) then nostr_key_update u pubkey (a_db s) else None) of
              None \<Rightarrow> (Inr KeyError, s)
            | Some d \<Rightarrow> (Inr KeyOk, s\<lparr>a_db := d\<rparr>)))"

section \<open>Profiles\<close>

record UpdateProfileData =
  upd_email :: "string option"
  upd_nostr_notifications :: "bool option"
  upd_email_notifications :: "bool option"
  upd_img_url :: "string option"
  upd_twitter_handle :: "string option"

definition get_user_profile :: "aenv \<Rightarrow> AuthData \<Rightarrow> api_state \<Rightarrow> (ApiError + UserProfile) \<times> api_state" where
  "get_user_profile A a s =
     (let u = as_i32 (as_u64 (auth_uid a)) in
      if \<not> a_pool A (a_tick s) then (Inl (DbE DbConnectionError), s)
      else (case (if a_pg A (a_tick s + 1) then profile_get_by_uid u (a_db s) else None) of
              Some up \<Rightarrow> (Inr up, s)
            | None \<Rightarrow> (Inr (empty_profile u), try_exec A (profile_insert (empty_profile u)) (a_bump (a_bump s)))))"

text \<open>The changeset writes the given fields and leaves the others.\<close>

definition profile_update :: "i32 \<Rightarrow> UpdateProfileData \<Rightarrow> Db \<Rightarrow> Db option" where
  "profile_update u x d =
     (if upd_email x = None \<and> upd_nostr_notifications x = None \<and> upd_email_notifications x = None \<and>
         upd_img_url x = None \<and> upd_twitter_handle x = None
      then None
      else Some (d\<lparr>db_profiles := map (\<lambda>p. if up_uid p = u then p\<lparr>
          up_email := keep_none (upd_email x) (up_email p),
          up_nostr_notifications := keep_none (upd_nostr_notifications x) (up_nostr_notifications p),
          up_email_notifications := keep_none (upd_email_notifications x) (up_email_notifications p),
          up_img_url := keep_none (upd_img_url x) (up_img_url p),
          up_twitter_handle := keep_none (upd_twitter_handle x) (up_twitter_handle p)\<rparr> else p) (db_profiles d)\<rparr>))"

definition user_profile :: "aenv \<Rightarrow> AuthData \<Rightarrow> UpdateProfileData \<Rightarrow> api_state \<Rightarrow> (ApiError + unit) \<times> api_state" where
  "user_profile A a x s =
     (case query_db A UserDoesNotExist (profile_update (as_i32 (as_u64 (auth_uid a))) x) s of
        Inl e \<Rightarrow> (Inl e, s) | Inr d \<Rightarrow> (Inr (), s\<lparr>a_db := d\<rparr>))"

section \<open>What the routes show and change\<close>

text \<open>
  No statement of the program makes the column NULL that says whether a user is to be notified: a row
  is inserted with a value, and an update leaves one.
\<close>

lemma notifications_set:
  assumes "\<forall>p \<in> set (db_profiles d). up_nostr_notifications p \<noteq> None"
  shows "profile_insert x d = Some d' \<Longrightarrow> \<forall>p \<in> set (db_profiles d'). up_nostr_notifications p \<noteq> None"
    "profile_update u y d = Some d' \<Longrightarrow> \<forall>p \<in> set (db_profiles d'). up_nostr_notifications p \<noteq> None"
proof -
  have "or_false b \<noteq> None" for b by (cases b) (simp_all add: or_false_def del: not_None_eq)
  then show "profile_insert x d = Some d' \<Longrightarrow> \<forall>p \<in> set (db_profiles d'). up_nostr_notifications p \<noteq> None"
    using assms by (auto simp: profile_insert_def split: if_split_asm)
  have "keep_none a b \<noteq> None" if "b \<noteq> None" for a b :: "bool option" using that by (simp add: keep_none_def split: option.split)
  then show "profile_update u y d = Some d' \<Longrightarrow> \<forall>p \<in> set (db_profiles d'). up_nostr_notifications p \<noteq> None"
    using assms by (auto simp: profile_update_def split: if_split_asm)
qed

lemma query_db_Inr: "query_db A e q s = Inr x \<Longrightarrow> q (a_db s) = Some x"
  by (auto simp: query_db_def split: if_split_asm option.split_asm)

text \<open>Users see their own invoices and the transactions they took part in, and nothing else.\<close>

lemma own_rows_only:
  "get_user_invoices A a s = Inr is \<Longrightarrow> i \<in> set is \<Longrightarrow> inv_uid i = auth_uid a"
  "get_txs A a frm to' c s = Inr ts \<Longrightarrow> t \<in> set ts \<Longrightarrow> stx_outbound_uid t = auth_uid a \<or> stx_inbound_uid t = auth_uid a"
  by (auto simp: get_user_invoices_def get_txs_def Let_def invoice_get_invoices_by_uid_def
      summary_get_historical_by_uid_and_currency_def summary_get_historical_by_uid_def
      dest!: query_db_Inr split: option.split_asm)

lemma dca_insert_row:
  "dca_insert u x d = Some d' \<Longrightarrow> \<exists>r. db_dca_settings d' = db_dca_settings d @ [r] \<and> dca_uid r = u \<and>
     \<not> list_ex (\<lambda>y. dca_uid y = dca_uid r) (db_dca_settings d) \<and> dca_interval r = dsd_interval x \<and>
     dca_amount r = dsd_amount x \<and> dca_from_currency r = dsd_from_currency x \<and> dca_to_currency r = dsd_to_currency x"
  by (auto simp: dca_insert_def list_ex_iff split: if_split_asm)

text \<open>What was set as a savings plan is what is read afterwards.\<close>

lemma dca_set_get:
  assumes "set_dca_settings A a x s = (Inr (), s')" "\<And>n. a_pool A n" "\<And>n. a_pg A n"
  shows "\<exists>r. get_dca_settings A a s' = Inr r \<and> dca_uid r = auth_uid a \<and> dca_interval r = dsd_interval x \<and>
    dca_amount r = dsd_amount x \<and> dca_from_currency r = dsd_from_currency x \<and> dca_to_currency r = dsd_to_currency x"
proof -
  obtain d where "dca_insert (auth_uid a) x d = Some (a_db s')"
    using assms(1) by (auto simp: set_dca_settings_def Let_def split: if_split_asm option.split_asm)
  then obtain r where r: "db_dca_settings (a_db s') = db_dca_settings d @ [r]" "dca_uid r = auth_uid a"
    "\<not> list_ex (\<lambda>y. dca_uid y = dca_uid r) (db_dca_settings d)" "dca_interval r = dsd_interval x"
    "dca_amount r = dsd_amount x" "dca_from_currency r = dsd_from_currency x" "dca_to_currency r = dsd_to_currency x"
    using dca_insert_row by blast
  from find_key_snoc [OF r(3), of "auth_uid a"] r assms(2,3) show ?thesis
    by (simp add: get_dca_settings_def query_db_def dca_get_by_uid_def)
qed

end
