(* ===== verification/ApiExternal.thy ===== *)
theory ApiExternal
  imports ApiData Machine
begin

text \<open>
  The routes of the API that call other services: on-chain deposits and withdrawals through Deezy
  (\<open>api/src/routes/user.rs\<close>, \<open>models/src/deezy_stuff.rs\<close>). What the services answer
  and the parsing of their JSON are parameters; a request that fails and an answer whose text cannot
  be read are the same to the code. The workers of the server handle requests at the same time, so a
  handler is modelled section by section, from one access of the database or of a service to the next.
\<close>

section \<open>Tables (\<open>deezy_stuff.rs\<close>)\<close>

record DeezyBtcLnSwap =
  dbs_id :: i32
  dbs_uid :: i32
  dbs_ln_address :: string
  dbs_secret_access_key :: string
  dbs_btc_address :: string
  dbs_sig :: string
  dbs_webhook_url :: "string option"

record DeezySecretKey =
  dsk_secret_key :: string
  dsk_uid :: i32

record deezy_db =
  dz_swaps :: "DeezyBtcLnSwap list"
  dz_keys :: "DeezySecretKey list"
  dz_serial :: i32

text \<open>
  \<open>first\<close> of a query without an order returns some row that matches; \<open>n\<close> is the choice of the
  database.
\<close>

definition some_row :: "nat \<Rightarrow> ('a \<Rightarrow> bool) \<Rightarrow> 'a list \<Rightarrow> 'a option" where
  "some_row n P rows = (case filter P rows of [] \<Rightarrow> None | xs \<Rightarrow> Some (xs ! (n mod length xs)))"

definition deezy_get_btc_address :: "nat \<Rightarrow> string \<Rightarrow> deezy_db \<Rightarrow> DeezyBtcLnSwap option" where
  "deezy_get_btc_address n addr d = some_row n (\<lambda>r. dbs_btc_address r = addr) (dz_swaps d)"

definition deezy_get_by_sig :: "nat \<Rightarrow> string \<Rightarrow> deezy_db \<Rightarrow> DeezyBtcLnSwap option" where
  "deezy_get_by_sig n sig d = some_row n (\<lambda>r. dbs_sig r = sig) (dz_swaps d)"

definition deezy_swap_insert :: "i32 \<Rightarrow> string \<Rightarrow> string \<Rightarrow> string \<Rightarrow> string \<Rightarrow> string option \<Rightarrow> deezy_db \<Rightarrow> deezy_db option" where
  "deezy_swap_insert uid ln_address secret_access_key btc_address sig webhook_url d =
     (if list_ex (\<lambda>r. dbs_id r = dz_serial d) (dz_swaps d) then None
      else Some (d\<lparr>dz_swaps := dz_swaps d @ [\<lparr>dbs_id = dz_serial d, dbs_uid = uid, dbs_ln_address = ln_address,
          dbs_secret_access_key = secret_access_key, dbs_btc_address = btc_address, dbs_sig = sig,
          dbs_webhook_url = webhook_url\<rparr>], dz_serial := dz_serial d + 1\<rparr>))"

definition deezy_key_get_by_uid :: "nat \<Rightarrow> i32 \<Rightarrow> deezy_db \<Rightarrow> DeezySecretKey option" where
  "deezy_key_get_by_uid n uid d = some_row n (\<lambda>r. dsk_uid r = uid) (dz_keys d)"

definition deezy_key_insert :: "DeezySecretKey \<Rightarrow> deezy_db \<Rightarrow> deezy_db option" where
  "deezy_key_insert k d =
     (if list_ex (\<lambda>r. dsk_secret_key r = dsk_secret_key k) (dz_keys d) then None
      else Some (d\<lparr>dz_keys := dz_keys d @ [k]\<rparr>))"

section \<open>On-chain swaps (\<open>user.rs\<close>)\<close>

record BtcLnSwapResponse =
  bls_address :: string
  bls_commitment :: string
  bls_signature :: string
  bls_secret_access_key :: string

datatype OnchainSpeed = Fast | Medium | Slow

record OnchainSwapData =
  osd_amount :: u64
  osd_address :: string
  osd_speed :: "OnchainSpeed option"

record DeezySwapRequestBody =
  dsb_amount_sats :: u64
  dsb_on_chain_address :: string
  dsb_on_chain_sats_per_vbyte :: u64

record LnBtcSwapResponse =
  lbs_bolt11_invoice :: string
  lbs_fee_sats :: u64

record FeeEstimateResponse =
  fer_timestamp :: u64
  fer_estimates :: "(string \<times> rat) list" \<comment> \<open>the value of a float\<close>

text \<open>The requests to the services: a URL, the token in the header \<open>x-api-token\<close> and the body.\<close>

datatype http_call =
    GetCall string
  | PostFields string string "(string \<times> string) list"
  | PostSwap string string DeezySwapRequestBody

record services =
  answer :: "nat \<Rightarrow> http_call \<Rightarrow> string option"
  parse_source :: "string \<Rightarrow> BtcLnSwapResponse option"
  parse_estimates :: "string \<Rightarrow> FeeEstimateResponse option"
  parse_swap :: "string \<Rightarrow> LnBtcSwapResponse option"
  which_row :: "nat \<Rightarrow> nat" \<comment> \<open>the row the database picks where a query has no order\<close>

record OnchainSettings = ApiSettings +
  deezy_api_token :: string

text \<open>
  What passes between the API and the services, in order: the requests with the user for whom they are
  made, and the keys the swap service hands out.
\<close>

datatype swap_entry = Sent i32 http_call | Given i32 string

record swap_state =
  sw_db :: Db
  sw_tables :: deezy_db
  sw_log :: "swap_entry list"
  sw_tick :: nat

definition sw_bump :: "nat \<Rightarrow> swap_state \<Rightarrow> swap_state" where
  "sw_bump n s = s\<lparr>sw_tick := sw_tick s + n\<rparr>"

definition sw_note :: "swap_entry \<Rightarrow> swap_state \<Rightarrow> swap_state" where
  "sw_note e s = s\<lparr>sw_log := sw_log s @ [e]\<rparr>"

definition sw_answer :: "services \<Rightarrow> http_call \<Rightarrow> swap_state \<Rightarrow> string option \<times> swap_state" where
  "sw_answer V r s = (answer V (sw_tick s) r, sw_bump 1 s)"

text \<open>An insertion whose error is only logged.\<close>

definition sw_exec :: "aenv \<Rightarrow> (deezy_db \<Rightarrow> deezy_db option) \<Rightarrow> swap_state \<Rightarrow> swap_state" where
  "sw_exec A f s =
     sw_bump 1 (if a_pg A (sw_tick s) then (case f (sw_tables s) of Some d \<Rightarrow> s\<lparr>sw_tables := d\<rparr> | None \<Rightarrow> s) else s)"

definition sw_user :: "aenv \<Rightarrow> AuthData \<Rightarrow> swap_state \<Rightarrow> (ApiError + User) \<times> swap_state" where
  "sw_user A a s =
     (if \<not> a_pool A (sw_tick s) then (Inl (DbE DbConnectionError), sw_bump 1 s)
      else (case (if a_pg A (sw_tick s + 1) then user_get_by_id (as_i32 (as_u64 (auth_uid a))) (sw_db s) else None) of
              None \<Rightarrow> (Inl (DbE UserDoesNotExist), sw_bump 2 s)
            | Some user \<Rightarrow> (Inr user, sw_bump 2 s)))"

definition sw_key :: "aenv \<Rightarrow> services \<Rightarrow> i32 \<Rightarrow> swap_state \<Rightarrow> DeezySecretKey option \<times> swap_state" where
  "sw_key A V uid s =
     (if a_pg A (sw_tick s) then deezy_key_get_by_uid (which_row V (sw_tick s)) uid (sw_tables s) else None, sw_bump 1 s)"

abbreviation "failed_to_fetch \<equiv> Inl (ExternalE FailedToFetchExternalData)"

abbreviation "source_url \<equiv> ''https://api.deezy.io/v1/source''"
abbreviation "lookup_url \<equiv> ''https://api.deezy.io/v1/source/lookup''"
abbreviation "estimates_url \<equiv> ''https://bitcoiner.live/api/fees/estimates/latest''"
abbreviation "swap_url \<equiv> ''https://api.deezy.io/v1/swap''"

text \<open>Where a request for an address is: the user, the address to pay to and what it has got so far.\<close>

datatype address_request =
    AddressArrived AuthData "string option"
  | AddressUser User string
  | AddressKey User string "DeezySecretKey option"
  | AddressSent User string http_call
  | AddressGiven User string BtcLnSwapResponse
  | AddressStored User string BtcLnSwapResponse
  | AddressDone "ApiError + BtcLnSwapResponse"

fun get_onchain_address ::
  "aenv \<Rightarrow> services \<Rightarrow> OnchainSettings \<Rightarrow> address_request \<Rightarrow> swap_state \<Rightarrow> address_request \<times> swap_state" where
  "get_onchain_address A V st (AddressArrived a lnurl_or_lnaddress) s =
     (case sw_user A a s of
        (Inl e, s) \<Rightarrow> (AddressDone (Inl e), s)
      | (Inr user, s) \<Rightarrow>
          (AddressUser user (case lnurl_or_lnaddress of Some addr \<Rightarrow> addr | None \<Rightarrow> usr_username user @ ''@'' @ domain st), s))"
| "get_onchain_address A V st (AddressUser user ln_address) s =
     (case sw_key A V (usr_uid user) s of (sk, s) \<Rightarrow> (AddressKey user ln_address sk, s))"
| "get_onchain_address A V st (AddressKey user ln_address sk) s =
     (let call = PostFields source_url (deezy_api_token st)
            ((case sk of Some k \<Rightarrow> [(''secret_access_key'', dsk_secret_key k)] | None \<Rightarrow> []) @ [(''lnurl_or_lnaddress'', ln_address)])
      in (AddressSent user ln_address call, sw_note (Sent (usr_uid user) call) s))"
| "get_onchain_address A V st (AddressSent user ln_address call) s =
     (case sw_answer V call s of
        (body, s) \<Rightarrow>
          (case Option.bind body (parse_source V) of
             None \<Rightarrow> (AddressDone failed_to_fetch, s)
           | Some r \<Rightarrow> (AddressGiven user ln_address r, sw_note (Given (usr_uid user) (bls_secret_access_key r)) s)))"
| "get_onchain_address A V st (AddressGiven user ln_address r) s =
     (AddressStored user ln_address r,
      sw_exec A (deezy_key_insert \<lparr>dsk_secret_key = bls_secret_access_key r, dsk_uid = usr_uid user\<rparr>) s)"
| "get_onchain_address A V st (AddressStored user ln_address r) s =
     (AddressDone (Inr r),
      sw_exec A (deezy_swap_insert (usr_uid user) ln_address (bls_secret_access_key r) (bls_address r) (bls_signature r) None) s)"
| "get_onchain_address A V st (AddressDone r) s = (AddressDone r, s)"

datatype state_request =
    StateArrived AuthData
  | StateUser User
  | StateKey User DeezySecretKey
  | StateSent http_call
  | StateDone "ApiError + unit"

fun get_btc_ln_swap_state ::
  "aenv \<Rightarrow> services \<Rightarrow> OnchainSettings \<Rightarrow> state_request \<Rightarrow> swap_state \<Rightarrow> state_request \<times> swap_state" where
  "get_btc_ln_swap_state A V st (StateArrived a) s =
     (case sw_user A a s of (Inl e, s) \<Rightarrow> (StateDone (Inl e), s) | (Inr user, s) \<Rightarrow> (StateUser user, s))"
| "get_btc_ln_swap_state A V st (StateUser user) s =
     (case sw_key A V (usr_uid user) s of
        (None, s) \<Rightarrow> (StateDone (Inl (DbE UserDoesNotExist)), s)
      | (Some sk, s) \<Rightarrow> (StateKey user sk, s))"
| "get_btc_ln_swap_state A V st (StateKey user sk) s =
     (let call = PostFields lookup_url (deezy_api_token st) [(''secret_access_key'', dsk_secret_key sk)]
      in (StateSent call, sw_note (Sent (usr_uid user) call) s))"
| "get_btc_ln_swap_state A V st (StateSent call) s =
     (case sw_answer V call s of
        (None, s) \<Rightarrow> (StateDone failed_to_fetch, s)
      | (Some body, s) \<Rightarrow> (StateDone (Inr ()), s))"
| "get_btc_ln_swap_state A V st (StateDone r) s = (StateDone r, s)"

text \<open>\<open>f64 as u64\<close> truncates and saturates.\<close>

definition f64_as_u64 :: "rat \<Rightarrow> u64" where
  "f64_as_u64 x = (if x \<le> 0 then 0 else if 2 ^ 64 \<le> x then - 1 else word_of_int \<lfloor>x\<rfloor>)"

definition confirmation_time :: "OnchainSpeed option \<Rightarrow> string" where
  "confirmation_time speed =
     (case speed of Some Fast \<Rightarrow> ''30'' | Some Medium \<Rightarrow> ''60'' | Some Slow \<Rightarrow> ''120'' | None \<Rightarrow> ''30'')"

datatype swap_request =
    SwapArrived AuthData OnchainSwapData
  | SwapUser User OnchainSwapData
  | SwapEstimating User OnchainSwapData
  | SwapSent http_call
  | SwapDone "ApiError + LnBtcSwapResponse"
  | SwapPanicked

text \<open>The handler panics when there is no estimate for the speed.\<close>

fun make_onchain_swap ::
  "aenv \<Rightarrow> services \<Rightarrow> OnchainSettings \<Rightarrow> swap_request \<Rightarrow> swap_state \<Rightarrow> swap_request \<times> swap_state" where
  "make_onchain_swap A V st (SwapArrived a data) s =
     (case sw_user A a s of (Inl e, s) \<Rightarrow> (SwapDone (Inl e), s) | (Inr user, s) \<Rightarrow> (SwapUser user data, s))"
| "make_onchain_swap A V st (SwapUser user data) s =
     (SwapEstimating user data, sw_note (Sent (usr_uid user) (GetCall estimates_url)) s)"
| "make_onchain_swap A V st (SwapEstimating user data) s =
     (case sw_answer V (GetCall estimates_url) s of
        (body, s) \<Rightarrow>
          (case Option.bind body (parse_estimates V) of
             None \<Rightarrow> (SwapDone failed_to_fetch, s)
           | Some fees \<Rightarrow>
               (case map_of (fer_estimates fees) (confirmation_time (osd_speed data)) of
                  None \<Rightarrow> (SwapPanicked, s)
                | Some rate \<Rightarrow>
                    (let call = PostSwap swap_url (deezy_api_token st) \<lparr>dsb_amount_sats = osd_amount data,
                           dsb_on_chain_address = osd_address data, dsb_on_chain_sats_per_vbyte = f64_as_u64 rate\<rparr>
                     in (SwapSent call, sw_note (Sent (usr_uid user) call) s)))))"
| "make_onchain_swap A V st (SwapSent call) s =
     (case sw_answer V call s of
        (body, s) \<Rightarrow>
          (case Option.bind body (parse_swap V) of
             None \<Rightarrow> (SwapDone failed_to_fetch, s)
           | Some r \<Rightarrow> (SwapDone (Inr r), s)))"
| "make_onchain_swap A V st (SwapDone r) s = (SwapDone r, s)"
| "make_onchain_swap A V st SwapPanicked s = (SwapPanicked, s)"

lemmas onchain_defs = sw_user_def sw_key_def sw_answer_def sw_note_def sw_exec_def sw_bump_def

text \<open>The fee rate that is asked for is the estimate without its fraction.\<close>

lemma f64_as_u64_floor: "0 \<le> x \<Longrightarrow> x < 2 ^ 64 \<Longrightarrow> uint (f64_as_u64 x) = \<lfloor>x\<rfloor>"
proof -
  assume x: "0 \<le> x" "x < 2 ^ 64"
  then have "\<lfloor>x\<rfloor> < 2 ^ 64" "0 \<le> \<lfloor>x\<rfloor>" by (simp_all add: floor_less_iff)
  then show "uint (f64_as_u64 x) = \<lfloor>x\<rfloor>" using x by (auto simp: f64_as_u64_def uint_word_of_int_eq take_bit_int_eq_self)
qed

text \<open>
  A swap asks for exactly the amount, address and estimated fee rate of the request; without an
  estimate for the chosen speed the handler panics.
\<close>

lemma swap_request_sent:
  assumes "answer V (sw_tick s) (GetCall estimates_url) = Some body" "parse_estimates V body = Some fees"
  shows "case map_of (fer_estimates fees) (confirmation_time (osd_speed data)) of
      None \<Rightarrow> fst (make_onchain_swap A V st (SwapEstimating user data) s) = SwapPanicked
    | Some rate \<Rightarrow> sw_log (snd (make_onchain_swap A V st (SwapEstimating user data) s)) =
        sw_log s @ [Sent (usr_uid user) (PostSwap swap_url (deezy_api_token st) \<lparr>dsb_amount_sats = osd_amount data,
            dsb_on_chain_address = osd_address data, dsb_on_chain_sats_per_vbyte = f64_as_u64 rate\<rparr>)]"
  using assms by (simp add: sw_answer_def sw_note_def sw_bump_def Let_def split: option.split)

section \<open>Runs\<close>

text \<open>Any number of requests of any users, interleaved; other routes may change the users in between.\<close>

datatype onchain_task = AddressTask address_request | StateTask state_request | SwapTask swap_request

fun onchain_section ::
  "aenv \<Rightarrow> services \<Rightarrow> OnchainSettings \<Rightarrow> onchain_task \<Rightarrow> swap_state \<Rightarrow> onchain_task \<times> swap_state" where
  "onchain_section A V st (AddressTask t) s = map_prod AddressTask id (get_onchain_address A V st t s)"
| "onchain_section A V st (StateTask t) s = map_prod StateTask id (get_btc_ln_swap_state A V st t s)"
| "onchain_section A V st (SwapTask t) s = map_prod SwapTask id (make_onchain_swap A V st t s)"

datatype onchain_event =
    OnchainAddress AuthData "string option"
  | SwapState AuthData
  | OnchainSwap AuthData OnchainSwapData
  | OnchainSection nat \<comment> \<open>index of the request\<close>
  | Elsewhere Db nat

inductive onchain_step ::
  "aenv \<Rightarrow> services \<Rightarrow> OnchainSettings \<Rightarrow> swap_state \<times> onchain_task list \<Rightarrow> onchain_event \<Rightarrow> swap_state \<times> onchain_task list \<Rightarrow> bool"
  for A V st where
  onchain_address: "onchain_step A V st (s, ts) (OnchainAddress a addr) (s, ts @ [AddressTask (AddressArrived a addr)])"
| onchain_state: "onchain_step A V st (s, ts) (SwapState a) (s, ts @ [StateTask (StateArrived a)])"
| onchain_swap: "onchain_step A V st (s, ts) (OnchainSwap a d) (s, ts @ [SwapTask (SwapArrived a d)])"
| onchain_advance: "i < length ts \<Longrightarrow> onchain_section A V st (ts ! i) s = (t, s') \<Longrightarrow>
    onchain_step A V st (s, ts) (OnchainSection i) (s', ts[i := t])"
| onchain_elsewhere: "onchain_step A V st (s, ts) (Elsewhere d n) (sw_bump n (s\<lparr>sw_db := d\<rparr>), ts)"

inductive_cases onchain_stepE: "onchain_step A V st x e y"

lemma some_row_found: "some_row n P rows = Some r \<Longrightarrow> r \<in> set rows \<and> P r"
proof -
  assume r: "some_row n P rows = Some r"
  then have "filter P rows \<noteq> []" "r = filter P rows ! (n mod length (filter P rows))"
    by (auto simp: some_row_def split: list.split_asm)
  then have "r \<in> set (filter P rows)" using nth_mem [of "n mod length (filter P rows)" "filter P rows"] by simp
  then show ?thesis unfolding set_filter by blast
qed

lemma some_row_exists: "r \<in> set rows \<Longrightarrow> P r \<Longrightarrow> \<exists>x. some_row n P rows = Some x"
  by (auto simp: some_row_def filter_empty_conv split: list.split)

text \<open>
  The requests of a user carry only keys that this user had been given before; what a request has read
  from the table or got from the service, and the table itself, hold only such keys.
\<close>

fun own_entry :: "swap_entry list \<Rightarrow> swap_entry \<Rightarrow> bool" where
  "own_entry before (Sent u (PostFields url tok fs)) = (\<forall>(x, k) \<in> set fs. x = ''secret_access_key'' \<longrightarrow> Given u k \<in> set before)"
| "own_entry before e = True"

definition own_log :: "swap_entry list \<Rightarrow> bool" where
  "own_log es \<longleftrightarrow> (\<forall>xs e ys. es = xs @ e # ys \<longrightarrow> own_entry xs e)"

fun own_task :: "swap_entry list \<Rightarrow> onchain_task \<Rightarrow> bool" where
  "own_task es (AddressTask (AddressKey user l (Some sk))) \<longleftrightarrow> Given (usr_uid user) (dsk_secret_key sk) \<in> set es"
| "own_task es (AddressTask (AddressGiven user l r)) \<longleftrightarrow> Given (usr_uid user) (bls_secret_access_key r) \<in> set es"
| "own_task es (StateTask (StateKey user sk)) \<longleftrightarrow> Given (usr_uid user) (dsk_secret_key sk) \<in> set es"
| "own_task es t \<longleftrightarrow> True"

definition own_keys :: "swap_state \<Rightarrow> bool" where
  "own_keys s \<longleftrightarrow> own_log (sw_log s) \<and> (\<forall>r \<in> set (dz_keys (sw_tables s)). Given (dsk_uid r) (dsk_secret_key r) \<in> set (sw_log s))"

fun onchain_inv :: "swap_state \<times> onchain_task list \<Rightarrow> bool" where
  "onchain_inv (s, ts) \<longleftrightarrow> own_keys s \<and> (\<forall>t \<in> set ts. own_task (sw_log s) t)"

lemma own_log_snoc: "own_log (es @ [e]) \<longleftrightarrow> own_log es \<and> own_entry es e"
proof -
  have "es @ [e] = xs @ x # ys \<longleftrightarrow> ys = [] \<and> es = xs \<and> e = x \<or> (\<exists>zs. ys = zs @ [e] \<and> es = xs @ x # zs)" for xs x ys
    by (cases ys rule: rev_cases) auto
  then show ?thesis by (auto simp: own_log_def)
qed

lemma own_task_mono: "own_task es t \<Longrightarrow> set es \<subseteq> set fs \<Longrightarrow> own_task fs t"
  by (induction es t rule: own_task.induct) auto

lemma own_keys_simps [simp]:
  "own_keys (sw_bump n s) = own_keys s" "own_keys (s\<lparr>sw_db := d\<rparr>) = own_keys s"
  "sw_log (sw_bump n s) = sw_log s" "sw_log (sw_exec A f s) = sw_log s" "sw_log (sw_note e s) = sw_log s @ [e]"
  by (simp_all add: own_keys_def sw_bump_def sw_exec_def sw_note_def split: option.split)

lemma own_keys_note: "own_keys s \<Longrightarrow> own_entry (sw_log s) e \<Longrightarrow> own_keys (sw_note e s)"
  by (auto simp: own_keys_def own_log_snoc sw_note_def)

lemma own_keys_exec:
  "own_keys s \<Longrightarrow> Given (dsk_uid k) (dsk_secret_key k) \<in> set (sw_log s) \<Longrightarrow> own_keys (sw_exec A (deezy_key_insert k) s)"
  "own_keys s \<Longrightarrow> own_keys (sw_exec A (deezy_swap_insert i l m b g w) s)"
  by (auto simp: sw_exec_def own_keys_def deezy_key_insert_def deezy_swap_insert_def sw_bump_def)

lemma sw_key_own:
  assumes "sw_key A V u s = (Some sk, s')" "own_keys s"
  shows "Given u (dsk_secret_key sk) \<in> set (sw_log s)"
  using assms by (auto simp: sw_key_def deezy_key_get_by_uid_def own_keys_def dest!: some_row_found split: if_splits)

lemma sw_user_result:
  obtains e n where "sw_user A a s = (Inl e, sw_bump n s)"
  | user n where "sw_user A a s = (Inr user, sw_bump n s)" "user_get_by_id (as_i32 (as_u64 (auth_uid a))) (sw_db s) = Some user"
proof -
  consider "\<not> a_pool A (sw_tick s)" | "a_pool A (sw_tick s)" "\<not> a_pg A (sw_tick s + 1)"
    | "a_pool A (sw_tick s)" "a_pg A (sw_tick s + 1)" by blast
  then show thesis
  proof cases
    case 3
    then show thesis by (cases "user_get_by_id (as_i32 (as_u64 (auth_uid a))) (sw_db s)") (auto simp: sw_user_def intro: that)
  qed (auto simp: sw_user_def intro: that)
qed

text \<open>A section keeps the keys its user's own, and what it knows then.\<close>

lemma address_own:
  assumes "get_onchain_address A V st t s = (t', s')" "own_keys s" "own_task (sw_log s) (AddressTask t)"
  shows "own_keys s' \<and> own_task (sw_log s') (AddressTask t') \<and> set (sw_log s) \<subseteq> set (sw_log s')"
proof (cases t)
  case (AddressArrived a addr)
  with assms show ?thesis by (cases rule: sw_user_result [of A a s]) auto
next
  case (AddressUser user l)
  then obtain sk where sk: "sw_key A V (usr_uid user) s = (sk, sw_bump 1 s)" "t' = AddressKey user l sk" "s' = sw_bump 1 s"
    using assms(1) by (simp add: sw_key_def)
  with assms(2) sw_key_own [OF _ assms(2)] show ?thesis by (cases sk) auto
next
  case (AddressKey user l sk)
  with assms show ?thesis by (cases sk) (auto simp: Let_def intro!: own_keys_note)
next
  case (AddressSent user l call)
  with assms show ?thesis by (auto simp: sw_answer_def intro!: own_keys_note split: option.splits)
qed (use assms in \<open>auto intro: own_keys_exec\<close>)

lemma state_own:
  assumes "get_btc_ln_swap_state A V st t s = (t', s')" "own_keys s" "own_task (sw_log s) (StateTask t)"
  shows "own_keys s' \<and> own_task (sw_log s') (StateTask t') \<and> set (sw_log s) \<subseteq> set (sw_log s')"
proof (cases t)
  case (StateArrived a)
  with assms show ?thesis by (cases rule: sw_user_result [of A a s]) auto
next
  case (StateUser user)
  then obtain sk where sk: "sw_key A V (usr_uid user) s = (sk, sw_bump 1 s)" by (simp add: sw_key_def)
  with StateUser assms sw_key_own [OF _ assms(2)] show ?thesis by (cases sk) auto
next
  case (StateSent call)
  with assms show ?thesis by (auto simp: sw_answer_def split: option.splits)
qed (use assms in \<open>auto simp: Let_def intro!: own_keys_note\<close>)

lemma swap_own:
  assumes "make_onchain_swap A V st t s = (t', s')" "own_keys s"
  shows "own_keys s' \<and> set (sw_log s) \<subseteq> set (sw_log s')"
proof (cases t)
  case (SwapArrived a d)
  with assms show ?thesis by (cases rule: sw_user_result [of A a s]) auto
qed (use assms in \<open>auto simp: sw_answer_def Let_def intro!: own_keys_note split: option.splits\<close>)

lemma onchain_section_cases:
  assumes "onchain_section A V st t s = (t', s')"
  obtains (address) x y where "t = AddressTask x" "t' = AddressTask y" "get_onchain_address A V st x s = (y, s')"
  | (state) x y where "t = StateTask x" "t' = StateTask y" "get_btc_ln_swap_state A V st x s = (y, s')"
  | (swap) x y where "t = SwapTask x" "t' = SwapTask y" "make_onchain_swap A V st x s = (y, s')"
proof (cases t)
  case (AddressTask x)
  with assms show thesis by (cases "get_onchain_address A V st x s") (auto intro: address)
next
  case (StateTask x)
  with assms show thesis by (cases "get_btc_ln_swap_state A V st x s") (auto intro: state)
next
  case (SwapTask x)
  with assms show thesis by (cases "make_onchain_swap A V st x s") (auto intro: swap)
qed

lemma section_own:
  assumes "onchain_section A V st t s = (t', s')" "own_keys s" "own_task (sw_log s) t"
  shows "own_keys s'" "own_task (sw_log s') t'" "set (sw_log s) \<subseteq> set (sw_log s')"
proof -
  from assms(1) have "own_keys s' \<and> own_task (sw_log s') t' \<and> set (sw_log s) \<subseteq> set (sw_log s')"
  proof (cases rule: onchain_section_cases)
    case (address x y)
    with address_own assms(2,3) show ?thesis by blast
  next
    case (state x y)
    with state_own assms(2,3) show ?thesis by blast
  next
    case (swap x y)
    with swap_own assms(2) show ?thesis by simp
  qed
  then show "own_keys s'" "own_task (sw_log s') t'" "set (sw_log s) \<subseteq> set (sw_log s')" by simp_all
qed

lemma onchain_inv_step: "onchain_inv x \<Longrightarrow> onchain_step A V st x e y \<Longrightarrow> onchain_inv y"
proof (elim onchain_stepE)
  fix i ts s t s'
  assume inv: "onchain_inv x" and x: "x = (s, ts)" "y = (s', ts[i := t])" "i < length ts"
    and sec: "onchain_section A V st (ts ! i) s = (t, s')"
  have "own_keys s" "own_task (sw_log s) (ts ! i)" using inv x by auto
  note own = section_own [OF sec this]
  have "own_task (sw_log s') u" if "u \<in> set (ts[i := t])" for u
  proof -
    from that consider "u = t" | "u \<in> set ts" using set_update_subset_insert by fastforce
    then show ?thesis by cases (use own inv x in \<open>auto intro: own_task_mono\<close>)
  qed
  with own(1) show "onchain_inv y" by (simp add: x)
qed auto

interpretation onchain: invariant "onchain_step A V st" onchain_inv for A V st
  by unfold_locales (rule onchain_inv_step)

text \<open>Rows of keys are never deleted.\<close>

definition has_row :: "DeezySecretKey \<Rightarrow> swap_state \<times> onchain_task list \<Rightarrow> bool" where
  "has_row r x \<longleftrightarrow> r \<in> set (dz_keys (sw_tables (fst x)))"

lemma keys_simps [simp]:
  "sw_tables (sw_bump n s) = sw_tables s" "sw_tables (sw_note e s) = sw_tables s"
  by (simp_all add: sw_bump_def sw_note_def)

lemma keys_exec:
  "set (dz_keys (sw_tables s)) \<subseteq> set (dz_keys (sw_tables (sw_exec A (deezy_key_insert k) s)))"
  "dz_keys (sw_tables (sw_exec A (deezy_swap_insert i l m b g w) s)) = dz_keys (sw_tables s)"
  by (auto simp: sw_exec_def deezy_key_insert_def deezy_swap_insert_def sw_bump_def)

lemma address_rows:
  "get_onchain_address A V st t s = (t', s') \<Longrightarrow> set (dz_keys (sw_tables s)) \<subseteq> set (dz_keys (sw_tables s'))"
proof (cases t)
  case (AddressArrived a addr)
  assume "get_onchain_address A V st t s = (t', s')"
  with AddressArrived show ?thesis by (cases rule: sw_user_result [of A a s]) auto
next
  case (AddressGiven user l r)
  assume "get_onchain_address A V st t s = (t', s')"
  with AddressGiven keys_exec(1) show ?thesis by auto
qed (auto simp: sw_key_def sw_answer_def Let_def keys_exec(2) split: option.splits)

lemma state_rows: "get_btc_ln_swap_state A V st t s = (t', s') \<Longrightarrow> sw_tables s' = sw_tables s"
proof (cases t)
  case (StateArrived a)
  assume "get_btc_ln_swap_state A V st t s = (t', s')"
  with StateArrived show ?thesis by (cases rule: sw_user_result [of A a s]) auto
qed (auto simp: sw_key_def sw_answer_def Let_def split: option.splits)

lemma swap_rows: "make_onchain_swap A V st t s = (t', s') \<Longrightarrow> sw_tables s' = sw_tables s"
proof (cases t)
  case (SwapArrived a d)
  assume "make_onchain_swap A V st t s = (t', s')"
  with SwapArrived show ?thesis by (cases rule: sw_user_result [of A a s]) auto
qed (auto simp: sw_answer_def Let_def split: option.splits)

lemma section_rows:
  assumes "onchain_section A V st t s = (t', s')"
  shows "set (dz_keys (sw_tables s)) \<subseteq> set (dz_keys (sw_tables s'))"
  using assms
proof (cases rule: onchain_section_cases)
  case (address x y)
  from address(3) show ?thesis by (rule address_rows)
next
  case (state x y)
  from state(3) show ?thesis by (simp add: state_rows)
next
  case (swap x y)
  from swap(3) show ?thesis by (simp add: swap_rows)
qed

lemma has_row_step: "has_row r x \<Longrightarrow> onchain_step A V st x e y \<Longrightarrow> has_row r y"
  by (erule onchain_stepE) (auto simp: has_row_def dest: section_rows)

interpretation row: invariant "onchain_step A V st" "has_row r" for A V st r
  by unfold_locales (rule has_row_step)

text \<open>A look-up with a row to find, and the requests that follow it.\<close>

lemma own_key_found:
  assumes "onchain_inv (s, ts)" "has_row row (s, ts)" "a_pg A (sw_tick s)"
  obtains sk where "sw_key A V (dsk_uid row) s = (Some sk, sw_bump 1 s)" "Given (dsk_uid row) (dsk_secret_key sk) \<in> set (sw_log s)"
proof -
  obtain sk where "deezy_key_get_by_uid (which_row V (sw_tick s)) (dsk_uid row) (sw_tables s) = Some sk"
    using assms(2) some_row_exists [of row _ "\<lambda>r. dsk_uid r = dsk_uid row"] unfolding has_row_def deezy_key_get_by_uid_def by force
  then have sk: "sw_key A V (dsk_uid row) s = (Some sk, sw_bump 1 s)" using assms(3) by (simp add: sw_key_def)
  moreover have "own_keys s" using assms(1) by simp
  ultimately show thesis using sw_key_own that by blast
qed

text \<open>
  C29. At the swap service a user acts under keys of their own. In every run of interleaved requests of
  any users that starts with no keys, a request made for a user carries no key or one that the service
  had given to the same user in an earlier answer. A key that is new to the table is stored for the user
  it was given to. And once a user has a row, then whatever happens before and in between, a request for
  an address or for the state of a swap that looks the key up in a database that answers carries
  a key of that user; which one, when there are several, is the choice of the database.
\<close>

theorem swap_keys_own:
  assumes "run (onchain_step A V st) (s0, []) es (s, ts)" "sw_log s0 = []" "dz_keys (sw_tables s0) = []"
  shows "(\<forall>xs u url tok fs ys k. sw_log s = xs @ Sent u (PostFields url tok fs) # ys \<and> (''secret_access_key'', k) \<in> set fs \<longrightarrow>
      Given u k \<in> set xs) \<and>
    (\<forall>user l r. a_pg A (sw_tick s) \<and> bls_secret_access_key r \<notin> dsk_secret_key ` set (dz_keys (sw_tables s)) \<longrightarrow>
      \<lparr>dsk_secret_key = bls_secret_access_key r, dsk_uid = usr_uid user\<rparr> \<in>
        set (dz_keys (sw_tables (snd (get_onchain_address A V st (AddressGiven user l r) s))))) \<and>
    (\<forall>row user es' s' ts'. row \<in> set (dz_keys (sw_tables s)) \<and> usr_uid user = dsk_uid row \<and>
      run (onchain_step A V st) (s, ts) es' (s', ts') \<and> a_pg A (sw_tick s') \<longrightarrow>
      (\<exists>k. Given (usr_uid user) k \<in> set (sw_log s') \<and>
        (\<forall>l s2. sw_log (snd (get_onchain_address A V st (fst (get_onchain_address A V st (AddressUser user l) s')) s2)) =
          sw_log s2 @ [Sent (usr_uid user) (PostFields source_url (deezy_api_token st)
            [(''secret_access_key'', k), (''lnurl_or_lnaddress'', l)])]) \<and>
        (\<forall>s2. sw_log (snd (get_btc_ln_swap_state A V st (fst (get_btc_ln_swap_state A V st (StateUser user) s')) s2)) =
          sw_log s2 @ [Sent (usr_uid user) (PostFields lookup_url (deezy_api_token st) [(''secret_access_key'', k)])])))"
    (is "?own \<and> ?stored \<and> ?carried")
proof (intro conjI)
  have inv: "onchain_inv (s, ts)"
    by (rule onchain.run_inv [OF assms(1)]) (simp add: own_keys_def own_log_def assms(2,3))
  then have "own_log (sw_log s)" by (simp add: own_keys_def)
  then show ?own unfolding own_log_def by fastforce
  show ?stored by (auto simp: sw_exec_def deezy_key_insert_def sw_bump_def list_ex_iff image_iff)
  show ?carried
  proof (intro allI impI, elim conjE)
    fix row es' s' ts' and user :: User
    assume row: "row \<in> set (dz_keys (sw_tables s))" and u: "usr_uid user = dsk_uid row" and pg: "a_pg A (sw_tick s')"
      and run: "run (onchain_step A V st) (s, ts) es' (s', ts')"
    have "has_row row (s', ts')" by (rule row.run_inv [OF run]) (simp add: has_row_def row)
    from own_key_found [OF onchain.run_inv [OF run inv] this pg] obtain sk where
      "sw_key A V (dsk_uid row) s' = (Some sk, sw_bump 1 s')" "Given (dsk_uid row) (dsk_secret_key sk) \<in> set (sw_log s')" .
    then show "\<exists>k. Given (usr_uid user) k \<in> set (sw_log s') \<and>
        (\<forall>l s2. sw_log (snd (get_onchain_address A V st (fst (get_onchain_address A V st (AddressUser user l) s')) s2)) =
          sw_log s2 @ [Sent (usr_uid user) (PostFields source_url (deezy_api_token st)
            [(''secret_access_key'', k), (''lnurl_or_lnaddress'', l)])]) \<and>
        (\<forall>s2. sw_log (snd (get_btc_ln_swap_state A V st (fst (get_btc_ln_swap_state A V st (StateUser user) s')) s2)) =
          sw_log s2 @ [Sent (usr_uid user) (PostFields lookup_url (deezy_api_token st) [(''secret_access_key'', k)])])"
      by (intro exI [of _ "dsk_secret_key sk"]) (simp add: u Let_def)
  qed
qed

text \<open>
  Services whose keys are all different and a database that picks the newest row: of two requests of one
  user, interleaved, each is given a key, and a third asks for the state of the swap.
\<close>

definition sample_services :: services where
  "sample_services = \<lparr>answer = (\<lambda>n _. Some (replicate n (CHR ''k''))),
     parse_source = (\<lambda>s. Some \<lparr>bls_address = ''bc1'', bls_commitment = [], bls_signature = ''sig'', bls_secret_access_key = s\<rparr>),
     parse_estimates = (\<lambda>_. Some \<lparr>fer_timestamp = 0, fer_estimates = [(''30'', 5 / 2)]\<rparr>),
     parse_swap = (\<lambda>s. Some \<lparr>lbs_bolt11_invoice = s, lbs_fee_sats = 10\<rparr>), which_row = (\<lambda>_. 1)\<rparr>"

definition sample_onchain :: swap_state where
  "sample_onchain = \<lparr>sw_db = (a_db sample_api)\<lparr>db_users := [\<lparr>usr_uid = 1, usr_username = ''alice'', usr_password = [],
       usr_is_internal = False, usr_origin = None\<rparr>]\<rparr>,
     sw_tables = \<lparr>dz_swaps = [], dz_keys = [], dz_serial = 1\<rparr>, sw_log = [], sw_tick = 0\<rparr>"

definition sample_onchain_settings :: OnchainSettings where
  "sample_onchain_settings = \<lparr>domain = ''kollider.me'', reserved_usernames = [], admin_uids = [], deezy_api_token = ''t''\<rparr>"

definition sample_caller :: AuthData where
  "sample_caller = \<lparr>auth_uid = 1, auth_expiry = None, auth_user_roles = Some MasterToken, auth_type = Jwt, auth_tid = None\<rparr>"

lemmas sample_onchain_defs = sample_services_def sample_onchain_def sample_onchain_settings_def sample_caller_def aenv96_def
  sample_api_def

fun onchain_run ::
  "aenv \<Rightarrow> services \<Rightarrow> OnchainSettings \<Rightarrow> swap_state \<times> onchain_task list \<Rightarrow> nat list \<Rightarrow> (swap_state \<times> onchain_task list) option" where
  "onchain_run A V st (s, ts) [] = Some (s, ts)"
| "onchain_run A V st (s, ts) (i # is) =
     (if i < length ts then (case onchain_section A V st (ts ! i) s of (t, s') \<Rightarrow> onchain_run A V st (s', ts[i := t]) is) else None)"

lemma onchain_run_run: "onchain_run A V st x is = Some y \<Longrightarrow> run (onchain_step A V st) x (map OnchainSection is) y"
  by (induction A V st x "is" rule: onchain_run.induct)
    (auto intro: run.intros onchain_step.intros split: if_splits prod.splits)

theorem swap_keys_own_witness:
  "\<exists>es s ts xs ys. run (onchain_step aenv96 sample_services sample_onchain_settings) (sample_onchain, []) es (s, ts) \<and>
     length (dz_keys (sw_tables s)) = 2 \<and>
     sw_log s = xs @ Sent 1 (PostFields lookup_url ''t'' [(''secret_access_key'', replicate 7 (CHR ''k''))]) # ys \<and>
     Given 1 (replicate 7 (CHR ''k'')) \<in> set xs"
proof -
  let ?step = "onchain_step aenv96 sample_services sample_onchain_settings"
  let ?t = "AddressTask (AddressArrived sample_caller None)" and ?u = "StateTask (StateArrived sample_caller)"
  have "run ?step (sample_onchain, []) [OnchainAddress sample_caller None, OnchainAddress sample_caller None, SwapState sample_caller]
      (sample_onchain, [?t, ?t, ?u])"
    using onchain_address [of _ _ _ sample_onchain "[]"] onchain_address [of _ _ _ sample_onchain "[?t]"]
      onchain_state [of _ _ _ sample_onchain "[?t, ?t]"] by (auto intro!: run.intros)
  moreover have "\<exists>s ts. onchain_run aenv96 sample_services sample_onchain_settings (sample_onchain, [?t, ?t, ?u])
      [0, 1, 0, 1, 0, 1, 0, 1, 0, 1, 2, 2, 2] = Some (s, ts) \<and> length (dz_keys (sw_tables s)) = 2 \<and>
      (\<exists>x y. sw_log s = [x, y, Given 1 (replicate 6 (CHR ''k'')), Given 1 (replicate 7 (CHR ''k'')),
        Sent 1 (PostFields lookup_url ''t'' [(''secret_access_key'', replicate 7 (CHR ''k''))])])"
    by (simp add: onchain_defs Let_def user_get_by_id_def deezy_key_insert_def deezy_swap_insert_def deezy_key_get_by_uid_def
        some_row_def sample_onchain_defs numeral_eq_Suc)
  then obtain s ts xs where r: "onchain_run aenv96 sample_services sample_onchain_settings (sample_onchain, [?t, ?t, ?u])
      [0, 1, 0, 1, 0, 1, 0, 1, 0, 1, 2, 2, 2] = Some (s, ts)" and two: "length (dz_keys (sw_tables s)) = 2"
    and log: "sw_log s = xs @ Sent 1 (PostFields lookup_url ''t'' [(''secret_access_key'', replicate 7 (CHR ''k''))]) # []"
    by (metis append_Cons append_Nil)
  ultimately have run: "run ?step (sample_onchain, []) ([OnchainAddress sample_caller None, OnchainAddress sample_caller None,
      SwapState sample_caller] @ map OnchainSection [0, 1, 0, 1, 0, 1, 0, 1, 0, 1, 2, 2, 2]) (s, ts)"
    by (blast intro: run_append onchain_run_run)
  have "Given 1 (replicate 7 (CHR ''k'')) \<in> set xs"
    by (rule swap_keys_own [OF run, THEN conjunct1, rule_format]) (use log in \<open>auto simp: sample_onchain_def\<close>)
  with run two log show ?thesis by blast
qed

end
