(* ===== verification/ModelsMore.thy ===== *)
theory ModelsMore
  imports NostrIndexer ApiExternal
begin

text \<open>
  The remaining tables and statements of \<open>models/src\<close>: sign-ups (\<open>pre_signups.rs\<close>), internal
  users (\<open>internal_user_mappings.rs\<close>), searches (\<open>users.rs\<close>, \<open>ln_addresses.rs\<close>), transactions by
  currency (\<open>transactions.rs\<close>), single columns of nostr profiles (\<open>nostr_profiles.rs\<close>) and the row of
  the indexer (\<open>nostr_profile_indexer_times.rs\<close>). The operator \<open>ILIKE\<close> is a parameter.
\<close>

section \<open>Statements\<close>

record PreSignup =
  psu_uid :: i32
  psu_email :: string

record signup_table =
  su_rows :: "PreSignup list"
  su_serial :: i32

definition pre_signup_insert :: "string \<Rightarrow> signup_table \<Rightarrow> (i32 \<times> signup_table) option" where
  "pre_signup_insert email d =
     (if list_ex (\<lambda>r. psu_uid r = su_serial d \<or> psu_email r = email) (su_rows d) then None
      else Some (su_serial d, d\<lparr>su_rows := su_rows d @ [\<lparr>psu_uid = su_serial d, psu_email = email\<rparr>], su_serial := su_serial d + 1\<rparr>))"

record InternalUserMapping =
  ium_username :: string
  ium_uid :: i32

definition internal_users_not_in :: "string list \<Rightarrow> InternalUserMapping list \<Rightarrow> InternalUserMapping list" where
  "internal_users_not_in usernames rs = filter (\<lambda>r. list_all (\<lambda>n. ium_username r \<noteq> n) usernames) rs"

definition user_search_by_fragment :: "(string \<Rightarrow> string \<Rightarrow> bool) \<Rightarrow> string \<Rightarrow> Db \<Rightarrow> User list" where
  "user_search_by_fragment like fragment d =
     filter (\<lambda>r. like (usr_username r) (''%'' @ fragment @ ''%'') \<and> usr_is_internal r = False) (db_users d)"

definition ln_address_get_by_id :: "i32 \<Rightarrow> Db \<Rightarrow> LnAddress option" where
  "ln_address_get_by_id i d = List.find (\<lambda>r. la_id r = i) (db_ln_addresses d)"

definition ln_address_search_by_fragment :: "(string \<Rightarrow> string \<Rightarrow> bool) \<Rightarrow> string \<Rightarrow> Db \<Rightarrow> LnAddress list" where
  "ln_address_search_by_fragment like fragment d =
     filter (\<lambda>r. like (la_username r) (''%'' @ fragment @ ''%'')) (db_ln_addresses d)"

definition transaction_get_historical_by_uid_and_currency ::
  "i32 \<Rightarrow> string \<Rightarrow> i64 option \<Rightarrow> i64 option \<Rightarrow> i64 \<Rightarrow> Db \<Rightarrow> Transaction list" where
  "transaction_get_historical_by_uid_and_currency u currency frm to' now d =
     filter (\<lambda>r. ((tx_outbound_uid r = u \<or> tx_inbound_uid r = u) \<and>
       (tx_outbound_currency r = currency \<or> tx_inbound_currency r = currency)) \<and> in_period frm to' now (tx_created_at r))
       (db_transactions d)"

definition record_update_nip05_verified ::
  "string \<Rightarrow> string \<Rightarrow> bool option \<Rightarrow> NostrProfileRecord list \<Rightarrow> nat \<times> NostrProfileRecord list" where
  "record_update_nip05_verified pubkey nip05 verified rs =
     (let hit = (\<lambda>r. rec_pubkey r = pubkey \<and> rec_nip05 r = Some nip05) in
      (length (filter hit rs), map (\<lambda>r. if hit r then r\<lparr>rec_nip05_verified := verified\<rparr> else r) rs))"

definition record_update_lnurl_pay_req ::
  "string \<Rightarrow> string option \<Rightarrow> NostrProfileRecord list \<Rightarrow> nat \<times> NostrProfileRecord list" where
  "record_update_lnurl_pay_req pubkey lnurl_pay_req rs =
     (length (filter (\<lambda>r. rec_pubkey r = pubkey) rs),
      map (\<lambda>r. if rec_pubkey r = pubkey then r\<lparr>rec_lnurl_pay_req := lnurl_pay_req\<rparr> else r) rs)"

text \<open>The table of the indexer has exactly one row (by a unique index); a query of no row fails.\<close>

definition get_last_check :: "(i32 \<times> i64 option) list \<Rightarrow> i64 option option" where
  "get_last_check rows = (case rows of [] \<Rightarrow> None | r # _ \<Rightarrow> Some (snd r))"

definition set_last_check :: "i64 option \<Rightarrow> (i32 \<times> i64 option) list \<Rightarrow> nat \<times> (i32 \<times> i64 option) list" where
  "set_last_check last_check rows = (length rows, map (\<lambda>r. (fst r, last_check)) rows)"

section \<open>What they do\<close>

text \<open>An address signs up once.\<close>

interpretation signups: keyed_table "psu_email :: PreSignup \<Rightarrow> string"
  "\<lambda>email (d :: signup_table). List.find (\<lambda>r. psu_email r = email) (su_rows d)"
  "\<lambda>r d. if psu_uid r = su_serial d then map_option snd (pre_signup_insert (psu_email r) d) else None"
proof
  fix r :: PreSignup and d d' :: signup_table and k
  assume "(if psu_uid r = su_serial d then map_option snd (pre_signup_insert (psu_email r) d) else None) = Some d'"
  then have "psu_uid r = su_serial d" "\<not> list_ex (\<lambda>x. psu_email x = psu_email r) (su_rows d)"
    and d': "su_rows d' = su_rows d @ [\<lparr>psu_uid = su_serial d, psu_email = psu_email r\<rparr>]"
    by (auto simp: pre_signup_insert_def list_ex_iff split: if_split_asm)
  moreover from this have "\<lparr>psu_uid = su_serial d, psu_email = psu_email r\<rparr> = r" by simp
  ultimately show "List.find (\<lambda>r. psu_email r = k) (su_rows d') =
      (if k = psu_email r then Some r else List.find (\<lambda>r. psu_email r = k) (su_rows d))"
    by (simp add: find_key_snoc)
next
  fix r :: PreSignup and d :: signup_table
  assume "List.find (\<lambda>x. psu_email x = psu_email r) (su_rows d) \<noteq> None"
  then show "(if psu_uid r = su_serial d then map_option snd (pre_signup_insert (psu_email r) d) else None) = None"
    by (auto simp: find_present pre_signup_insert_def list_ex_iff simp del: not_None_eq)
qed

lemma signup_once: "pre_signup_insert email d = Some (u, d') \<Longrightarrow> pre_signup_insert email d' = None"
  by (auto simp: pre_signup_insert_def split: if_split_asm)

text \<open>The search of the API for Lightning addresses is the query with the escaped text.\<close>

lemma search_ln_addresses_query:
  assumes "a_pool A (a_tick s)" "a_pg A (Suc (a_tick s))" "fragment \<noteq> []"
  shows "\<exists>escaped. search_ln_addresses A like fragment s = Inr (ln_address_search_by_fragment like escaped (a_db s))"
  using assms by (auto simp: search_ln_addresses_def query_db_def ln_address_search_by_fragment_def Let_def Suc_le_eq)

lemma by_currency_subset:
  "set (transaction_get_historical_by_uid_and_currency u c frm to' now d) \<subseteq> set (transaction_get_historical_by_uid u frm to' now d)"
  by (auto simp: transaction_get_historical_by_uid_and_currency_def transaction_get_historical_by_uid_def)

text \<open>The updates of single columns change no other row and not the time of a profile.\<close>

lemma record_get_map:
  assumes "\<And>r. rec_pubkey (f r) = rec_pubkey r"
  shows "record_get k (map f rs) = map_option f (record_get k rs)"
  using assms by (induction rs) (auto simp: record_get_def)

lemma update_nip05_effect:
  "record_get k (snd (record_update_nip05_verified pubkey nip05 v rs)) =
     map_option (\<lambda>r. if k = pubkey \<and> rec_nip05 r = Some nip05 then r\<lparr>rec_nip05_verified := v\<rparr> else r) (record_get k rs)"
proof -
  have "rec_pubkey r = k" if "record_get k rs = Some r" for r using that by (auto simp: record_get_def find_Some_iff)
  then show ?thesis
    by (cases "record_get k rs") (auto simp: record_update_nip05_verified_def Let_def record_get_map)
qed

lemma update_lnurl_effect:
  "record_get k (snd (record_update_lnurl_pay_req pubkey l rs)) =
     map_option (\<lambda>r. if k = pubkey then r\<lparr>rec_lnurl_pay_req := l\<rparr> else r) (record_get k rs)"
proof -
  have "rec_pubkey r = k" if "record_get k rs = Some r" for r using that by (auto simp: record_get_def find_Some_iff)
  then show ?thesis by (cases "record_get k rs") (auto simp: record_update_lnurl_pay_req_def record_get_map)
qed

text \<open>The column that the indexer's model keeps is the one row of the table.\<close>

lemma last_check_row:
  assumes "n_pool N n" "n_pg N n"
  shows "get_last_check (snd (set_last_check (Some t) [(i, ix_last_check ix)])) = Some (ix_last_check (store_last_check N n t ix))"
  using assms by (simp add: get_last_check_def set_last_check_def store_last_check_def)

end
