(* ===== verification/Ratelimit.thy ===== *)
theory Ratelimit
  imports Prelude Machine
begin

text \<open>
  The rate limiter in front of the API (\<open>actix-ratelimit/src\<close>): the messages of a store actor,
  the store in memory, and the middleware that asks the store before it lets a request through.
  Several workers run the middleware at the same time, each message to the store is handled
  atomically. Times and durations are milliseconds; \<open>usize\<close> is 64 bits wide and wraps.
\<close>

section \<open>Messages (\<open>lib.rs\<close>, \<open>errors.rs\<close>)\<close>

datatype ARError = NotConnected | Disconnected | ReadWriteError string | UnknownError | IdentificationError

datatype ActorMessage =
    AGet string
  | ASet string u64 nat \<comment> \<open>key, value, expiry\<close>
  | AUpdate string u64
  | AExpire string
  | ARemove string

datatype ActorResponse =
    RGet "ARError + u64 option"
  | RSet "ARError + unit"
  | RUpdate "ARError + u64"
  | RExpire "ARError + nat"
  | RRemove "ARError + u64"

section \<open>The store in memory (\<open>stores/memory.rs\<close>)\<close>

text \<open>Besides the map, the messages \<open>Remove\<close> that the actors have scheduled, with their times.\<close>

record MemoryStore =
  ms_inner :: "(string \<times> u64 \<times> nat) list"
  ms_timers :: "(string \<times> nat) list"

definition memory_store_new :: MemoryStore where
  "memory_store_new = \<lparr>ms_inner = [], ms_timers = []\<rparr>"

fun memory_handle :: "nat \<Rightarrow> ActorMessage \<Rightarrow> MemoryStore \<Rightarrow> ActorResponse \<times> MemoryStore" where
  "memory_handle now (ASet key value expiry) s =
     (RSet (Inr ()), s\<lparr>ms_inner := AList.update key (value, now + expiry) (ms_inner s),
        ms_timers := ms_timers s @ [(key, now + expiry)]\<rparr>)"
| "memory_handle now (AUpdate key value) s =
     (case map_of (ms_inner s) key of
        Some (n, dur) \<Rightarrow>
          let new_val = (if value < n then n - value else 0)
          in (RUpdate (Inr new_val), s\<lparr>ms_inner := AList.update key (new_val, dur) (ms_inner s)\<rparr>)
      | None \<Rightarrow> (RUpdate (Inl (ReadWriteError ''memory store: read failed!'')), s))"
| "memory_handle now (AGet key) s = (RGet (Inr (map_option fst (map_of (ms_inner s) key))), s)"
| "memory_handle now (AExpire key) s =
     (case map_of (ms_inner s) key of
        Some (_, dur) \<Rightarrow> (RExpire (Inr (dur - now)), s)
      | None \<Rightarrow> (RExpire (Inl (ReadWriteError ''memory store: read failed!'')), s))"
| "memory_handle now (ARemove key) s =
     (case map_of (ms_inner s) key of
        Some (n, _) \<Rightarrow> (RRemove (Inr n), s\<lparr>ms_inner := AList.delete key (ms_inner s)\<rparr>)
      | None \<Rightarrow> (RRemove (Inl (ReadWriteError ''memory store: remove failed!'')), s))"

definition memory_count :: "MemoryStore \<Rightarrow> string \<Rightarrow> u64 option" where
  "memory_count s key = map_option fst (map_of (ms_inner s) key)"

section \<open>The middleware (\<open>middleware.rs\<close>)\<close>

record RateLimiter =
  rl_interval :: nat
  rl_max_requests :: u64

definition rate_limiter_new :: RateLimiter where
  "rate_limiter_new = \<lparr>rl_interval = 0, rl_max_requests = 0\<rparr>"

definition with_interval :: "nat \<Rightarrow> RateLimiter \<Rightarrow> RateLimiter" where
  "with_interval interval l = l\<lparr>rl_interval := interval\<rparr>"

definition with_max_requests :: "u64 \<Rightarrow> RateLimiter \<Rightarrow> RateLimiter" where
  "with_max_requests n l = l\<lparr>rl_max_requests := n\<rparr>"

record RateLimitMiddleware =
  mw_max_requests :: u64
  mw_interval :: nat \<comment> \<open>seconds\<close>

text \<open>\<open>Duration::as_secs\<close> drops the fraction of a second.\<close>

definition new_transform :: "RateLimiter \<Rightarrow> RateLimitMiddleware" where
  "new_transform l = \<lparr>mw_max_requests = rl_max_requests l, mw_interval = rl_interval l div 1000\<rparr>"

text \<open>
  The answer to a request: it is passed on, with the values of the headers limit, remaining
  and reset (in seconds) of its response, or it is refused. A call of the middleware waits for the
  answer of the store in the stages other than \<open>Finished\<close>.
\<close>

datatype verdict = Passed u64 u64 nat | TooManyRequests | InternalError ARError

datatype stage = Arrived | Known u64 | Resets u64 nat | NewClient | Finished verdict

fun call_sends :: "RateLimitMiddleware \<Rightarrow> string \<Rightarrow> stage \<Rightarrow> ActorMessage option" where
  "call_sends mw k Arrived = Some (AGet k)"
| "call_sends mw k (Known c) = Some (AExpire k)"
| "call_sends mw k (Resets c reset) = Some (AUpdate k 1)"
| "call_sends mw k NewClient = Some (ASet k (mw_max_requests mw - 1) (1000 * mw_interval mw))"
| "call_sends mw k (Finished v) = None"

text \<open>\<open>None\<close> is the panic of \<open>unreachable!()\<close>.\<close>

fun call_receives :: "RateLimitMiddleware \<Rightarrow> stage \<Rightarrow> ActorResponse \<Rightarrow> stage option" where
  "call_receives mw Arrived (RGet (Inl e)) = Some (Finished (InternalError e))"
| "call_receives mw Arrived (RGet (Inr (Some c))) = Some (Known c)"
| "call_receives mw Arrived (RGet (Inr None)) = Some NewClient"
| "call_receives mw (Known c) (RExpire (Inl e)) = Some (Finished (InternalError e))"
| "call_receives mw (Known c) (RExpire (Inr reset)) =
     Some (if c = 0 then Finished TooManyRequests else Resets c reset)"
| "call_receives mw (Resets c reset) (RUpdate (Inl e)) = Some (Finished (InternalError e))"
| "call_receives mw (Resets c reset) (RUpdate (Inr updated_value)) =
     Some (Finished (Passed (mw_max_requests mw) updated_value (reset div 1000)))"
| "call_receives mw NewClient (RSet (Inl e)) = Some (Finished (InternalError e))"
| "call_receives mw NewClient (RSet (Inr _)) =
     Some (Finished (Passed (mw_max_requests mw) (mw_max_requests mw - 1) (mw_interval mw)))"
| "call_receives mw _ _ = None"

text \<open>One exchange of a message with a store, and a whole call when no other call comes in between.\<close>

definition exchange ::
  "(nat \<Rightarrow> ActorMessage \<Rightarrow> 's \<Rightarrow> ActorResponse \<times> 's) \<Rightarrow> RateLimitMiddleware \<Rightarrow> nat \<Rightarrow> string \<Rightarrow> stage \<times> 's \<Rightarrow> (stage \<times> 's) option" where
  "exchange handle mw now k c =
     (case call_sends mw k (fst c) of
        None \<Rightarrow> Some c
      | Some m \<Rightarrow> (case handle now m (snd c) of
          (r, s) \<Rightarrow> map_option (\<lambda>st. (st, s)) (call_receives mw (fst c) r)))"

definition serve ::
  "(nat \<Rightarrow> ActorMessage \<Rightarrow> 's \<Rightarrow> ActorResponse \<times> 's) \<Rightarrow> RateLimitMiddleware \<Rightarrow> nat \<Rightarrow> string \<Rightarrow> 's \<Rightarrow> (stage \<times> 's) option" where
  "serve handle mw now k s = do {
     c \<leftarrow> exchange handle mw now k (Arrived, s);
     c \<leftarrow> exchange handle mw now k c;
     exchange handle mw now k c }"

text \<open>The key of a client in \<open>api/src/lib.rs\<close>: the address up to its first colon, a panic without one.\<close>

definition client_key :: "string option \<Rightarrow> string option" where
  "client_key realip_remote_addr = map_option (takeWhile (\<lambda>c. c \<noteq> CHR '':'')) realip_remote_addr"

definition api_limiter :: "u64 \<Rightarrow> u64 \<Rightarrow> RateLimitMiddleware" where
  "api_limiter quota_replenishment_interval_millis quota_size =
     new_transform (with_max_requests quota_size
       (with_interval (unat quota_replenishment_interval_millis) rate_limiter_new))"

section \<open>What a call decides\<close>

text \<open>The specification: a client has a number of requests left, all of them when it is not known.\<close>

fun admit :: "u64 \<Rightarrow> u64 option \<Rightarrow> bool \<times> u64" where
  "admit quota None = (True, quota - 1)"
| "admit quota (Some c) = (if c = 0 then (False, 0) else (True, c - 1))"

fun passes :: "verdict \<Rightarrow> bool" where
  "passes (Passed _ _ _) = True"
| "passes _ = False"

text \<open>What the middleware expects of a store.\<close>

locale rate_store =
  fixes handle :: "nat \<Rightarrow> ActorMessage \<Rightarrow> 's \<Rightarrow> ActorResponse \<times> 's"
    and count :: "'s \<Rightarrow> string \<Rightarrow> u64 option"
  assumes get_count: "handle now (AGet k) s = (RGet (Inr (count s k)), s)"
    and set_count: "handle now (ASet k v e) s = (r, s') \<Longrightarrow> r = RSet (Inr ()) \<and> count s' = (count s)(k := Some v)"
    and expire_known: "count s k = Some c \<Longrightarrow> \<exists>d. handle now (AExpire k) s = (RExpire (Inr d), s)"
    and update_count: "count s k = Some c \<Longrightarrow> c \<noteq> 0 \<Longrightarrow> handle now (AUpdate k 1) s = (r, s') \<Longrightarrow>
      r = RUpdate (Inr (c - 1)) \<and> count s' = (count s)(k := Some (c - 1))"
begin

lemma serve_admits:
  "\<exists>v s'. serve handle mw now k s = Some (Finished v, s') \<and>
     passes v = fst (admit (mw_max_requests mw) (count s k)) \<and>
     count s' = (count s)(k := Some (snd (admit (mw_max_requests mw) (count s k))))"
proof (cases "count s k")
  case None
  obtain r s' where "handle now (ASet k (mw_max_requests mw - 1) (1000 * mw_interval mw)) s = (r, s')"
    by fastforce
  with None set_count [OF this] show ?thesis
    by (simp add: serve_def exchange_def get_count)
next
  case (Some c)
  obtain d where d: "handle now (AExpire k) s = (RExpire (Inr d), s)" using expire_known [OF Some] by blast
  obtain r s' where u: "handle now (AUpdate k 1) s = (r, s')" by fastforce
  show ?thesis
  proof (cases "c = 0")
    case True
    with Some d show ?thesis by (auto simp: serve_def exchange_def get_count fun_eq_iff)
  next
    case False
    with Some d u update_count [OF Some False u] show ?thesis
      by (simp add: serve_def exchange_def get_count)
  qed
qed

end

interpretation memory: rate_store memory_handle memory_count
proof
  fix now k s c and r s'
  assume "memory_count s k = Some c" "c \<noteq> 0" "memory_handle now (AUpdate k 1) s = (r, s')"
  moreover have "1 \<le> c" using \<open>c \<noteq> 0\<close> by (simp add: word_le_nat_alt Suc_le_eq unat_gt_0)
  then have "1 < c \<or> c = 1" by (auto simp: order.order_iff_strict)
  ultimately show "r = RUpdate (Inr (c - 1)) \<and> memory_count s' = (memory_count s)(k := Some (c - 1))"
    by (auto simp: memory_count_def Let_def update_conv' fun_eq_iff split: option.split_asm)
qed (auto simp: memory_count_def update_conv' fun_eq_iff)

section \<open>Windows\<close>

text \<open>
  Calls that do not overlap. The timer that was set with an entry removes it, at the earliest when it
  is due.
\<close>

record limiting =
  lm_store :: MemoryStore
  lm_log :: "(string \<times> verdict) list" \<comment> \<open>the answers so far\<close>

datatype limit_event = Request string nat | Fire string nat

fun event_time :: "limit_event \<Rightarrow> nat" where
  "event_time (Request k t) = t"
| "event_time (Fire k t) = t"

definition fire :: "nat \<Rightarrow> string \<Rightarrow> nat \<Rightarrow> MemoryStore \<Rightarrow> MemoryStore" where
  "fire now k due s = snd (memory_handle now (ARemove k) (s\<lparr>ms_timers := remove1 (k, due) (ms_timers s)\<rparr>))"

inductive limit_step :: "RateLimitMiddleware \<Rightarrow> limiting \<Rightarrow> limit_event \<Rightarrow> limiting \<Rightarrow> bool" for mw where
  limit_request: "serve memory_handle mw now k (lm_store s) = Some (Finished v, st) \<Longrightarrow>
    limit_step mw s (Request k now) \<lparr>lm_store = st, lm_log = lm_log s @ [(k, v)]\<rparr>"
| limit_fire: "(k, due) \<in> set (ms_timers (lm_store s)) \<Longrightarrow> due \<le> now \<Longrightarrow>
    limit_step mw s (Fire k now) (s\<lparr>lm_store := fire now k due (lm_store s)\<rparr>)"

definition passed :: "string \<Rightarrow> limiting \<Rightarrow> nat" where
  "passed k s = length (filter (\<lambda>(x, v). x = k \<and> passes v) (lm_log s))"

fun requests :: "string \<Rightarrow> limit_event list \<Rightarrow> nat" where
  "requests k [] = 0"
| "requests k (Request x t # es) = (if x = k then Suc (requests k es) else requests k es)"
| "requests k (Fire x t # es) = requests k es"

text \<open>How many requests a client has left, and that its entry stays at least until \<open>T\<close>.\<close>

definition left :: "RateLimitMiddleware \<Rightarrow> string \<Rightarrow> limiting \<Rightarrow> nat" where
  "left mw k s = unat (case memory_count (lm_store s) k of None \<Rightarrow> mw_max_requests mw | Some c \<Rightarrow> c)"

definition timers_after :: "nat \<Rightarrow> string \<Rightarrow> limiting \<Rightarrow> bool" where
  "timers_after T k s \<longleftrightarrow> (\<forall>due. (k, due) \<in> set (ms_timers (lm_store s)) \<longrightarrow> T \<le> due)"

lemma admit_left:
  assumes "0 < mw_max_requests mw" "c = memory_count s k"
    and "left_before = unat (case c of None \<Rightarrow> mw_max_requests mw | Some c \<Rightarrow> c)"
  shows "fst (admit (mw_max_requests mw) c) \<longleftrightarrow> 0 < left_before"
    and "unat (snd (admit (mw_max_requests mw) c)) = left_before - 1"
  using assms by (auto simp: unat_minus_one unat_gt_0 split: option.splits)

lemma exchange_timers:
  assumes "exchange memory_handle mw now k (st, s) = Some (st', s')"
  shows "set (ms_timers s') \<subseteq> insert (k, now + 1000 * mw_interval mw) (set (ms_timers s))"
  using assms by (cases st) (auto simp: exchange_def Let_def split: option.split_asm prod.split_asm)

lemma serve_timers:
  assumes "serve memory_handle mw now k s = Some (st, s')"
  shows "set (ms_timers s') \<subseteq> insert (k, now + 1000 * mw_interval mw) (set (ms_timers s))"
  using assms by (auto simp: serve_def elim!: bind_SomeE dest!: exchange_timers)

lemma request_step:
  assumes "limit_step mw s (Request x t) s'" "0 < mw_max_requests mw"
  shows "left mw k s' = (if x = k then left mw k s - 1 else left mw k s)"
    and "passed k s' = passed k s + (if x = k \<and> 0 < left mw k s then 1 else 0)"
    and "timers_after T k s \<Longrightarrow> T \<le> t + 1000 * mw_interval mw \<Longrightarrow> timers_after T k s'"
proof -
  from assms(1) obtain v st where v: "serve memory_handle mw t x (lm_store s) = Some (Finished v, st)"
    and s': "s' = \<lparr>lm_store = st, lm_log = lm_log s @ [(x, v)]\<rparr>" by cases
  note a = admit_left [OF assms(2) refl refl, of "lm_store s" x]
  from memory.serve_admits [of mw t x "lm_store s"] v
  have m: "passes v = fst (admit (mw_max_requests mw) (memory_count (lm_store s) x))"
    "memory_count st = (memory_count (lm_store s))(x := Some (snd (admit (mw_max_requests mw) (memory_count (lm_store s) x))))"
    by auto
  show "left mw k s' = (if x = k then left mw k s - 1 else left mw k s)"
    using a(2) by (auto simp: left_def s' m)
  show "passed k s' = passed k s + (if x = k \<and> 0 < left mw k s then 1 else 0)"
    using a(1) by (auto simp: passed_def left_def s' m)
  show "timers_after T k s'" if "timers_after T k s" "T \<le> t + 1000 * mw_interval mw"
    using serve_timers [OF v] that by (auto simp: timers_after_def s')
qed

lemma fire_step:
  assumes "limit_step mw s (Fire x t) s'" "timers_after T k s" "t < T"
  shows "left mw k s' = left mw k s" "passed k s' = passed k s" "timers_after T k s'"
proof -
  from assms(1) obtain due where due: "(x, due) \<in> set (ms_timers (lm_store s))" "due \<le> t"
    and s': "s' = s\<lparr>lm_store := fire t x due (lm_store s)\<rparr>" by cases
  with assms(2,3) have "x \<noteq> k" by (auto simp: timers_after_def)
  then show "left mw k s' = left mw k s" "passed k s' = passed k s" "timers_after T k s'"
    using assms(2) notin_set_remove1
    by (auto simp: s' left_def passed_def fire_def memory_count_def timers_after_def delete_conv' dest: notin_set_remove1 set_remove1_subset [THEN subsetD] split: option.split)
qed

lemma run_window:
  assumes "run (limit_step mw) s es s'" "0 < mw_max_requests mw" "timers_after T k s"
    and "\<forall>e\<in>set es. event_time e < T \<and> T \<le> event_time e + 1000 * mw_interval mw"
  shows "passed k s' = passed k s + min (requests k es) (left mw k s)"
  using assms
proof (induction rule: run.induct)
  case (run_Cons s e s1 es s')
  show ?case
  proof (cases e)
    case (Request x t)
    with run_Cons request_step(1,2) [of mw s x t s1 k] request_step(3) [of mw s x t s1 T k]
    show ?thesis by (auto split: if_split_asm)
  next
    case (Fire x t)
    with run_Cons fire_step(1-3) [of mw s x t s1 T k] show ?thesis by auto
  qed
qed simp

text \<open>
  C31. The limiter keeps its quota when calls do not overlap: in any stretch of time shorter than the
  interval that starts without an entry for a client, of the client's requests exactly the first
  ones up to the maximum are passed on and all further ones are refused, whatever other clients do
  and whenever their timers fire.
\<close>

theorem limiter_window:
  assumes "run (limit_step mw) s es s'" "0 < mw_max_requests mw"
    and "memory_count (lm_store s) k = None" "k \<notin> fst ` set (ms_timers (lm_store s))"
    and "\<forall>e\<in>set es. t0 \<le> event_time e \<and> event_time e < t0 + 1000 * mw_interval mw"
  shows "passed k s' = passed k s + min (requests k es) (unat (mw_max_requests mw))"
proof -
  have "timers_after (t0 + 1000 * mw_interval mw) k s" using assms(4) by (force simp: timers_after_def)
  from run_window [OF assms(1,2) this] assms(3,5) show ?thesis by (simp add: left_def)
qed

section \<open>Overlapping calls\<close>

record limiting_calls =
  lc_store :: MemoryStore
  lc_calls :: "(string \<times> stage) list"

datatype call_event = Arrive string | Advance nat nat \<comment> \<open>index of the call, time\<close>

inductive calls_step :: "RateLimitMiddleware \<Rightarrow> limiting_calls \<Rightarrow> call_event \<Rightarrow> limiting_calls \<Rightarrow> bool" for mw where
  calls_arrive: "calls_step mw s (Arrive k) (s\<lparr>lc_calls := lc_calls s @ [(k, Arrived)]\<rparr>)"
| calls_advance: "i < length (lc_calls s) \<Longrightarrow> lc_calls s ! i = (k, st) \<Longrightarrow>
    exchange memory_handle mw now k (st, lc_store s) = Some (st', store) \<Longrightarrow>
    calls_step mw s (Advance i now) \<lparr>lc_store = store, lc_calls = (lc_calls s)[i := (k, st')]\<rparr>"

lemma run_arrivals:
  "\<exists>es. run (calls_step mw) \<lparr>lc_store = store, lc_calls = cs\<rparr> es \<lparr>lc_store = store, lc_calls = cs @ replicate n (k, Arrived)\<rparr>"
proof (induction n arbitrary: cs)
  case 0
  show ?case using run_Nil by force
next
  case (Suc n)
  have "calls_step mw \<lparr>lc_store = store, lc_calls = cs\<rparr> (Arrive k) \<lparr>lc_store = store, lc_calls = cs @ [(k, Arrived)]\<rparr>"
    using calls_arrive [of mw "\<lparr>lc_store = store, lc_calls = cs\<rparr>" k] by simp
  moreover obtain es where "run (calls_step mw) \<lparr>lc_store = store, lc_calls = cs @ [(k, Arrived)]\<rparr> es
      \<lparr>lc_store = store, lc_calls = (cs @ [(k, Arrived)]) @ replicate n (k, Arrived)\<rparr>" using Suc.IH by blast
  ultimately show ?case by (auto intro!: exI run_Cons)
qed

text \<open>A stage of all waiting calls, one after the other, each with the store the others left.\<close>

lemma run_stage:
  assumes "\<And>store. P store \<Longrightarrow> \<exists>store'. exchange memory_handle mw now k (st, store) = Some (st', store') \<and> P store'"
    and "P store"
  shows "\<exists>es store'. P store' \<and> run (calls_step mw) \<lparr>lc_store = store, lc_calls = cs @ replicate n (k, st)\<rparr> es
    \<lparr>lc_store = store', lc_calls = cs @ replicate n (k, st')\<rparr>"
  using assms(2)
proof (induction n arbitrary: cs store)
  case 0
  then show ?case using run_Nil by force
next
  case (Suc n)
  from assms(1) [OF Suc.prems] obtain store1 where e: "exchange memory_handle mw now k (st, store) = Some (st', store1)"
    and "P store1" by blast
  with Suc.IH [of store1 "cs @ [(k, st')]"] obtain es store' where "P store'"
    and r: "run (calls_step mw) \<lparr>lc_store = store1, lc_calls = (cs @ [(k, st')]) @ replicate n (k, st)\<rparr> es
      \<lparr>lc_store = store', lc_calls = (cs @ [(k, st')]) @ replicate n (k, st')\<rparr>" by blast
  have "calls_step mw \<lparr>lc_store = store, lc_calls = cs @ replicate (Suc n) (k, st)\<rparr> (Advance (length cs) now)
      \<lparr>lc_store = store1, lc_calls = (cs @ [(k, st')]) @ replicate n (k, st)\<rparr>"
    using calls_advance [of "length cs" "\<lparr>lc_store = store, lc_calls = cs @ replicate (Suc n) (k, st)\<rparr>" k st mw now st' store1] e
    by simp
  from run_Cons [OF this r] \<open>P store'\<close> show ?case by (auto simp: replicate_append_same [symmetric])
qed

text \<open>
  C32. Overlapping calls are not limited. The middleware reads the count and writes it in separate
  messages to the store: any number of first requests of a client that arrive at the same time are
  all passed on, however small the maximum.
\<close>

theorem limiter_race:
  "\<exists>es s. run (calls_step mw) \<lparr>lc_store = memory_store_new, lc_calls = []\<rparr> es s \<and>
     lc_calls s = replicate n (k, Finished (Passed (mw_max_requests mw) (mw_max_requests mw - 1) (mw_interval mw)))"
proof -
  obtain es1 where es1: "run (calls_step mw) \<lparr>lc_store = memory_store_new, lc_calls = []\<rparr> es1
      \<lparr>lc_store = memory_store_new, lc_calls = replicate n (k, Arrived)\<rparr>"
    using run_arrivals [of mw memory_store_new "[]" n k] by auto
  obtain es2 where es2: "run (calls_step mw) \<lparr>lc_store = memory_store_new, lc_calls = replicate n (k, Arrived)\<rparr> es2
      \<lparr>lc_store = memory_store_new, lc_calls = replicate n (k, NewClient)\<rparr>"
    using run_stage [of "\<lambda>s. s = memory_store_new" mw 0 k Arrived NewClient memory_store_new "[]" n]
    by (auto simp: exchange_def memory_store_new_def)
  obtain es3 store where "run (calls_step mw) \<lparr>lc_store = memory_store_new, lc_calls = replicate n (k, NewClient)\<rparr> es3
      \<lparr>lc_store = store, lc_calls = replicate n (k, Finished (Passed (mw_max_requests mw) (mw_max_requests mw - 1) (mw_interval mw)))\<rparr>"
    using run_stage [of "\<lambda>_. True" mw 0 k NewClient _ memory_store_new "[]" n] by (auto simp: exchange_def)
  from run_append [OF es1 run_append [OF es2 this]] show ?thesis by fastforce
qed

text \<open>An interval below a second is taken as none: an entry is due for removal when it is made.\<close>

lemma short_interval: "unat ms < 1000 \<Longrightarrow> mw_interval (api_limiter ms n) = 0"
  by (simp add: api_limiter_def new_transform_def with_interval_def with_max_requests_def)

text \<open>Clients with addresses of IP version 6 share the keys of their first groups.\<close>

lemma client_key_prefix: "client_key (Some (a @ '':'' @ b)) = client_key (Some (a @ '':'' @ c))"
  by (induction a) (auto simp: client_key_def)

section \<open>A concrete run\<close>

theorem limiter_window_witness:
  "\<exists>s. run (limit_step (api_limiter 60000 1)) \<lparr>lm_store = memory_store_new, lm_log = []\<rparr>
      [Request ''10.0.0.1'' 5, Request ''10.0.0.1'' 6] s \<and> passed ''10.0.0.1'' s = 1"
proof -
  let ?mw = "api_limiter 60000 1"
  let ?s0 = "\<lparr>lm_store = memory_store_new, lm_log = []\<rparr>"
  have step: "\<exists>t. limit_step ?mw s (Request k now) t" for s k now
    using memory.serve_admits [of ?mw now k "lm_store s"] limit_request by blast
  obtain s1 where s1: "limit_step ?mw ?s0 (Request ''10.0.0.1'' 5) s1" using step by blast
  obtain s2 where "limit_step ?mw s1 (Request ''10.0.0.1'' 6) s2" using step by blast
  then have run: "run (limit_step ?mw) ?s0 [Request ''10.0.0.1'' 5, Request ''10.0.0.1'' 6] s2"
    using s1 by (blast intro: run.intros)
  have mw: "mw_max_requests ?mw = 1" "mw_interval ?mw = 60"
    by (simp_all add: api_limiter_def new_transform_def with_interval_def with_max_requests_def)
  have "passed ''10.0.0.1'' s2 = 1"
    using limiter_window [OF run, of "''10.0.0.1''" 0]
    by (simp add: mw memory_count_def memory_store_new_def passed_def)
  with run show ?thesis by blast
qed

end
