(* ===== verification/Spec2Isabelle.thy ===== *)
theory Spec2Isabelle
  imports BankRun DealerRun DealerRates ApiComms ApiTokens ApiPrices BankDca BankBalances CliClient KolliderThread Metrics
    ModelsMore Ratelimit
begin

text \<open>
  Verification of LndHubX, a custodial Lightning bank with synthetic fiat accounts.

  \<^bold>\<open>The program.\<close> Four services exchange messages (\<open>msgs/src\<close>). The \<^emph>\<open>bank\<close>
  (\<open>bank/src\<close>) keeps the ledger: accounts of users, of the dealer, of the liabilities towards the
  Lightning network and of the insurance fund. It moves money between them by \<open>make_tx\<close>, mirrors
  accounts, transactions and invoices in a database (\<open>models/src\<close>), pays and issues invoices through
  a Lightning node (\<open>lnd_connector/src\<close>) and checks every few seconds that its books balance
  (\<open>accountant.rs\<close>). The \<^emph>\<open>dealer\<close> (\<open>dealer/src\<close>) quotes exchange rates from the order books
  of the Kollider exchange and hedges the fiat exposure that the bank reports to it; it talks to the
  exchange through a client (\<open>kollider_hedging/src\<close>). The \<^emph>\<open>API\<close> (\<open>api/src\<close>) registers and
  authenticates users, turns their HTTP requests into messages for the bank and hands the bank's
  replies back. The \<^emph>\<open>nostr engine\<close> (\<open>nostr_engine/src\<close>) collects the profiles of nostr users,
  answers searches for them and publishes notes about payments. An operator talks to the bank through a
  command line client (\<open>cli/src\<close>); the API's requests pass a limiter (\<open>actix-ratelimit/src\<close>).

  \<^bold>\<open>Modelling.\<close> Every handler is a function from a state record to \<open>'state option\<close>, with
  \<open>None\<close> for a panic; errors that the code returns are values of a sum type. A \<open>Decimal\<close> is the
  rational number it denotes; machine integers are words. A string is its list of bytes; letters
  outside ASCII have no case. Hash maps are association lists with distinct keys, \<open>BTreeMap\<close>s lists
  with increasing keys. The order in which a hash map is iterated is the order of the list, or, where
  the code picks an element, a parameter.
  What lies outside the repository is a parameter: the record \<open>dec_ops\<close> (the decimal crate),
  \<open>env\<close> (clock, identifiers, database availability, Lightning node, parsing and hashing crates),
  \<open>denv\<close> (the same for the dealer and its client), \<open>nenv\<close> (relays, HTTP, JSON), \<open>aenv\<close>
  (signing of tokens, key derivation), \<open>jwt_lib\<close> (the token crate) and \<open>services\<close> (the swap service, and the row the
  database picks where several match a query without an order). Each function of these records that may
  answer differently each time takes a counter. The locales \<open>decimal\<close>, \<open>env_ok\<close>, \<open>dealer_env\<close>, \<open>nostr_db\<close>,
  \<open>api_ok\<close> and \<open>jwt_library\<close> state the documented behaviour that the theorems rely on; \<open>dec96\<close>, \<open>env96\<close>,
  \<open>denv96\<close>, \<open>nenv96\<close> and \<open>aenv96\<close> are concrete instances on which every theorem is exercised.

  \<^bold>\<open>The theories.\<close>
  \<^item> \<open>Prelude\<close>: machine types and casts, association lists, option chains and the rules
    \<open>ens_intros\<close> that walk through them, printing of numbers. \<open>BTree\<close>: ordered maps.
    \<open>Machine\<close>: runs of a step relation, with the locales \<open>machine\<close> (what holds between the ends
    of a run) and \<open>invariant\<close>.
  \<^item> \<open>Decimal\<close>: the decimal operations and their laws. \<open>CoreTypes\<close>
    (\<open>core_types/src\<close>): currencies, \<open>Money\<close>, \<open>Rate\<close>, \<open>ConversionInfo\<close>, \<open>Account\<close>.
    \<open>Msgs\<close>: the messages. \<open>Models\<close>: the tables and their queries; the locale
    \<open>keyed_table\<close> is the contract of a table with a primary key. \<open>ModelsMore\<close>: the tables and
    statements that only few routes or none use.
    \<open>Texts\<close>: Rust's strings, user names (\<open>utils/src/user.rs\<close>), identifiers, SQL literals.
    \<open>Zaps\<close>: zap requests and notes (\<open>utils/src/nostr.rs\<close>).
  \<^item> \<open>Env\<close>: the environment and the Lightning connector. \<open>Ledger\<close>, \<open>Bank\<close>: the ledger
    and the bank engine's state, start-up, rate limiters, exposure report. \<open>BankTx\<close>:
    \<open>make_tx\<close>, \<open>make_summary_tx\<close>, \<open>make_internal_tx\<close>.
  \<^item> \<open>BankDeposit\<close>, \<open>BankPayment\<close>, \<open>BankResult\<close>, \<open>BankInvoice\<close>, \<open>BankSwap\<close>,
    \<open>BankLnurl\<close>, \<open>BankKarma\<close>, \<open>BankCli\<close>: the groups of handlers of \<open>process_msg\<close>, each with
    the lemmas that it keeps the books. \<open>BankWalk\<close> has the rules by which these are proved
    (account copies in sync with the ledger, the difference they make when written back);
    \<open>BankInternal\<close> what single transactions and internal payments do exactly.
  \<^item> \<open>Accountant\<close>: the reconciliation. \<open>BankDispatch\<close>, \<open>BankRun\<close>: \<open>process_msg\<close> and the
    event loop as a step relation. \<open>BankBalances\<close>: what a request for balances is answered.
    \<open>BankDca\<close>: the timer of savings plans. \<open>CliClient\<close>: the command line client and the bank's side
    of its socket. \<open>Metrics\<close>: what bank and dealer write to InfluxDB and read back.
  \<^item> \<open>Kollider\<close>: the exchange client; the locale \<open>ws_op\<close> is the contract of its operations.
    \<open>KolliderThread\<close>: the thread that owns its socket, interleaved with these operations.
    \<open>Dealer\<close>, \<open>DealerBook\<close>, \<open>DealerEngine\<close>: the dealer's state and rates, its order books
    and price tables, its handlers and its event loop. \<open>DealerHedge\<close>, \<open>DealerQuotes\<close>,
    \<open>DealerRates\<close>, \<open>DealerRun\<close>: what hedging, quotes, rates and whole runs guarantee.
  \<^item> \<open>NostrEngine\<close>: profiles, their table, the engine and its handlers. \<open>NostrRun\<close>: its runs.
    \<open>NostrIndexer\<close>: the loop that asks for old profiles.
  \<^item> \<open>ApiAuth\<close>: tokens, passwords, the limiter of new accounts, registration and login; \<open>ApiLogin\<close>
    what they guarantee; \<open>ApiTokens\<close> the claims inside the tokens. \<open>ApiRoutes\<close>: the routes that ask the bank; \<open>ApiComms\<close>: the actor that
    matches replies to them, and its runs. \<open>ApiData\<close>: the routes that use only the database.
    \<open>ApiExternal\<close>, \<open>ApiPrices\<close>: the routes that call other services, and the cache of prices.
    \<open>Ratelimit\<close>: the limiter of requests; the locale \<open>rate_store\<close> is the contract of its store.
  \<^item> \<open>Sample\<close>: a concrete bank for the witnesses.

  \<^bold>\<open>What is shown.\<close> In this theory, the properties that span components: over whole runs of the
  bank the sum of all balances of a currency is conserved, the reconciliation keeps succeeding, no user
  is overdrawn; the reconciliation decides exactly that; the dealer's position at the exchange covers
  what the users hold in a currency; \<open>/balance\<close> shows what the ledger holds; a request for a quote can
  stop the dealer. In the theories of the
  components: transactions, deposits and internal payments move exactly their amounts or nothing; they
  go through when the database answers; settled invoices are not paid again; the reserve that a
  payment takes from the user's account covers what the node charges; amounts survive the conversions between satoshis, BTC and fiat up
  to one unit, and no round trip at the dealer's rates gains; the dealer's price tables agree with a
  direct computation and do not cross, its quotes are honoured or refused, and it orders only when it
  has heard its positions since the connection was last lost; the nostr engine keeps the newest profile in cache and table, and its indexer
  ends; who registers can log in, requests are made in the caller's name only, and replies reach who
  asked; the limiter passes exactly the quota when requests do not overlap; prices shown are fresh, however
  requests interleave; a user acts at the swap service under keys of their own only; the exchange sees the requests in their order across lost
  connections; the operator's answers fit the requests; the funding profit survives a restart.
  Where the code does not do what it means to, a theorem exhibits it.

  \<^bold>\<open>Concurrency.\<close> The event loops of bank, dealer and nostr engine handle one message at a time. The
  workers of the API do not: requests are interleaved section by section in the models of the actor
  (\<open>ApiComms\<close>), of the routes to the swap service, of the cache of prices and, for \<open>limiter_race\<close>,
  of the limiter of requests; the other routes are modelled one request at a time.

  \<^bold>\<open>Bounds.\<close> Balances are multiples of \<open>10\<^sup>-\<^sup>1\<^sup>2\<close> below \<open>10\<^sup>1\<^sup>5\<close> units (\<open>small\<close>) and
  the ledger's volume is at most \<open>4 * 10\<^sup>1\<^sup>6\<close>, which keeps every sum within the 96 bits of a
  decimal; this is far above the 21 million BTC there are. Prices are whole ticks of at most
  \<open>10\<^sup>1\<^sup>2\<close>. \<open>message_ok\<close> asks the same of the amounts in messages. No loop needs fuel: the
  recursions are structural or have a termination proof, except the loop of the indexer, which is a
  partial function that is proved to return.

  \<^bold>\<open>Not modelled.\<close> The set-up of the services from their settings (\<open>main.rs\<close> of each, the HTTP server
  around the routes), the parsing of command lines, ZeroMQ, logging and the migrations, which are I/O or
  calls of libraries; the stores of \<open>actix-ratelimit\<close> on redis and memcached, which are clients of other
  servers and which no service uses; \<open>_process_key_send_payment\<close> of the bank, which nothing calls.
\<close>

section \<open>The books over whole runs\<close>

text \<open>
  C1. Double entry book-keeping over whole runs. However the event loop interleaves messages
  (payments, deposits, swaps, invoices, operator transactions, payment results, ...), clean-ups and
  reconciliations, the sum of all balances in each currency - users, liabilities, dealer and
  insurance fund - is the same at the end of the run as at its start. Karma updates, which mint and
  burn the KKP token, are excluded here.
\<close>

theorem run_conserves_net:
  assumes "env_ok E" "bank_ok E s"
    and "run (loop_step E (\<lambda>m. \<not> is_karma m)) s es s'"
  shows "net c (ledger s') = net c (ledger s)"
proof -
  have "conserves E s s'" by (rule env_ok.run_conserves [OF assms(1,3,2)])
  then show ?thesis by (simp add: conserves_def)
qed

theorem run_conserves_net_witness:
  "run (loop_step env96 (\<lambda>m. \<not> is_karma m)) sample_bank [Receive sample_msg] sample_paid \<and>
   net BTC (ledger sample_paid) = net BTC (ledger sample_bank)"
proof -
  have r: "run (loop_step env96 (\<lambda>m. \<not> is_karma m)) sample_bank [Receive sample_msg] sample_paid"
    by (rule sample_run)
  show ?thesis
    using r run_conserves_net [OF env96.env_ok_axioms sample_bank_ok r] by blast
qed

text \<open>
  C2. The bank does not shut itself down. If the ledger reconciles at the start of a run without
  karma updates and operator transactions, the check of the accountant succeeds again at its end:
  it never panics and never reports a negative user account or a non-zero currency sum.
\<close>

theorem run_stays_reconciled:
  assumes "env_ok E" "bank_ok E s"
    and "run (loop_step E (\<lambda>m. \<not> is_karma m \<and> \<not> is_operator m)) s es s'"
    and "reconcile_ledger (dec E) (ledger s) = Some (Inr ())"
    and "ledger_volume (ledger s) \<le> 4 * 10 ^ 16" "ledger_volume (ledger s') \<le> 4 * 10 ^ 16"
  shows "reconcile_ledger (dec E) (ledger s') = Some (Inr ())"
  using env_ok.keeps_reconciled [OF assms(1) env_ok.run_keeps [OF assms(1,3,2)]] assms(2,4-6)
  by blast

theorem run_stays_reconciled_witness:
  "reconcile_ledger dec96 (ledger sample_bank) = Some (Inr ()) \<and>
   reconcile_ledger dec96 (ledger sample_paid) = Some (Inr ())"
  using run_stays_reconciled [OF env96.env_ok_axioms sample_bank_ok sample_run] sample_paid_balances
  by simp

text \<open>
  C3. No message overdraws a user. In a run without karma updates and operator transactions, if no
  user account is negative at the start then none is negative at the end.
\<close>

theorem run_never_overdraws:
  assumes "env_ok E" "bank_ok E s"
    and "run (loop_step E (\<lambda>m. \<not> is_karma m \<and> \<not> is_operator m)) s es s'"
    and "users_nonneg (ledger s)"
  shows "users_nonneg (ledger s')"
proof -
  have "keeps E s s'" by (rule env_ok.run_keeps [OF assms(1,3,2)])
  with assms(4) show ?thesis by (simp add: keeps_def)
qed

theorem run_never_overdraws_witness:
  "users_nonneg (ledger sample_bank) \<and> users_nonneg (ledger sample_paid)"
proof -
  have "users_nonneg (ledger sample_bank)"
    by (auto simp: users_nonneg_def ledger_get_def sample_defs split: if_splits)
  then show ?thesis
    using run_never_overdraws [OF env96.env_ok_axioms sample_bank_ok sample_run] by blast
qed

text \<open>
  C4. Whatever arrives, karma updates and operator transactions included, the sum of all balances in
  every currency other than KKP is the same at the end of a run as at its start.
\<close>

theorem run_other_currencies:
  assumes "env_ok E" "bank_ok E s" "run (loop_step E (\<lambda>m. True)) s es s'" "c \<noteq> KKP"
  shows "net c (ledger s') = net c (ledger s)"
proof -
  have "keeps_but_karma E s s'" by (rule env_ok.run_keeps_but_karma [OF assms(1,3,2)])
  with assms(4) show ?thesis by (simp add: keeps_but_karma_def)
qed

theorem run_other_currencies_witness:
  "run (loop_step env96 (\<lambda>m. True)) sample_bank [Receive sample_msg] sample_paid \<and>
   net USD (ledger sample_paid) = net USD (ledger sample_bank)"
proof -
  have r: "run (loop_step env96 (\<lambda>m. True)) sample_bank [Receive sample_msg] sample_paid"
    by (rule sample_run) simp
  show ?thesis
    using r run_other_currencies [OF env96.env_ok_axioms sample_bank_ok r, of USD] by blast
qed

text \<open>
  C5. The accountant decides what it is meant to decide: on a well-formed ledger whose volume is in
  the range of exact decimal addition the reconciliation does not panic, and it succeeds exactly if
  no user account is negative and in every currency users, liabilities and dealer sum to zero.
\<close>

theorem reconcile_ledger_correct:
  assumes "env_ok E" "ledger_ok E n L" "ledger_volume L \<le> 4 * 10 ^ 16"
  shows "reconcile_ledger (dec E) L \<noteq> None \<and>
    (reconcile_ledger (dec E) L = Some (Inr ()) \<longleftrightarrow> users_nonneg L \<and> (\<forall>c. book_total c L = 0))"
  using env_ok.reconcile_ledger_iff [OF assms] by blast

theorem reconcile_ledger_correct_witness:
  "reconcile_ledger dec96 (ledger sample_bank) = Some (Inr ()) \<and> (\<forall>c. book_total c (ledger sample_bank) = 0)"
  using reconcile_ledger_correct [OF env96.env_ok_axioms sample_bank_ok [unfolded bank_ok_def]]
    sample_paid_balances
  by simp

section \<open>Bank and dealer together\<close>

lemma acct_total_single:
  "filter (\<lambda>(i, a). acc_currency a = c) as = [(j, b)] \<Longrightarrow> acct_total c as = balance b"
proof -
  have "acct_total c as = sum_list (map (\<lambda>(i, a). balance a) (filter (\<lambda>(i, a). acc_currency a = c) as))"
    by (induction as) (auto simp: acct_total_def)
  then show "filter (\<lambda>(i, a). acc_currency a = c) as = [(j, b)] \<Longrightarrow> acct_total c as = balance b" by simp
qed

text \<open>
  C15. The users' fiat is hedged. When a reconciled bank answers the dealer's request for its state and
  the dealer processes the answer, then for every fiat currency that the bank's dealer holds one
  account in, the position on the exchange, once the orders are executed, is short by what all users
  together hold in that currency, in whole contracts and up to the risk tolerance, unless the cap
  on single orders cuts the order.
\<close>

theorem users_fiat_hedged:
  assumes "env_ok E" "ledger_ok E n (ledger s)" "ledger_volume (ledger s) \<le> 4 * 10 ^ 16"
    and "reconcile_ledger (dec E) (ledger s) = Some (Inr ())"
    and "process_msg E (MsgDealer (BankStateRequestMsg r)) s = Some s'"
    and "symbol_from_currency c = Some smb" "acct_total c (accounts (bank_liabilities (ledger s))) = 0"
    and "filter (\<lambda>(i, a). acc_currency a = c) (accounts (dealer_accounts (ledger s))) = [(j, b)]"
    and "dealer_env E'" "ready E' (ws_client d)" "has_received_init_data d"
    and "\<And>i a. (i, a) \<in> set (accounts (dealer_accounts (ledger s))) \<Longrightarrow>
      acc_currency a \<in> {BTC, KKP} \<or> (\<exists>s n tol. hedgeable d a s n tol)"
    and "\<And>k. order_cap d smb = Some k \<Longrightarrow> \<bar>\<lfloor>users_total c (ledger s)\<rfloor> + held d smb\<bar> \<le> int k"
  shows "\<exists>st d' rs. outbox s' = outbox s @ [(MsgDealer (BankStateMsg st), Dealer)] \<and>
    dealer_process_msg E' (FromBank (MsgDealer (BankStateMsg st))) d = Some d' \<and>
    ws_sent (ws_client d') = ws_sent (ws_client d) @ rs \<and>
    \<bar>\<lfloor>users_total c (ledger s)\<rfloor> + (held d smb + ordered smb rs)\<bar> < max 1 (tolerance d c)"
proof -
  have "book_total c (ledger s) = 0"
    using env_ok.reconcile_ledger_iff [OF assms(1-3)] assms(4) by blast
  then have b: "balance b = - users_total c (ledger s)"
    using assms(7) acct_total_single [OF assms(8)] by (simp add: book_total_def)
  obtain st where st: "outbox s' = outbox s @ [(MsgDealer (BankStateMsg st), Dealer)]"
    "fiat_exposures st = accounts (dealer_accounts (ledger s))"
    using assms(5) by (auto simp: send_bank_state_def get_bank_state_def elim!: bind_SomeE)
  let ?d = "dl_bump (d\<lparr>last_bank_state_timestamp := Some (d_instant E' (dl_tick d)), last_bank_state := Some st\<rparr>)"
  have same: "ws_client ?d = ws_client d" "hedgeable ?d = hedgeable d" "held ?d = held d" "order_cap ?d = order_cap d"
    "tolerance ?d = tolerance d" "has_received_init_data ?d = has_received_init_data d"
    by (simp_all add: dl_bump_def fun_eq_iff hedgeable_def held_def order_cap_def tolerance_def)
  have "report_ok ?d st" using assms(12) by (auto simp: report_ok_def same st(2))
  have abs: "\<bar>\<lceil>balance b\<rceil> - h\<bar> = \<bar>\<lfloor>users_total c (ledger s)\<rfloor> + h\<bar>" for h
    unfolding b ceiling_minus by arith
  have "ready E' (ws_client ?d)" "has_received_init_data ?d" using assms(10,11) unfolding same by simp_all
  from risk_check_closes [OF assms(9) this \<open>report_ok ?d st\<close> assms(6), of j b] assms(8,13)
  obtain d' rs where d': "check_risk_from_bank_state E' st ?d = Some d'" "ws_sent (ws_client d') = ws_sent (ws_client d) @ rs"
    and gap: "\<bar>\<lfloor>users_total c (ledger s)\<rfloor> + (held d smb + ordered smb rs)\<bar> < max 1 (tolerance d c)"
    unfolding same st(2) abs by blast
  with st(1) d' gap show ?thesis by (intro exI conjI) (assumption | simp add: dl_bank_state_def)+
qed

theorem users_fiat_hedged_witness:
  "\<exists>s' st d' rs. process_msg env96 (MsgDealer (BankStateRequestMsg 5)) sample_bank = Some s' \<and>
     outbox s' = outbox sample_bank @ [(MsgDealer (BankStateMsg st), Dealer)] \<and>
     dealer_process_msg denv96 (FromBank (MsgDealer (BankStateMsg st))) hedging_dealer = Some d' \<and>
     ws_sent (ws_client d') = ws_sent (ws_client hedging_dealer) @ rs \<and> ordered ''BTCUSD.PERP'' rs = - 100"
proof -
  let ?b = "sample_acc 42 (- 100) USD Internal"
  have "process_msg env96 (MsgDealer (BankStateRequestMsg 5)) sample_bank \<noteq> None" by code_simp
  then obtain s' where s': "process_msg env96 (MsgDealer (BankStateRequestMsg 5)) sample_bank = Some s'" by blast
  have total: "users_total USD (ledger sample_bank) = 100"
    by (simp add: users_total_def acct_total_def sample_defs)
  have accs: "accounts (dealer_accounts (ledger sample_bank)) = [(41, sample_acc 41 0 BTC Internal), (42, ?b)]"
    by (simp add: sample_defs)
  have "\<exists>st d' rs. outbox s' = outbox sample_bank @ [(MsgDealer (BankStateMsg st), Dealer)] \<and>
    dealer_process_msg denv96 (FromBank (MsgDealer (BankStateMsg st))) hedging_dealer = Some d' \<and>
    ws_sent (ws_client d') = ws_sent (ws_client hedging_dealer) @ rs \<and>
    \<bar>\<lfloor>users_total USD (ledger sample_bank)\<rfloor> + (held hedging_dealer ''BTCUSD.PERP'' + ordered ''BTCUSD.PERP'' rs)\<bar>
      < max 1 (tolerance hedging_dealer USD)"
  proof (rule users_fiat_hedged [OF env96.env_ok_axioms sample_bank_ok [unfolded bank_ok_def] _ _ s' _ _ _
        denv96.dealer_env_axioms hedging_dealer_ok(1,2), where j = 42 and b = ?b])
    show "ledger_volume (ledger sample_bank) \<le> 4 * 10 ^ 16"
      "reconcile_ledger (dec env96) (ledger sample_bank) = Some (Inr ())" using sample_paid_balances by simp_all
    show "acct_total USD (accounts (bank_liabilities (ledger sample_bank))) = 0"
      by (simp add: acct_total_def sample_defs)
    show "filter (\<lambda>(i, a). acc_currency a = USD) (accounts (dealer_accounts (ledger sample_bank))) = [(42, ?b)]"
      unfolding accs by (simp add: sample_acc_def)
    show "acc_currency a \<in> {BTC, KKP} \<or> (\<exists>s n tol. hedgeable hedging_dealer a s n tol)"
      if "(i, a) \<in> set (accounts (dealer_accounts (ledger sample_bank)))" for i a
      using that hedging_dealer_ok(3) [of a] unfolding accs by (auto simp: sample_acc_def)
    show "\<bar>\<lfloor>users_total USD (ledger sample_bank)\<rfloor> + held hedging_dealer ''BTCUSD.PERP''\<bar> \<le> int k"
      if "order_cap hedging_dealer ''BTCUSD.PERP'' = Some k" for k
      using that by (simp add: total hedging_dealer_ok)
  qed simp
  with s' show ?thesis by (auto simp: total hedging_dealer_ok)
qed

section \<open>From the API through the bank to the dealer\<close>

text \<open>
  C21. What \<open>/balance\<close> shows is what the ledger holds. For a user other than the dealer's, the bank
  always answers the request of the route, with one message that the route accepts and hands out as the
  body of the response. The accounts in it are exactly the user's accounts in the ledger, but those in
  KKP; and handling the request leaves every account of the user as it was, except that it opens
  empty ones in the currencies in which the user had none.
\<close>

theorem balance_shown:
  assumes "env_ok E" "bank_ok E b" "balance_route A a s = AskBank m f k" "uid_of a \<noteq> DEALER_UID"
  shows "\<exists>b' bal. process_msg E m b = Some b' \<and>
    outbox b' = outbox b @ [(MsgApi (BalancesMsg bal), Api)] \<and>
    f (MsgApi (BalancesMsg bal)) \<and> finish True k (Some (MsgApi (BalancesMsg bal))) = Inr (BodyBalances bal) \<and>
    only_opens (uid_of a) b b' \<and>
    (\<forall>i x. map_of (bal_accounts bal) i = Some x \<longleftrightarrow>
      ledger_get (PUser (uid_of a)) i (ledger b') = Some x \<and> acc_currency x \<noteq> KKP)"
proof -
  have route: "m = MsgApi (GetBalancesMsg \<lparr>gb_req_id = req_id_of A s, gb_uid = uid_of a\<rparr>)"
    "f (MsgApi (BalancesMsg bal))" "finish True k (Some (MsgApi (BalancesMsg bal))) = Inr (BodyBalances bal)" for bal
    using assms(3) by (auto simp: balance_route_def finish_def Let_def)
  show ?thesis
    using env_ok.balances_answer [OF assms(1,2), where r = "\<lparr>gb_req_id = req_id_of A s, gb_uid = uid_of a\<rparr>"]
      assms(4) route by auto
qed

theorem balance_shown_witness:
  "\<exists>m f k b' bal. balance_route aenv96 \<lparr>auth_uid = 1, auth_expiry = None, auth_user_roles = None, auth_type = Jwt,
       auth_tid = None\<rparr> sample_api = AskBank m f k \<and>
     process_msg env96 m sample_bank = Some b' \<and>
     outbox b' = outbox sample_bank @ [(MsgApi (BalancesMsg bal), Api)] \<and>
     map_of (bal_accounts bal) 11 = ledger_get (PUser 1) 11 (ledger sample_bank) \<and> map_of (bal_accounts bal) 11 \<noteq> None"
proof -
  let ?a = "\<lparr>auth_uid = 1, auth_expiry = None, auth_user_roles = None, auth_type = Jwt, auth_tid = None\<rparr>"
  obtain m f k where r: "balance_route aenv96 ?a sample_api = AskBank m f k" by (simp add: balance_route_def Let_def)
  have u: "uid_of ?a = 1" by (simp add: uid_of_def)
  have acc: "\<exists>x. ledger_get (PUser 1) 11 (ledger sample_bank) = Some x \<and> acc_currency x \<noteq> KKP"
    by (simp add: ledger_get_def sample_defs)
  from balance_shown [OF env96.env_ok_axioms sample_bank_ok r] r acc show ?thesis
    unfolding u only_opens_def by (force simp: DEALER_UID_def)
qed

text \<open>
  C22. Any user can stop the dealer. A request of \<open>/quote\<close> from the currency KKP, which has no market,
  into any currency, or from BTC into BTC or KKP, passes the checks of the API when its amount is
  positive; the bank forwards it to the dealer; and the dealer panics on it, whatever its state, because
  it asks for the conversion between two currencies without testing that there is one. (From a fiat
  currency into KKP the dealer gets that far only when it has a price for the fiat currency.)
\<close>

theorem quote_crashes_dealer:
  assumes "0 < qup_amount q"
    and "qup_from_currency q = KKP \<or> qup_from_currency q = BTC \<and> qup_to_currency q \<in> {BTC, KKP}"
  shows "\<exists>r f k. quote_route A a q s = AskBank (MsgApi (QuoteRequestMsg r)) f k \<and>
    process_msg E (MsgApi (QuoteRequestMsg r)) b = Some (listener (MsgApi (QuoteRequestMsg r)) Dealer b) \<and>
    dealer_process_msg E' (FromBank (MsgApi (QuoteRequestMsg r))) d = None"
proof -
  have "get_rate E' (money_new D (qup_from_currency q) x) (qup_to_currency q) d = None" for D x
    using assms(2) by (cases "qup_to_currency q") (auto simp: get_rate_def money_new_def conversion_info_new_def)
  with assms(1) show ?thesis by (simp add: quote_route_def Let_def dl_quote_request_def)
qed

theorem quote_crashes_dealer_witness:
  "\<exists>r f k. quote_route aenv96 \<lparr>auth_uid = 7, auth_expiry = None, auth_user_roles = Some MasterToken,
       auth_type = Jwt, auth_tid = None\<rparr> \<lparr>qup_from_currency = KKP, qup_to_currency = USD, qup_amount = 1\<rparr> sample_api =
       AskBank (MsgApi (QuoteRequestMsg r)) f k \<and>
     process_msg env96 (MsgApi (QuoteRequestMsg r)) sample_bank =
       Some (listener (MsgApi (QuoteRequestMsg r)) Dealer sample_bank) \<and>
     dealer_process_msg denv96 (FromBank (MsgApi (QuoteRequestMsg r))) hedging_dealer = None"
  by (rule quote_crashes_dealer) simp_all

end
